(* ===== verification/Prelude.thy ===== *)
theory Prelude
  imports Complex_Main "HOL-Library.Word" "HOL-Library.AList" "HOL-Library.Char_ord"
    "HOL-Library.List_Lexorder" "HOL-Library.Sublist" "HOL-Library.Code_Target_Nat" "HOL-Library.Multiset"
begin

text \<open>
  Shared ground of the development: the types the Go sources use (byte strings, times,
  durations, 64-bit integers), the parts of the packages \<^verbatim>\<open>strings\<close>, \<^verbatim>\<open>strconv\<close>,
  \<^verbatim>\<open>time\<close> and \<^verbatim>\<open>unicode/utf8\<close> that the sources call, and generic lemmas on lists and
  association lists. A Go string is a sequence of bytes, and so is the HOL type of strings
  (a list of 8-bit characters): lengths count bytes on both sides.
\<close>

section \<open>Collections of facts\<close>

named_theorems go_defs \<open>definitions of the string and number primitives, for evaluation\<close>
named_theorems accepts \<open>what follows from a check that accepted its input\<close>

section \<open>Names for the types of the model\<close>

text \<open>
  \<^verbatim>\<open>time.Time\<close> is the number of nanoseconds since the zero time (January 1 of year 1,
  UTC), so that \<^verbatim>\<open>IsZero\<close> is equality with 0. \<^verbatim>\<open>time.Duration\<close> is a number of
  nanoseconds in the range of a signed 64-bit integer.
\<close>

type_synonym bytes = string
type_synonym time = int
type_synonym duration = int

abbreviation int64_min :: int where "int64_min \<equiv> - 9223372036854775808"
abbreviation int64_max :: int where "int64_max \<equiv> 9223372036854775807"

definition time_Microsecond :: duration where "time_Microsecond = 1000"
definition time_Millisecond :: duration where "time_Millisecond = 1000000"
definition time_Second :: duration where "time_Second = 1000000000"
definition time_Minute :: duration where "time_Minute = 60000000000"
definition time_Hour :: duration where "time_Hour = 3600000000000"

lemmas time_units = time_Microsecond_def time_Millisecond_def time_Second_def
  time_Minute_def time_Hour_def

text \<open>\<^verbatim>\<open>t.Sub(u)\<close> (and with it \<^verbatim>\<open>time.Until\<close>, \<^verbatim>\<open>time.Since\<close>) saturates.\<close>

definition time_Sub :: "time \<Rightarrow> time \<Rightarrow> duration" where
  "time_Sub t u = max int64_min (min int64_max (t - u))"

lemma time_Sub_pos_iff [simp]: "0 < time_Sub t u \<longleftrightarrow> u < t"
  by (auto simp: time_Sub_def)

lemma time_Sub_le_0_iff [simp]: "time_Sub t u \<le> 0 \<longleftrightarrow> t \<le> u"
  by (auto simp: time_Sub_def)

text \<open>Arithmetic on \<^verbatim>\<open>int64\<close> wraps around, and division truncates towards zero.\<close>

definition int64_wrap :: "int \<Rightarrow> int" where
  "int64_wrap x = (x + 9223372036854775808) mod 18446744073709551616 - 9223372036854775808"

definition go_quot :: "int \<Rightarrow> int \<Rightarrow> int" where
  "go_quot a b = (if (0 \<le> a) = (0 \<le> b) then \<bar>a\<bar> div \<bar>b\<bar> else - (\<bar>a\<bar> div \<bar>b\<bar>))"

lemma int64_wrap_id: "int64_min \<le> x \<Longrightarrow> x \<le> int64_max \<Longrightarrow> int64_wrap x = x"
  by (simp add: int64_wrap_def)

lemma int64_wrap_range: "int64_min \<le> int64_wrap x \<and> int64_wrap x \<le> int64_max"
proof -
  have "(x + 9223372036854775808) mod 18446744073709551616 < 18446744073709551616" by simp
  moreover have "0 \<le> (x + 9223372036854775808) mod 18446744073709551616" by simp
  ultimately show ?thesis unfolding int64_wrap_def by linarith
qed

lemma go_quot_nonneg: "0 \<le> a \<Longrightarrow> 0 \<le> b \<Longrightarrow> go_quot a b = a div b"
  by (simp add: go_quot_def)

section \<open>Characters and byte strings\<close>

definition ccode :: "char \<Rightarrow> nat" where
  "ccode c = of_char c"

lemma ccode_less_256 [simp]: "ccode c < 256"
  unfolding ccode_def by (rule nat_of_char_less_256)

definition is_digit :: "char \<Rightarrow> bool" where
  "is_digit c \<longleftrightarrow> 48 \<le> ccode c \<and> ccode c \<le> 57"

definition is_lower :: "char \<Rightarrow> bool" where
  "is_lower c \<longleftrightarrow> 97 \<le> ccode c \<and> ccode c \<le> 122"

definition is_upper :: "char \<Rightarrow> bool" where
  "is_upper c \<longleftrightarrow> 65 \<le> ccode c \<and> ccode c \<le> 90"

definition is_alnum :: "char \<Rightarrow> bool" where
  "is_alnum c \<longleftrightarrow> is_digit c \<or> is_lower c \<or> is_upper c"

definition is_hex_lower :: "char \<Rightarrow> bool" where
  "is_hex_lower c \<longleftrightarrow> is_digit c \<or> (97 \<le> ccode c \<and> ccode c \<le> 102)"

definition is_hex :: "char \<Rightarrow> bool" where
  "is_hex c \<longleftrightarrow> is_hex_lower c \<or> (65 \<le> ccode c \<and> ccode c \<le> 70)"

lemmas char_class_defs [go_defs] = is_digit_def is_lower_def is_upper_def is_alnum_def
  is_hex_lower_def is_hex_def ccode_def

definition digit_value :: "char \<Rightarrow> nat" where
  "digit_value c = ccode c - 48"

definition hex_value :: "char \<Rightarrow> nat" where
  "hex_value c = (if is_digit c then ccode c - 48
     else if is_lower c then ccode c - 87 else ccode c - 55)"

definition digit_char :: "nat \<Rightarrow> char" where
  "digit_char n = char_of (48 + n)"

definition hex_char :: "nat \<Rightarrow> char" where
  "hex_char n = char_of (if n < 10 then 48 + n else 87 + n)"

text \<open>\<^verbatim>\<open>strings.ContainsAny(s, chars)\<close> for a set of ASCII characters is a byte test.\<close>

definition contains_any :: "string \<Rightarrow> string \<Rightarrow> bool" where
  [go_defs]: "contains_any s chars \<longleftrightarrow> list_ex (\<lambda>c. c \<in> set chars) s"

lemma contains_any_iff: "contains_any s chars \<longleftrightarrow> set s \<inter> set chars \<noteq> {}"
  by (auto simp: contains_any_def list_ex_iff)

text \<open>\<^verbatim>\<open>strings.Trim(s, cutset)\<close> for an ASCII cutset.\<close>

definition strings_Trim :: "string \<Rightarrow> string \<Rightarrow> string" where
  [go_defs]: "strings_Trim s cutset =
     rev (dropWhile (\<lambda>c. c \<in> set cutset) (rev (dropWhile (\<lambda>c. c \<in> set cutset) s)))"

lemma set_dropWhile_subset: "set (dropWhile P xs) \<subseteq> set xs"
  by (auto dest: set_dropWhileD)

lemma set_strings_Trim: "set (strings_Trim s cutset) \<subseteq> set s"
  unfolding strings_Trim_def by (auto dest!: set_dropWhileD)

lemma strings_Trim_id: "set s \<inter> set cutset = {} \<Longrightarrow> strings_Trim s cutset = s"
proof -
  assume none: "set s \<inter> set cutset = {}"
  then have "dropWhile (\<lambda>c. c \<in> set cutset) s = s"
    by (cases s) auto
  moreover from none have "dropWhile (\<lambda>c. c \<in> set cutset) (rev s) = rev s"
    by (cases "rev s") (auto simp: rev_eq_Cons_iff)
  ultimately show ?thesis
    by (simp add: strings_Trim_def)
qed

text \<open>\<^verbatim>\<open>strings.TrimRight(s, cutset)\<close> for an ASCII cutset.\<close>

definition strings_TrimRight :: "string \<Rightarrow> string \<Rightarrow> string" where
  [go_defs]: "strings_TrimRight s cutset = rev (dropWhile (\<lambda>c. c \<in> set cutset) (rev s))"

text \<open>\<^verbatim>\<open>strings.Split(s, sep)\<close> for a separator of one byte: never the empty list.\<close>

fun split_on :: "char \<Rightarrow> string \<Rightarrow> string list" where
  "split_on c [] = [[]]"
| "split_on c (x # xs) =
     (if x = c then [] # split_on c xs
      else (case split_on c xs of [] \<Rightarrow> [[x]] | w # ws \<Rightarrow> (x # w) # ws))"

lemma split_on_not_Nil [simp]: "split_on c s \<noteq> []"
  by (induction s) (auto split: list.splits)

lemma split_on_none: "c \<notin> set s \<Longrightarrow> split_on c s = [s]"
  by (induction s) auto

lemma split_on_append:
  "c \<notin> set s \<Longrightarrow> split_on c (s @ c # t) = s # split_on c t"
  by (induction s) auto

lemma split_on_parts: "w \<in> set (split_on c s) \<Longrightarrow> c \<notin> set w \<and> set w \<subseteq> set s"
  by (induction s arbitrary: w) (fastforce split: if_splits list.splits)+

section \<open>Unicode: rune widths, white space, case\<close>

text \<open>
  \<^verbatim>\<open>utf8.DecodeRuneInString\<close>, as far as the sources depend on it: the width of the valid
  rune at the start of the string, or 0 where the encoding is invalid (Go then consumes one
  byte and yields U+FFFD).
\<close>

definition utf8_cont :: "nat \<Rightarrow> nat \<Rightarrow> string \<Rightarrow> nat \<Rightarrow> bool" where
  "utf8_cont lo hi s i \<longleftrightarrow> i < length s \<and> lo \<le> ccode (s ! i) \<and> ccode (s ! i) \<le> hi"

definition rune_width :: "string \<Rightarrow> nat" where
  "rune_width s = (case s of [] \<Rightarrow> 0 | c # _ \<Rightarrow>
     (let b = ccode c; cont = utf8_cont 128 191 s in
      if b < 128 then 1
      else if 194 \<le> b \<and> b \<le> 223 then (if cont 1 then 2 else 0)
      else if b = 224 then (if utf8_cont 160 191 s 1 \<and> cont 2 then 3 else 0)
      else if b = 237 then (if utf8_cont 128 159 s 1 \<and> cont 2 then 3 else 0)
      else if 225 \<le> b \<and> b \<le> 239 then (if cont 1 \<and> cont 2 then 3 else 0)
      else if b = 240 then (if utf8_cont 144 191 s 1 \<and> cont 2 \<and> cont 3 then 4 else 0)
      else if 241 \<le> b \<and> b \<le> 243 then (if cont 1 \<and> cont 2 \<and> cont 3 then 4 else 0)
      else if b = 244 then (if utf8_cont 128 143 s 1 \<and> cont 2 \<and> cont 3 then 4 else 0)
      else 0))"

text \<open>
  The UTF-8 encodings of the runes for which \<^verbatim>\<open>unicode.IsSpace\<close> holds. They begin with
  bytes that never continue another rune, so looking for them byte by byte finds exactly the
  runes that Go's rune-wise loops find.
\<close>

definition go_spaces :: "string list" where
  "go_spaces = [[CHR 0x09], [CHR 0x0A], [CHR 0x0B], [CHR 0x0C], [CHR 0x0D], [CHR 0x20],
     [CHR 0xC2, CHR 0x85], [CHR 0xC2, CHR 0xA0], [CHR 0xE1, CHR 0x9A, CHR 0x80]]
     @ map (\<lambda>n. [CHR 0xE2, CHR 0x80, char_of n])
         [128, 129, 130, 131, 132, 133, 134, 135, 136, 137, 138, 168, 169, 175 :: nat]
     @ [[CHR 0xE2, CHR 0x81, CHR 0x9F], [CHR 0xE3, CHR 0x80, CHR 0x80]]"

definition first_prefix :: "string list \<Rightarrow> string \<Rightarrow> string option" where
  "first_prefix ws s = find (\<lambda>w. w \<noteq> [] \<and> prefix w s) ws"

lemma first_prefix_SomeD:
  "first_prefix ws s = Some w \<Longrightarrow> w \<in> set ws \<and> w \<noteq> [] \<and> prefix w s"
  by (auto simp: first_prefix_def find_Some_iff)

lemma first_prefix_None_iff:
  "first_prefix ws s = None \<longleftrightarrow> (\<forall>w\<in>set ws. w \<noteq> [] \<longrightarrow> \<not> prefix w s)"
  by (auto simp: first_prefix_def find_None_iff)

function strip_prefixes :: "string list \<Rightarrow> string \<Rightarrow> string" where
  "strip_prefixes ws s = (case first_prefix ws s of
      None \<Rightarrow> s
    | Some w \<Rightarrow> strip_prefixes ws (drop (length w) s))"
  by pat_completeness auto
termination
  by (relation "measure (\<lambda>(ws, s). length s)")
    (auto dest!: first_prefix_SomeD simp: prefix_def)

declare strip_prefixes.simps [simp del]

lemma strip_prefixes_suffix: "suffix (strip_prefixes ws s) s"
proof (induction ws s rule: strip_prefixes.induct)
  case (1 ws s)
  show ?case
  proof (cases "first_prefix ws s")
    case None
    then show ?thesis by (subst strip_prefixes.simps) simp
  next
    case (Some w)
    then have "suffix (strip_prefixes ws (drop (length w) s)) (drop (length w) s)"
      by (rule "1")
    then have "suffix (strip_prefixes ws (drop (length w) s)) s"
      by (meson suffix_drop suffix_order.trans)
    then show ?thesis by (subst strip_prefixes.simps) (simp add: Some)
  qed
qed

lemma strip_prefixes_done: "first_prefix ws (strip_prefixes ws s) = None"
proof (induction ws s rule: strip_prefixes.induct)
  case (1 ws s)
  then show ?case
    by (cases "first_prefix ws s") (simp_all add: strip_prefixes.simps [of ws s])
qed

text \<open>\<^verbatim>\<open>strings.TrimSpace\<close>\<close>

definition trim_left :: "string \<Rightarrow> string" where
  "trim_left s = strip_prefixes go_spaces s"

definition trim_right :: "string \<Rightarrow> string" where
  "trim_right s = rev (strip_prefixes (map rev go_spaces) (rev s))"

definition strings_TrimSpace :: "string \<Rightarrow> string" where
  "strings_TrimSpace s = trim_right (trim_left s)"

lemma set_trim_left: "set (trim_left s) \<subseteq> set s"
  unfolding trim_left_def by (rule set_mono_suffix [OF strip_prefixes_suffix])

lemma prefix_trim_right: "prefix (trim_right s) s"
  unfolding trim_right_def
  by (metis rev_rev_ident strip_prefixes_suffix suffix_to_prefix)

lemma set_strings_TrimSpace: "set (strings_TrimSpace s) \<subseteq> set s"
  unfolding strings_TrimSpace_def
  using set_mono_prefix [OF prefix_trim_right] set_trim_left by blast

lemma length_strings_TrimSpace: "length (strings_TrimSpace s) \<le> length s"
  unfolding strings_TrimSpace_def
  by (metis dual_order.trans prefix_length_le prefix_trim_right strip_prefixes_suffix
      suffix_length_le trim_left_def)

text \<open>\<^verbatim>\<open>strings.Fields\<close>\<close>

fun break_space :: "string \<Rightarrow> string \<times> string" where
  "break_space [] = ([], [])"
| "break_space (c # cs) = (if first_prefix go_spaces (c # cs) \<noteq> None then ([], c # cs)
     else (let (w, rest) = break_space cs in (c # w, rest)))"

lemma break_space_append: "break_space s = (w, rest) \<Longrightarrow> s = w @ rest"
  by (induction s arbitrary: w rest) (auto simp: Let_def split: if_splits prod.splits)

lemma break_space_progress:
  assumes "first_prefix go_spaces s = None" and "s \<noteq> []" and "break_space s = (w, rest)"
  shows "length rest < length s"
proof -
  from assms obtain c cs where s: "s = c # cs" by (cases s) auto
  with assms obtain v where v: "break_space cs = (v, rest)"
    by (auto split: prod.splits)
  then show ?thesis using break_space_append [OF v] s by simp
qed

function strings_Fields :: "string \<Rightarrow> string list" where
  "strings_Fields s =
     (if trim_left s = [] then []
      else fst (break_space (trim_left s)) # strings_Fields (snd (break_space (trim_left s))))"
  by pat_completeness auto
termination
proof (relation "measure length")
  fix s :: string
  assume ne: "trim_left s \<noteq> []"
  have "first_prefix go_spaces (trim_left s) = None"
    by (simp add: trim_left_def strip_prefixes_done)
  then have "length (snd (break_space (trim_left s))) < length (trim_left s)"
    using ne break_space_progress [of "trim_left s"] by (metis prod.collapse)
  also have "\<dots> \<le> length s"
    using suffix_length_le [OF strip_prefixes_suffix] by (simp add: trim_left_def)
  finally show "(snd (break_space (trim_left s)), s) \<in> measure length"
    by simp
qed simp

declare strings_Fields.simps [simp del]

text \<open>
  Case mapping. ASCII letters are mapped by their code; of the other runes only those whose
  simple mapping is an ASCII letter matter to the sources, which compare the result with ASCII
  constants: U+0131 and U+017F in upper case, U+0130 and U+212A in lower case, and for the
  case folding of JSON names and of case-insensitive patterns U+017F and U+212A.
\<close>

definition ascii_upper :: "char \<Rightarrow> char" where
  "ascii_upper c = (if is_lower c then char_of (ccode c - 32) else c)"

definition ascii_lower :: "char \<Rightarrow> char" where
  "ascii_lower c = (if is_upper c then char_of (ccode c + 32) else c)"

fun rewrite_runes :: "(string \<times> char) list \<Rightarrow> (char \<Rightarrow> char) \<Rightarrow> string \<Rightarrow> string" where
  "rewrite_runes tab f [] = []"
| "rewrite_runes tab f (c # cs) =
     (case find (\<lambda>(w, _). prefix w (c # cs)) tab of
        None \<Rightarrow> f c # rewrite_runes tab f cs
      | Some (w, r) \<Rightarrow> r # rewrite_runes tab f (drop (length w - 1) cs))"

definition strings_ToUpper :: "string \<Rightarrow> string" where
  "strings_ToUpper = rewrite_runes
     [([CHR 0xC4, CHR 0xB1], CHR ''I''), ([CHR 0xC5, CHR 0xBF], CHR ''S'')] ascii_upper"

definition strings_ToLower :: "string \<Rightarrow> string" where
  "strings_ToLower = rewrite_runes
     [([CHR 0xC4, CHR 0xB0], CHR ''i''), ([CHR 0xE2, CHR 0x84, CHR 0xAA], CHR ''k'')] ascii_lower"

definition fold_name :: "string \<Rightarrow> string" where
  "fold_name = rewrite_runes
     [([CHR 0xC5, CHR 0xBF], CHR ''S''), ([CHR 0xE2, CHR 0x84, CHR 0xAA], CHR ''K'')] ascii_upper"

section \<open>Decimal and hexadecimal numbers\<close>

definition dec_value :: "string \<Rightarrow> nat" where
  "dec_value ds = foldl (\<lambda>a c. 10 * a + digit_value c) 0 ds"

lemma foldl_dec_shift:
  "foldl (\<lambda>a c. 10 * a + digit_value c) n ds = n * 10 ^ length ds + dec_value ds"
  unfolding dec_value_def
proof (induction ds arbitrary: n)
  case Nil
  then show ?case by simp
next
  case (Cons d ds)
  show ?case
    using Cons.IH [of "10 * n + digit_value d"] Cons.IH [of "digit_value d"]
    by (simp add: algebra_simps)
qed

lemma dec_value_append: "dec_value (xs @ ys) = dec_value xs * 10 ^ length ys + dec_value ys"
  by (metis dec_value_def foldl_append foldl_dec_shift)

text \<open>
  \<^verbatim>\<open>strconv.ParseInt(s, 10, 64)\<close>, which is also \<^verbatim>\<open>strconv.Atoi\<close> where an int has 64
  bits: an optional sign and at least one digit, in the range of the type.
\<close>

definition split_sign :: "string \<Rightarrow> bool \<times> string" where
  "split_sign s = (case s of [] \<Rightarrow> (False, [])
     | c # cs \<Rightarrow> if c = CHR ''-'' then (True, cs)
        else if c = CHR ''+'' then (False, cs) else (False, s))"

definition strconv_ParseInt :: "string \<Rightarrow> int option" where
  "strconv_ParseInt s = (let (neg, ds) = split_sign s in
     if ds = [] \<or> \<not> list_all is_digit ds then None
     else let n = int (dec_value ds) in
       if neg then (if n \<le> - int64_min then Some (- n) else None)
       else (if n \<le> int64_max then Some n else None))"

lemma strconv_ParseInt_range: "strconv_ParseInt s = Some n \<Longrightarrow> int64_min \<le> n \<and> n \<le> int64_max"
  by (auto simp: strconv_ParseInt_def Let_def split: prod.splits if_splits)

text \<open>\<^verbatim>\<open>strconv.Itoa\<close>\<close>

fun show_nat :: "nat \<Rightarrow> string" where
  "show_nat n = (if n < 10 then [digit_char n] else show_nat (n div 10) @ [digit_char (n mod 10)])"

declare show_nat.simps [simp del]

definition strconv_Itoa :: "int \<Rightarrow> string" where
  "strconv_Itoa n = (if n < 0 then CHR ''-'' # show_nat (nat (- n)) else show_nat (nat n))"

lemma ccode_char_of [simp]: "ccode (char_of (n::nat)) = n mod 256"
  by (simp add: ccode_def)

lemma digit_char_ok: "n < 10 \<Longrightarrow> is_digit (digit_char n) \<and> digit_value (digit_char n) = n"
  by (simp add: is_digit_def digit_value_def digit_char_def)

lemma show_nat_digits: "list_all is_digit (show_nat n) \<and> show_nat n \<noteq> []"
proof (induction n rule: show_nat.induct)
  case (1 n)
  then show ?case
    by (cases "n < 10") (simp_all add: show_nat.simps [of n] digit_char_ok)
qed

lemma dec_value_show_nat [simp]: "dec_value (show_nat n) = n"
proof (induction n rule: show_nat.induct)
  case (1 n)
  have single: "dec_value [digit_char m] = m" if "m < 10" for m
    using that by (simp add: dec_value_def digit_char_ok)
  show ?case
  proof (cases "n < 10")
    case True
    then show ?thesis by (simp add: show_nat.simps [of n] single)
  next
    case False
    then show ?thesis
      using "1" by (simp add: show_nat.simps [of n] dec_value_append single)
  qed
qed

lemma digit_not_sign: "is_digit c \<Longrightarrow> c \<noteq> CHR ''-'' \<and> c \<noteq> CHR ''+''"
  by (auto simp: is_digit_def ccode_def)

lemma split_sign_digits: "list_all is_digit ds \<Longrightarrow> split_sign ds = (False, ds)"
  by (cases ds) (auto simp: split_sign_def dest: digit_not_sign)

lemma strconv_ParseInt_show_nat:
  "int n \<le> int64_max \<Longrightarrow> strconv_ParseInt (show_nat n) = Some (int n)"
  using show_nat_digits [of n] by (simp add: strconv_ParseInt_def split_sign_digits)

lemma strconv_ParseInt_Itoa:
  assumes "int64_min \<le> n" and "n \<le> int64_max"
  shows "strconv_ParseInt (strconv_Itoa n) = Some n"
proof (cases "n < 0")
  case True
  with assms show ?thesis
    using show_nat_digits [of "nat (- n)"]
    by (simp add: strconv_Itoa_def strconv_ParseInt_def split_sign_def)
next
  case False
  with assms show ?thesis
    by (simp add: strconv_Itoa_def strconv_ParseInt_show_nat)
qed

text \<open>\<^verbatim>\<open>hex.EncodeToString\<close>\<close>

definition hex_byte :: "char \<Rightarrow> string" where
  "hex_byte c = [hex_char (ccode c div 16), hex_char (ccode c mod 16)]"

definition hex_EncodeToString :: "bytes \<Rightarrow> string" where
  "hex_EncodeToString bs = concat (map hex_byte bs)"

lemma hex_char_ok: "n < 16 \<Longrightarrow> is_hex_lower (hex_char n) \<and> hex_value (hex_char n) = n"
  by (auto simp: hex_char_def hex_value_def is_hex_lower_def is_digit_def is_lower_def)

lemma hex_byte_lower: "list_all is_hex_lower (hex_byte c)"
  using ccode_less_256 [of c] by (simp add: hex_byte_def hex_char_ok less_mult_imp_div_less)

lemma hex_EncodeToString_lower: "list_all is_hex_lower (hex_EncodeToString bs)"
  unfolding hex_EncodeToString_def using hex_byte_lower by (induction bs) auto

lemma length_hex_EncodeToString [simp]: "length (hex_EncodeToString bs) = 2 * length bs"
  by (induction bs) (auto simp: hex_EncodeToString_def hex_byte_def)

lemma ccode_inj: "ccode c = ccode d \<Longrightarrow> c = d"
  by (simp add: ccode_def)

lemma hex_byte_inj: "hex_byte c = hex_byte d \<Longrightarrow> c = d"
proof -
  assume eq: "hex_byte c = hex_byte d"
  have "ccode x div 16 < 16" and "ccode x mod 16 < 16" for x
    using ccode_less_256 [of x] by (simp_all add: less_mult_imp_div_less)
  with eq have "ccode c div 16 = ccode d div 16" and "ccode c mod 16 = ccode d mod 16"
    unfolding hex_byte_def by (metis hex_char_ok list.inject)+
  then have "ccode c = ccode d"
    by (metis div_mult_mod_eq)
  then show ?thesis by (rule ccode_inj)
qed

lemma hex_EncodeToString_inj: "hex_EncodeToString xs = hex_EncodeToString ys \<Longrightarrow> xs = ys"
proof (induction xs arbitrary: ys)
  case Nil
  then show ?case by (cases ys) (auto simp: hex_EncodeToString_def hex_byte_def)
next
  case (Cons x xs)
  from Cons.prems obtain y zs where ys: "ys = y # zs"
    by (cases ys) (auto simp: hex_EncodeToString_def hex_byte_def)
  with Cons.prems have "hex_byte x = hex_byte y"
    and "hex_EncodeToString xs = hex_EncodeToString zs"
    by (auto simp: hex_EncodeToString_def hex_byte_def)
  with Cons.IH ys show ?case by (auto dest: hex_byte_inj)
qed

end
