(* ===== verification/Json.thy ===== *)
theory Json
  imports Prelude
begin

text \<open>
  The part of \<^verbatim>\<open>encoding/json\<close> the sources use to read: the scanner and decoder of one JSON
  value (numbers kept as their literal, as with \<^verbatim>\<open>UseNumber\<close>), the detection of trailing
  input, and decoding into a struct whose fields are integers or strings, with or without
  \<^verbatim>\<open>DisallowUnknownFields\<close>. The raw text of the members of an object, which is what a field
  of type \<^verbatim>\<open>json.RawMessage\<close> receives, is read by \<open>raw_members\<close>.
\<close>

section \<open>Values\<close>

datatype json =
    JNull
  | JBool bool
  | JNumber string
  | JString string
  | JArray "json list"
  | JObject "(string \<times> json) list"

definition is_ws :: "char \<Rightarrow> bool" where
  "is_ws c \<longleftrightarrow> c = CHR '' '' \<or> c = CHR 0x09 \<or> c = CHR 0x0A \<or> c = CHR 0x0D"

definition skip_ws :: "string \<Rightarrow> string" where
  "skip_ws s = dropWhile is_ws s"

lemma length_skip_ws: "length (skip_ws s) \<le> length s"
  by (simp add: skip_ws_def length_dropWhile_le)

section \<open>Scanning literals\<close>

definition scan_exponent :: "string \<Rightarrow> (string \<times> string) option" where
  "scan_exponent s = (case s of [] \<Rightarrow> Some ([], [])
     | c # cs \<Rightarrow>
        if c = CHR ''e'' \<or> c = CHR ''E'' then
          (let (sg, t) = (case cs of d # ds \<Rightarrow>
               (if d = CHR ''+'' \<or> d = CHR ''-'' then ([d], ds) else ([], cs)) | [] \<Rightarrow> ([], cs));
             ds = takeWhile is_digit t
           in if ds = [] then None else Some (c # sg @ ds, dropWhile is_digit t))
        else Some ([], s))"

definition scan_fraction :: "string \<Rightarrow> (string \<times> string) option" where
  "scan_fraction s = (case s of [] \<Rightarrow> Some ([], [])
     | c # cs \<Rightarrow>
        if c = CHR ''.'' then
          (let ds = takeWhile is_digit cs in
           if ds = [] then None else Some (c # ds, dropWhile is_digit cs))
        else Some ([], s))"

definition scan_integer :: "string \<Rightarrow> (string \<times> string) option" where
  "scan_integer s = (case s of [] \<Rightarrow> None
     | c # cs \<Rightarrow> if c = CHR ''0'' then Some ([c], cs)
        else if is_digit c then Some (takeWhile is_digit s, dropWhile is_digit s)
        else None)"

definition scan_number :: "string \<Rightarrow> (string \<times> string) option" where
  "scan_number s =
     (let (sg, s1) = (case s of c # cs \<Rightarrow> (if c = CHR ''-'' then ([c], cs) else ([], s)) | [] \<Rightarrow> ([], s))
      in case scan_integer s1 of None \<Rightarrow> None
       | Some (i, s2) \<Rightarrow> (case scan_fraction s2 of None \<Rightarrow> None
         | Some (f, s3) \<Rightarrow> (case scan_exponent s3 of None \<Rightarrow> None
           | Some (e, s4) \<Rightarrow> Some (sg @ i @ f @ e, s4))))"

text \<open>The raw contents of a string literal, from after its opening quote.\<close>

fun scan_string :: "string \<Rightarrow> (string \<times> string) option" where
  "scan_string [] = None"
| "scan_string (c # cs) =
     (if c = CHR 0x22 then Some ([], cs)
      else if c = CHR 0x5C then
        (case cs of [] \<Rightarrow> None
         | e # t \<Rightarrow>
            if e = CHR ''u'' then
              (if 4 \<le> length t \<and> list_all is_hex (take 4 t)
               then map_option (\<lambda>(r, rest). (c # e # take 4 t @ r, rest)) (scan_string (drop 4 t))
               else None)
            else if e \<in> set [CHR ''b'', CHR ''f'', CHR ''n'', CHR ''r'', CHR ''t'', CHR 0x5C, CHR ''/'', CHR 0x22]
            then map_option (\<lambda>(r, rest). (c # e # r, rest)) (scan_string t)
            else None)
      else if ccode c < 32 then None
      else map_option (\<lambda>(r, rest). (c # r, rest)) (scan_string cs))"

text \<open>\<^verbatim>\<open>unquote\<close>: escapes are decoded, invalid UTF-8 becomes U+FFFD.\<close>

definition utf8_encode :: "nat \<Rightarrow> string" where
  "utf8_encode r =
     (if r < 128 then [char_of r]
      else if r < 2048 then [char_of (192 + r div 64), char_of (128 + r mod 64)]
      else if r < 65536 then
        [char_of (224 + r div 4096), char_of (128 + (r div 64) mod 64), char_of (128 + r mod 64)]
      else [char_of (240 + r div 262144), char_of (128 + (r div 4096) mod 64),
            char_of (128 + (r div 64) mod 64), char_of (128 + r mod 64)])"

definition replacement_char :: string where
  "replacement_char = [CHR 0xEF, CHR 0xBF, CHR 0xBD]"

definition hex4 :: "string \<Rightarrow> nat" where
  "hex4 s = foldl (\<lambda>a c. 16 * a + hex_value c) 0 (take 4 s)"

definition low_surrogate :: "string \<Rightarrow> nat option" where
  "low_surrogate s =
     (if 6 \<le> length s \<and> take 2 s = [CHR 0x5C, CHR ''u''] \<and> list_all is_hex (take 4 (drop 2 s))
      then (let r = hex4 (drop 2 s) in if 56320 \<le> r \<and> r < 57344 then Some r else None)
      else None)"

definition simple_escape :: "char \<Rightarrow> char" where
  "simple_escape e =
     (if e = CHR ''b'' then CHR 0x08 else if e = CHR ''f'' then CHR 0x0C
      else if e = CHR ''n'' then CHR 0x0A else if e = CHR ''r'' then CHR 0x0D
      else if e = CHR ''t'' then CHR 0x09 else e)"

fun unquote :: "string \<Rightarrow> string" where
  "unquote [] = []"
| "unquote (c # cs) =
     (if c = CHR 0x5C then
        (case cs of [] \<Rightarrow> []
         | e # t \<Rightarrow>
            if e = CHR ''u'' then
              (let r = hex4 t; t4 = drop 4 t in
               if 55296 \<le> r \<and> r < 56320 then
                 (case low_surrogate t4 of
                    Some r2 \<Rightarrow> utf8_encode (65536 + (r - 55296) * 1024 + (r2 - 56320)) @ unquote (drop 6 t4)
                  | None \<Rightarrow> replacement_char @ unquote t4)
               else if 56320 \<le> r \<and> r < 57344 then replacement_char @ unquote t4
               else utf8_encode r @ unquote t4)
            else simple_escape e # unquote t)
      else if ccode c < 128 then c # unquote cs
      else (let w = rune_width (c # cs) in
            if w = 0 then replacement_char @ unquote cs
            else take w (c # cs) @ unquote (drop (w - 1) cs)))"

lemma unquote_plain: "list_all (\<lambda>c. c \<noteq> CHR 0x5C \<and> ccode c < 128) s \<Longrightarrow> unquote s = s"
  by (induction s) auto

section \<open>Parsing values\<close>

text \<open>
  One unit of fuel per call; \<open>parse_fuel\<close> is enough for any input (lemma
  \<open>parse_fuel_enough\<close> below), so running out of fuel never decides a result. The depth
  argument is what is left of the decoder's nesting limit of 10000.
\<close>

fun parse_value :: "nat \<Rightarrow> nat \<Rightarrow> string \<Rightarrow> (json \<times> string) option"
  and parse_elements :: "nat \<Rightarrow> nat \<Rightarrow> string \<Rightarrow> (json list \<times> string) option"
  and parse_members :: "nat \<Rightarrow> nat \<Rightarrow> string \<Rightarrow> ((string \<times> json) list \<times> string) option"
where
  "parse_value 0 d s = None"
| "parse_value (Suc n) d s = (case skip_ws s of [] \<Rightarrow> None
     | c # cs \<Rightarrow>
        if c = CHR 0x7B then
          (if d = 0 then None
           else if take 1 (skip_ws cs) = [CHR 0x7D] then Some (JObject [], tl (skip_ws cs))
           else map_option (\<lambda>(ms, t). (JObject ms, t)) (parse_members n (d - 1) cs))
        else if c = CHR 0x5B then
          (if d = 0 then None
           else if take 1 (skip_ws cs) = [CHR 0x5D] then Some (JArray [], tl (skip_ws cs))
           else map_option (\<lambda>(vs, t). (JArray vs, t)) (parse_elements n (d - 1) cs))
        else if c = CHR 0x22 then
          map_option (\<lambda>(r, t). (JString (unquote r), t)) (scan_string cs)
        else if prefix ''true'' (c # cs) then Some (JBool True, drop 4 (c # cs))
        else if prefix ''false'' (c # cs) then Some (JBool False, drop 5 (c # cs))
        else if prefix ''null'' (c # cs) then Some (JNull, drop 4 (c # cs))
        else map_option (\<lambda>(r, t). (JNumber r, t)) (scan_number (c # cs)))"
| "parse_elements 0 d s = None"
| "parse_elements (Suc n) d s = (case parse_value n d s of None \<Rightarrow> None
     | Some (v, t) \<Rightarrow> (case skip_ws t of [] \<Rightarrow> None
        | c # cs \<Rightarrow>
           if c = CHR '','' then map_option (\<lambda>(vs, u). (v # vs, u)) (parse_elements n d cs)
           else if c = CHR 0x5D then Some ([v], cs) else None))"
| "parse_members 0 d s = None"
| "parse_members (Suc n) d s = (case skip_ws s of [] \<Rightarrow> None
     | q # t \<Rightarrow> if q \<noteq> CHR 0x22 then None
        else (case scan_string t of None \<Rightarrow> None
         | Some (k, t1) \<Rightarrow> (case skip_ws t1 of [] \<Rightarrow> None
            | col # t2 \<Rightarrow> if col \<noteq> CHR '':'' then None
               else (case parse_value n d t2 of None \<Rightarrow> None
                | Some (v, t3) \<Rightarrow>
                   (let m = (unquote k, v) in
                    case skip_ws t3 of [] \<Rightarrow> None
                    | c # cs \<Rightarrow>
                       if c = CHR '','' then map_option (\<lambda>(ms, u). (m # ms, u)) (parse_members n d cs)
                       else if c = CHR 0x7D then Some ([m], cs) else None)))))"

definition parse_fuel :: "string \<Rightarrow> nat" where
  "parse_fuel s = 2 * length s + 2"

definition max_nesting_depth :: nat where
  "max_nesting_depth = 10000"

text \<open>\<^verbatim>\<open>Decoder.Decode\<close> into an empty interface: the value, or \<^verbatim>\<open>io.EOF\<close>, or an error.\<close>

datatype decode_result = DecEOF | DecError | DecValue json string

definition json_Decode :: "string \<Rightarrow> decode_result" where
  "json_Decode s =
     (if skip_ws s = [] then DecEOF
      else case parse_value (parse_fuel s) max_nesting_depth s of
        None \<Rightarrow> DecError
      | Some (v, rest) \<Rightarrow> DecValue v rest)"

text \<open>\<^verbatim>\<open>json.Unmarshal\<close>: the whole input is one value.\<close>

definition json_Unmarshal :: "string \<Rightarrow> json option" where
  "json_Unmarshal s = (case json_Decode s of
      DecValue v rest \<Rightarrow> if skip_ws rest = [] then Some v else None
    | _ \<Rightarrow> None)"

section \<open>Progress and enough fuel\<close>

lemma scan_string_progress: "scan_string s = Some (r, t) \<Longrightarrow> length t < length s"
proof (induction s arbitrary: r t rule: scan_string.induct)
  case 1
  then show ?case by simp
next
  case (2 c cs)
  show ?case
  proof (cases "c = CHR 0x22 \<or> cs = [] \<or> c \<noteq> CHR 0x5C")
    case True
    with 2 show ?thesis by (fastforce split: if_splits list.splits)
  next
    case False
    then obtain e u where cs: "cs = e # u" and c: "c = CHR 0x5C" by (cases cs) auto
    show ?thesis
    proof (cases "e = CHR ''u''")
      case True
      with "2.prems" c cs obtain r' where "scan_string (drop 4 u) = Some (r', t)"
        by (auto split: if_splits)
      moreover from True "2.prems" c cs have "4 \<le> length u" and "list_all is_hex (take 4 u)"
        by (auto split: if_splits)
      ultimately have "length t < length (drop 4 u)"
        using "2.IH"(1) [of e u r' t] True c cs by simp
      then show ?thesis by (simp add: cs)
    next
      case nu: False
      with "2.prems" c cs obtain r' where t: "scan_string u = Some (r', t)"
        by (auto split: if_splits)
      then have "length t < length u"
        using "2.IH"(2) [of e u r' t] nu "2.prems" c cs by (auto split: if_splits)
      then show ?thesis by (simp add: cs)
    qed
  qed
qed

lemma scan_tail_le:
  "scan_fraction s = Some (f, t) \<Longrightarrow> length t \<le> length s"
  "scan_exponent s = Some (f, t) \<Longrightarrow> length t \<le> length s"
  by (auto simp: scan_fraction_def scan_exponent_def Let_def length_dropWhile_le le_SucI
      split: list.splits if_splits intro: le_trans [OF length_dropWhile_le])

lemma scan_integer_progress: "scan_integer s = Some (i, t) \<Longrightarrow> length t < length s"
  by (auto simp: scan_integer_def length_dropWhile_le less_Suc_eq_le split: list.splits if_splits)

lemma scan_number_progress: "scan_number s = Some (r, t) \<Longrightarrow> length t < length s"
proof -
  assume num: "scan_number s = Some (r, t)"
  obtain sg s1 where sg: "(case s of c # cs \<Rightarrow> (if c = CHR ''-'' then ([c], cs) else ([], s))
      | [] \<Rightarrow> ([], s)) = (sg, s1)" by fastforce
  then have "length s1 \<le> length s" by (auto split: list.splits if_splits)
  moreover from num sg obtain i s2 f s3 e where "scan_integer s1 = Some (i, s2)"
    and "scan_fraction s2 = Some (f, s3)" and "scan_exponent s3 = Some (e, t)"
    by (auto simp: scan_number_def Let_def split: option.splits prod.splits)
  ultimately show ?thesis
    using scan_integer_progress scan_tail_le by (metis le_less_trans less_le_trans not_le)
qed

lemma skip_ws_ConsD: "skip_ws s = c # cs \<Longrightarrow> Suc (length cs) \<le> length s"
  using length_skip_ws [of s] by simp

lemma length_tl_skip_ws: "take 1 (skip_ws s) = [c] \<Longrightarrow> length (tl (skip_ws s)) < length s"
  using length_skip_ws [of s] by (cases "skip_ws s") auto

lemma parse_value_literal_progress:
  assumes "skip_ws s = c # cs" and "prefix w (c # cs)" and "w \<noteq> []"
  shows "length (drop (length w) (c # cs)) < length s"
  using assms skip_ws_ConsD [OF assms(1)] prefix_length_le [OF assms(2)]
  by (cases w) auto

lemma parse_progress:
  "parse_value n d s = Some (v, t) \<Longrightarrow> length t < length s"
  "parse_elements n d s = Some (vs, t) \<Longrightarrow> length t < length s"
  "parse_members n d s = Some (ms, t) \<Longrightarrow> length t < length s"
proof (induction n d s and n d s and n d s arbitrary: v t and vs t and ms t
    rule: parse_value_parse_elements_parse_members.induct)
  case (2 n d s)
  from "2.prems" obtain c cs where c: "skip_ws s = c # cs" by (auto split: list.splits)
  have lit: "length (drop k (c # cs)) < length s" if "prefix w (c # cs)" "length w = k" "0 < k" for w k
    using parse_value_literal_progress [OF c that(1)] that by auto
  note le = skip_ws_ConsD [OF c]
  consider (obj) "c = CHR 0x7B" | (arr) "c = CHR 0x5B" | (str) "c = CHR 0x22"
    | (other) "c \<noteq> CHR 0x7B" "c \<noteq> CHR 0x5B" "c \<noteq> CHR 0x22" by blast
  then show ?case
  proof cases
    case obj
    show ?thesis
    proof (cases "take 1 (skip_ws cs) = [CHR 0x7D]")
      case True
      with obj c "2.prems" have "t = tl (skip_ws cs)" by (simp split: if_splits)
      with length_tl_skip_ws [OF True] le show ?thesis by simp
    next
      case False
      with obj c "2.prems" obtain ms where "parse_members n (d - 1) cs = Some (ms, t)" and "d \<noteq> 0"
        by (auto split: if_splits)
      then have "length t < length cs" using "2.IH"(1) [OF c obj _ False] by blast
      with le show ?thesis by simp
    qed
  next
    case arr
    show ?thesis
    proof (cases "take 1 (skip_ws cs) = [CHR 0x5D]")
      case True
      with arr c "2.prems" have "t = tl (skip_ws cs)" by (simp split: if_splits)
      with length_tl_skip_ws [OF True] le show ?thesis by simp
    next
      case False
      with arr c "2.prems" obtain vs where vs: "parse_elements n (d - 1) cs = Some (vs, t)" and "d \<noteq> 0"
        by (auto split: if_splits)
      moreover from arr have "c \<noteq> CHR 0x7B" by simp
      ultimately have "length t < length cs" using "2.IH"(2) [OF c _ arr _ False] by blast
      with le show ?thesis by simp
    qed
  next
    case str
    with c "2.prems" obtain r where "scan_string cs = Some (r, t)" by auto
    then show ?thesis using scan_string_progress le by fastforce
  next
    case other
    with c "2.prems" consider "prefix ''true'' (c # cs)" "t = drop 4 (c # cs)"
      | "prefix ''false'' (c # cs)" "t = drop 5 (c # cs)"
      | "prefix ''null'' (c # cs)" "t = drop 4 (c # cs)"
      | r where "scan_number (c # cs) = Some (r, t)"
      by (auto split: if_splits)
    then show ?thesis
    proof cases
      case 4
      then show ?thesis using scan_number_progress le by fastforce
    qed (use lit [of "''true''" 4] lit [of "''false''" 5] lit [of "''null''" 4] in simp_all)
  qed
next
  case (4 n d s)
  from "4.prems" obtain v u where v: "parse_value n d s = Some (v, u)" by (auto split: option.splits)
  with "4.prems" obtain c cs where c: "skip_ws u = c # cs" by (auto split: list.splits)
  have "length u < length s" using "4.IH"(1) v by blast
  moreover have "Suc (length cs) \<le> length u" using skip_ws_ConsD [OF c] .
  moreover have "length t \<le> length cs"
    using "4.prems" v c "4.IH"(2) [of "(v, u)" v u c cs] by (fastforce split: if_splits)
  ultimately show ?case by simp
next
  case (6 n d s)
  from "6.prems" obtain q t0 where q: "skip_ws s = q # t0" and q': "q = CHR 0x22"
    by (auto split: list.splits if_splits)
  with "6.prems" obtain k t1 where k: "scan_string t0 = Some (k, t1)" by (auto split: option.splits)
  with "6.prems" q q' obtain col t2 where col: "skip_ws t1 = col # t2" "col = CHR '':''"
    by (auto split: list.splits if_splits)
  with "6.prems" q q' k obtain v t3 where v: "parse_value n d t2 = Some (v, t3)"
    by (auto split: option.splits)
  with "6.prems" q q' k col obtain c cs where c: "skip_ws t3 = c # cs"
    by (auto simp: Let_def split: list.splits)
  have "length t3 < length t2" using "6.IH"(1) v q q' k col by blast
  moreover have "length t \<le> length cs"
    using "6.prems" q q' k col v c "6.IH"(2) by (fastforce simp: Let_def split: if_splits)
  ultimately show ?case
    using skip_ws_ConsD [OF q] skip_ws_ConsD [OF col(1)] skip_ws_ConsD [OF c]
      scan_string_progress [OF k] by simp
qed simp_all

text \<open>
  Any two amounts of fuel of at least the bound give the same result: the bound is never
  what makes parsing fail.
\<close>

lemma parse_value_fuel_step:
  assumes elements: "\<And>u d. length u < length s \<Longrightarrow> parse_elements n d u = parse_elements m d u"
    and members: "\<And>u d. length u < length s \<Longrightarrow> parse_members n d u = parse_members m d u"
  shows "parse_value (Suc n) d s = parse_value (Suc m) d s"
proof (cases "skip_ws s")
  case Nil
  then show ?thesis by simp
next
  case (Cons c cs)
  then have "length cs < length s" using skip_ws_ConsD by fastforce
  with Cons elements members show ?thesis by simp
qed

lemma parse_elements_fuel_step:
  assumes "\<And>d. parse_value n d s = parse_value m d s"
    and "\<And>u d. length u < length s \<Longrightarrow> parse_elements n d u = parse_elements m d u"
  shows "parse_elements (Suc n) d s = parse_elements (Suc m) d s"
proof (cases "parse_value m d s")
  case None
  with assms(1) show ?thesis by simp
next
  case (Some p)
  then obtain v t where vt: "parse_value m d s = Some (v, t)" by (cases p) auto
  have "length cs < length s" if "skip_ws t = c # cs" for c cs
    using skip_ws_ConsD [OF that] parse_progress(1) [OF vt] by simp
  with vt assms show ?thesis by (auto split: list.splits)
qed

lemma parse_members_fuel_step:
  assumes "\<And>u d. length u < length s \<Longrightarrow> parse_value n d u = parse_value m d u"
    and "\<And>u d. length u < length s \<Longrightarrow> parse_members n d u = parse_members m d u"
  shows "parse_members (Suc n) d s = parse_members (Suc m) d s"
proof -
  have val: "parse_value n d t2 = parse_value m d t2"
    if "skip_ws s = q # t" "scan_string t = Some (k, t1)" "skip_ws t1 = col # t2" for q t k t1 col t2
    using assms(1) skip_ws_ConsD [OF that(1)] scan_string_progress [OF that(2)] skip_ws_ConsD [OF that(3)]
    by simp
  have rest: "parse_members n d cs = parse_members m d cs"
    if "skip_ws s = q # t" "scan_string t = Some (k, t1)" "skip_ws t1 = col # t2"
      "parse_value m d t2 = Some (v, t3)" "skip_ws t3 = c # cs" for q t k t1 col t2 v t3 c cs
    using assms(2) skip_ws_ConsD [OF that(1)] scan_string_progress [OF that(2)] skip_ws_ConsD [OF that(3)]
      parse_progress(1) [OF that(4)] skip_ws_ConsD [OF that(5)]
    by simp
  show ?thesis
    by (auto simp: val rest Let_def split: list.splits option.splits)
qed

declare parse_value.simps [simp del] parse_elements.simps [simp del] parse_members.simps [simp del]

lemma parse_fuel_bounds:
  "\<forall>n m d. (2 * length s + 1 \<le> n \<and> 2 * length s + 1 \<le> m \<longrightarrow> parse_value n d s = parse_value m d s)
     \<and> (2 * length s + 2 \<le> n \<and> 2 * length s + 2 \<le> m \<longrightarrow> parse_elements n d s = parse_elements m d s)
     \<and> (2 * length s + 1 \<le> n \<and> 2 * length s + 1 \<le> m \<longrightarrow> parse_members n d s = parse_members m d s)"
proof (induction s rule: length_induct)
  case (1 s)
  have val: "parse_value n d s = parse_value m d s"
    if "2 * length s + 1 \<le> n" "2 * length s + 1 \<le> m" for n m d
  proof -
    from that obtain n' m' where "n = Suc n'" "m = Suc m'" "2 * length s \<le> n'" "2 * length s \<le> m'"
      by (metis Suc_eq_plus1 Suc_le_D Suc_le_mono)
    note nm = this
    have "parse_value (Suc n') d s = parse_value (Suc m') d s"
      by (rule parse_value_fuel_step) (use nm "1" in auto)
    with nm show ?thesis by simp
  qed
  moreover have "parse_elements n d s = parse_elements m d s"
    if "2 * length s + 2 \<le> n" "2 * length s + 2 \<le> m" for n m d
  proof -
    from that obtain n' m' where "n = Suc n'" "m = Suc m'" "2 * length s + 1 \<le> n'" "2 * length s + 1 \<le> m'"
      by (metis Suc_eq_plus1 Suc_le_D Suc_le_mono add_Suc_right one_add_one)
    note nm = this
    have "parse_elements (Suc n') d s = parse_elements (Suc m') d s"
    proof (rule parse_elements_fuel_step)
      show "parse_value n' d s = parse_value m' d s" for d
        by (rule val) (use nm in simp_all)
    qed (use nm "1" in auto)
    with nm show ?thesis by simp
  qed
  moreover have "parse_members n d s = parse_members m d s"
    if "2 * length s + 1 \<le> n" "2 * length s + 1 \<le> m" for n m d
  proof -
    from that obtain n' m' where "n = Suc n'" "m = Suc m'" "2 * length s \<le> n'" "2 * length s \<le> m'"
      by (metis Suc_eq_plus1 Suc_le_D Suc_le_mono)
    note nm = this
    have "parse_members (Suc n') d s = parse_members (Suc m') d s"
      by (rule parse_members_fuel_step) (use nm "1" in auto)
    with nm show ?thesis by simp
  qed
  ultimately show ?case by blast
qed

lemma parse_fuel_enough:
  assumes "2 * length s + 2 \<le> n" and "2 * length s + 2 \<le> m"
  shows "parse_value n d s = parse_value m d s"
    and "parse_elements n d s = parse_elements m d s"
    and "parse_members n d s = parse_members m d s"
  using parse_fuel_bounds [of s, THEN spec, of n, THEN spec, of m, THEN spec, of d] assms by simp_all

section \<open>Decoding into structs\<close>

text \<open>
  A struct is described by the JSON names of its fields, each with its store function; a store
  function fails where Go records an \<^verbatim>\<open>UnmarshalTypeError\<close> (the field keeps its value then).
  Names match exactly or else up to case folding. Decoding continues after such an error; the
  flag says whether one was recorded.
\<close>

type_synonym 'p fields = "(string \<times> ('p \<Rightarrow> json \<Rightarrow> 'p option)) list"

definition struct_field :: "'p fields \<Rightarrow> string \<Rightarrow> ('p \<Rightarrow> json \<Rightarrow> 'p option) option" where
  "struct_field fs key = (case map_of fs key of
      Some st \<Rightarrow> Some st
    | None \<Rightarrow> map_option snd (find (\<lambda>(name, _). fold_name name = fold_name key) fs))"

fun decode_members :: "bool \<Rightarrow> 'p fields \<Rightarrow> (string \<times> json) list \<Rightarrow> 'p \<times> bool \<Rightarrow> 'p \<times> bool" where
  "decode_members strict fs [] acc = acc"
| "decode_members strict fs ((key, v) # ms) (p, ok) =
     decode_members strict fs ms
       (case struct_field fs key of
          None \<Rightarrow> (p, ok \<and> \<not> strict)
        | Some st \<Rightarrow> (case st p v of None \<Rightarrow> (p, False) | Some p' \<Rightarrow> (p', ok)))"

definition decode_struct :: "bool \<Rightarrow> 'p fields \<Rightarrow> 'p \<Rightarrow> json \<Rightarrow> 'p \<times> bool" where
  "decode_struct strict fs p v = (case v of
      JNull \<Rightarrow> (p, True)
    | JObject ms \<Rightarrow> decode_members strict fs ms (p, True)
    | _ \<Rightarrow> (p, False))"

definition int_field :: "(int \<Rightarrow> 'p \<Rightarrow> 'p) \<Rightarrow> 'p \<Rightarrow> json \<Rightarrow> 'p option" where
  "int_field upd p v = (case v of
      JNull \<Rightarrow> Some p
    | JNumber lit \<Rightarrow> map_option (\<lambda>n. upd n p) (strconv_ParseInt lit)
    | _ \<Rightarrow> None)"

definition string_field :: "(string \<Rightarrow> 'p \<Rightarrow> 'p) \<Rightarrow> 'p \<Rightarrow> json \<Rightarrow> 'p option" where
  "string_field upd p v = (case v of
      JNull \<Rightarrow> Some p
    | JString s \<Rightarrow> Some (upd s p)
    | _ \<Rightarrow> None)"

lemmas field_defs = int_field_def string_field_def

text \<open>\<^verbatim>\<open>json.Unmarshal(data, &p)\<close> for such a struct: the new value and whether it succeeded.\<close>

definition unmarshal_struct :: "'p fields \<Rightarrow> 'p \<Rightarrow> string \<Rightarrow> 'p \<times> bool" where
  "unmarshal_struct fs p s = (case json_Unmarshal s of
      None \<Rightarrow> (p, False)
    | Some v \<Rightarrow> decode_struct False fs p v)"

lemma decode_members_failed: "\<not> snd (decode_members strict fs ms (p, False))"
  by (induction ms arbitrary: p) (auto split: option.splits)

text \<open>What the strict decoder accepts, the lenient one decodes to the same struct.\<close>

lemma decode_members_lenient:
  "snd (decode_members True fs ms (p, ok)) \<Longrightarrow>
    decode_members False fs ms (p, ok) = decode_members True fs ms (p, ok)"
proof (induction ms arbitrary: p ok)
  case Nil
  then show ?case by simp
next
  case (Cons m ms)
  obtain key v where m: "m = (key, v)" by (cases m) auto
  show ?case
  proof (cases "struct_field fs key")
    case None
    with Cons.prems m show ?thesis by (simp add: decode_members_failed)
  next
    case (Some st)
    with Cons m show ?thesis by (auto split: option.splits simp: decode_members_failed)
  qed
qed

lemma decode_struct_lenient:
  "decode_struct True fs p v = (q, True) \<Longrightarrow> decode_struct False fs p v = (q, True)"
  by (auto simp: decode_struct_def decode_members_lenient split: json.splits)

section \<open>Raw member texts\<close>

text \<open>
  The members of an object with their decoded values and their raw texts. The fuel bounds the
  number of members; the object has been decoded as a whole before.
\<close>

fun raw_member_list :: "nat \<Rightarrow> string \<Rightarrow> (string \<times> json \<times> string) list" where
  "raw_member_list 0 s = []"
| "raw_member_list (Suc n) s = (case skip_ws s of [] \<Rightarrow> []
     | q # t \<Rightarrow> (case scan_string t of None \<Rightarrow> []
         | Some (k, t1) \<Rightarrow> (case skip_ws t1 of [] \<Rightarrow> []
            | col # t2 \<Rightarrow> (let u = skip_ws t2 in
               case parse_value (parse_fuel u) max_nesting_depth u of None \<Rightarrow> []
                | Some (v, t3) \<Rightarrow> (unquote k, v, take (length u - length t3) u) #
                   (case skip_ws t3 of [] \<Rightarrow> []
                    | c # cs \<Rightarrow> if c = CHR '','' then raw_member_list n cs else [])))))"

definition raw_members :: "string \<Rightarrow> (string \<times> json \<times> string) list" where
  "raw_members s = (case skip_ws s of [] \<Rightarrow> [] | _ # cs \<Rightarrow> raw_member_list (length s) cs)"

end
