(* ===== verification/Protocol.thy ===== *)
theory Protocol
  imports Json
begin

text \<open>
  The wire model of \<^verbatim>\<open>internal/protocol/types.go\<close>, the execution records of
  \<^verbatim>\<open>internal/jobs/types.go\<close> and protocol version compatibility. A Go struct is a record
  whose fields carry a short prefix (\<open>je_\<close> for \<^verbatim>\<open>JobEnvelope\<close>, \<open>jr_\<close> for
  \<^verbatim>\<open>JobResult\<close>, and so on) before the source's field name; a pointer field is an option;
  a Go \<^verbatim>\<open>error\<close> return is a \<open>goerror option\<close> with \<open>None\<close> for \<^verbatim>\<open>nil\<close>.
\<close>

section \<open>Errors\<close>

datatype FailureCode =
    FailureModuleUnavailable | FailureToolNotFound | FailureCapabilityMissing
  | FailureInvalidJob | FailureJobExpired | FailureTargetRejected | FailureTimeout
  | FailureProcessFailed | FailureOutputLimitExceeded | FailureArtifact | FailureCancelled
  | FailureProtocol | FailureSignature | FailureReplay | FailureInternal

text \<open>
  The errors the sources tell apart: a \<^verbatim>\<open>security.VerificationError\<close> with its code, a
  \<^verbatim>\<open>client.APIError\<close> with status, code, message and request identifier, the two context
  errors, and every other error by its text.
\<close>

datatype goerror =
    ErrorText string
  | VerificationError FailureCode string
  | APIError int string string string
  | DeadlineExceeded
  | Canceled

type_synonym 'a result = "goerror + 'a"

section \<open>Constants\<close>

definition Version :: string where "Version = ''1.0''"
definition ContractVersion :: string where "ContractVersion = ''1.0''"
definition CapabilitySchemaVersion :: string where "CapabilitySchemaVersion = ''1.0''"

type_synonym RiskClass = string

definition RiskPassive :: RiskClass where "RiskPassive = ''PASSIVE''"
definition RiskSafeActive :: RiskClass where "RiskSafeActive = ''SAFE_ACTIVE''"
definition RiskControlledActive :: RiskClass where "RiskControlledActive = ''CONTROLLED_ACTIVE''"

lemmas risk_defs = RiskPassive_def RiskSafeActive_def RiskControlledActive_def

datatype Status = StatusHealthy | StatusInformational | StatusAttention | StatusWarning
  | StatusCritical | StatusInconclusive

datatype Confidence = ConfidenceHigh | ConfidenceMedium | ConfidenceLow

text \<open>\<^verbatim>\<open>float64\<close>, as far as the sources inspect it: finite values are rationals.\<close>

datatype float64 = Finite rat | NaN | PosInf | NegInf

fun float_ge :: "float64 \<Rightarrow> rat \<Rightarrow> bool" where
  "float_ge (Finite x) q = (q \<le> x)"
| "float_ge NaN q = False"
| "float_ge PosInf q = True"
| "float_ge NegInf q = False"

section \<open>Enrollment, heartbeat and capabilities\<close>

record PublicIdentity =
  pi_CSRPEM :: string

record EnrollmentRequest =
  enr_ProtocolVersion :: string
  enr_EnrollmentToken :: string
  enr_AgentName :: string
  enr_Hostname :: string
  enr_OS :: string
  enr_Architecture :: string
  enr_AgentVersion :: string
  enr_PublicIdentity :: PublicIdentity
  enr_CapabilitiesSummary :: "string list"
  enr_Labels :: "(string \<times> string) list"
  enr_NetworkZone :: string

record ControlPlaneIdentity =
  cpi_CACertificatePEM :: string
  cpi_JobSigningKeyID :: string
  cpi_JobSigningAlgorithm :: string
  cpi_JobSigningPublicKey :: string
  cpi_JobSigningKeyFingerprint :: string
  cpi_JobSigningKeyIssuedAt :: time

record AgentCredential =
  cred_CertificatePEM :: string
  cred_ExpiresAt :: time

record EnrollmentResponse =
  ens_ProtocolVersion :: string
  ens_AgentID :: string
  ens_OrganizationID :: string
  ens_Status :: string
  ens_ControlPlaneIdentity :: ControlPlaneIdentity
  ens_AgentCredential :: AgentCredential
  ens_ServerTime :: time

record LastJobResult =
  ljr_JobID :: string
  ljr_Status :: string
  ljr_CompletedAt :: time

record Heartbeat =
  hb_ProtocolVersion :: string
  hb_AgentID :: string
  hb_AgentVersion :: string
  hb_ContractVersion :: string
  hb_CapabilitySchemaVersion :: string
  hb_Timestamp :: time
  hb_Hostname :: string
  hb_OS :: string
  hb_Architecture :: string
  hb_Status :: string
  hb_RunningJobs :: int
  hb_AvailableSlots :: int
  hb_CapabilitiesHash :: string
  hb_HealthSummary :: "(string \<times> json) list"
  hb_LastJobResult :: "LastJobResult option"

record HeartbeatResponse =
  hbr_Status :: string
  hbr_ProtocolVersion :: string
  hbr_CompatibilityStatus :: string
  hbr_ServerTime :: time

record ModuleCapability =
  mc_ModuleID :: string
  mc_CapabilityID :: string
  mc_Available :: bool
  mc_Implementation :: string
  mc_ModuleVersion :: string
  mc_RiskClasses :: "RiskClass list"

record ExternalTool =
  et_Name :: string
  et_Version :: string
  et_Available :: bool

record CapabilityManifest =
  cm_ProtocolVersion :: string
  cm_AgentID :: string
  cm_Platform :: string
  cm_Modules :: "ModuleCapability list"
  cm_ExternalTools :: "ExternalTool list"
  cm_NetworkCapabilities :: "string list"
  cm_ArtifactCapabilities :: "string list"

record CapabilityResponse =
  cr_CapabilitiesHash :: string

section \<open>Jobs, results and failures\<close>

record JobTarget =
  jt_Type :: string
  jt_Value :: string

record JobEnvelope =
  je_ProtocolVersion :: string
  je_JobID :: string
  je_OrganizationID :: string
  je_AgentID :: string
  je_ModuleID :: string
  je_ModuleVersionRequirement :: string
  je_ScopeID :: string
  je_ScopeEnvironment :: string
  je_AssetID :: "string option"
  je_ServiceID :: "string option"
  je_DiagnosticRunID :: "string option"
  je_VantagePointID :: "string option"
  je_Target :: JobTarget
  je_ValidatedParameters :: bytes
  je_RiskClass :: RiskClass
  je_AuthorizationReference :: string
  je_IssuedAt :: time
  je_ExpiresAt :: time
  je_TimeoutSeconds :: int
  je_Nonce :: string
  je_SigningKeyID :: string
  je_SignatureAlgorithm :: string
  je_Signature :: string

record Observation =
  ob_EvidenceID :: "string option"
  ob_AssetID :: "string option"
  ob_Category :: string
  ob_Status :: Status
  ob_Severity :: string
  ob_Confidence :: Confidence
  ob_Title :: string
  ob_Summary :: string
  ob_Meaning :: string
  ob_Impact :: string
  ob_SuggestedAction :: string
  ob_ObservedAt :: time

record Metric =
  me_Name :: string
  me_NumericValue :: "float64 option"
  me_TextValue :: string
  me_Status :: Status
  me_ObservedAt :: time

record EvidenceManifest =
  ev_EvidenceID :: string
  ev_ArtifactID :: "string option"
  ev_Source :: string
  ev_ContentType :: string
  ev_Summary :: string
  ev_StructuredData :: bytes
  ev_SHA256 :: string
  ev_SizeBytes :: int
  ev_ArtifactKind :: string

record JobResult =
  jr_ProtocolVersion :: string
  jr_ResultIdentity :: string
  jr_ResultVersion :: int
  jr_JobID :: string
  jr_AgentID :: string
  jr_ModuleID :: string
  jr_Status :: string
  jr_StartedAt :: time
  jr_CompletedAt :: time
  jr_Summary :: string
  jr_Observations :: "Observation list"
  jr_Metrics :: "Metric list"
  jr_Warnings :: "string list"
  jr_EvidenceManifest :: "EvidenceManifest list"
  jr_ToolVersion :: string
  jr_Truncated :: bool

record JobFailure =
  jf_ProtocolVersion :: string
  jf_JobID :: string
  jf_AgentID :: string
  jf_Code :: FailureCode
  jf_Summary :: string
  jf_OccurredAt :: time
  jf_Retryable :: bool

record JobCancellation =
  jc_ProtocolVersion :: string
  jc_JobID :: string
  jc_CancellationRequested :: bool
  jc_RequestedAt :: "time option"
  jc_JobStatus :: string

record EvidenceRequest =
  evr_ProtocolVersion :: string
  evr_JobID :: string
  evr_AgentID :: string
  evr_Evidence :: EvidenceManifest

record ArtifactManifest =
  am_ProtocolVersion :: string
  am_ArtifactID :: string
  am_OrganizationID :: string
  am_JobID :: "string option"
  am_Type :: string
  am_Direction :: string
  am_ContentType :: string
  am_OriginalName :: string
  am_SizeBytes :: int
  am_SHA256 :: string
  am_Status :: string
  am_CreatedAt :: time
  am_ExpiresAt :: "time option"
  am_UploadedByAgentID :: "string option"

record ArtifactAuthorization =
  aa_Token :: string
  aa_Purpose :: string
  aa_ExpiresInSeconds :: int

record ProtocolError =
  pe_Code :: string
  pe_Message :: string
  pe_RequestID :: string

section \<open>Internal execution records (\<^verbatim>\<open>internal/jobs\<close>)\<close>

text \<open>
  A Go map is an association list in the order in which one \<^verbatim>\<open>range\<close> over it visits the
  entries; the order is arbitrary.
\<close>

record ModuleObservation =
  mo_Kind :: string
  mo_Message :: string
  mo_Data :: "(string \<times> json) list"

record ModuleResult =
  mr_JobID :: string
  mr_ModuleID :: string
  mr_Status :: string
  mr_StartedAt :: time
  mr_CompletedAt :: time
  mr_Summary :: string
  mr_Observations :: "ModuleObservation list"
  mr_Metrics :: "(string \<times> float64) list"
  mr_Warnings :: "string list"
  mr_Truncated :: bool
  mr_ToolVersion :: string

text \<open>The zero value that Go returns beside an error.\<close>

definition zero_ModuleResult :: ModuleResult where
  "zero_ModuleResult = \<lparr>mr_JobID = [], mr_ModuleID = [], mr_Status = [], mr_StartedAt = 0,
     mr_CompletedAt = 0, mr_Summary = [], mr_Observations = [], mr_Metrics = [],
     mr_Warnings = [], mr_Truncated = False, mr_ToolVersion = []\<rparr>"

section \<open>Version compatibility\<close>

text \<open>\<open>None\<close> where the source's third result is false.\<close>

definition versionParts :: "string \<Rightarrow> (int \<times> int) option" where
  "versionParts v = (case split_on (CHR ''.'') v of
      [a, b] \<Rightarrow> (case (strconv_ParseInt a, strconv_ParseInt b) of
          (Some major, Some minor) \<Rightarrow> if 0 \<le> major \<and> 0 \<le> minor then Some (major, minor) else None
        | _ \<Rightarrow> None)
    | _ \<Rightarrow> None)"

definition Compatible :: "string \<Rightarrow> string \<Rightarrow> bool" where
  "Compatible loc remote = (case (versionParts loc, versionParts remote) of
      (Some (lMajor, _), Some (rMajor, _)) \<Rightarrow> lMajor = rMajor
    | _ \<Rightarrow> False)"

definition RequireCompatible :: "string \<Rightarrow> goerror option" where
  "RequireCompatible remote =
     (if \<not> Compatible Version remote
      then Some (ErrorText ''protocol is incompatible with agent protocol'') else None)"

lemma digits_no_dot: "list_all is_digit ds \<Longrightarrow> CHR ''.'' \<notin> set ds"
  by (auto simp: list_all_iff is_digit_def ccode_def)

lemma versionParts_decimal:
  assumes "int M \<le> int64_max" and "int m \<le> int64_max"
  shows "versionParts (show_nat M @ CHR ''.'' # show_nat m) = Some (int M, int m)"
  using assms show_nat_digits
  by (simp add: versionParts_def split_on_append split_on_none digits_no_dot strconv_ParseInt_show_nat)

lemma versionParts_own: "versionParts Version = Some (1, 0)"
proof -
  have "Version = show_nat 1 @ CHR ''.'' # show_nat 0"
    by code_simp
  then show ?thesis using versionParts_decimal [of 1 0] by simp
qed

lemma RequireCompatible_iff: "RequireCompatible v = None \<longleftrightarrow> (\<exists>minor. versionParts v = Some (1, minor))"
  by (auto simp: RequireCompatible_def Compatible_def versionParts_own split: option.splits)

lemma Compatible_sym: "Compatible a b = Compatible b a"
  by (auto simp: Compatible_def split: option.splits)

lemma Compatible_trans: "Compatible a b \<Longrightarrow> Compatible b c \<Longrightarrow> Compatible a c"
  by (auto simp: Compatible_def split: option.splits)

text \<open>
  For every pair of non-negative 64-bit numbers, the agent accepts the protocol version
  written from them exactly when the major number is its own, whatever the minor number is.
\<close>

theorem major_version_decides:
  assumes "int M \<le> int64_max" and "int m \<le> int64_max"
  shows "RequireCompatible (show_nat M @ CHR ''.'' # show_nat m) = None \<longleftrightarrow> M = 1"
  by (auto simp: RequireCompatible_iff versionParts_decimal [OF assms])

theorem major_version_decides_witness:
  "RequireCompatible (show_nat 1 @ CHR ''.'' # show_nat 7) = None
   \<and> RequireCompatible (show_nat 2 @ CHR ''.'' # show_nat 0) \<noteq> None"
  using major_version_decides [of 1 7] major_version_decides [of 2 0] by simp

end
