(* ===== verification/CanonicalJson.thy ===== *)
theory CanonicalJson
  imports Protocol
begin

text \<open>
  \<^verbatim>\<open>internal/canonicaljson\<close>: exactly one JSON value, numbers inside the interoperable
  range, then the RFC 8785 transformation. The transformation itself is third-party code
  (\<^verbatim>\<open>jsoncanonicalizer.Transform\<close>) and enters as the argument \<open>jcs_Transform\<close>. The file also
  holds what \<^verbatim>\<open>json.Marshal\<close> does for the payload map that is signed: strings, raw
  messages and objects with sorted keys.
\<close>

section \<open>Numbers\<close>

text \<open>
  The exact value of a JSON number literal. \<^verbatim>\<open>strconv.ParseFloat\<close> rounds it to the nearest
  \<^verbatim>\<open>float64\<close>, ties to even: the result overflows from halfway above the greatest finite
  value on, and is zero up to half of the least positive value. (Go reads at most about five
  digits of an exponent; literals with longer exponents are outside the exactness of this
  model.)
\<close>

definition mantissa_part :: "string \<Rightarrow> string" where
  "mantissa_part lit = takeWhile (\<lambda>c. c \<noteq> CHR ''e'' \<and> c \<noteq> CHR ''E'') lit"

definition exponent_part :: "string \<Rightarrow> string" where
  "exponent_part lit = drop (Suc (length (mantissa_part lit))) lit"

definition scan_int :: "string \<Rightarrow> int" where
  "scan_int s = (let (neg, ds) = split_sign s; n = int (dec_value ds) in if neg then - n else n)"

definition fraction_digits :: "string \<Rightarrow> nat" where
  "fraction_digits lit = length (drop 1 (dropWhile (\<lambda>c. c \<noteq> CHR ''.'') (mantissa_part lit)))"

definition pow10 :: "int \<Rightarrow> rat" where
  "pow10 e = (if 0 \<le> e then 10 ^ nat e else 1 / 10 ^ nat (- e))"

definition literal_value :: "string \<Rightarrow> rat" where
  "literal_value lit =
     (let m = of_nat (dec_value (filter is_digit (mantissa_part lit)));
          e = scan_int (exponent_part lit) - int (fraction_digits lit)
      in (if take 1 lit = ''-'' then - m else m) * pow10 e)"

definition float64_overflow :: "rat \<Rightarrow> bool" where
  "float64_overflow x \<longleftrightarrow> 2 ^ 1024 - 2 ^ 970 \<le> \<bar>x\<bar>"

definition float64_zero :: "rat \<Rightarrow> bool" where
  "float64_zero x \<longleftrightarrow> \<bar>x\<bar> \<le> 1 / 2 ^ 1075"

definition containsNonZeroDigitBeforeExponent :: "string \<Rightarrow> bool" where
  "containsNonZeroDigitBeforeExponent number =
     contains_any (hd (split_on (CHR ''E'') (hd (split_on (CHR ''e'') number)))) ''123456789''"

definition validateNumber :: "string \<Rightarrow> goerror option" where
  "validateNumber lit =
     (if \<not> contains_any lit ''.eE''
         \<and> (case strconv_ParseInt lit of None \<Rightarrow> True
            | Some n \<Rightarrow> n < -9007199254740991 \<or> 9007199254740991 < n)
      then Some (ErrorText ''JSON integer exceeds the I-JSON interoperable range'')
      else if float64_overflow (literal_value lit)
      then Some (ErrorText ''JSON number is outside the finite IEEE-754 range'')
      else if float64_zero (literal_value lit) \<and> containsNonZeroDigitBeforeExponent lit
      then Some (ErrorText ''JSON number underflows IEEE-754'')
      else None)"

text \<open>
  Decoding an object into a Go map keeps the last of several members with one name; a
  \<^verbatim>\<open>range\<close> visits what is left in an arbitrary order, and the first error ends the loop.
\<close>

definition go_map :: "(string \<times> 'v) list \<Rightarrow> (string \<times> 'v) list" where
  "go_map ms = AList.clearjunk (rev ms)"

fun first_error :: "goerror option list \<Rightarrow> goerror option" where
  "first_error [] = None"
| "first_error (None # xs) = first_error xs"
| "first_error (Some e # xs) = Some e"

lemma first_error_None_iff: "first_error xs = None \<longleftrightarrow> (\<forall>x\<in>set xs. x = None)"
  by (induction xs rule: first_error.induct) auto

lemma set_go_map: "set (go_map ms) \<subseteq> set ms"
proof (rule subrelI)
  fix k v
  assume "(k, v) \<in> set (go_map ms)"
  then have "map_of (AList.clearjunk (rev ms)) k = Some v"
    by (simp add: go_map_def distinct_clearjunk)
  then have "map_of (rev ms) k = Some v"
    by (simp add: map_of_clearjunk)
  then show "(k, v) \<in> set ms"
    by (auto dest: map_of_SomeD)
qed

lemma go_map_size:
  "(k, v) \<in> set (go_map ms) \<Longrightarrow> size v < Suc (size_list (size_prod (\<lambda>_. 0) size) ms)"
proof -
  assume "(k, v) \<in> set (go_map ms)"
  then have "(k, v) \<in> set ms" using set_go_map by blast
  then show ?thesis by (induction ms) auto
qed

function validateNumbers :: "json \<Rightarrow> goerror option" where
  "validateNumbers JNull = None"
| "validateNumbers (JBool b) = None"
| "validateNumbers (JNumber lit) = validateNumber lit"
| "validateNumbers (JString s) = None"
| "validateNumbers (JArray vs) = first_error (map validateNumbers vs)"
| "validateNumbers (JObject ms) = first_error (map (\<lambda>(_, v). validateNumbers v) (go_map ms))"
  by pat_completeness auto
termination
  by (relation "measure size") (auto simp: less_Suc_eq_le size_list_estimation' dest: go_map_size)

text \<open>The numbers a decoded value holds, as a Go program sees it.\<close>

inductive holds_number :: "json \<Rightarrow> string \<Rightarrow> bool" where
  itself: "holds_number (JNumber lit) lit"
| element: "v \<in> set vs \<Longrightarrow> holds_number v lit \<Longrightarrow> holds_number (JArray vs) lit"
| member: "(k, v) \<in> set (go_map ms) \<Longrightarrow> holds_number v lit \<Longrightarrow> holds_number (JObject ms) lit"

inductive_simps holds_number_simps:
  "holds_number JNull lit" "holds_number (JBool b) lit" "holds_number (JNumber l) lit"
  "holds_number (JString s) lit" "holds_number (JArray vs) lit" "holds_number (JObject ms) lit"

section \<open>Canonicalization\<close>

type_synonym transformer = "bytes \<Rightarrow> bytes result"

definition ensureEOF :: "string \<Rightarrow> goerror option" where
  "ensureEOF rest = (case json_Decode rest of
      DecEOF \<Rightarrow> None
    | DecValue _ _ \<Rightarrow> Some (ErrorText ''JSON contains more than one value'')
    | DecError \<Rightarrow> Some (ErrorText ''decode trailing JSON''))"

definition Canonicalize :: "transformer \<Rightarrow> bytes \<Rightarrow> bytes result" where
  "Canonicalize jcs_Transform raw = (case json_Decode raw of
      DecValue v rest \<Rightarrow>
        (case ensureEOF rest of Some err \<Rightarrow> Inl err
         | None \<Rightarrow> (case validateNumbers v of Some err \<Rightarrow> Inl err
            | None \<Rightarrow> (case jcs_Transform raw of
                 Inl err \<Rightarrow> Inl (ErrorText ''canonicalize JSON'')
               | Inr canonical \<Rightarrow> Inr canonical)))
    | _ \<Rightarrow> Inl (ErrorText ''decode JSON''))"

text \<open>\<^verbatim>\<open>Marshal\<close> of a value, given what \<^verbatim>\<open>json.Marshal\<close> returns for it.\<close>

definition Marshal :: "transformer \<Rightarrow> bytes result \<Rightarrow> bytes result" where
  "Marshal jcs_Transform encoded = (case encoded of
      Inl err \<Rightarrow> Inl (ErrorText ''encode JSON'')
    | Inr raw \<Rightarrow> Canonicalize jcs_Transform raw)"

section \<open>\<^verbatim>\<open>json.Marshal\<close> for the signed payload\<close>

definition hex_escape :: "char \<Rightarrow> string" where
  "hex_escape c = CHR 0x5C # ''u00'' @ hex_byte c"

definition quote_byte :: "char \<Rightarrow> string" where
  "quote_byte c =
     (if c = CHR 0x22 \<or> c = CHR 0x5C then [CHR 0x5C, c]
      else if c = CHR 0x08 then [CHR 0x5C, CHR ''b''] else if c = CHR 0x0C then [CHR 0x5C, CHR ''f'']
      else if c = CHR 0x0A then [CHR 0x5C, CHR ''n''] else if c = CHR 0x0D then [CHR 0x5C, CHR ''r'']
      else if c = CHR 0x09 then [CHR 0x5C, CHR ''t'']
      else if ccode c < 32 \<or> c = CHR ''<'' \<or> c = CHR ''>'' \<or> c = CHR ''&'' then hex_escape c
      else [c])"

fun quote_body :: "string \<Rightarrow> string" where
  "quote_body [] = []"
| "quote_body (c # cs) =
     (if ccode c < 128 then quote_byte c @ quote_body cs
      else let w = rune_width (c # cs) in
        if w = 0 then CHR 0x5C # ''ufffd'' @ quote_body cs
        else (if take 3 (c # cs) = [CHR 0xE2, CHR 0x80, CHR 0xA8] then CHR 0x5C # ''u2028''
              else if take 3 (c # cs) = [CHR 0xE2, CHR 0x80, CHR 0xA9] then CHR 0x5C # ''u2029''
              else take w (c # cs)) @ quote_body (drop (w - 1) cs))"

definition marshal_string :: "string \<Rightarrow> string" where
  "marshal_string s = CHR 0x22 # quote_body s @ [CHR 0x22]"

text \<open>
  A \<^verbatim>\<open>json.RawMessage\<close> is checked for syntax, compacted (white space outside of strings is
  dropped) and escaped for HTML.
\<close>

fun compact :: "bool \<Rightarrow> string \<Rightarrow> string" where
  "compact instr [] = []"
| "compact instr (c # cs) =
     (if c = CHR ''<'' \<or> c = CHR ''>'' \<or> c = CHR ''&'' then hex_escape c @ compact instr cs
      else if take 3 (c # cs) = [CHR 0xE2, CHR 0x80, CHR 0xA8] then CHR 0x5C # ''u2028'' @ compact instr (drop 2 cs)
      else if take 3 (c # cs) = [CHR 0xE2, CHR 0x80, CHR 0xA9] then CHR 0x5C # ''u2029'' @ compact instr (drop 2 cs)
      else if instr then
        (if c = CHR 0x5C then c # take 1 cs @ compact True (drop 1 cs)
         else c # compact (c \<noteq> CHR 0x22) cs)
      else if is_ws c then compact False cs
      else c # compact (c = CHR 0x22) cs)"

definition marshal_raw :: "bytes \<Rightarrow> string result" where
  "marshal_raw raw = (case json_Unmarshal raw of
      None \<Rightarrow> Inl (ErrorText ''encode JSON'')
    | Some _ \<Rightarrow> Inr (compact False raw))"

fun join_with :: "string \<Rightarrow> string list \<Rightarrow> string" where
  "join_with sep [] = []"
| "join_with sep [x] = x"
| "join_with sep (x # xs) = x @ sep @ join_with sep xs"

text \<open>Members are given as name and marshalled value; a Go map is written in the order of its names.\<close>

definition marshal_object :: "(string \<times> string) list \<Rightarrow> string" where
  "marshal_object ms = CHR 0x7B # join_with '',''
     (map (\<lambda>(k, v). marshal_string k @ '':'' @ v) (sort_key fst ms)) @ [CHR 0x7D]"

lemma validateNumbers_None_iff:
  "validateNumbers v = None \<longleftrightarrow> (\<forall>lit. holds_number v lit \<longrightarrow> validateNumber lit = None)"
proof (induction v rule: validateNumbers.induct)
  case (5 vs)
  then show ?case by (auto simp: first_error_None_iff holds_number_simps)
next
  case (6 ms)
  have "validateNumbers (JObject ms) = None \<longleftrightarrow> (\<forall>(k, v)\<in>set (go_map ms). validateNumbers v = None)"
    by (auto simp: first_error_None_iff)
  also have "\<dots> \<longleftrightarrow> (\<forall>(k, v)\<in>set (go_map ms). \<forall>lit. holds_number v lit \<longrightarrow> validateNumber lit = None)"
    using "6" by (auto simp: split_beta)
  finally show ?case by (auto simp: holds_number_simps)
qed (simp_all add: holds_number_simps)

text \<open>
  C26: canonicalization returns bytes only for an input that is exactly one JSON value whose
  numbers are all finite, do not silently become zero, and, where they are written as
  integers, lie within the interoperable range of plus or minus 2 to the 53 less 1. The bytes
  are those of the transformation.
\<close>

theorem Canonicalize_accepts_only_safe_numbers:
  assumes "Canonicalize jcs_Transform raw = Inr canonical"
  shows "\<exists>v. json_Unmarshal raw = Some v \<and> jcs_Transform raw = Inr canonical
    \<and> (\<forall>lit. holds_number v lit \<longrightarrow>
         \<not> float64_overflow (literal_value lit)
         \<and> (containsNonZeroDigitBeforeExponent lit \<longrightarrow> \<not> float64_zero (literal_value lit))
         \<and> (\<not> contains_any lit ''.eE'' \<longrightarrow>
              (\<exists>n. strconv_ParseInt lit = Some n \<and> \<bar>n\<bar> \<le> 2 ^ 53 - 1)))"
proof -
  from assms obtain v rest where dec: "json_Decode raw = DecValue v rest"
    and eof: "ensureEOF rest = None" and num: "validateNumbers v = None"
    and canon: "jcs_Transform raw = Inr canonical"
    by (auto simp: Canonicalize_def split: decode_result.splits option.splits sum.splits)
  from eof have "skip_ws rest = []"
    by (auto simp: ensureEOF_def json_Decode_def split: decode_result.splits if_splits option.splits)
  with dec have "json_Unmarshal raw = Some v" by (simp add: json_Unmarshal_def)
  moreover have "\<not> float64_overflow (literal_value lit)
       \<and> (containsNonZeroDigitBeforeExponent lit \<longrightarrow> \<not> float64_zero (literal_value lit))
       \<and> (\<not> contains_any lit ''.eE'' \<longrightarrow> (\<exists>n. strconv_ParseInt lit = Some n \<and> \<bar>n\<bar> \<le> 2 ^ 53 - 1))"
    if "holds_number v lit" for lit
  proof -
    have ok: "validateNumber lit = None" using num that by (simp add: validateNumbers_None_iff)
    then have "\<not> float64_overflow (literal_value lit)"
      by (auto simp: validateNumber_def split: if_splits)
    moreover from ok have "containsNonZeroDigitBeforeExponent lit \<longrightarrow> \<not> float64_zero (literal_value lit)"
      by (auto simp: validateNumber_def split: if_splits)
    moreover have "\<exists>n. strconv_ParseInt lit = Some n \<and> \<bar>n\<bar> \<le> 2 ^ 53 - 1"
      if "\<not> contains_any lit ''.eE''"
      using ok that by (auto simp: validateNumber_def abs_le_iff split: if_splits option.splits)
    ultimately show ?thesis by blast
  qed
  ultimately show ?thesis using canon by blast
qed

lemmas literal_defs = literal_value_def mantissa_part_def exponent_part_def fraction_digits_def
  scan_int_def split_sign_def dec_value_def is_digit_def ccode_def digit_value_def pow10_def
  strconv_ParseInt_def contains_any_def

lemma sample_number_ok: "validateNumber ''1.25'' = None" "validateNumber ''7'' = None"
  by (simp_all add: validateNumber_def literal_defs float64_overflow_def float64_zero_def)

theorem Canonicalize_accepts_only_safe_numbers_witness:
  "Canonicalize Inr ''[1.25, 7]'' = Inr ''[1.25, 7]''
   \<and> (\<exists>v. json_Unmarshal ''[1.25, 7]'' = Some v
        \<and> (\<forall>lit. holds_number v lit \<longrightarrow> \<not> float64_overflow (literal_value lit)))
   \<and> validateNumber ''9007199254740993'' \<noteq> None"
proof (intro conjI)
  have "json_Decode ''[1.25, 7]'' = DecValue (JArray [JNumber ''1.25'', JNumber ''7'']) []"
    by code_simp
  moreover have "ensureEOF [] = None" by code_simp
  ultimately show ok: "Canonicalize Inr ''[1.25, 7]'' = Inr ''[1.25, 7]''"
    by (simp add: Canonicalize_def sample_number_ok)
  show "\<exists>v. json_Unmarshal ''[1.25, 7]'' = Some v
        \<and> (\<forall>lit. holds_number v lit \<longrightarrow> \<not> float64_overflow (literal_value lit))"
    using Canonicalize_accepts_only_safe_numbers [OF ok] by blast
  show "validateNumber ''9007199254740993'' \<noteq> None"
    by (simp add: validateNumber_def literal_defs)
qed

end
