(* ===== verification/Target.thy ===== *)
theory Target
  imports Protocol
begin

text \<open>
  \<^verbatim>\<open>internal/security/target.go\<close>: host and target validation, on top of the address
  parsers of package \<^verbatim>\<open>net\<close>. The URL parser of package \<^verbatim>\<open>net/url\<close> is the argument
  \<open>url_Parse\<close> of the operations that call it; the record \<open>URL\<close> holds what the sources
  read of its result.
\<close>

section \<open>IP addresses (\<^verbatim>\<open>net.ParseIP\<close>, \<^verbatim>\<open>net.ParseCIDR\<close>)\<close>

definition parse_octet :: "string \<Rightarrow> nat option" where
  "parse_octet p =
     (if p \<noteq> [] \<and> list_all is_digit p \<and> (length p = 1 \<or> hd p \<noteq> CHR ''0'') \<and> dec_value p \<le> 255
      then Some (dec_value p) else None)"

definition parseIPv4 :: "string \<Rightarrow> nat list option" where
  "parseIPv4 s = (case split_on (CHR ''.'') s of
      [a, b, c, d] \<Rightarrow> (case (parse_octet a, parse_octet b, parse_octet c, parse_octet d) of
          (Some w, Some x, Some y, Some z) \<Rightarrow> Some [w, x, y, z]
        | _ \<Rightarrow> None)
    | _ \<Rightarrow> None)"

text \<open>
  The loop of \<^verbatim>\<open>netip.parseIPv6\<close>: the bytes so far, the position of the ellipsis and the
  rest of the text.
\<close>

function v6_groups :: "nat list \<Rightarrow> nat option \<Rightarrow> string \<Rightarrow> (nat list \<times> nat option \<times> string) option" where
  "v6_groups ip ell s =
     (if 16 \<le> length ip then Some (ip, ell, s)
      else let ds = takeWhile is_hex s; off = length ds; r = dropWhile is_hex s in
        if 4 < off \<or> off = 0 then None
        else if take 1 r = [CHR ''.''] then
          (if ell = None \<and> length ip \<noteq> 12 then None
           else if 16 < length ip + 4 then None
           else (case parseIPv4 s of None \<Rightarrow> None | Some q \<Rightarrow> Some (ip @ q, ell, [])))
        else let v = foldl (\<lambda>a c. 16 * a + hex_value c) 0 ds; ip' = ip @ [v div 256, v mod 256] in
          case r of [] \<Rightarrow> Some (ip', ell, [])
          | c # r1 \<Rightarrow>
             if c \<noteq> CHR '':'' \<or> r1 = [] then None
             else if hd r1 = CHR '':'' then
               (if ell \<noteq> None then None
                else if tl r1 = [] then Some (ip', Some (length ip'), [])
                else v6_groups ip' (Some (length ip')) (tl r1))
             else v6_groups ip' ell r1)"
  by pat_completeness auto
termination
  by (relation "measure (\<lambda>(ip, _, _). 16 - length ip)") (auto simp: Let_def)

declare v6_groups.simps [simp del]

definition parseIPv6 :: "string \<Rightarrow> nat list option" where
  "parseIPv6 s =
     (if CHR ''%'' \<in> set s then None
      else if s = [CHR '':'', CHR '':''] then Some (replicate 16 0)
      else (case (if take 2 s = [CHR '':'', CHR '':''] then v6_groups [] (Some 0) (drop 2 s)
                  else v6_groups [] None s) of
          None \<Rightarrow> None
        | Some (ip, ell, rest) \<Rightarrow>
            if rest \<noteq> [] then None
            else if length ip < 16 then
              (case ell of None \<Rightarrow> None
               | Some e \<Rightarrow> Some (take e ip @ replicate (16 - length ip) 0 @ drop e ip))
            else (case ell of None \<Rightarrow> Some ip | Some _ \<Rightarrow> None)))"

text \<open>
  \<^verbatim>\<open>netip.ParseAddr\<close> of an address without zone: whether it is an IPv4 address, and its
  bytes. The first of the characters dot, colon and percent decides.
\<close>

definition netip_ParseAddr :: "string \<Rightarrow> (bool \<times> nat list) option" where
  "netip_ParseAddr s = (case find (\<lambda>c. c = CHR ''.'' \<or> c = CHR '':'' \<or> c = CHR ''%'') s of
      None \<Rightarrow> None
    | Some c \<Rightarrow>
        if c = CHR ''.'' then map_option (Pair True) (parseIPv4 s)
        else if c = CHR '':'' then map_option (Pair False) (parseIPv6 s)
        else None)"

text \<open>\<^verbatim>\<open>net.ParseIP\<close>: the 16-byte form, or \<^verbatim>\<open>nil\<close>.\<close>

definition net_ParseIP :: "string \<Rightarrow> nat list option" where
  "net_ParseIP s = (case netip_ParseAddr s of
      None \<Rightarrow> None
    | Some (v4, ip) \<Rightarrow> Some (if v4 then replicate 10 0 @ [255, 255] @ ip else ip))"

text \<open>\<^verbatim>\<open>net.ParseCIDR\<close>: the address and the pair \<^verbatim>\<open>Mask.Size()\<close>.\<close>

definition net_ParseCIDR :: "string \<Rightarrow> (nat list \<times> nat \<times> nat) option" where
  "net_ParseCIDR s =
     (if CHR ''/'' \<notin> set s then None
      else let addr = takeWhile (\<lambda>c. c \<noteq> CHR ''/'') s;
               mask = drop (Suc (length addr)) s in
        case netip_ParseAddr addr of None \<Rightarrow> None
        | Some (v4, ip) \<Rightarrow>
            let bits = (if v4 then 32 else 128) in
            if mask \<noteq> [] \<and> list_all is_digit mask \<and> dec_value mask \<le> bits
            then Some (ip, dec_value mask, bits) else None)"

section \<open>Host names\<close>

text \<open>
  The pattern \<^verbatim>\<open>hostname\<close>. Go's case-insensitive classes also contain the runes that fold
  to a letter of the class: U+017F (folds to s) and U+212A (folds to k).
\<close>

definition fold_pattern_runes :: "string \<Rightarrow> string" where
  "fold_pattern_runes = rewrite_runes
     [([CHR 0xC5, CHR 0xBF], CHR ''s''), ([CHR 0xE2, CHR 0x84, CHR 0xAA], CHR ''k'')] id"

definition host_label :: "string \<Rightarrow> bool" where
  "host_label l \<longleftrightarrow> l \<noteq> [] \<and> length l \<le> 63 \<and> is_alnum (hd l) \<and> is_alnum (last l)
     \<and> list_all (\<lambda>c. is_alnum c \<or> c = CHR ''-'') l"

definition hostname :: "string \<Rightarrow> bool" where
  "hostname s = (let t = fold_pattern_runes s;
       u = (if t \<noteq> [] \<and> last t = CHR ''.'' then butlast t else t)
     in list_all host_label (split_on (CHR ''.'') u))"

definition ValidateHost :: "string \<Rightarrow> goerror option" where
  "ValidateHost v =
     (if v = [] \<or> 253 < length v \<or> prefix ''-'' v
         \<or> contains_any v [CHR ''/'', CHR 0x5C, CHR 0x00, CHR 0x0D, CHR 0x0A, CHR '' '', CHR 0x09]
      then Some (ErrorText ''invalid host'')
      else if net_ParseIP (strings_Trim v ''[]'') \<noteq> None then None
      else if \<not> hostname v then Some (ErrorText ''invalid hostname'')
      else None)"

section \<open>Targets\<close>

record URL =
  url_Scheme :: string
  url_Host :: string
  url_Hostname :: string
  url_HasUser :: bool
  url_Fragment :: string

type_synonym url_parser = "string \<Rightarrow> URL option"

definition ValidateTarget :: "url_parser \<Rightarrow> JobTarget \<Rightarrow> goerror option" where
  "ValidateTarget url_Parse target =
     (let v = jt_Value target; ty = jt_Type target in
      if v = [] \<or> 2048 < length v \<or> contains_any v [CHR 0x00, CHR 0x0D, CHR 0x0A]
      then Some (ErrorText ''target value is invalid'')
      else if ty = ''HOSTNAME'' then
        (if net_ParseIP (strings_Trim v ''[]'') \<noteq> None
         then Some (ErrorText ''HOSTNAME target contains an IP address'')
         else ValidateHost v)
      else if ty = ''IP'' then
        (if net_ParseIP (strings_Trim v ''[]'') = None
         then Some (ErrorText ''IP target is invalid'') else None)
      else if ty = ''CIDR'' then
        (if net_ParseCIDR v = None then Some (ErrorText ''invalid CIDR address'') else None)
      else if ty = ''URL'' then
        (case url_Parse v of
           None \<Rightarrow> Some (ErrorText ''URL target must be an absolute HTTP(S) URL without credentials or fragment'')
         | Some u \<Rightarrow>
            if (url_Scheme u \<noteq> ''http'' \<and> url_Scheme u \<noteq> ''https'') \<or> url_Host u = []
               \<or> url_HasUser u \<or> url_Fragment u \<noteq> []
            then Some (ErrorText ''URL target must be an absolute HTTP(S) URL without credentials or fragment'')
            else None)
      else Some (ErrorText ''target type is unsupported''))"

definition Host :: "url_parser \<Rightarrow> JobTarget \<Rightarrow> string \<times> goerror option" where
  "Host url_Parse target =
     (let ty = jt_Type target in
      if ty = ''HOSTNAME'' \<or> ty = ''IP'' then
        (strings_Trim (jt_Value target) ''[]'', ValidateTarget url_Parse target)
      else if ty = ''URL'' then
        (case ValidateTarget url_Parse target of
           Some err \<Rightarrow> ([], Some err)
         | None \<Rightarrow> (case url_Parse (jt_Value target) of
              Some u \<Rightarrow> (url_Hostname u, None)
            | None \<Rightarrow> ([], None)))
      else ([], Some (ErrorText ''module requires a host target'')))"

section \<open>Characters of addresses and host names\<close>

definition ip_char :: "char \<Rightarrow> bool" where
  "ip_char c \<longleftrightarrow> is_hex c \<or> c = CHR '':'' \<or> c = CHR ''.''"

definition host_char :: "char \<Rightarrow> bool" where
  "host_char c \<longleftrightarrow> is_alnum c \<or> c = CHR ''-'' \<or> c = CHR ''.'' \<or> c = CHR '':''
     \<or> c \<in> {CHR 0xC5, CHR 0xBF, CHR 0xE2, CHR 0x84, CHR 0xAA}"

text \<open>
  A string that is safe as an operand on a command line: not empty, not starting with a
  hyphen (so never an option), and made of host characters only (no white space, control
  character, separator or shell metacharacter).
\<close>

definition safe_operand :: "string \<Rightarrow> bool" where
  "safe_operand s \<longleftrightarrow> s \<noteq> [] \<and> hd s \<noteq> CHR ''-'' \<and> list_all host_char s"

lemma hex_is_alnum: "is_hex c \<Longrightarrow> is_alnum c"
  by (auto simp: is_hex_def is_hex_lower_def is_alnum_def is_lower_def is_upper_def)

lemma digit_is_hex: "is_digit c \<Longrightarrow> is_hex c"
  by (simp add: is_hex_def is_hex_lower_def)

lemma parse_octet_digits: "parse_octet p = Some n \<Longrightarrow> list_all is_digit p \<and> n \<le> 255"
  by (auto simp: parse_octet_def split: if_splits)

lemma split_on_set: "x \<in> set s \<Longrightarrow> x = c \<or> (\<exists>w\<in>set (split_on c s). x \<in> set w)"
  by (induction s) (fastforce split: list.splits if_splits)+

lemma parseIPv4_SomeD:
  assumes "parseIPv4 s = Some q"
  shows "length q = 4 \<and> (\<forall>x\<in>set q. x \<le> 255) \<and> list_all ip_char s"
proof -
  from assms obtain a b c d w x y z where parts: "split_on (CHR ''.'') s = [a, b, c, d]"
    and oct: "parse_octet a = Some w" "parse_octet b = Some x" "parse_octet c = Some y" "parse_octet d = Some z"
    and q: "q = [w, x, y, z]"
    by (auto simp: parseIPv4_def split: list.splits option.splits)
  have "ip_char e" if "e \<in> set s" for e
    using split_on_set [OF that, of "CHR ''.''"] parts oct [THEN parse_octet_digits]
    by (auto simp: ip_char_def list_all_iff digit_is_hex)
  with q oct [THEN parse_octet_digits] show ?thesis by (auto simp: list_all_iff)
qed

lemma takeWhile_dropWhile_all:
  "list_all P (takeWhile Q s) \<Longrightarrow> list_all P (dropWhile Q s) \<Longrightarrow> list_all P s"
  by (metis list_all_append takeWhile_dropWhile_id)

lemma v6_groups_chars:
  assumes "v6_groups ip ell s = Some (ip', ell', rest)" and "list_all ip_char rest"
  shows "list_all ip_char s"
  using assms
proof (induction ip ell s rule: v6_groups.induct)
  case (1 ip ell s)
  show ?case
  proof (cases "16 \<le> length ip")
    case True
    with "1.prems" show ?thesis by (simp add: v6_groups.simps [of ip])
  next
    case False
    define ds where "ds = takeWhile is_hex s"
    define r where "r = dropWhile is_hex s"
    have ds: "list_all ip_char ds"
      by (auto simp: ds_def list_all_iff ip_char_def dest: set_takeWhileD)
    have s: "list_all ip_char s" if "list_all ip_char r"
      using takeWhile_dropWhile_all [of ip_char is_hex s] ds that by (simp add: ds_def r_def)
    note eq = "1.prems"(1) [unfolded v6_groups.simps [of ip ell s] Let_def, folded ds_def r_def]
    have off: "\<not> (4 < length ds \<or> length ds = 0)" using eq False by (auto split: if_splits)
    show ?thesis
    proof (cases "take 1 r = [CHR ''.'']")
      case True
      with eq False off obtain q where "parseIPv4 s = Some q" by (auto split: if_splits option.splits)
      then show ?thesis by (simp add: parseIPv4_SomeD)
    next
      case dot: False
      show ?thesis
      proof (cases r)
        case Nil
        then show ?thesis by (simp add: s)
      next
        case (Cons c r1)
        with eq False off dot have c: "c = CHR '':''" "r1 \<noteq> []" by (auto split: if_splits)
        have "list_all ip_char r1"
        proof (cases "hd r1 = CHR '':''")
          case True
          with eq False off dot Cons c have "tl r1 = [] \<or> list_all ip_char (tl r1)"
            using "1.IH"(1) [OF False ds_def _ r_def] "1.prems"(2) by (fastforce split: if_splits)
          with True c show ?thesis by (cases r1) (auto simp: ip_char_def)
        next
          case no: False
          with eq False off dot Cons c show ?thesis
            using "1.IH"(2) [OF False ds_def _ r_def] "1.prems"(2) by (fastforce split: if_splits)
        qed
        moreover have "ip_char (CHR '':'')" by (simp add: ip_char_def)
        ultimately show ?thesis using Cons c by (simp add: s)
      qed
    qed
  qed
qed

lemma parseIPv6_chars: "parseIPv6 s = Some ip \<Longrightarrow> list_all ip_char s"
proof -
  assume ip: "parseIPv6 s = Some ip"
  have colon: "ip_char (CHR '':'')" by (simp add: ip_char_def)
  show ?thesis
  proof (cases "take 2 s = [CHR '':'', CHR '':'']")
    case True
    then have s: "s = [CHR '':'', CHR '':''] @ drop 2 s" by (metis append_take_drop_id)
    have "list_all ip_char (drop 2 s)"
    proof (cases "drop 2 s = []")
      case False
      with ip True s obtain g where "v6_groups [] (Some 0) (drop 2 s) = Some (g)" and "snd (snd g) = []"
        by (auto simp: parseIPv6_def split: if_splits option.splits)
      then show ?thesis using v6_groups_chars by (cases g) force
    qed simp
    then show ?thesis by (subst s) (simp add: colon)
  next
    case False
    then have "s \<noteq> [CHR '':'', CHR '':'']" by auto
    with ip False obtain g where "v6_groups [] None s = Some g" and "snd (snd g) = []"
      by (auto simp: parseIPv6_def split: if_splits option.splits)
    then show ?thesis using v6_groups_chars by (cases g) force
  qed
qed

lemma netip_ParseAddr_chars: "netip_ParseAddr s = Some a \<Longrightarrow> s \<noteq> [] \<and> list_all ip_char s"
  by (cases "s = []")
    (auto simp: netip_ParseAddr_def parseIPv4_SomeD parseIPv6_chars split: option.splits if_splits)

lemma net_ParseIP_chars: "net_ParseIP s \<noteq> None \<Longrightarrow> s \<noteq> [] \<and> list_all ip_char s"
  by (auto simp: net_ParseIP_def dest: netip_ParseAddr_chars split: option.splits)

lemma ip_char_host_char: "ip_char c \<Longrightarrow> host_char c \<and> c \<noteq> CHR ''-''"
proof -
  assume ip: "ip_char c"
  have "\<not> ip_char (CHR ''-'')"
    by (simp add: ip_char_def is_hex_def is_hex_lower_def is_digit_def ccode_def)
  with ip show ?thesis by (auto simp: ip_char_def host_char_def hex_is_alnum)
qed

lemma ip_safe_operand: "s \<noteq> [] \<Longrightarrow> list_all ip_char s \<Longrightarrow> safe_operand s"
  using ip_char_host_char by (cases s) (auto simp: safe_operand_def list_all_iff)

lemma fold_pattern_runes_chars:
  "list_all (\<lambda>c. is_alnum c \<or> c = CHR ''-'' \<or> c = CHR ''.'') (fold_pattern_runes s)
    \<Longrightarrow> list_all host_char s"
proof (unfold fold_pattern_runes_def, induction s rule: length_induct)
  case (1 s)
  let ?tab = "[([CHR 0xC5, CHR 0xBF], CHR ''s''), ([CHR 0xE2, CHR 0x84, CHR 0xAA], CHR ''k'')]"
  show ?case
  proof (cases s)
    case Nil
    then show ?thesis by simp
  next
    case (Cons c cs)
    consider (two) t where "s = CHR 0xC5 # CHR 0xBF # t"
      | (three) t where "s = CHR 0xE2 # CHR 0x84 # CHR 0xAA # t"
      | (plain) "\<not> prefix [CHR 0xC5, CHR 0xBF] s" "\<not> prefix [CHR 0xE2, CHR 0x84, CHR 0xAA] s"
      by (auto simp: prefix_def)
    then show ?thesis
    proof cases
      case two
      with "1" show ?thesis by (auto simp: host_char_def)
    next
      case three
      with "1" show ?thesis by (auto simp: host_char_def)
    next
      case plain
      then have "find (\<lambda>(w, _). prefix w (c # cs)) ?tab = None"
        by (simp add: Cons)
      then have "rewrite_runes ?tab id s = c # rewrite_runes ?tab id cs"
        by (simp only: Cons rewrite_runes.simps option.case id_apply)
      with "1.prems" have all: "list_all (\<lambda>c. is_alnum c \<or> c = CHR ''-'' \<or> c = CHR ''.'')
          (c # rewrite_runes ?tab id cs)"
        by (simp only:)
      then have "host_char c" by (auto simp: host_char_def)
      moreover from all have tail: "list_all (\<lambda>c. is_alnum c \<or> c = CHR ''-'' \<or> c = CHR ''.'')
          (rewrite_runes ?tab id cs)"
        by (simp only: list.pred_inject)
      have "list_all host_char cs"
        by (rule "1.IH" [rule_format, OF _ tail]) (simp add: Cons)
      ultimately show ?thesis by (simp add: Cons)
    qed
  qed
qed

lemma host_label_chars: "host_label l \<Longrightarrow> list_all (\<lambda>c. is_alnum c \<or> c = CHR ''-'') l"
  by (simp add: host_label_def)

lemma hostname_chars: "hostname s \<Longrightarrow> list_all host_char s"
proof -
  assume host: "hostname s"
  define t where "t = fold_pattern_runes s"
  define u where "u = (if t \<noteq> [] \<and> last t = CHR ''.'' then butlast t else t)"
  from host have labels: "\<forall>w\<in>set (split_on (CHR ''.'') u). host_label w"
    by (simp add: hostname_def Let_def t_def u_def list_all_iff)
  have u: "is_alnum x \<or> x = CHR ''-'' \<or> x = CHR ''.''" if "x \<in> set u" for x
    using split_on_set [OF that, of "CHR ''.''"] labels host_label_chars by (auto simp: list_all_iff)
  have "t = u \<or> t = u @ [CHR ''.'']"
    by (metis append_butlast_last_id u_def)
  with u have "\<forall>x\<in>set t. is_alnum x \<or> x = CHR ''-'' \<or> x = CHR ''.''"
    by (metis Un_iff empty_iff list.set(1,2) insert_iff set_append)
  then have "list_all (\<lambda>c. is_alnum c \<or> c = CHR ''-'' \<or> c = CHR ''.'') t"
    by (simp add: list_all_iff)
  then show ?thesis unfolding t_def by (rule fold_pattern_runes_chars)
qed

lemma host_char_no_bracket: "list_all host_char s \<Longrightarrow> set s \<inter> set ''[]'' = {}"
  by (auto simp: list_all_iff host_char_def is_alnum_def is_digit_def is_lower_def is_upper_def ccode_def)

lemma ValidateHost_trim_safe:
  assumes "ValidateHost v = None"
  shows "safe_operand (strings_Trim v ''[]'')"
proof (cases "net_ParseIP (strings_Trim v ''[]'') = None")
  case True
  with assms have "hostname v" and "v \<noteq> []" and "\<not> prefix ''-'' v"
    by (auto simp: ValidateHost_def split: if_splits)
  moreover from this have chars: "list_all host_char v" by (simp add: hostname_chars)
  moreover from chars have "strings_Trim v ''[]'' = v"
    by (intro strings_Trim_id host_char_no_bracket)
  ultimately show ?thesis by (cases v) (auto simp: safe_operand_def)
next
  case False
  then show ?thesis using net_ParseIP_chars ip_safe_operand by blast
qed

section \<open>What an accepted target gives its caller\<close>

lemma host_safe_operand:
  assumes "jt_Type target = ''HOSTNAME'' \<or> jt_Type target = ''IP''"
    and "snd (Host url_Parse target) = None"
  shows "safe_operand (fst (Host url_Parse target))"
proof -
  let ?h = "strings_Trim (jt_Value target) ''[]''"
  from assms have host: "fst (Host url_Parse target) = ?h" and ok: "ValidateTarget url_Parse target = None"
    by (auto simp: Host_def Let_def)
  have "safe_operand ?h"
  proof (cases "jt_Type target = ''IP''")
    case True
    with ok have "net_ParseIP ?h \<noteq> None" by (auto simp: ValidateTarget_def Let_def split: if_splits)
    then show ?thesis using net_ParseIP_chars ip_safe_operand by blast
  next
    case False
    with ok assms(1) have "ValidateHost (jt_Value target) = None"
      by (auto simp: ValidateTarget_def Let_def split: if_splits)
    then show ?thesis by (rule ValidateHost_trim_safe)
  qed
  with host show ?thesis by simp
qed

text \<open>
  C11: the host that \<^verbatim>\<open>Host\<close> returns for an accepted HOSTNAME or IP target is never empty,
  never starts with a hyphen and holds only letters, digits, hyphens, dots, colons and the
  bytes of the two non-ASCII runes the pattern accepts: it cannot be read as an option or
  split into several arguments by a program that receives it.
\<close>

theorem host_targets_are_safe_operands:
  assumes "jt_Type target = ''HOSTNAME'' \<or> jt_Type target = ''IP''"
    and "snd (Host url_Parse target) = None"
  shows "safe_operand (fst (Host url_Parse target))"
  using assms by (rule host_safe_operand)

definition no_url :: url_parser where
  "no_url s = None"

theorem host_targets_are_safe_operands_witness:
  "safe_operand (fst (Host no_url \<lparr>jt_Type = ''HOSTNAME'', jt_Value = ''edge-1.example''\<rparr>))
   \<and> safe_operand (fst (Host no_url \<lparr>jt_Type = ''IP'', jt_Value = ''[2001:db8::1]''\<rparr>))"
proof
  have "snd (Host no_url \<lparr>jt_Type = ''HOSTNAME'', jt_Value = ''edge-1.example''\<rparr>) = None"
    by code_simp
  then show "safe_operand (fst (Host no_url \<lparr>jt_Type = ''HOSTNAME'', jt_Value = ''edge-1.example''\<rparr>))"
    by (intro host_targets_are_safe_operands) simp_all
  have "snd (Host no_url \<lparr>jt_Type = ''IP'', jt_Value = ''[2001:db8::1]''\<rparr>) = None"
    by code_simp
  then show "safe_operand (fst (Host no_url \<lparr>jt_Type = ''IP'', jt_Value = ''[2001:db8::1]''\<rparr>))"
    by (intro host_targets_are_safe_operands) simp_all
qed

text \<open>
  C40: URL targets are not covered by that guarantee. If the URL parser reads
  \<^verbatim>\<open>http://-f/\<close> as an absolute URL with host \<^verbatim>\<open>-f\<close>, then \<^verbatim>\<open>ValidateTarget\<close> accepts
  the target and \<^verbatim>\<open>Host\<close> hands a string that starts with a hyphen to its caller.
\<close>

theorem url_host_may_be_an_option:
  assumes "url_Parse ''http://-f/'' = Some \<lparr>url_Scheme = ''http'', url_Host = ''-f'',
    url_Hostname = ''-f'', url_HasUser = False, url_Fragment = []\<rparr>"
  shows "ValidateTarget url_Parse \<lparr>jt_Type = ''URL'', jt_Value = ''http://-f/''\<rparr> = None
    \<and> Host url_Parse \<lparr>jt_Type = ''URL'', jt_Value = ''http://-f/''\<rparr> = (''-f'', None)
    \<and> \<not> safe_operand (fst (Host url_Parse \<lparr>jt_Type = ''URL'', jt_Value = ''http://-f/''\<rparr>))"
  using assms by (simp add: ValidateTarget_def Host_def contains_any_def safe_operand_def)

theorem url_host_may_be_an_option_witness:
  "Host (\<lambda>s. Some \<lparr>url_Scheme = ''http'', url_Host = ''-f'', url_Hostname = ''-f'',
      url_HasUser = False, url_Fragment = []\<rparr>)
     \<lparr>jt_Type = ''URL'', jt_Value = ''http://-f/''\<rparr> = (''-f'', None)"
  using url_host_may_be_an_option
    [of "\<lambda>s. Some \<lparr>url_Scheme = ''http'', url_Host = ''-f'', url_Hostname = ''-f'',
      url_HasUser = False, url_Fragment = []\<rparr>"]
  by simp

section \<open>Dotted decimal addresses\<close>

definition dotted :: "nat \<Rightarrow> nat \<Rightarrow> nat \<Rightarrow> nat \<Rightarrow> string" where
  "dotted a b c d = show_nat a @ CHR ''.'' # show_nat b @ CHR ''.'' # show_nat c @ CHR ''.'' # show_nat d"

lemma show_nat_head: "10 \<le> n \<Longrightarrow> hd (show_nat n) \<noteq> CHR ''0''"
proof (induction n rule: show_nat.induct)
  case (1 n)
  have zero: "digit_char m \<noteq> CHR ''0''" if "0 < m" "m < 10" for m
  proof
    assume "digit_char m = CHR ''0''"
    then have "digit_value (digit_char m) = digit_value (CHR ''0'')" by simp
    with that show False by (simp add: digit_char_ok) (simp add: digit_value_def ccode_def)
  qed
  from "1.prems" have "hd (show_nat n) = hd (show_nat (n div 10))"
    using show_nat_digits [of "n div 10"] by (simp add: show_nat.simps [of n])
  moreover have "hd (show_nat (n div 10)) \<noteq> CHR ''0''"
  proof (cases "10 \<le> n div 10")
    case True
    with "1" show ?thesis by simp
  next
    case False
    with "1.prems" show ?thesis by (simp add: show_nat.simps [of "n div 10"] zero)
  qed
  ultimately show ?case by simp
qed

lemma parse_octet_show_nat: "n \<le> 255 \<Longrightarrow> parse_octet (show_nat n) = Some n"
  using show_nat_digits [of n] show_nat_head [of n]
  by (cases "n < 10") (auto simp: parse_octet_def, simp add: show_nat.simps)

lemma parseIPv4_dotted:
  assumes "a \<le> 255" "b \<le> 255" "c \<le> 255" "d \<le> 255"
  shows "parseIPv4 (dotted a b c d) = Some [a, b, c, d]"
  using assms show_nat_digits
  by (simp add: parseIPv4_def dotted_def split_on_append split_on_none digits_no_dot parse_octet_show_nat)

lemma find_append_none: "find P xs = None \<Longrightarrow> find P (xs @ ys) = find P ys"
  by (induction xs) (auto split: if_splits)

text \<open>
  The address parser reads back every dotted decimal address: the four octets, in the
  16-byte form \<^verbatim>\<open>net.ParseIP\<close> returns, so such a value is accepted as an IP target and
  rejected as a HOSTNAME target.
\<close>

theorem dotted_address_is_ip_target:
  assumes "a \<le> 255" "b \<le> 255" "c \<le> 255" "d \<le> 255"
  shows "net_ParseIP (dotted a b c d) = Some (replicate 10 0 @ [255, 255, a, b, c, d])
    \<and> ValidateTarget url_Parse \<lparr>jt_Type = ''IP'', jt_Value = dotted a b c d\<rparr> = None
    \<and> ValidateTarget url_Parse \<lparr>jt_Type = ''HOSTNAME'', jt_Value = dotted a b c d\<rparr> \<noteq> None"
proof -
  have "find (\<lambda>x. x = CHR ''.'' \<or> x = CHR '':'' \<or> x = CHR ''%'') (show_nat a) = None"
    using show_nat_digits [of a] by (auto simp: find_None_iff list_all_iff is_digit_def ccode_def)
  then have "find (\<lambda>x. x = CHR ''.'' \<or> x = CHR '':'' \<or> x = CHR ''%'') (dotted a b c d) = Some (CHR ''.'')"
    by (simp add: dotted_def find_append_none)
  with parseIPv4_dotted [OF assms]
  have ip: "net_ParseIP (dotted a b c d) = Some (replicate 10 0 @ [255, 255, a, b, c, d])"
    by (simp add: net_ParseIP_def netip_ParseAddr_def)
  then have "list_all ip_char (dotted a b c d)" and ne: "dotted a b c d \<noteq> []"
    using net_ParseIP_chars by blast+
  then have trim: "strings_Trim (dotted a b c d) ''[]'' = dotted a b c d"
    using ip_char_host_char by (intro strings_Trim_id host_char_no_bracket) (auto simp: list_all_iff)
  have short: "length (show_nat n) \<le> 3" if "n \<le> 255" for n
    using that by (simp add: show_nat.simps [of n] show_nat.simps [of "n div 10"] show_nat.simps [of "n div 10 div 10"])
  have "length (dotted a b c d) \<le> 2048"
    using assms [THEN short] by (simp add: dotted_def)
  moreover have "\<not> contains_any (dotted a b c d) [CHR 0x00, CHR 0x0D, CHR 0x0A]"
    using \<open>list_all ip_char (dotted a b c d)\<close>
    by (auto simp: contains_any_def list_ex_iff list_all_iff ip_char_def is_hex_def is_hex_lower_def is_digit_def ccode_def)
  ultimately show ?thesis using ip trim ne by (simp add: ValidateTarget_def)
qed

theorem dotted_address_is_ip_target_witness:
  "ValidateTarget no_url \<lparr>jt_Type = ''IP'', jt_Value = dotted 192 168 0 1\<rparr> = None"
  using dotted_address_is_ip_target [of 192 168 0 1 no_url] by simp

end
