(* ===== verification/Signing.thy ===== *)
theory Signing
  imports CanonicalJson Target
begin

text \<open>
  \<^verbatim>\<open>internal/security/signing.go\<close>: trusted signing keys, the canonical payload of a job and
  the verification of its signature. Cryptographic primitives, the RFC 8785 transformation and
  the URL parser are the fields of the record \<open>libs\<close>, an argument of the operations.
\<close>

record libs =
  lib_url_Parse :: url_parser
  lib_jcs_Transform :: transformer
  lib_ed25519_Verify :: "bytes \<Rightarrow> bytes \<Rightarrow> bytes \<Rightarrow> bool"
  lib_sha256 :: "bytes \<Rightarrow> bytes"

section \<open>\<^verbatim>\<open>base64.StdEncoding.DecodeString\<close>\<close>

definition b64_value :: "char \<Rightarrow> nat option" where
  "b64_value c =
     (if is_upper c then Some (ccode c - 65)
      else if is_lower c then Some (ccode c - 71)
      else if is_digit c then Some (ccode c + 4)
      else if c = CHR ''+'' then Some 62
      else if c = CHR ''/'' then Some 63
      else None)"

fun b64_quanta :: "string \<Rightarrow> bytes option" where
  "b64_quanta [] = Some []"
| "b64_quanta (a # b # c # d # rest) =
     (case (b64_value a, b64_value b) of
        (Some x, Some y) \<Rightarrow>
          (let first = char_of (x * 4 + y div 16) in
           if c = CHR ''='' then (if d = CHR ''='' \<and> rest = [] then Some [first] else None)
           else (case b64_value c of None \<Rightarrow> None
            | Some z \<Rightarrow>
               (let second = char_of ((y mod 16) * 16 + z div 4) in
                if d = CHR ''='' then (if rest = [] then Some [first, second] else None)
                else (case b64_value d of None \<Rightarrow> None
                 | Some w \<Rightarrow> map_option (\<lambda>bs. first # second # char_of ((z mod 4) * 64 + w) # bs)
                     (b64_quanta rest)))))
      | _ \<Rightarrow> None)"
| "b64_quanta s = None"

definition base64_DecodeString :: "string \<Rightarrow> bytes option" where
  "base64_DecodeString s = b64_quanta (filter (\<lambda>c. c \<noteq> CHR 0x0D \<and> c \<noteq> CHR 0x0A) s)"

section \<open>\<^verbatim>\<open>time.Format(time.RFC3339Nano)\<close>\<close>

text \<open>The proleptic Gregorian date of a day number counted from January 1 of year 1.\<close>

definition month_lengths :: "bool \<Rightarrow> int list" where
  "month_lengths leap = [31, if leap then 29 else 28, 31, 30, 31, 30, 31, 31, 30, 31, 30, 31]"

fun month_of :: "int list \<Rightarrow> int \<Rightarrow> int \<Rightarrow> int \<times> int" where
  "month_of [] m d = (m, d)"
| "month_of (l # ls) m d = (if d < l then (m, d + 1) else month_of ls (m + 1) (d - l))"

definition civil_date :: "int \<Rightarrow> int \<times> int \<times> int" where
  "civil_date days =
     (let n400 = days div 146097; d1 = days mod 146097;
          n100 = min 3 (d1 div 36524); d2 = d1 - n100 * 36524;
          n4 = d2 div 1461; d3 = d2 mod 1461;
          n1 = min 3 (d3 div 365); d4 = d3 - n1 * 365;
          leap = (n1 = 3 \<and> (n4 \<noteq> 24 \<or> n100 = 3))
      in (400 * n400 + 100 * n100 + 4 * n4 + n1 + 1, month_of (month_lengths leap) 1 d4))"

definition pad_left :: "nat \<Rightarrow> string \<Rightarrow> string" where
  "pad_left w s = replicate (w - length s) (CHR ''0'') @ s"

definition pad_int :: "nat \<Rightarrow> int \<Rightarrow> string" where
  "pad_int w n = (if n < 0 then ''-'' else []) @ pad_left w (show_nat (nat \<bar>n\<bar>))"

definition nano_suffix :: "int \<Rightarrow> string" where
  "nano_suffix ns = (if ns = 0 then [] else ''.'' @ strings_TrimRight (pad_int 9 ns) ''0'')"

definition format_RFC3339Nano :: "time \<Rightarrow> string" where
  "format_RFC3339Nano t =
     (let day = 86400 * time_Second; (y, m, d) = civil_date (t div day);
          secs = (t mod day) div time_Second
      in pad_int 4 y @ ''-'' @ pad_int 2 m @ ''-'' @ pad_int 2 d @ ''T''
         @ pad_int 2 (secs div 3600) @ '':'' @ pad_int 2 (secs div 60 mod 60) @ '':''
         @ pad_int 2 (secs mod 60) @ nano_suffix (t mod time_Second) @ ''Z'')"

section \<open>Trusted signing keys\<close>

definition SignatureAlgorithmEd25519 :: string where
  "SignatureAlgorithmEd25519 = ''Ed25519''"

record TrustedSigningKey =
  tk_KeyID :: string
  tk_Algorithm :: string
  tk_PublicKey :: string
  tk_Fingerprint :: string
  tk_IssuedAt :: time

definition TrustedSigningKey_Decode :: "libs \<Rightarrow> TrustedSigningKey \<Rightarrow> bytes result" where
  "TrustedSigningKey_Decode L key =
     (if tk_KeyID key = [] \<or> tk_Algorithm key \<noteq> SignatureAlgorithmEd25519
      then Inl (ErrorText ''trusted signing key metadata is invalid'')
      else case base64_DecodeString (tk_PublicKey key) of
        None \<Rightarrow> Inl (ErrorText ''trusted signing public key is invalid'')
      | Some decoded \<Rightarrow>
          if length decoded \<noteq> 32 then Inl (ErrorText ''trusted signing public key is invalid'')
          else if tk_Fingerprint key \<noteq> hex_EncodeToString (lib_sha256 L decoded)
          then Inl (ErrorText ''trusted signing key fingerprint mismatch'')
          else Inr decoded)"

section \<open>The signed payload\<close>

definition optional_member :: "string \<Rightarrow> string option \<Rightarrow> (string \<times> string) list" where
  "optional_member name v = (case v of None \<Rightarrow> [] | Some s \<Rightarrow> [(name, marshal_string s)])"

definition payload_members :: "JobEnvelope \<Rightarrow> string \<Rightarrow> (string \<times> string) list" where
  "payload_members job parameters =
     [(''agentId'', marshal_string (je_AgentID job)),
      (''authorizationReference'', marshal_string (je_AuthorizationReference job)),
      (''expiresAt'', marshal_string (format_RFC3339Nano (je_ExpiresAt job))),
      (''issuedAt'', marshal_string (format_RFC3339Nano (je_IssuedAt job))),
      (''jobId'', marshal_string (je_JobID job)),
      (''moduleId'', marshal_string (je_ModuleID job)),
      (''nonce'', marshal_string (je_Nonce job)),
      (''organizationId'', marshal_string (je_OrganizationID job)),
      (''protocolVersion'', marshal_string (je_ProtocolVersion job)),
      (''riskClass'', marshal_string (je_RiskClass job)),
      (''scopeEnvironment'', marshal_string (je_ScopeEnvironment job)),
      (''scopeId'', marshal_string (je_ScopeID job)),
      (''target'', marshal_object [(''type'', marshal_string (jt_Type (je_Target job))),
         (''value'', marshal_string (jt_Value (je_Target job)))]),
      (''timeoutSeconds'', strconv_Itoa (je_TimeoutSeconds job)),
      (''validatedParameters'', parameters)]
     @ optional_member ''assetId'' (je_AssetID job)
     @ optional_member ''serviceId'' (je_ServiceID job)"

definition CanonicalJobPayload :: "libs \<Rightarrow> JobEnvelope \<Rightarrow> bytes result" where
  "CanonicalJobPayload L job =
     (case Canonicalize (lib_jcs_Transform L) (je_ValidatedParameters job) of
        Inl err \<Rightarrow> Inl (ErrorText ''decode validated parameters'')
      | Inr parameters \<Rightarrow> Marshal (lib_jcs_Transform L) (case marshal_raw parameters of
          Inl err \<Rightarrow> Inl err
        | Inr text \<Rightarrow> Inr (marshal_object (payload_members job text))))"

definition VerifyJobSignature :: "libs \<Rightarrow> JobEnvelope \<Rightarrow> (string \<times> bytes) list \<Rightarrow> goerror option" where
  "VerifyJobSignature L job keys =
     (if je_SigningKeyID job = [] \<or> je_SignatureAlgorithm job \<noteq> SignatureAlgorithmEd25519
         \<or> je_Signature job = []
      then Some (ErrorText ''signed job metadata is incomplete'')
      else case map_of keys (je_SigningKeyID job) of
        None \<Rightarrow> Some (ErrorText ''job signing key is not trusted'')
      | Some key \<Rightarrow> (case base64_DecodeString (je_Signature job) of
          None \<Rightarrow> Some (ErrorText ''job signature encoding is invalid'')
        | Some signature \<Rightarrow>
            if length signature \<noteq> 64 then Some (ErrorText ''job signature encoding is invalid'')
            else (case CanonicalJobPayload L job of
                Inl err \<Rightarrow> Some err
              | Inr payload \<Rightarrow>
                  if \<not> lib_ed25519_Verify L key payload signature
                  then Some (ErrorText ''job signature verification failed'') else None)))"

text \<open>A signature the key holder made over the canonical payload of this job.\<close>

definition signed_by :: "libs \<Rightarrow> (string \<times> bytes) list \<Rightarrow> JobEnvelope \<Rightarrow> bool" where
  "signed_by L keys job \<longleftrightarrow> (\<exists>key payload signature.
     map_of keys (je_SigningKeyID job) = Some key
     \<and> CanonicalJobPayload L job = Inr payload
     \<and> base64_DecodeString (je_Signature job) = Some signature \<and> length signature = 64
     \<and> lib_ed25519_Verify L key payload signature)"

lemma VerifyJobSignature_None_iff:
  "VerifyJobSignature L job keys = None \<longleftrightarrow>
     je_SigningKeyID job \<noteq> [] \<and> je_SignatureAlgorithm job = SignatureAlgorithmEd25519
     \<and> je_Signature job \<noteq> [] \<and> signed_by L keys job"
  by (auto simp: VerifyJobSignature_def signed_by_def split: option.splits sum.splits if_splits)

lemma base64_test: "base64_DecodeString ''TmV0U2NvcGU='' = Some ''NetScope''"
  by code_simp

text \<open>
  C39: the signature leaves three fields of an envelope open. Replacing the module version
  requirement, the diagnostic run and the vantage point of a job changes neither its canonical
  payload nor the verdict on its signature.
\<close>

theorem signature_leaves_fields_open:
  "CanonicalJobPayload L (job\<lparr>je_ModuleVersionRequirement := version, je_DiagnosticRunID := run,
       je_VantagePointID := vantage\<rparr>) = CanonicalJobPayload L job
   \<and> VerifyJobSignature L (job\<lparr>je_ModuleVersionRequirement := version, je_DiagnosticRunID := run,
       je_VantagePointID := vantage\<rparr>) keys = VerifyJobSignature L job keys"
proof -
  let ?job = "job\<lparr>je_ModuleVersionRequirement := version, je_DiagnosticRunID := run,
    je_VantagePointID := vantage\<rparr>"
  have "payload_members ?job ps = payload_members job ps" for ps
    by (simp add: payload_members_def)
  then have payload: "CanonicalJobPayload L ?job = CanonicalJobPayload L job"
    by (simp add: CanonicalJobPayload_def split: sum.split)
  then have "VerifyJobSignature L ?job keys = VerifyJobSignature L job keys"
    unfolding VerifyJobSignature_def payload by (simp split: option.split)
  with payload show ?thesis by blast
qed

end
