(* ===== verification/Encoding.thy ===== *)
theory Encoding
  imports CanonicalJson Signing
begin

text \<open>
  \<^verbatim>\<open>json.Marshal\<close> of the wire structs, following the \<^verbatim>\<open>json\<close> tags of
  \<^verbatim>\<open>internal/protocol/types.go\<close>: members in the order of the fields, \<^verbatim>\<open>omitempty\<close> members left
  out when empty, nil slices as null. Two parts of the encoding can fail: a time outside of the
  years 0 to 9999 and a number that is not finite. The decimal text of a \<^verbatim>\<open>float64\<close> (the shortest
  one that reads back) is the argument \<open>ftoa\<close>.
\<close>

section \<open>Combinators\<close>

fun collect :: "'a result list \<Rightarrow> 'a list result" where
  "collect [] = Inr []"
| "collect (Inl err # xs) = Inl err"
| "collect (Inr x # xs) = (case collect xs of Inl err \<Rightarrow> Inl err | Inr ys \<Rightarrow> Inr (x # ys))"

definition map_result :: "('a \<Rightarrow> 'b) \<Rightarrow> 'a result \<Rightarrow> 'b result" where
  "map_result f r = (case r of Inl err \<Rightarrow> Inl err | Inr x \<Rightarrow> Inr (f x))"

lemma map_result_simps [simp]:
  "map_result f (Inl err) = Inl err" "map_result f (Inr x) = Inr (f x)"
  by (simp_all add: map_result_def)

definition brackets :: "string list \<Rightarrow> string" where
  "brackets xs = CHR 0x5B # join_with '','' xs @ [CHR 0x5D]"

definition braces :: "string list \<Rightarrow> string" where
  "braces xs = CHR 0x7B # join_with '','' xs @ [CHR 0x7D]"

definition member :: "string \<Rightarrow> string result \<Rightarrow> string result" where
  "member name v = map_result (\<lambda>t. marshal_string name @ CHR '':'' # t) v"

definition marshal_struct :: "(string \<times> string result) list \<Rightarrow> string result" where
  "marshal_struct ms = map_result braces (collect (map (\<lambda>(name, v). member name v) ms))"

definition marshal_slice :: "('a \<Rightarrow> string result) \<Rightarrow> 'a list \<Rightarrow> string result" where
  "marshal_slice f xs = map_result brackets (collect (map f xs))"

text \<open>A slice that was never appended to is nil.\<close>

definition marshal_grown_slice :: "('a \<Rightarrow> string result) \<Rightarrow> 'a list \<Rightarrow> string result" where
  "marshal_grown_slice f xs = (if xs = [] then Inr ''null'' else marshal_slice f xs)"

definition text_value :: "string \<Rightarrow> string result" where
  "text_value s = Inr (marshal_string s)"

definition int_value :: "int \<Rightarrow> string result" where
  "int_value n = Inr (strconv_Itoa n)"

definition bool_value :: "bool \<Rightarrow> string result" where
  "bool_value b = Inr (if b then ''true'' else ''false'')"

text \<open>The years 0 to 9999, in nanoseconds since the start of year 1.\<close>

definition time_value :: "time \<Rightarrow> string result" where
  "time_value t =
     (if - 31622400000000000 \<le> t \<and> t < 315537897600000000000 then text_value (format_RFC3339Nano t)
      else Inl (ErrorText ''Time.MarshalJSON: year outside of range [0,9999]''))"

fun float_value :: "(rat \<Rightarrow> string) \<Rightarrow> float64 \<Rightarrow> string result" where
  "float_value ftoa (Finite q) = Inr (ftoa q)"
| "float_value ftoa _ = Inl (ErrorText ''json: unsupported value'')"

definition omit_empty :: "string \<Rightarrow> string \<Rightarrow> (string \<times> string result) list" where
  "omit_empty name s = (if s = [] then [] else [(name, text_value s)])"

definition omit_nil :: "string \<Rightarrow> string option \<Rightarrow> (string \<times> string result) list" where
  "omit_nil name v = (case v of None \<Rightarrow> [] | Some s \<Rightarrow> [(name, text_value s)])"

lemma member_size: "m \<in> set ms \<Longrightarrow> size (snd m) \<le> size_list (size_prod (\<lambda>x. 0) size) ms"
  by (rule size_list_estimation') (auto simp: size_prod_def split_beta)

text \<open>A value of type \<^verbatim>\<open>any\<close>; the members of an object keep their order (they come from a struct).\<close>

function marshal_json :: "json \<Rightarrow> string" where
  "marshal_json JNull = ''null''"
| "marshal_json (JBool b) = (if b then ''true'' else ''false'')"
| "marshal_json (JNumber lit) = lit"
| "marshal_json (JString s) = marshal_string s"
| "marshal_json (JArray vs) = brackets (map marshal_json vs)"
| "marshal_json (JObject ms) = braces (map (\<lambda>m. marshal_string (fst m) @ CHR '':'' # marshal_json (snd m)) ms)"
  by pat_completeness auto

termination
  by (relation "measure size") (auto simp: less_Suc_eq_le size_list_estimation' member_size)

section \<open>Constants\<close>

fun Status_text :: "Status \<Rightarrow> string" where
  "Status_text StatusHealthy = ''HEALTHY''"
| "Status_text StatusInformational = ''INFORMATIONAL''"
| "Status_text StatusAttention = ''ATTENTION''"
| "Status_text StatusWarning = ''WARNING''"
| "Status_text StatusCritical = ''CRITICAL''"
| "Status_text StatusInconclusive = ''INCONCLUSIVE''"

fun Confidence_text :: "Confidence \<Rightarrow> string" where
  "Confidence_text ConfidenceHigh = ''HIGH''"
| "Confidence_text ConfidenceMedium = ''MEDIUM''"
| "Confidence_text ConfidenceLow = ''LOW''"

fun FailureCode_text :: "FailureCode \<Rightarrow> string" where
  "FailureCode_text FailureModuleUnavailable = ''MODULE_UNAVAILABLE''"
| "FailureCode_text FailureToolNotFound = ''TOOL_NOT_FOUND''"
| "FailureCode_text FailureCapabilityMissing = ''CAPABILITY_MISSING''"
| "FailureCode_text FailureInvalidJob = ''INVALID_JOB''"
| "FailureCode_text FailureJobExpired = ''JOB_EXPIRED''"
| "FailureCode_text FailureTargetRejected = ''TARGET_REJECTED''"
| "FailureCode_text FailureTimeout = ''TIMEOUT''"
| "FailureCode_text FailureProcessFailed = ''PROCESS_FAILED''"
| "FailureCode_text FailureOutputLimitExceeded = ''OUTPUT_LIMIT_EXCEEDED''"
| "FailureCode_text FailureArtifact = ''ARTIFACT_ERROR''"
| "FailureCode_text FailureCancelled = ''CANCELLED''"
| "FailureCode_text FailureProtocol = ''PROTOCOL_INCOMPATIBLE''"
| "FailureCode_text FailureSignature = ''SIGNATURE_INVALID''"
| "FailureCode_text FailureReplay = ''REPLAY_REJECTED''"
| "FailureCode_text FailureInternal = ''INTERNAL_ERROR''"

lemma FailureCode_text_inj: "FailureCode_text c = FailureCode_text d \<Longrightarrow> c = d"
  by (cases c; cases d) simp_all

section \<open>Structs\<close>

definition Observation_json :: "Observation \<Rightarrow> string result" where
  "Observation_json ob = marshal_struct
     (omit_nil ''evidenceId'' (ob_EvidenceID ob) @ omit_nil ''assetId'' (ob_AssetID ob) @
      [(''category'', text_value (ob_Category ob)), (''status'', text_value (Status_text (ob_Status ob))),
       (''severity'', text_value (ob_Severity ob)), (''confidence'', text_value (Confidence_text (ob_Confidence ob))),
       (''title'', text_value (ob_Title ob)), (''summary'', text_value (ob_Summary ob)),
       (''meaning'', text_value (ob_Meaning ob)), (''impact'', text_value (ob_Impact ob)),
       (''suggestedAction'', text_value (ob_SuggestedAction ob)), (''observedAt'', time_value (ob_ObservedAt ob))])"

definition Metric_json :: "(rat \<Rightarrow> string) \<Rightarrow> Metric \<Rightarrow> string result" where
  "Metric_json ftoa me = marshal_struct
     ([(''name'', text_value (me_Name me))] @
      (case me_NumericValue me of None \<Rightarrow> [] | Some x \<Rightarrow> [(''numericValue'', float_value ftoa x)]) @
      omit_empty ''textValue'' (me_TextValue me) @
      [(''status'', text_value (Status_text (me_Status me))), (''observedAt'', time_value (me_ObservedAt me))])"

definition EvidenceManifest_json :: "EvidenceManifest \<Rightarrow> string result" where
  "EvidenceManifest_json ev = marshal_struct
     ([(''evidenceId'', text_value (ev_EvidenceID ev))] @ omit_nil ''artifactId'' (ev_ArtifactID ev) @
      [(''source'', text_value (ev_Source ev)), (''contentType'', text_value (ev_ContentType ev)),
       (''summary'', text_value (ev_Summary ev)),
       (''structuredData'', marshal_raw (ev_StructuredData ev)), (''sha256'', text_value (ev_SHA256 ev)),
       (''sizeBytes'', int_value (ev_SizeBytes ev)), (''artifactKind'', text_value (ev_ArtifactKind ev))])"

definition JobResult_json :: "(rat \<Rightarrow> string) \<Rightarrow> JobResult \<Rightarrow> string result" where
  "JobResult_json ftoa jr = marshal_struct
     ([(''protocolVersion'', text_value (jr_ProtocolVersion jr)), (''resultIdentity'', text_value (jr_ResultIdentity jr)),
       (''resultVersion'', int_value (jr_ResultVersion jr)), (''jobId'', text_value (jr_JobID jr)),
       (''agentId'', text_value (jr_AgentID jr)), (''moduleId'', text_value (jr_ModuleID jr)),
       (''status'', text_value (jr_Status jr)), (''startedAt'', time_value (jr_StartedAt jr)),
       (''completedAt'', time_value (jr_CompletedAt jr)), (''summary'', text_value (jr_Summary jr)),
       (''observations'', marshal_slice Observation_json (jr_Observations jr)),
       (''metrics'', marshal_slice (Metric_json ftoa) (jr_Metrics jr)),
       (''warnings'', marshal_slice text_value (jr_Warnings jr)),
       (''evidenceManifest'', marshal_slice EvidenceManifest_json (jr_EvidenceManifest jr))] @
      omit_empty ''toolVersion'' (jr_ToolVersion jr) @
      [(''truncated'', bool_value (jr_Truncated jr))])"

definition JobFailure_json :: "JobFailure \<Rightarrow> string result" where
  "JobFailure_json jf = marshal_struct
     [(''protocolVersion'', text_value (jf_ProtocolVersion jf)), (''jobId'', text_value (jf_JobID jf)),
      (''agentId'', text_value (jf_AgentID jf)), (''code'', text_value (FailureCode_text (jf_Code jf))),
      (''summary'', text_value (jf_Summary jf)), (''occurredAt'', time_value (jf_OccurredAt jf)),
      (''retryable'', bool_value (jf_Retryable jf))]"

definition ModuleCapability_json :: "ModuleCapability \<Rightarrow> string result" where
  "ModuleCapability_json mc = marshal_struct
     [(''moduleId'', text_value (mc_ModuleID mc)), (''capabilityId'', text_value (mc_CapabilityID mc)),
      (''available'', bool_value (mc_Available mc)), (''implementation'', text_value (mc_Implementation mc)),
      (''moduleVersion'', text_value (mc_ModuleVersion mc)),
      (''riskClasses'', marshal_slice text_value (mc_RiskClasses mc))]"

definition ExternalTool_json :: "ExternalTool \<Rightarrow> string result" where
  "ExternalTool_json et = marshal_struct
     [(''name'', text_value (et_Name et)), (''version'', text_value (et_Version et)),
      (''available'', bool_value (et_Available et))]"

definition CapabilityManifest_json :: "CapabilityManifest \<Rightarrow> string result" where
  "CapabilityManifest_json cm = marshal_struct
     [(''protocolVersion'', text_value (cm_ProtocolVersion cm)), (''agentId'', text_value (cm_AgentID cm)),
      (''platform'', text_value (cm_Platform cm)),
      (''modules'', marshal_grown_slice ModuleCapability_json (cm_Modules cm)),
      (''externalTools'', marshal_slice ExternalTool_json (cm_ExternalTools cm)),
      (''networkCapabilities'', marshal_grown_slice text_value (cm_NetworkCapabilities cm)),
      (''artifactCapabilities'', marshal_slice text_value (cm_ArtifactCapabilities cm))]"

section \<open>When encoding succeeds\<close>

lemma collect_Inr_iff: "(\<exists>ys. collect xs = Inr ys) \<longleftrightarrow> (\<forall>x\<in>set xs. \<exists>y. x = Inr y)"
proof (induction xs)
  case (Cons x xs)
  then show ?case by (cases x) (auto split: sum.splits)
qed simp

lemma map_result_Inr_iff: "(\<exists>y. map_result f r = Inr y) \<longleftrightarrow> (\<exists>x. r = Inr x)"
  by (cases r) simp_all

lemma marshal_struct_Inr_iff: "(\<exists>t. marshal_struct ms = Inr t) \<longleftrightarrow> (\<forall>m\<in>set ms. \<exists>t. snd m = Inr t)"
  by (simp add: marshal_struct_def map_result_Inr_iff collect_Inr_iff member_def split_beta)

lemma marshal_slice_Inr_iff: "(\<exists>t. marshal_slice f xs = Inr t) \<longleftrightarrow> (\<forall>x\<in>set xs. \<exists>t. f x = Inr t)"
  by (simp add: marshal_slice_def map_result_Inr_iff collect_Inr_iff)

lemma marshal_grown_slice_Inr_iff:
  "(\<exists>t. marshal_grown_slice f xs = Inr t) \<longleftrightarrow> (\<forall>x\<in>set xs. \<exists>t. f x = Inr t)"
  by (simp add: marshal_grown_slice_def marshal_slice_Inr_iff)

lemma value_Inr [simp]:
  "\<exists>t. text_value s = Inr t" "\<exists>t. int_value n = Inr t" "\<exists>t. bool_value b = Inr t"
  by (simp_all add: text_value_def int_value_def bool_value_def)

lemmas marshal_Inr = marshal_struct_Inr_iff marshal_slice_Inr_iff marshal_grown_slice_Inr_iff

text \<open>A capability manifest always encodes; a failure does when its time does.\<close>

lemma CapabilityManifest_json_total: "\<exists>t. CapabilityManifest_json cm = Inr t"
  by (simp add: CapabilityManifest_json_def ModuleCapability_json_def ExternalTool_json_def marshal_Inr)

lemma JobFailure_json_Inr_iff: "(\<exists>t. JobFailure_json jf = Inr t) \<longleftrightarrow> (\<exists>t. time_value (jf_OccurredAt jf) = Inr t)"
  by (simp add: JobFailure_json_def marshal_Inr)

end
