(* ===== verification/Client.thy ===== *)
theory Client
  imports Encoding
begin

text \<open>
  \<^verbatim>\<open>internal/client/client.go\<close>: requests to the control plane, the treatment of its responses and
  errors, delivery of spooled items, and the backoff of the poll loop. The HTTP transport, the
  URL type's text form and the random source are arguments; strict decoding into a response
  struct is given by the fields of that struct.
\<close>

section \<open>Requests\<close>

record http_request =
  rq_Method :: string
  rq_URL :: string
  rq_Headers :: "(string \<times> string) list"
  rq_Body :: "bytes option"

text \<open>A response as the client sees it: the status, the bytes of the body, and the error that ends them.\<close>

record http_wire =
  hw_StatusCode :: int
  hw_Body :: bytes
  hw_BodyErr :: "goerror option"

record client_env =
  cl_newRequest :: "string \<Rightarrow> string \<Rightarrow> goerror option"
  cl_do :: "http_request \<Rightarrow> http_wire result"

record Client =
  c_base :: string
  c_version :: string

definition maxResponseBytes :: int where "maxResponseBytes = 4194304"

text \<open>\<open>url_String\<close> is the text form of the parsed base URL.\<close>

definition New :: "url_parser \<Rightarrow> (string \<Rightarrow> string) \<Rightarrow> string \<Rightarrow> string \<Rightarrow> Client result" where
  "New url_Parse url_String rawURL version = (case url_Parse rawURL of
      None \<Rightarrow> Inl (ErrorText ''control plane URL must be absolute HTTPS'')
    | Some u \<Rightarrow> if url_Scheme u \<noteq> ''https'' \<or> url_Host u = []
        then Inl (ErrorText ''control plane URL must be absolute HTTPS'')
        else Inr \<lparr>c_base = url_String rawURL, c_version = version\<rparr>)"

definition endpoint :: "Client \<Rightarrow> string \<Rightarrow> string" where
  "endpoint c path = strings_TrimRight (c_base c) ''/'' @ path"

definition build_request :: "Client \<Rightarrow> string \<Rightarrow> string \<Rightarrow> bytes option \<Rightarrow> http_request" where
  "build_request c meth path body = \<lparr>rq_Method = meth, rq_URL = endpoint c path,
     rq_Headers = [(''Accept'', ''application/json''), (''User-Agent'', ''NetScope-Agent/'' @ c_version c)]
       @ (if body = None then [] else [(''Content-Type'', ''application/json'')]),
     rq_Body = body\<rparr>"

section \<open>Responses\<close>

text \<open>\<^verbatim>\<open>io.ReadAll\<close> of the body limited to \<open>n\<close> bytes.\<close>

definition read_limited :: "int \<Rightarrow> http_wire \<Rightarrow> bytes result" where
  "read_limited n w =
     (if int (length (hw_Body w)) < n
      then (case hw_BodyErr w of Some err \<Rightarrow> Inl err | None \<Rightarrow> Inr (hw_Body w))
      else Inr (take (nat n) (hw_Body w)))"

definition error_fields :: "ProtocolError fields" where
  "error_fields = [(''code'', string_field (\<lambda>s. pe_Code_update (\<lambda>_. s))),
     (''message'', string_field (\<lambda>s. pe_Message_update (\<lambda>_. s))),
     (''requestId'', string_field (\<lambda>s. pe_RequestID_update (\<lambda>_. s)))]"

text \<open>A struct as a field of another one.\<close>

definition struct_member :: "bool \<Rightarrow> 'a fields \<Rightarrow> 'a \<Rightarrow> json \<Rightarrow> 'a option" where
  "struct_member strict fs p v = (let (q, ok) = decode_struct strict fs p v in if ok then Some q else None)"

definition error_envelope_fields :: "ProtocolError fields" where
  "error_envelope_fields = [(''error'', struct_member False error_fields)]"

definition zero_ProtocolError :: ProtocolError where
  "zero_ProtocolError = \<lparr>pe_Code = [], pe_Message = [], pe_RequestID = []\<rparr>"

definition api_error :: "int \<Rightarrow> bytes \<Rightarrow> goerror" where
  "api_error status d = (case unmarshal_struct error_envelope_fields zero_ProtocolError d of
      (e, True) \<Rightarrow> APIError status (pe_Code e) (pe_Message e) (pe_RequestID e)
    | (e, False) \<Rightarrow> APIError status [] [] [])"

text \<open>
  \<open>in_body\<close> is \<^verbatim>\<open>json.Marshal(in)\<close> for a request with a body. \<open>out\<close> gives the fields of the
  destination, or \<open>None\<close> for a nil destination; the destination comes back with the error.
\<close>

definition decode_response :: "'a fields \<Rightarrow> 'a \<Rightarrow> bytes \<Rightarrow> 'a \<times> goerror option" where
  "decode_response fs dest d = (case json_Decode d of
      DecValue v rest \<Rightarrow> (case decode_struct True fs dest v of
          (q, False) \<Rightarrow> (q, Some (ErrorText ''decode control plane response''))
        | (q, True) \<Rightarrow> (q, if json_Decode rest = DecEOF then None
             else Some (ErrorText ''control plane response contains multiple JSON values'')))
    | _ \<Rightarrow> (dest, Some (ErrorText ''decode control plane response'')))"

definition handle_response :: "'a fields option \<Rightarrow> 'a \<Rightarrow> http_wire \<Rightarrow> 'a \<times> goerror option" where
  "handle_response out dest resp = (case read_limited (maxResponseBytes + 1) resp of
      Inl err \<Rightarrow> (dest, Some err)
    | Inr d \<Rightarrow>
        if maxResponseBytes < int (length d) then (dest, Some (ErrorText ''control plane response exceeds limit''))
        else if hw_StatusCode resp < 200 \<or> 300 \<le> hw_StatusCode resp
        then (dest, Some (api_error (hw_StatusCode resp) d))
        else (case out of
            None \<Rightarrow> (dest, None)
          | Some fs \<Rightarrow> if 0 < length d then decode_response fs dest d else (dest, None)))"

definition doJSON :: "client_env \<Rightarrow> Client \<Rightarrow> string \<Rightarrow> string \<Rightarrow> string result option \<Rightarrow> 'a fields option \<Rightarrow> 'a \<Rightarrow>
    'a \<times> goerror option" where
  "doJSON env c meth path in_body out dest =
     (let send = (\<lambda>body. case cl_newRequest env meth (endpoint c path) of
            Some err \<Rightarrow> (dest, Some err)
          | None \<Rightarrow> (case cl_do env (build_request c meth path body) of
              Inl err \<Rightarrow> (dest, Some err)
            | Inr resp \<Rightarrow> handle_response out dest resp))
      in case in_body of
        None \<Rightarrow> send None
      | Some (Inl err) \<Rightarrow> (dest, Some err)
      | Some (Inr encoded) \<Rightarrow> send (Some encoded))"

definition IsTerminal :: "goerror option \<Rightarrow> bool" where
  "IsTerminal err = (case err of
      Some (APIError status code message requestID) \<Rightarrow> code = ''AGENT_REVOKED'' \<or> code = ''PROTOCOL_INCOMPATIBLE''
    | _ \<Rightarrow> False)"

section \<open>Operations\<close>

text \<open>\<^verbatim>\<open>url.PathEscape\<close>.\<close>

definition path_plain :: "char \<Rightarrow> bool" where
  "path_plain c \<longleftrightarrow> is_alnum c \<or> c \<in> set ''-_.~$&+:=@''"

definition hex_upper :: "nat \<Rightarrow> char" where
  "hex_upper n = char_of (if n < 10 then 48 + n else 55 + n)"

definition url_PathEscape :: "string \<Rightarrow> string" where
  "url_PathEscape s = concat (map (\<lambda>c. if path_plain c then [c]
     else [CHR ''%'', hex_upper (ccode c div 16), hex_upper (ccode c mod 16)]) s)"

text \<open>\<^verbatim>\<open>protocol.DataEnvelope[T]\<close>: the fields of \<open>T\<close> under the member \<^verbatim>\<open>data\<close>.\<close>

definition data_envelope :: "'a fields \<Rightarrow> 'a fields" where
  "data_envelope fs = [(''data'', struct_member True fs)]"

definition job_path :: "string \<Rightarrow> string \<Rightarrow> string" where
  "job_path jobID action = ''/agent/v1/jobs/'' @ url_PathEscape jobID @ CHR ''/'' # action"

definition post :: "client_env \<Rightarrow> Client \<Rightarrow> string \<Rightarrow> string result \<Rightarrow> goerror option" where
  "post env c path body = snd (doJSON env c ''POST'' path (Some body) None ())"

definition StartJob :: "client_env \<Rightarrow> Client \<Rightarrow> string \<Rightarrow> goerror option" where
  "StartJob env c jobID = snd (doJSON env c ''POST'' (job_path jobID ''start'') None None ())"

definition ReportResult :: "client_env \<Rightarrow> Client \<Rightarrow> (rat \<Rightarrow> string) \<Rightarrow> JobResult \<Rightarrow> goerror option" where
  "ReportResult env c ftoa jr = post env c (job_path (jr_JobID jr) ''result'') (JobResult_json ftoa jr)"

definition ReportFailure :: "client_env \<Rightarrow> Client \<Rightarrow> JobFailure \<Rightarrow> goerror option" where
  "ReportFailure env c failure =
     (case post env c (job_path (jf_JobID failure) ''fail'') (JobFailure_json failure) of
        Some (APIError status code message requestID) \<Rightarrow>
          if code = ''JOB_STATE_INVALID'' then None else Some (APIError status code message requestID)
      | err \<Rightarrow> err)"

definition EvidenceRequest_json :: "EvidenceRequest \<Rightarrow> string result" where
  "EvidenceRequest_json r = marshal_struct
     [(''protocolVersion'', text_value (evr_ProtocolVersion r)), (''jobId'', text_value (evr_JobID r)),
      (''agentId'', text_value (evr_AgentID r)), (''evidence'', EvidenceManifest_json (evr_Evidence r))]"

definition ReportEvidence :: "client_env \<Rightarrow> Client \<Rightarrow> EvidenceRequest \<Rightarrow> goerror option" where
  "ReportEvidence env c r = post env c ''/agent/v1/evidence'' (EvidenceRequest_json r)"

text \<open>The operations with a response take the fields of the response struct and its zero value.\<close>

definition Enroll :: "client_env \<Rightarrow> Client \<Rightarrow> 'a fields \<Rightarrow> 'a \<Rightarrow> string result \<Rightarrow> 'a \<times> goerror option" where
  "Enroll env c fs zero request = doJSON env c ''POST'' ''/agent/v1/enroll'' (Some request) (Some (data_envelope fs)) zero"

definition Client_Heartbeat :: "client_env \<Rightarrow> Client \<Rightarrow> 'a fields \<Rightarrow> 'a \<Rightarrow> string result \<Rightarrow> 'a \<times> goerror option" where
  "Client_Heartbeat env c fs zero hb = doJSON env c ''POST'' ''/agent/v1/heartbeat'' (Some hb) (Some (data_envelope fs)) zero"

definition capability_response_fields :: "CapabilityResponse fields" where
  "capability_response_fields = [(''capabilitiesHash'', string_field (\<lambda>s. cr_CapabilitiesHash_update (\<lambda>_. s)))]"

definition ReportCapabilities :: "client_env \<Rightarrow> Client \<Rightarrow> CapabilityManifest \<Rightarrow> CapabilityResponse \<times> goerror option" where
  "ReportCapabilities env c m = doJSON env c ''POST'' ''/agent/v1/capabilities'' (Some (CapabilityManifest_json m))
     (Some (data_envelope capability_response_fields)) \<lparr>cr_CapabilitiesHash = []\<rparr>"

text \<open>\<^verbatim>\<open>DataEnvelope[*JobEnvelope]\<close>: a null leaves the pointer nil.\<close>

definition pointer_member :: "'a fields \<Rightarrow> 'a \<Rightarrow> 'a option \<Rightarrow> json \<Rightarrow> 'a option option" where
  "pointer_member fs zero p v = (if v = JNull then Some None
     else map_option Some (struct_member True fs (case p of Some q \<Rightarrow> q | None \<Rightarrow> zero) v))"

definition NextJob :: "client_env \<Rightarrow> Client \<Rightarrow> JobEnvelope fields \<Rightarrow> JobEnvelope \<Rightarrow> JobEnvelope option result" where
  "NextJob env c fs zero =
     (case doJSON env c ''GET'' ''/agent/v1/jobs/next'' None (Some [(''data'', pointer_member fs zero)]) None of
        (job, Some err) \<Rightarrow> Inl err
      | (job, None) \<Rightarrow> Inr job)"

definition Cancellation :: "client_env \<Rightarrow> Client \<Rightarrow> 'a fields \<Rightarrow> 'a \<Rightarrow> string \<Rightarrow> 'a \<times> goerror option" where
  "Cancellation env c fs zero jobID =
     doJSON env c ''GET'' (job_path jobID ''cancellation'') None (Some (data_envelope fs)) zero"

definition RotateIdentity :: "client_env \<Rightarrow> Client \<Rightarrow> 'a fields \<Rightarrow> 'a \<Rightarrow> string \<Rightarrow> 'a \<times> goerror option" where
  "RotateIdentity env c fs zero csrPEM = doJSON env c ''POST'' ''/agent/v1/identity/rotate''
     (Some (Inr (marshal_object [(''csrPem'', marshal_string csrPEM)]))) (Some (data_envelope fs)) zero"

definition ConfirmIdentityRotation :: "client_env \<Rightarrow> Client \<Rightarrow> string \<Rightarrow> goerror option" where
  "ConfirmIdentityRotation env c certificateID = post env c ''/agent/v1/identity/rotate/confirm''
     (Inr (marshal_object [(''certificateId'', marshal_string certificateID)]))"

definition RollbackIdentityRotation :: "client_env \<Rightarrow> Client \<Rightarrow> string \<Rightarrow> goerror option" where
  "RollbackIdentityRotation env c certificateID = post env c ''/agent/v1/identity/rotate/rollback''
     (Inr (marshal_object [(''certificateId'', marshal_string certificateID)]))"

definition artifact_authorization_fields :: "ArtifactAuthorization fields" where
  "artifact_authorization_fields = [(''token'', string_field (\<lambda>s. aa_Token_update (\<lambda>_. s))),
     (''purpose'', string_field (\<lambda>s. aa_Purpose_update (\<lambda>_. s))),
     (''expiresInSeconds'', int_field (\<lambda>n. aa_ExpiresInSeconds_update (\<lambda>_. n)))]"

definition AuthorizeArtifact :: "client_env \<Rightarrow> Client \<Rightarrow> string \<Rightarrow> string \<Rightarrow> string \<Rightarrow> ArtifactAuthorization \<times> goerror option" where
  "AuthorizeArtifact env c artifactID jobID purpose =
     doJSON env c ''POST'' (''/agent/v1/artifacts/'' @ url_PathEscape artifactID @ ''/authorize'')
       (Some (Inr (marshal_object [(''jobId'', marshal_string jobID), (''purpose'', marshal_string purpose)])))
       (Some (data_envelope artifact_authorization_fields)) \<lparr>aa_Token = [], aa_Purpose = [], aa_ExpiresInSeconds = 0\<rparr>"

definition CreateArtifact :: "client_env \<Rightarrow> Client \<Rightarrow> 'a fields \<Rightarrow> 'a \<Rightarrow> string result \<Rightarrow> 'a \<times> goerror option" where
  "CreateArtifact env c fs zero manifest =
     doJSON env c ''POST'' ''/agent/v1/artifacts'' (Some manifest) (Some (data_envelope fs)) zero"

text \<open>
  Delivery of a spooled item. \<^verbatim>\<open>json.Unmarshal\<close> into the three wire structs, with the parts of
  it that the structs of this theory do not cover (times and floating point numbers), is the
  argument \<open>dec\<close>; it returns \<open>None\<close> for an error.
\<close>

record wire_decoders =
  wd_JobResult :: "bytes \<Rightarrow> JobResult option"
  wd_JobFailure :: "bytes \<Rightarrow> JobFailure option"
  wd_EvidenceRequest :: "bytes \<Rightarrow> EvidenceRequest option"

definition Send :: "client_env \<Rightarrow> Client \<Rightarrow> (rat \<Rightarrow> string) \<Rightarrow> wire_decoders \<Rightarrow> string \<Rightarrow> bytes \<Rightarrow> goerror option" where
  "Send env c ftoa dec kind payload =
     (if kind = ''result'' then (case wd_JobResult dec payload of
          None \<Rightarrow> Some (ErrorText ''json: cannot unmarshal'') | Some r \<Rightarrow> ReportResult env c ftoa r)
      else if kind = ''failure'' then (case wd_JobFailure dec payload of
          None \<Rightarrow> Some (ErrorText ''json: cannot unmarshal'') | Some f \<Rightarrow> ReportFailure env c f)
      else if kind = ''evidence'' then (case wd_EvidenceRequest dec payload of
          None \<Rightarrow> Some (ErrorText ''json: cannot unmarshal'') | Some e \<Rightarrow> ReportEvidence env c e)
      else Some (ErrorText ''unsupported spool item kind''))"

text \<open>\<open>rnd n\<close> is \<^verbatim>\<open>rand.Int64N(n)\<close>.\<close>

definition Backoff :: "(int \<Rightarrow> int) \<Rightarrow> int \<Rightarrow> duration \<Rightarrow> duration" where
  "Backoff rnd attempt maximum =
     (let attempt = (if attempt < 0 then 0 else attempt);
          attempt = (if 8 < attempt then 8 else attempt);
          delay = time_Second * 2 ^ nat attempt;
          delay = (if maximum < delay then maximum else delay);
          jitter = rnd (go_quot delay 3 + 1)
      in delay + jitter)"

section \<open>When an operation succeeds\<close>

text \<open>The control plane acknowledged a request: a complete response with a status from 200 to 299.\<close>

definition acknowledged :: "client_env \<Rightarrow> http_request \<Rightarrow> bool" where
  "acknowledged env rq \<longleftrightarrow> (case cl_do env rq of
      Inl _ \<Rightarrow> False
    | Inr resp \<Rightarrow> 200 \<le> hw_StatusCode resp \<and> hw_StatusCode resp < 300 \<and> hw_BodyErr resp = None
        \<and> int (length (hw_Body resp)) \<le> maxResponseBytes)"

text \<open>The control plane answered with the API error \<open>code\<close>.\<close>

definition answered_with :: "client_env \<Rightarrow> http_request \<Rightarrow> string \<Rightarrow> bool" where
  "answered_with env rq code \<longleftrightarrow> (\<exists>resp status message requestID. cl_do env rq = Inr resp
     \<and> \<not> (200 \<le> hw_StatusCode resp \<and> hw_StatusCode resp < 300)
     \<and> api_error (hw_StatusCode resp) (hw_Body resp) = APIError status code message requestID)"

lemma read_limited_Inr:
  assumes "read_limited (maxResponseBytes + 1) w = Inr d" and "int (length d) \<le> maxResponseBytes"
  shows "hw_BodyErr w = None \<and> d = hw_Body w"
proof (cases "int (length (hw_Body w)) < maxResponseBytes + 1")
  case True
  with assms show ?thesis by (auto simp: read_limited_def split: option.splits)
next
  case False
  with assms have "length d = nat (maxResponseBytes + 1)"
    by (auto simp: read_limited_def maxResponseBytes_def)
  with assms(2) show ?thesis by (simp add: maxResponseBytes_def)
qed

lemma handle_response_None [accepts]:
  assumes "snd (handle_response out dest resp) = None"
  shows "200 \<le> hw_StatusCode resp \<and> hw_StatusCode resp < 300 \<and> hw_BodyErr resp = None
    \<and> int (length (hw_Body resp)) \<le> maxResponseBytes"
proof -
  from assms obtain d where d: "read_limited (maxResponseBytes + 1) resp = Inr d" "int (length d) \<le> maxResponseBytes"
    and status: "200 \<le> hw_StatusCode resp" "hw_StatusCode resp < 300"
    by (auto simp: handle_response_def split: sum.splits if_splits)
  from read_limited_Inr [OF d] d(2) status show ?thesis by simp
qed

lemma doJSON_None [accepts]:
  assumes "snd (doJSON env c meth path in_body out dest) = None"
  shows "\<exists>body. (case in_body of None \<Rightarrow> body = None | Some r \<Rightarrow> \<exists>t. r = Inr t \<and> body = Some t)
    \<and> acknowledged env (build_request c meth path body)"
proof -
  have sent: "acknowledged env (build_request c meth path body)"
    if "snd (case cl_newRequest env meth (endpoint c path) of Some err \<Rightarrow> (dest, Some err)
          | None \<Rightarrow> (case cl_do env (build_request c meth path body) of Inl err \<Rightarrow> (dest, Some err)
            | Inr resp \<Rightarrow> handle_response out dest resp)) = None" for body
    using that by (auto simp: acknowledged_def dest: handle_response_None split: option.splits sum.splits)
  show ?thesis
  proof (cases in_body)
    case None
    with assms sent [of None] show ?thesis by (auto simp: doJSON_def)
  next
    case (Some r)
    with assms sent show ?thesis by (cases r) (auto simp: doJSON_def)
  qed
qed

lemma post_None [accepts]:
  assumes "post env c path body = None"
  shows "\<exists>t. body = Inr t \<and> acknowledged env (build_request c ''POST'' path (Some t))"
  using doJSON_None [of env c "''POST''" path "Some body" None "()"] assms by (auto simp: post_def)

lemma handle_response_APIError:
  assumes "snd (handle_response None () resp) = Some (APIError status code message requestID)"
    and "\<And>err. hw_BodyErr resp = Some err \<Longrightarrow> \<exists>t. err = ErrorText t"
  shows "\<not> (200 \<le> hw_StatusCode resp \<and> hw_StatusCode resp < 300)
    \<and> api_error (hw_StatusCode resp) (hw_Body resp) = APIError status code message requestID"
proof -
  have no_api: "read_limited (maxResponseBytes + 1) resp \<noteq> Inl (APIError status code message requestID)"
    using assms(2) by (auto simp: read_limited_def split: option.splits)
  with assms(1) obtain d where d: "read_limited (maxResponseBytes + 1) resp = Inr d" "int (length d) \<le> maxResponseBytes"
    and api: "hw_StatusCode resp < 200 \<or> 300 \<le> hw_StatusCode resp"
    "api_error (hw_StatusCode resp) d = APIError status code message requestID"
    by (auto simp: handle_response_def split: sum.splits if_splits)
  from read_limited_Inr [OF d] api show ?thesis by auto
qed

text \<open>Transport errors are not API errors.\<close>

definition plain_transport :: "client_env \<Rightarrow> bool" where
  "plain_transport env \<longleftrightarrow> (\<forall>m u err. cl_newRequest env m u = Some err \<longrightarrow> (\<exists>t. err = ErrorText t))
     \<and> (\<forall>rq. case cl_do env rq of Inl err \<Rightarrow> err = DeadlineExceeded \<or> err = Canceled \<or> (\<exists>t. err = ErrorText t)
         | Inr resp \<Rightarrow> (\<forall>err. hw_BodyErr resp = Some err \<longrightarrow> (\<exists>t. err = ErrorText t)))"

lemma plain_transport_do:
  assumes "plain_transport env"
  shows "cl_newRequest env m u \<noteq> Some (APIError a b c' d)" and "cl_do env rq \<noteq> Inl (APIError a b c' d)"
    and "cl_do env rq = Inr resp \<Longrightarrow> hw_BodyErr resp = Some err \<Longrightarrow> \<exists>t. err = ErrorText t"
  using assms unfolding plain_transport_def
  by (auto dest!: spec [of _ rq])

lemma JobFailure_json_plain: "JobFailure_json f \<noteq> Inl (APIError a b c d)"
proof -
  have "collect xs \<noteq> Inl (APIError a b c d)" if "\<forall>x\<in>set xs. x \<noteq> Inl (APIError a b c d)" for xs :: "string result list"
    using that by (induction xs rule: collect.induct) (auto split: sum.splits)
  then show ?thesis
    by (simp add: JobFailure_json_def marshal_struct_def map_result_def member_def text_value_def bool_value_def
        time_value_def split: sum.splits)
qed

lemma ReportFailure_None:
  assumes "plain_transport env" and "ReportFailure env c f = None"
  shows "\<exists>t. JobFailure_json f = Inr t \<and>
    (acknowledged env (build_request c ''POST'' (job_path (jf_JobID f) ''fail'') (Some t))
     \<or> answered_with env (build_request c ''POST'' (job_path (jf_JobID f) ''fail'') (Some t)) ''JOB_STATE_INVALID'')"
proof (cases "post env c (job_path (jf_JobID f) ''fail'') (JobFailure_json f)")
  case None
  then show ?thesis using post_None by blast
next
  case (Some err)
  with assms(2) obtain status message requestID where err: "err = APIError status ''JOB_STATE_INVALID'' message requestID"
    by (auto simp: ReportFailure_def split: goerror.splits if_splits)
  obtain t where t: "JobFailure_json f = Inr t"
    using Some err JobFailure_json_plain [of f] by (cases "JobFailure_json f") (auto simp: post_def doJSON_def Let_def)
  let ?rq = "build_request c ''POST'' (job_path (jf_JobID f) ''fail'') (Some t)"
  from Some err t plain_transport_do [OF assms(1)] obtain resp where resp: "cl_do env ?rq = Inr resp"
    and h: "snd (handle_response None () resp) = Some (APIError status ''JOB_STATE_INVALID'' message requestID)"
    by (auto simp: post_def doJSON_def Let_def split: option.splits sum.splits)
  have "answered_with env ?rq ''JOB_STATE_INVALID''"
    using handle_response_APIError [OF h] plain_transport_do(3) [OF assms(1) resp] resp
    unfolding answered_with_def by blast
  with t show ?thesis by blast
qed

section \<open>Paths\<close>

lemma hex_upper_ok: "n < 16 \<Longrightarrow> is_alnum (hex_upper n)"
  by (auto simp: hex_upper_def char_class_defs)

lemma hex_upper_inj: "m < 16 \<Longrightarrow> n < 16 \<Longrightarrow> hex_upper m = hex_upper n \<Longrightarrow> m = n"
  by (drule arg_cong [of _ _ ccode]) (auto simp: hex_upper_def split: if_splits)

lemma url_PathEscape_chars: "c \<in> set (url_PathEscape s) \<Longrightarrow> path_plain c \<or> c = CHR ''%''"
proof -
  have "path_plain (hex_upper (ccode x div 16)) \<and> path_plain (hex_upper (ccode x mod 16))" for x
    using hex_upper_ok [of "ccode x div 16"] hex_upper_ok [of "ccode x mod 16"] ccode_less_256 [of x]
    by (simp add: path_plain_def less_mult_imp_div_less)
  then show "c \<in> set (url_PathEscape s) \<Longrightarrow> path_plain c \<or> c = CHR ''%''"
    by (auto simp: url_PathEscape_def split: if_splits)
qed

lemma url_PathEscape_inj: "url_PathEscape s = url_PathEscape t \<Longrightarrow> s = t"
proof (induction s arbitrary: t)
  case Nil
  then show ?case by (cases t) (auto simp: url_PathEscape_def split: if_splits)
next
  case (Cons c s)
  have percent: "\<not> path_plain (CHR ''%'')" by (simp add: path_plain_def char_class_defs ccode_def)
  from Cons.prems obtain d t' where t: "t = d # t'" by (cases t) (auto simp: url_PathEscape_def split: if_splits)
  have digits: "ccode x div 16 < 16" for x using ccode_less_256 [of x] by linarith
  have "c = d \<and> url_PathEscape s = url_PathEscape t'"
  proof (cases "path_plain c = path_plain d")
    case True
    show ?thesis
    proof (cases "path_plain c")
      case False
      with True Cons.prems t have "ccode c div 16 = ccode d div 16" "ccode c mod 16 = ccode d mod 16"
        and rest: "url_PathEscape s = url_PathEscape t'"
        using hex_upper_inj digits by (auto simp: url_PathEscape_def)
      then have "ccode c = ccode d" by (metis div_mult_mod_eq)
      with rest show ?thesis using ccode_inj by blast
    qed (use True Cons.prems t in \<open>simp add: url_PathEscape_def\<close>)
  next
    case False
    with Cons.prems t percent show ?thesis by (auto simp: url_PathEscape_def split: if_splits)
  qed
  with Cons.IH t show ?case by blast
qed

text \<open>
  C33: the path of a job's endpoint has the job identifier as its one variable segment, whatever
  the identifier is: between the fixed segments and the action there is exactly one segment,
  and the path holds no question mark, hash, space or control character, so an identifier can
  neither add a segment nor start a query; different identifiers and actions have different
  paths. The segment is a dot segment only for the identifiers \<^verbatim>\<open>.\<close> and \<^verbatim>\<open>..\<close>, which escaping leaves as
  they are.
\<close>

theorem job_identifier_is_one_path_segment:
  assumes "action \<in> {''start'', ''result'', ''fail'', ''cancellation''}"
  shows "\<exists>segment. split_on (CHR ''/'') (job_path jobID action) = [[], ''agent'', ''v1'', ''jobs'', segment, action]
    \<and> set (job_path jobID action) \<inter> ({CHR ''?'', CHR ''#'', CHR '' ''} \<union> {c. ccode c < 32}) = {}
    \<and> (segment \<in> {''.'', ''..''} \<longleftrightarrow> jobID \<in> {''.'', ''..''})
    \<and> (\<forall>jobID'. \<forall>action'\<in>{''start'', ''result'', ''fail'', ''cancellation''}.
          job_path jobID' action' = job_path jobID action \<longrightarrow> jobID' = jobID \<and> action' = action)"
proof (intro exI [of _ "url_PathEscape jobID"] conjI allI ballI impI)
  have split: "split_on (CHR ''/'') (job_path i a) = [[], ''agent'', ''v1'', ''jobs'', url_PathEscape i, a]"
    if "a \<in> {''start'', ''result'', ''fail'', ''cancellation''}" for i a
  proof -
    have "CHR ''/'' \<notin> set (url_PathEscape i)"
      using url_PathEscape_chars [of "CHR ''/''" i] by (auto simp: path_plain_def char_class_defs ccode_def)
    from split_on_append [OF this, of a] have "split_on (CHR ''/'') (url_PathEscape i @ CHR ''/'' # a) = url_PathEscape i # [a]"
      using that by (auto simp: split_on_none)
    then show ?thesis by (simp add: job_path_def)
  qed
  show "split_on (CHR ''/'') (job_path jobID action) = [[], ''agent'', ''v1'', ''jobs'', url_PathEscape jobID, action]"
    by (rule split [OF assms])
  have "c \<notin> {CHR ''?'', CHR ''#'', CHR '' ''} \<and> \<not> ccode c < 32" if "path_plain c \<or> c = CHR ''%''" for c
    using that by (auto simp: path_plain_def char_class_defs ccode_def)
  with url_PathEscape_chars have "set (url_PathEscape jobID) \<inter> ({CHR ''?'', CHR ''#'', CHR '' ''} \<union> {c. ccode c < 32}) = {}"
    by blast
  with assms show "set (job_path jobID action) \<inter> ({CHR ''?'', CHR ''#'', CHR '' ''} \<union> {c. ccode c < 32}) = {}"
    by (auto simp: job_path_def ccode_def)
  have dots: "url_PathEscape ''.'' = ''.''" "url_PathEscape ''..'' = ''..''" by code_simp+
  with url_PathEscape_inj [of jobID "''.''"] url_PathEscape_inj [of jobID "''..''"]
  show "url_PathEscape jobID \<in> {''.'', ''..''} \<longleftrightarrow> jobID \<in> {''.'', ''..''}" by auto
  fix jobID' action'
  assume "action' \<in> {''start'', ''result'', ''fail'', ''cancellation''}" and "job_path jobID' action' = job_path jobID action"
  with split [of action' jobID'] split [OF assms, of jobID] have "url_PathEscape jobID' = url_PathEscape jobID" and "action' = action" by auto
  then show "jobID' = jobID" "action' = action" by (simp_all add: url_PathEscape_inj)
qed

theorem job_identifier_is_one_path_segment_witness:
  "split_on (CHR ''/'') (job_path ''../x?y'' ''start'') = [[], ''agent'', ''v1'', ''jobs'', ''..%2Fx%3Fy'', ''start'']
   \<and> job_path ''a/b'' ''start'' \<noteq> job_path ''a%2Fb'' ''start''"
proof
  have "url_PathEscape ''../x?y'' = ''..%2Fx%3Fy''" by code_simp
  then have path: "job_path ''../x?y'' ''start'' = ''/agent/v1/jobs/..%2Fx%3Fy/start''" by (simp add: job_path_def)
  show "split_on (CHR ''/'') (job_path ''../x?y'' ''start'') = [[], ''agent'', ''v1'', ''jobs'', ''..%2Fx%3Fy'', ''start'']"
    by (simp add: path)
  show "job_path ''a/b'' ''start'' \<noteq> job_path ''a%2Fb'' ''start''"
    using job_identifier_is_one_path_segment [of "''start''" "''a/b''"] by auto
qed

section \<open>Backoff\<close>

text \<open>
  For a positive maximum and a random source that answers within its range, the delay
  before the next attempt is at least one second or the maximum, never more than four thirds of
  the maximum and never more than 342 seconds, and without jitter it grows with the number of
  attempts. The maximum itself can be exceeded by the jitter.
\<close>

theorem backoff_is_bounded:
  assumes "0 < maximum" and "\<And>n. 0 < n \<Longrightarrow> 0 \<le> rnd n \<and> rnd n < n"
  shows "min time_Second maximum \<le> Backoff rnd attempt maximum
    \<and> 3 * Backoff rnd attempt maximum \<le> 4 * maximum
    \<and> Backoff rnd attempt maximum \<le> 342 * time_Second
    \<and> (attempt \<le> attempt' \<longrightarrow> Backoff (\<lambda>_. 0) attempt maximum \<le> Backoff (\<lambda>_. 0) attempt' maximum)"
proof -
  define k where "k a = nat (min 8 (max 0 a))" for a :: int
  define d where "d a = min maximum (time_Second * 2 ^ k a)" for a
  have k: "k a \<le> 8" for a by (simp add: k_def)
  have pow: "(1::int) \<le> 2 ^ k a" "(2::int) ^ k a \<le> 2 ^ 8" for a
    using power_increasing [OF k [of a], of "2::int"] by simp_all
  have B: "Backoff r a maximum = d a + r (go_quot (d a) 3 + 1)" for r a
    by (simp add: Backoff_def Let_def d_def k_def min_def max_def)
  have d: "0 < d a" "min time_Second maximum \<le> d a" "d a \<le> maximum" "d a \<le> 256 * time_Second" for a
  proof -
    obtain p :: int where p: "p = 2 ^ k a" "1 \<le> p" "p \<le> 256" using pow [of a] by auto
    show "0 < d a" "min time_Second maximum \<le> d a" "d a \<le> maximum" "d a \<le> 256 * time_Second"
      unfolding d_def p(1) [symmetric] time_Second_def using assms(1) p(2,3) by linarith+
  qed
  have q: "go_quot (d attempt) 3 = d attempt div 3" using d(1) [of attempt] by (simp add: go_quot_nonneg)
  have r: "0 \<le> rnd (d attempt div 3 + 1)" "rnd (d attempt div 3 + 1) \<le> d attempt div 3"
    using assms(2) [of "d attempt div 3 + 1"] d(1) [of attempt] by auto
  have "3 * rnd (d attempt div 3 + 1) \<le> 3 * (d attempt div 3)" using r(2) by simp
  also have "\<dots> \<le> d attempt" by simp
  finally have upper: "3 * (d attempt + rnd (d attempt div 3 + 1)) \<le> 4 * d attempt" by simp
  have mono: "d attempt \<le> d attempt'" if "attempt \<le> attempt'"
  proof -
    have "k attempt \<le> k attempt'" using that by (simp add: k_def nat_mono)
    then have "(2::int) ^ k attempt \<le> 2 ^ k attempt'" by (simp add: power_increasing)
    then show ?thesis by (auto simp: d_def time_Second_def min_le_iff_disj)
  qed
  show ?thesis unfolding B q using d [of attempt] r upper mono by (auto simp: time_Second_def)
qed

theorem backoff_is_bounded_witness:
  "3 * Backoff (\<lambda>n. n - 1) 20 time_Minute \<le> 4 * time_Minute \<and> time_Minute < Backoff (\<lambda>n. n - 1) 20 time_Minute"
proof
  have min: "0 < time_Minute" by (simp add: time_Minute_def)
  show "3 * Backoff (\<lambda>n. n - 1) 20 time_Minute \<le> 4 * time_Minute"
    using backoff_is_bounded [of time_Minute "\<lambda>n. n - 1" 20 20, OF min] by simp
  show "time_Minute < Backoff (\<lambda>n. n - 1) 20 time_Minute" by code_simp
qed

end
