(* ===== verification/JobVerifier.thy ===== *)
theory JobVerifier
  imports Signing
begin

text \<open>
  \<^verbatim>\<open>internal/security/jobs.go\<close>: the checks a job envelope passes before anything else
  happens, and the bounded cache of accepted nonces. The state of a verifier is the record
  \<open>JobVerifier\<close>; its mutex makes the last part of \<^verbatim>\<open>Verify\<close> atomic, and the checks
  before it read fields that never change, so one call is one step. The clock reading is an
  argument.
\<close>

section \<open>Patterns\<close>

definition match_classes :: "(char \<Rightarrow> bool) list \<Rightarrow> string \<Rightarrow> bool" where
  "match_classes ps s \<longleftrightarrow> length ps = length s \<and> list_all (\<lambda>(p, c). p c) (zip ps s)"

definition uuid_classes :: "(char \<Rightarrow> bool) list" where
  "uuid_classes =
     replicate 8 is_hex @ [\<lambda>c. c = CHR ''-''] @ replicate 4 is_hex @ [\<lambda>c. c = CHR ''-'']
     @ [\<lambda>c. c \<in> set ''12345''] @ replicate 3 is_hex @ [\<lambda>c. c = CHR ''-'']
     @ [\<lambda>c. c \<in> set ''89abAB''] @ replicate 3 is_hex @ [\<lambda>c. c = CHR ''-''] @ replicate 12 is_hex"

definition uuidPattern :: "string \<Rightarrow> bool" where
  "uuidPattern s = match_classes uuid_classes s"

definition noncePattern :: "string \<Rightarrow> bool" where
  "noncePattern s \<longleftrightarrow> 32 \<le> length s \<and> length s \<le> 128 \<and> list_all is_hex_lower s"

definition modulePattern :: "string \<Rightarrow> bool" where
  "modulePattern s =
     (let parts = split_on (CHR ''.'') (map (\<lambda>c. if c = CHR ''-'' then CHR ''.'' else c) s) in
      2 \<le> length parts \<and> list_all (\<lambda>w. w \<noteq> [] \<and> list_all (\<lambda>c. is_lower c \<or> is_digit c) w) parts)"

section \<open>The verifier\<close>

record JobVerifier =
  v_AgentID :: string
  v_OrganizationID :: string
  v_TrustedKeys :: "(string \<times> bytes) list"
  v_RequireSigned :: bool
  v_seen :: "(string \<times> time) list"

definition FailureCode_of :: "goerror \<Rightarrow> FailureCode" where
  "FailureCode_of err = (case err of VerificationError code _ \<Rightarrow> code | _ \<Rightarrow> FailureInvalidJob)"

definition error_text :: "goerror \<Rightarrow> string" where
  "error_text err = (case err of ErrorText s \<Rightarrow> s | VerificationError _ s \<Rightarrow> s
     | APIError status code _ requestID \<Rightarrow>
         if code \<noteq> [] then ''control plane '' @ code @ '' (HTTP '' @ strconv_Itoa status @ '', request '' @ requestID @ '')''
         else ''control plane returned HTTP '' @ strconv_Itoa status
     | DeadlineExceeded \<Rightarrow> ''context deadline exceeded''
     | Canceled \<Rightarrow> ''context canceled'')"

definition fail :: "FailureCode \<Rightarrow> string \<Rightarrow> goerror option" where
  "fail code message = Some (VerificationError code message)"

definition invalid_optional :: "string option \<Rightarrow> bool" where
  "invalid_optional v \<longleftrightarrow> (case v of None \<Rightarrow> False | Some s \<Rightarrow> \<not> uuidPattern s)"

text \<open>The checks of \<^verbatim>\<open>Verify\<close> before it takes the mutex, in their order.\<close>

definition Verify_checks :: "libs \<Rightarrow> time \<Rightarrow> JobVerifier \<Rightarrow> JobEnvelope \<Rightarrow> goerror option" where
  "Verify_checks L now v job =
     (if RequireCompatible (je_ProtocolVersion job) \<noteq> None
      then fail FailureProtocol ''job protocol major version is incompatible''
      else if \<not> uuidPattern (je_JobID job) \<or> \<not> uuidPattern (je_AgentID job)
         \<or> \<not> uuidPattern (je_OrganizationID job) \<or> \<not> uuidPattern (je_ScopeID job)
         \<or> \<not> modulePattern (je_ModuleID job)
      then fail FailureInvalidJob ''job identity fields are invalid''
      else if list_ex invalid_optional
           [je_AssetID job, je_ServiceID job, je_DiagnosticRunID job, je_VantagePointID job]
      then fail FailureInvalidJob ''job contains an invalid optional identity''
      else if je_AgentID job \<noteq> v_AgentID v \<or> je_OrganizationID job \<noteq> v_OrganizationID v
      then fail FailureInvalidJob ''job belongs to another agent or organization''
      else if je_ModuleVersionRequirement job = [] \<or> je_AuthorizationReference job = []
         \<or> 500 < length (je_AuthorizationReference job) \<or> length (je_ValidatedParameters job) = 0
         \<or> \<not> noncePattern (je_Nonce job)
      then fail FailureInvalidJob ''job required fields are missing''
      else if je_ScopeEnvironment job \<noteq> ''INTERNAL'' \<and> je_ScopeEnvironment job \<noteq> ''PUBLIC''
      then fail FailureTargetRejected ''scope environment is invalid''
      else if je_RiskClass job \<noteq> RiskPassive \<and> je_RiskClass job \<noteq> RiskSafeActive
         \<and> je_RiskClass job \<noteq> RiskControlledActive
      then fail FailureInvalidJob ''risk class is invalid''
      else if je_IssuedAt job = 0 \<or> now + 5 * time_Minute < je_IssuedAt job \<or> je_ExpiresAt job = 0
         \<or> \<not> now < je_ExpiresAt job \<or> \<not> je_IssuedAt job < je_ExpiresAt job
      then fail FailureJobExpired ''job issue or expiry time is invalid''
      else if je_TimeoutSeconds job < 1 \<or> 14400 < je_TimeoutSeconds job
      then fail FailureInvalidJob ''job timeout is outside protocol bounds''
      else case ValidateTarget (lib_url_Parse L) (je_Target job) of
        Some err \<Rightarrow> fail FailureTargetRejected (error_text err)
      | None \<Rightarrow>
          if je_Signature job \<noteq> [] \<or> je_SignatureAlgorithm job \<noteq> [] \<or> je_SigningKeyID job \<noteq> [] then
            (case VerifyJobSignature L job (v_TrustedKeys v) of
               Some err \<Rightarrow> fail FailureSignature (error_text err)
             | None \<Rightarrow> None)
          else if v_RequireSigned v
          then fail FailureSignature ''unsigned jobs are prohibited by local trust policy''
          else None)"

definition max_seen :: nat where
  "max_seen = 4096"

text \<open>The part under the mutex: expired nonces are dropped, then the nonce is admitted or not.\<close>

definition admit_nonce :: "time \<Rightarrow> JobEnvelope \<Rightarrow> JobVerifier \<Rightarrow> goerror option \<times> JobVerifier" where
  "admit_nonce now job v =
     (let live = filter (\<lambda>(_, expiry). now < expiry) (v_seen v) in
      if map_of live (je_Nonce job) \<noteq> None
      then (fail FailureReplay ''job nonce was already accepted'', v\<lparr>v_seen := live\<rparr>)
      else if max_seen \<le> length live
      then (fail FailureInternal ''job nonce cache reached its safety limit'', v\<lparr>v_seen := live\<rparr>)
      else (None, v\<lparr>v_seen := (je_Nonce job, je_ExpiresAt job) # live\<rparr>))"

definition Verify :: "libs \<Rightarrow> time \<Rightarrow> JobEnvelope \<Rightarrow> JobVerifier \<Rightarrow> goerror option \<times> JobVerifier" where
  "Verify L now job v = (case Verify_checks L now v job of
      Some err \<Rightarrow> (Some err, v)
    | None \<Rightarrow> admit_nonce now job v)"

definition ValidateModuleVersion :: "string \<Rightarrow> string \<Rightarrow> goerror option" where
  "ValidateModuleVersion required available =
     (if required \<noteq> available
      then Some (VerificationError FailureModuleUnavailable
        (''module version '' @ required @ '' is required; agent provides '' @ available))
      else None)"

section \<open>Invariant of the nonce cache\<close>

definition seen_inv :: "JobVerifier \<Rightarrow> bool" where
  "seen_inv v \<longleftrightarrow> distinct (map fst (v_seen v)) \<and> length (v_seen v) \<le> max_seen"

lemma distinct_map_filter: "distinct (map f xs) \<Longrightarrow> distinct (map f (filter P xs))"
  by (induction xs) auto

lemma map_of_filter_live:
  "distinct (map fst xs) \<Longrightarrow>
    map_of (filter (\<lambda>(_, e). now < e) xs) n = (case map_of xs n of
        None \<Rightarrow> None | Some e \<Rightarrow> if now < e then Some e else None)"
  by (induction xs) (auto split: option.splits dest: map_of_SomeD simp: rev_image_eqI)

lemma seen_inv_start: "seen_inv v" if "v_seen v = []"
  using that by (simp add: seen_inv_def)

lemma admit_nonce_inv: "seen_inv v \<Longrightarrow> seen_inv (snd (admit_nonce now job v))"
proof -
  assume inv: "seen_inv v"
  let ?live = "filter (\<lambda>(_, expiry). now < expiry) (v_seen v)"
  from inv have "distinct (map fst ?live)" and "length ?live \<le> max_seen"
    by (auto simp: seen_inv_def distinct_map_filter intro: order_trans [OF length_filter_le])
  moreover have "map_of ?live n = None \<Longrightarrow> n \<notin> set (map fst ?live)" for n
    by (simp add: map_of_eq_None_iff)
  ultimately show ?thesis
    by (auto simp: admit_nonce_def Let_def seen_inv_def)
qed

lemma Verify_inv: "seen_inv v \<Longrightarrow> seen_inv (snd (Verify L now job v))"
  by (simp add: Verify_def admit_nonce_inv split: option.splits)

lemma Verify_frame:
  "v_AgentID (snd (Verify L now job v)) = v_AgentID v"
  "v_OrganizationID (snd (Verify L now job v)) = v_OrganizationID v"
  "v_TrustedKeys (snd (Verify L now job v)) = v_TrustedKeys v"
  "v_RequireSigned (snd (Verify L now job v)) = v_RequireSigned v"
  by (auto simp: Verify_def admit_nonce_def Let_def split: option.splits)

section \<open>Replay protection as an interface\<close>

text \<open>
  What a client of a replay guard relies on: an admitted request is remembered under its key
  with its expiry, what is remembered and has not expired is kept, and while it is kept no
  request with that key is admitted. The consequences for whole runs are proved once.
\<close>

fun run_admit :: "(time \<Rightarrow> 'r \<Rightarrow> 'c \<Rightarrow> bool \<times> 'c) \<Rightarrow> 'c \<Rightarrow> (time \<times> 'r) list \<Rightarrow> bool list" where
  "run_admit f c [] = []"
| "run_admit f c ((now, r) # rs) = fst (f now r c) # run_admit f (snd (f now r c)) rs"

lemma length_run_admit [simp]: "length (run_admit f c rs) = length rs"
  by (induction f c rs rule: run_admit.induct) auto

lemma run_admit_nth:
  "j < length rs \<Longrightarrow> \<exists>c'. run_admit f c rs ! j = fst (f (fst (rs ! j)) (snd (rs ! j)) c')"
proof (induction f c rs arbitrary: j rule: run_admit.induct)
  case (2 f c now r rs)
  then show ?case by (cases j) auto
qed simp

locale replay_guard =
  fixes admit :: "time \<Rightarrow> 'r \<Rightarrow> 'c \<Rightarrow> bool \<times> 'c"
    and key :: "'r \<Rightarrow> string"
    and expiry :: "'r \<Rightarrow> time"
    and live :: "'c \<Rightarrow> string \<Rightarrow> time option"
    and invar :: "'c \<Rightarrow> bool"
  assumes invar_admit: "invar c \<Longrightarrow> invar (snd (admit now r c))"
    and admit_blocks: "invar c \<Longrightarrow> live c (key r) = Some e \<Longrightarrow> now < e \<Longrightarrow> \<not> fst (admit now r c)"
    and admit_records: "invar c \<Longrightarrow> fst (admit now r c) \<Longrightarrow>
          live (snd (admit now r c)) (key r) = Some (expiry r)"
    and admit_keeps: "invar c \<Longrightarrow> live c n = Some e \<Longrightarrow> now < e \<Longrightarrow>
          n \<noteq> key r \<or> \<not> fst (admit now r c) \<Longrightarrow> live (snd (admit now r c)) n = Some e"
begin

lemma remembered_blocks:
  assumes "invar c" and "live c n = Some e" and "j < length rs" and "key (snd (rs ! j)) = n"
    and "\<forall>k\<le>j. fst (rs ! k) < e"
  shows "\<not> run_admit admit c rs ! j"
  using assms
proof (induction rs arbitrary: c j)
  case (Cons q rs)
  obtain now r where q: "q = (now, r)" by fastforce
  from Cons.prems(5) q have now: "now < e" by force
  show ?case
  proof (cases j)
    case 0
    with Cons.prems q now show ?thesis by (auto dest: admit_blocks)
  next
    case (Suc k)
    from now have "live (snd (admit now r c)) n = Some e"
      using Cons.prems(1,2) by (cases "n = key r") (auto dest: admit_blocks intro: admit_keeps)
    moreover have "\<forall>l\<le>k. fst (rs ! l) < e" using Cons.prems(5) Suc by force
    ultimately show ?thesis
      using Cons.IH [of "snd (admit now r c)" k] Cons.prems(1,3,4) Suc q invar_admit by simp
  qed
qed simp

text \<open>A key is admitted again only after the clock has shown a time past its first expiry.\<close>

lemma admitted_again_past_expiry:
  assumes "invar c" and "i < j" and "j < length rs"
    and "run_admit admit c rs ! i" and "run_admit admit c rs ! j"
    and "key (snd (rs ! i)) = key (snd (rs ! j))"
  shows "\<exists>k. i < k \<and> k \<le> j \<and> expiry (snd (rs ! i)) \<le> fst (rs ! k)"
  using assms
proof (induction rs arbitrary: c i j)
  case (Cons q rs)
  obtain now r where q: "q = (now, r)" by fastforce
  let ?c = "snd (admit now r c)"
  from Cons.prems obtain m where j: "j = Suc m" by (cases j) auto
  have inv: "invar ?c" using Cons.prems(1) by (rule invar_admit)
  show ?case
  proof (cases i)
    case 0
    then have "live ?c (key r) = Some (expiry r)"
      using Cons.prems q by (intro admit_records) auto
    from remembered_blocks [OF inv this, of m rs] Cons.prems q j 0
    obtain k where "k \<le> m" "expiry r \<le> fst (rs ! k)" by (fastforce simp: not_less)
    with q j 0 show ?thesis by (intro exI [of _ "Suc k"]) simp
  next
    case (Suc l)
    with Cons.IH [of ?c l m] Cons.prems q j inv obtain k where "l < k" "k \<le> m" "expiry (snd (rs ! l)) \<le> fst (rs ! k)"
      by auto
    with q j Suc show ?thesis by (intro exI [of _ "Suc k"]) simp
  qed
qed simp

end

section \<open>The verifier is a replay guard\<close>

definition Verify_admit :: "libs \<Rightarrow> time \<Rightarrow> JobEnvelope \<Rightarrow> JobVerifier \<Rightarrow> bool \<times> JobVerifier" where
  "Verify_admit L now job v = (fst (Verify L now job v) = None, snd (Verify L now job v))"

lemma fst_Verify_None:
  "fst (Verify L now job v) = None \<longleftrightarrow>
     Verify_checks L now v job = None \<and> fst (admit_nonce now job v) = None"
  by (simp add: Verify_def split: option.split)

lemma admit_nonce_accept_iff:
  "fst (admit_nonce now job v) = None \<longleftrightarrow>
     map_of (filter (\<lambda>(_, e). now < e) (v_seen v)) (je_Nonce job) = None
     \<and> length (filter (\<lambda>(_, e). now < e) (v_seen v)) < max_seen"
  by (auto simp: admit_nonce_def Let_def fail_def)

interpretation vguard: replay_guard "Verify_admit L" je_Nonce je_ExpiresAt "\<lambda>v. map_of (v_seen v)" seen_inv
  for L :: libs
proof unfold_locales
  fix c :: JobVerifier and now :: time and job :: JobEnvelope and n :: string and e :: time
  assume inv: "seen_inv c"
  then have dist: "distinct (map fst (v_seen c))" by (simp add: seen_inv_def)
  show "seen_inv (snd (Verify_admit L now job c))"
    using inv by (simp add: Verify_admit_def Verify_inv)
  show "\<not> fst (Verify_admit L now job c)"
    if "map_of (v_seen c) (je_Nonce job) = Some e" and "now < e"
    using that by (simp add: Verify_admit_def fst_Verify_None admit_nonce_accept_iff
        map_of_filter_live [OF dist])
  show "map_of (v_seen (snd (Verify_admit L now job c))) (je_Nonce job) = Some (je_ExpiresAt job)"
    if "fst (Verify_admit L now job c)"
    using that by (auto simp: Verify_admit_def Verify_def admit_nonce_def Let_def fail_def
        split: option.splits if_splits)
  show "map_of (v_seen (snd (Verify_admit L now job c))) n = Some e"
    if "map_of (v_seen c) n = Some e" and "now < e" and "n \<noteq> je_Nonce job \<or> \<not> fst (Verify_admit L now job c)"
    using that by (auto simp: Verify_admit_def Verify_def admit_nonce_def Let_def fail_def
        map_of_filter_live [OF dist] split: option.splits)
qed

definition Verify_run :: "libs \<Rightarrow> JobVerifier \<Rightarrow> (time \<times> JobEnvelope) list \<Rightarrow> bool list" where
  "Verify_run L v reqs = run_admit (Verify_admit L) v reqs"

lemma Verify_checks_time:
  "Verify_checks L now v job = None \<Longrightarrow> now < je_ExpiresAt job"
  by (auto simp: Verify_checks_def fail_def split: if_splits)

text \<open>
  C2: in any run of \<^verbatim>\<open>Verify\<close> on one verifier, whatever times the clock shows, a nonce that was
  accepted is accepted again only if the clock has shown, at a verification after the first, a
  time at which the first envelope had expired. So the same envelope is accepted twice only if
  the clock has passed its expiry in between and then gone back before it, and never while the
  clock does not go back.
\<close>

theorem nonce_accepted_once_until_expiry:
  assumes "v_seen v = []" and "i < j" and "j < length reqs"
    and "Verify_run L v reqs ! i" and "Verify_run L v reqs ! j"
    and "je_Nonce (snd (reqs ! i)) = je_Nonce (snd (reqs ! j))"
  shows "(\<exists>k. i < k \<and> k \<le> j \<and> je_ExpiresAt (snd (reqs ! i)) \<le> fst (reqs ! k))
    \<and> (snd (reqs ! i) = snd (reqs ! j) \<longrightarrow> fst (reqs ! j) < je_ExpiresAt (snd (reqs ! i))
         \<and> (\<exists>k. i < k \<and> k < j \<and> je_ExpiresAt (snd (reqs ! i)) \<le> fst (reqs ! k)))
    \<and> (sorted (map fst reqs) \<longrightarrow> je_ExpiresAt (snd (reqs ! i)) \<le> fst (reqs ! j) \<and> snd (reqs ! i) \<noteq> snd (reqs ! j))"
proof -
  let ?expiry = "je_ExpiresAt (snd (reqs ! i))"
  obtain k where k: "i < k" "k \<le> j" "?expiry \<le> fst (reqs ! k)"
    using assms vguard.admitted_again_past_expiry [of v i j reqs L] seen_inv_start by (auto simp: Verify_run_def)
  obtain v' where "fst (Verify_admit L (fst (reqs ! j)) (snd (reqs ! j)) v')"
    using assms(3,5) run_admit_nth [of j reqs "Verify_admit L" v] by (auto simp: Verify_run_def)
  then have unexpired: "fst (reqs ! j) < je_ExpiresAt (snd (reqs ! j))"
    by (auto simp: Verify_admit_def fst_Verify_None dest: Verify_checks_time)
  have "fst (reqs ! k) \<le> fst (reqs ! j)" if "sorted (map fst reqs)"
    using sorted_nth_mono [OF that k(2)] assms(3) k(2) by simp
  moreover have "k \<noteq> j" if "snd (reqs ! i) = snd (reqs ! j)" using that unexpired k(3) by auto
  ultimately show ?thesis using k unexpired by force
qed

text \<open>A concrete envelope and verifier, used by the witnesses of several theories.\<close>

definition sample_libs :: libs where
  "sample_libs = \<lparr>lib_url_Parse = no_url, lib_jcs_Transform = Inr,
     lib_ed25519_Verify = (\<lambda>key payload signature. key = replicate 32 (CHR ''k'')),
     lib_sha256 = (\<lambda>_. replicate 32 (CHR 0x00))\<rparr>"

definition sample_job :: JobEnvelope where
  "sample_job = \<lparr>je_ProtocolVersion = ''1.0'', je_JobID = ''11111111-1111-4111-8111-111111111111'',
     je_OrganizationID = ''22222222-2222-4222-8222-222222222222'',
     je_AgentID = ''33333333-3333-4333-8333-333333333333'', je_ModuleID = ''network.tcp'',
     je_ModuleVersionRequirement = ''0.1.0'', je_ScopeID = ''44444444-4444-4444-8444-444444444444'',
     je_ScopeEnvironment = ''INTERNAL'', je_AssetID = None, je_ServiceID = None,
     je_DiagnosticRunID = None, je_VantagePointID = None,
     je_Target = \<lparr>jt_Type = ''IP'', jt_Value = ''10.0.0.1''\<rparr>, je_ValidatedParameters = ''{}'',
     je_RiskClass = ''SAFE_ACTIVE'', je_AuthorizationReference = ''ref'', je_IssuedAt = 1000,
     je_ExpiresAt = 5000, je_TimeoutSeconds = 60, je_Nonce = replicate 32 (CHR ''a''),
     je_SigningKeyID = [], je_SignatureAlgorithm = [], je_Signature = []\<rparr>"

definition sample_verifier :: JobVerifier where
  "sample_verifier = \<lparr>v_AgentID = ''33333333-3333-4333-8333-333333333333'',
     v_OrganizationID = ''22222222-2222-4222-8222-222222222222'',
     v_TrustedKeys = [(''k1'', replicate 32 (CHR ''k''))], v_RequireSigned = False, v_seen = []\<rparr>"

lemma sample_accepted:
  "Verify sample_libs 2000 sample_job sample_verifier
     = (None, sample_verifier\<lparr>v_seen := [(replicate 32 (CHR ''a''), 5000)]\<rparr>)"
  by code_simp

text \<open>The first envelope is accepted again after the clock has shown a time past its expiry and gone back.\<close>

theorem nonce_accepted_once_until_expiry_witness:
  "let reqs = [(2000, sample_job), (6000, sample_job\<lparr>je_ExpiresAt := 9000, je_Nonce := replicate 32 (CHR ''b'')\<rparr>), (2000, sample_job)]
   in Verify_run sample_libs sample_verifier reqs = [True, True, True]
     \<and> (\<exists>k. 0 < k \<and> k < 2 \<and> je_ExpiresAt sample_job \<le> fst (reqs ! k))"
proof -
  let ?reqs = "[(2000, sample_job), (6000, sample_job\<lparr>je_ExpiresAt := 9000, je_Nonce := replicate 32 (CHR ''b'')\<rparr>), (2000, sample_job)]"
  have run: "Verify_run sample_libs sample_verifier ?reqs = [True, True, True]" by code_simp
  have "v_seen sample_verifier = []" by (simp add: sample_verifier_def)
  then have "\<exists>k. 0 < k \<and> k < 2 \<and> je_ExpiresAt sample_job \<le> fst (?reqs ! k)"
    using nonce_accepted_once_until_expiry [of sample_verifier 0 2 ?reqs sample_libs] run by simp
  with run show ?thesis unfolding Let_def by (rule conjI)
qed

section \<open>What acceptance means\<close>

lemma if_fail_None: "(if b then fail c m else r) = None \<longleftrightarrow> \<not> b \<and> r = None"
  by (simp add: fail_def)

lemma case_fail_None:
  "(case x of None \<Rightarrow> r | Some e \<Rightarrow> fail c (f e)) = None \<longleftrightarrow> x = None \<and> r = None"
  by (simp add: fail_def split: option.split)

lemma Verify_checks_iff:
  "Verify_checks L now v job = None \<longleftrightarrow>
     RequireCompatible (je_ProtocolVersion job) = None
     \<and> uuidPattern (je_JobID job) \<and> uuidPattern (je_AgentID job) \<and> uuidPattern (je_OrganizationID job)
     \<and> uuidPattern (je_ScopeID job) \<and> modulePattern (je_ModuleID job)
     \<and> (\<forall>x\<in>{je_AssetID job, je_ServiceID job, je_DiagnosticRunID job, je_VantagePointID job}.
          \<forall>s. x = Some s \<longrightarrow> uuidPattern s)
     \<and> je_AgentID job = v_AgentID v \<and> je_OrganizationID job = v_OrganizationID v
     \<and> je_ModuleVersionRequirement job \<noteq> [] \<and> je_AuthorizationReference job \<noteq> []
     \<and> length (je_AuthorizationReference job) \<le> 500 \<and> je_ValidatedParameters job \<noteq> []
     \<and> noncePattern (je_Nonce job)
     \<and> je_ScopeEnvironment job \<in> {''INTERNAL'', ''PUBLIC''}
     \<and> je_RiskClass job \<in> {RiskPassive, RiskSafeActive, RiskControlledActive}
     \<and> je_IssuedAt job \<noteq> 0 \<and> je_ExpiresAt job \<noteq> 0
     \<and> je_IssuedAt job \<le> now + 5 * time_Minute \<and> now < je_ExpiresAt job
     \<and> je_IssuedAt job < je_ExpiresAt job
     \<and> 1 \<le> je_TimeoutSeconds job \<and> je_TimeoutSeconds job \<le> 14400
     \<and> ValidateTarget (lib_url_Parse L) (je_Target job) = None
     \<and> (if je_Signature job \<noteq> [] \<or> je_SignatureAlgorithm job \<noteq> [] \<or> je_SigningKeyID job \<noteq> []
        then VerifyJobSignature L job (v_TrustedKeys v) = None else \<not> v_RequireSigned v)"
  unfolding Verify_checks_def if_fail_None case_fail_None
  by (auto simp: invalid_optional_def not_less not_le if_fail_None case_fail_None fail_def
      split: option.splits)

text \<open>
  C24: a job that \<^verbatim>\<open>Verify\<close> accepts speaks the agent's protocol version, is addressed to this
  agent and organization, carries well-formed identifiers and nonce, a known scope environment
  and risk class, a target that passes target validation, and is inside its time window with a
  timeout of at most four hours.
\<close>

theorem accepted_job_is_bound_to_agent:
  assumes "fst (Verify L now job v) = None"
  shows "RequireCompatible (je_ProtocolVersion job) = None
    \<and> je_AgentID job = v_AgentID v \<and> je_OrganizationID job = v_OrganizationID v
    \<and> uuidPattern (je_JobID job) \<and> uuidPattern (je_ScopeID job) \<and> modulePattern (je_ModuleID job)
    \<and> noncePattern (je_Nonce job)
    \<and> je_ScopeEnvironment job \<in> {''INTERNAL'', ''PUBLIC''}
    \<and> je_RiskClass job \<in> {RiskPassive, RiskSafeActive, RiskControlledActive}
    \<and> ValidateTarget (lib_url_Parse L) (je_Target job) = None
    \<and> je_IssuedAt job \<le> now + 5 * time_Minute \<and> now < je_ExpiresAt job
    \<and> 1 \<le> je_TimeoutSeconds job \<and> je_TimeoutSeconds job \<le> 14400"
  using assms by (simp add: fst_Verify_None Verify_checks_iff)

theorem accepted_job_is_bound_to_agent_witness:
  "fst (Verify sample_libs 2000 sample_job sample_verifier) = None
   \<and> je_AgentID sample_job = v_AgentID sample_verifier \<and> je_TimeoutSeconds sample_job \<le> 14400"
  using accepted_job_is_bound_to_agent [of sample_libs 2000 sample_job sample_verifier] sample_accepted
  by simp

text \<open>
  C3: no downgrade to unsigned work. Where local policy requires signatures, or where an
  envelope carries any of the signing fields, acceptance means that a trusted key, found
  under the key identifier the job names, verifies the signature over the canonical payload.
\<close>

theorem accepted_job_is_signed:
  assumes "fst (Verify L now job v) = None"
    and "v_RequireSigned v \<or> je_Signature job \<noteq> [] \<or> je_SignatureAlgorithm job \<noteq> []
         \<or> je_SigningKeyID job \<noteq> []"
  shows "signed_by L (v_TrustedKeys v) job"
proof -
  from assms have "VerifyJobSignature L job (v_TrustedKeys v) = None"
    by (auto simp: fst_Verify_None Verify_checks_iff split: if_splits)
  then show ?thesis by (simp add: VerifyJobSignature_None_iff)
qed

definition sample_signed_job :: JobEnvelope where
  "sample_signed_job = sample_job\<lparr>je_SigningKeyID := ''k1'', je_SignatureAlgorithm := ''Ed25519'',
     je_Signature := replicate 86 (CHR ''A'') @ ''==''\<rparr>"

definition sample_payload :: json where
  "sample_payload = JObject
     [(''agentId'', JString ''33333333-3333-4333-8333-333333333333''),
      (''authorizationReference'', JString ''ref''),
      (''expiresAt'', JString ''0001-01-01T00:00:00.000005Z''),
      (''issuedAt'', JString ''0001-01-01T00:00:00.000001Z''),
      (''jobId'', JString ''11111111-1111-4111-8111-111111111111''),
      (''moduleId'', JString ''network.tcp''),
      (''nonce'', JString (replicate 32 (CHR ''a''))),
      (''organizationId'', JString ''22222222-2222-4222-8222-222222222222''),
      (''protocolVersion'', JString ''1.0''),
      (''riskClass'', JString ''SAFE_ACTIVE''),
      (''scopeEnvironment'', JString ''INTERNAL''),
      (''scopeId'', JString ''44444444-4444-4444-8444-444444444444''),
      (''target'', JObject [(''type'', JString ''IP''), (''value'', JString ''10.0.0.1'')]),
      (''timeoutSeconds'', JNumber ''60''),
      (''validatedParameters'', JObject [])]"

lemma sample_payload_decoded:
  "json_Decode (marshal_object (payload_members sample_signed_job ''{}'')) = DecValue sample_payload []"
  by code_simp

lemma sample_payload_numbers: "validateNumbers sample_payload = None"
  unfolding sample_payload_def
  by (simp add: go_map_def validateNumber_def literal_defs float64_overflow_def float64_zero_def)

lemma sample_payload_ok:
  "CanonicalJobPayload sample_libs sample_signed_job
     = Inr (marshal_object (payload_members sample_signed_job ''{}''))"
proof -
  have "Canonicalize Inr ''{}'' = Inr ''{}''" and "marshal_raw ''{}'' = Inr ''{}''"
    and "ensureEOF [] = None"
    by code_simp+
  moreover have "je_ValidatedParameters sample_signed_job = ''{}''" and "lib_jcs_Transform sample_libs = Inr"
    by (simp_all add: sample_signed_job_def sample_job_def sample_libs_def)
  ultimately show ?thesis
    by (simp add: CanonicalJobPayload_def Marshal_def)
      (simp add: Canonicalize_def sample_payload_decoded sample_payload_numbers)
qed

lemma sample_signed_accepted:
  "fst (Verify sample_libs 2000 sample_signed_job (sample_verifier\<lparr>v_RequireSigned := True\<rparr>)) = None"
proof -
  have "signed_by sample_libs (v_TrustedKeys sample_verifier) sample_signed_job"
    unfolding signed_by_def
  proof (intro exI conjI)
    show "map_of (v_TrustedKeys sample_verifier) (je_SigningKeyID sample_signed_job)
        = Some (replicate 32 (CHR ''k''))"
      by (simp add: sample_verifier_def sample_signed_job_def)
    show "base64_DecodeString (je_Signature sample_signed_job) = Some (replicate 64 (CHR 0x00))"
      by code_simp
  qed (rule sample_payload_ok, simp_all add: sample_libs_def)
  then have "VerifyJobSignature sample_libs sample_signed_job (v_TrustedKeys sample_verifier) = None"
    by (simp add: VerifyJobSignature_None_iff)
      (simp add: sample_signed_job_def SignatureAlgorithmEd25519_def)
  moreover have "Verify_checks sample_libs 2000 sample_verifier sample_job = None"
    using sample_accepted by (simp add: Verify_def split: option.splits)
  ultimately show ?thesis
    by (simp add: fst_Verify_None Verify_checks_iff admit_nonce_accept_iff)
      (auto simp: sample_signed_job_def sample_verifier_def max_seen_def)
qed

theorem accepted_job_is_signed_witness:
  "signed_by sample_libs (v_TrustedKeys sample_verifier) sample_signed_job
   \<and> fst (Verify sample_libs 2000 sample_job (sample_verifier\<lparr>v_RequireSigned := True\<rparr>)) \<noteq> None"
proof
  show "signed_by sample_libs (v_TrustedKeys sample_verifier) sample_signed_job"
    using accepted_job_is_signed [OF sample_signed_accepted] by simp
  show "fst (Verify sample_libs 2000 sample_job (sample_verifier\<lparr>v_RequireSigned := True\<rparr>)) \<noteq> None"
    by code_simp
qed

text \<open>Every rejection carries its failure code, so the default of \<^verbatim>\<open>FailureCode\<close> is never used.\<close>

definition coded :: "goerror option \<Rightarrow> bool" where
  "coded r \<longleftrightarrow> (\<forall>err. r = Some err \<longrightarrow> (\<exists>code m. err = VerificationError code m))"

lemma coded_intros:
  "coded None" "coded (fail c m)" "coded a \<Longrightarrow> coded b \<Longrightarrow> coded (if p then a else b)"
  "coded a \<Longrightarrow> (\<And>e. coded (f e)) \<Longrightarrow> coded (case x of None \<Rightarrow> a | Some e \<Rightarrow> f e)"
  by (auto simp: coded_def fail_def split: option.split)

lemma Verify_rejection_has_code:
  assumes "fst (Verify L now job v) = Some err"
  shows "\<exists>code m. err = VerificationError code m \<and> FailureCode_of err = code"
proof -
  have "coded (Verify_checks L now v job)"
    unfolding Verify_checks_def by (intro coded_intros)
  moreover have "coded (fst (admit_nonce now job v))"
    by (simp add: admit_nonce_def Let_def coded_intros)
  ultimately have "coded (fst (Verify L now job v))"
    by (simp add: Verify_def coded_def split: option.split)
  with assms show ?thesis by (auto simp: coded_def FailureCode_of_def)
qed

text \<open>A rejected job leaves no trace but the removal of nonces that have expired.\<close>

lemma Verify_rejection_state:
  assumes "fst (Verify L now job v) = Some err"
  shows "snd (Verify L now job v) = v
    \<or> snd (Verify L now job v) = v\<lparr>v_seen := filter (\<lambda>(_, e). now < e) (v_seen v)\<rparr>"
  using assms by (auto simp: Verify_def admit_nonce_def Let_def split: option.splits)

section \<open>Bounded memory\<close>

fun Verify_state :: "libs \<Rightarrow> JobVerifier \<Rightarrow> (time \<times> JobEnvelope) list \<Rightarrow> JobVerifier" where
  "Verify_state L v [] = v"
| "Verify_state L v ((now, job) # reqs) = Verify_state L (snd (Verify L now job v)) reqs"

text \<open>
  C25: whatever jobs arrive and whatever the clock does, the nonce cache never holds more than
  4096 entries, each nonce once, and the verifier's identity, keys and policy never change.
\<close>

theorem nonce_cache_stays_bounded:
  assumes "v_seen v = []"
  shows "length (v_seen (Verify_state L v reqs)) \<le> 4096
    \<and> distinct (map fst (v_seen (Verify_state L v reqs)))
    \<and> v_AgentID (Verify_state L v reqs) = v_AgentID v
    \<and> v_TrustedKeys (Verify_state L v reqs) = v_TrustedKeys v
    \<and> v_RequireSigned (Verify_state L v reqs) = v_RequireSigned v"
proof -
  have "seen_inv w \<Longrightarrow> seen_inv (Verify_state L w reqs)
      \<and> v_AgentID (Verify_state L w reqs) = v_AgentID w
      \<and> v_TrustedKeys (Verify_state L w reqs) = v_TrustedKeys w
      \<and> v_RequireSigned (Verify_state L w reqs) = v_RequireSigned w" for w
    by (induction L w reqs rule: Verify_state.induct) (simp_all add: Verify_inv Verify_frame)
  from this [OF seen_inv_start [OF assms]] show ?thesis
    by (simp add: seen_inv_def max_seen_def)
qed

theorem nonce_cache_stays_bounded_witness:
  "length (v_seen (Verify_state sample_libs sample_verifier [(2000, sample_job)])) \<le> 4096
   \<and> v_seen (Verify_state sample_libs sample_verifier [(2000, sample_job)]) \<noteq> []"
proof -
  have "v_seen sample_verifier = []" by (simp add: sample_verifier_def)
  from nonce_cache_stays_bounded [OF this, of sample_libs "[(2000, sample_job)]"] show ?thesis
    by (simp add: sample_accepted)
qed

end
