(* ===== verification/Artifacts.thy ===== *)
theory Artifacts
  imports Client JobVerifier
begin

text \<open>
  \<^verbatim>\<open>internal/artifacts/transfer.go\<close>: authenticated download and upload of artifacts with bounded,
  verified content. The transport, SHA-256, the clock-free parts of the file system and the
  random part of a temporary name are given per call; the temporary directory is the state.
\<close>

section \<open>Types\<close>

definition ErrChecksumMismatch :: goerror where
  "ErrChecksumMismatch = ErrorText ''ARTIFACT_CHECKSUM_MISMATCH''"

definition ErrSizeLimit :: goerror where
  "ErrSizeLimit = ErrorText ''ARTIFACT_SIZE_LIMIT_EXCEEDED''"

record Transfer =
  tr_MaxDownloadBytes :: int
  tr_MaxUploadBytes :: int
  tr_TempDir :: string

text \<open>The files of the temporary directory by their path.\<close>

type_synonym temp_files = "(string \<times> bytes) list"

text \<open>
  One download's surroundings: the outcome of making a request and of sending it, the random
  part of the file name, the errors of changing the mode, of writing (after some bytes), of
  syncing, of closing, and whether the removal of the file succeeds.
\<close>

record download_env =
  dl_libs :: libs
  dl_client :: client_env
  dl_createTemp :: "string result"
  dl_chmod :: "goerror option"
  dl_write :: "(nat \<times> goerror) option"
  dl_sync :: "goerror option"
  dl_close :: "goerror option"
  dl_removes :: bool

section \<open>Checks\<close>

definition IP_IsLoopback :: "nat list \<Rightarrow> bool" where
  "IP_IsLoopback ip \<longleftrightarrow> take 12 ip = replicate 10 0 @ [255, 255] \<and> length ip = 16 \<and> ip ! 12 = 127
     \<or> ip = replicate 15 0 @ [1]"

definition safeTransferURL :: "url_parser \<Rightarrow> string \<Rightarrow> goerror option" where
  "safeTransferURL url_Parse v = (case url_Parse v of
      None \<Rightarrow> Some (ErrorText ''artifact transfer URL is invalid'')
    | Some parsed \<Rightarrow>
        if url_Host parsed = [] \<or> url_HasUser parsed then Some (ErrorText ''artifact transfer URL is invalid'')
        else if url_Scheme parsed = ''https'' then None
        else let host = url_Hostname parsed in
          if url_Scheme parsed = ''http''
             \<and> (host = ''localhost'' \<or> (case net_ParseIP host of None \<Rightarrow> False | Some ip \<Rightarrow> IP_IsLoopback ip))
          then None
          else Some (ErrorText ''artifact transfer URL must use HTTPS''))"

text \<open>A rune outside ASCII consists of bytes outside ASCII, so the test per rune is a test per byte.\<close>

definition filepath_Base_plain :: "string \<Rightarrow> string" where
  "filepath_Base_plain s = (if s = [] then ''.'' else s)"

definition safeID :: "string \<Rightarrow> string" where
  "safeID i = (if list_all (\<lambda>r. is_alnum r \<or> r = CHR ''-'') i then filepath_Base_plain i else ''opaque'')"

section \<open>Verified copy\<close>

text \<open>
  \<^verbatim>\<open>io.Copy\<close> from a reader limited to \<open>n\<close> bytes into a file whose writes fail after some bytes:
  what the file holds, and the error. An error of the source that comes after the limit is not
  seen.
\<close>

definition copy_limited :: "int \<Rightarrow> http_wire \<Rightarrow> (nat \<times> goerror) option \<Rightarrow> bytes \<times> goerror option" where
  "copy_limited n source write =
     (let chunk = take (nat n) (hw_Body source) in
      case write of
        Some (k, err) \<Rightarrow> if k < length chunk then (take k chunk, Some err)
          else (chunk, if int (length (hw_Body source)) < n then hw_BodyErr source else None)
      | None \<Rightarrow> (chunk, if int (length (hw_Body source)) < n then hw_BodyErr source else None))"

definition copyVerified :: "libs \<Rightarrow> http_wire \<Rightarrow> (nat \<times> goerror) option \<Rightarrow> int \<Rightarrow> int \<Rightarrow> string \<Rightarrow> bytes \<times> goerror option" where
  "copyVerified L source write expectedSize maximum expectedSHA256 =
     (if maximum < 1 \<or> maximum < expectedSize then ([], Some ErrSizeLimit)
      else case copy_limited (int64_wrap (maximum + 1)) source write of (written, err) \<Rightarrow>
        (case err of
           Some e \<Rightarrow> (written, Some e)
         | None \<Rightarrow>
             if maximum < int (length written) then (written, Some ErrSizeLimit)
             else if int (length written) \<noteq> expectedSize
             then (written, Some (ErrorText ''artifact final size differs from manifest''))
             else if hex_EncodeToString (lib_sha256 L written) \<noteq> strings_ToLower expectedSHA256
             then (written, Some ErrChecksumMismatch)
             else (written, None)))"

section \<open>Download\<close>

text \<open>
  \<^verbatim>\<open>os.CreateTemp\<close> in the configured directory: a separator is added unless the directory ends
  with one.
\<close>

definition temp_prefix :: "Transfer \<Rightarrow> string" where
  "temp_prefix t = (if tr_TempDir t \<noteq> [] \<and> last (tr_TempDir t) = CHR ''/'' then tr_TempDir t else tr_TempDir t @ ''/'')"

definition part_name :: "Transfer \<Rightarrow> string \<Rightarrow> string \<Rightarrow> string" where
  "part_name t artifactID random = temp_prefix t @ ''.artifact-'' @ safeID artifactID @ ''-'' @ random @ ''.part''"

text \<open>The deferred clean-up of an uncommitted file.\<close>

definition discard :: "download_env \<Rightarrow> string \<Rightarrow> bytes \<Rightarrow> temp_files \<Rightarrow> temp_files" where
  "discard env path data files = (if dl_removes env then files else (path, data) # files)"

definition artifact_request :: "string \<Rightarrow> string \<Rightarrow> string \<Rightarrow> http_request" where
  "artifact_request meth transferURL token = \<lparr>rq_Method = meth, rq_URL = transferURL,
     rq_Headers = [(''Authorization'', ''Artifact '' @ token)], rq_Body = None\<rparr>"

text \<open>From the creation of the file on.\<close>

definition receive :: "download_env \<Rightarrow> Transfer \<Rightarrow> http_wire \<Rightarrow> string \<Rightarrow> int \<Rightarrow> string \<Rightarrow> temp_files \<Rightarrow> string result \<times> temp_files" where
  "receive env t response path expectedSize expectedSHA256 files = (case dl_chmod env of
      Some err \<Rightarrow> (Inl err, discard env path [] files)
    | None \<Rightarrow> (case copyVerified (dl_libs env) response (dl_write env) expectedSize (tr_MaxDownloadBytes t) expectedSHA256 of
        (data, Some err) \<Rightarrow> (Inl err, discard env path data files)
      | (data, None) \<Rightarrow> (case dl_sync env of
          Some err \<Rightarrow> (Inl err, discard env path data files)
        | None \<Rightarrow> (case dl_close env of
            Some err \<Rightarrow> (Inl err, discard env path data files)
          | None \<Rightarrow> (Inr path, (path, data) # files)))))"

definition Download :: "download_env \<Rightarrow> Transfer \<Rightarrow> string \<Rightarrow> string \<Rightarrow> string \<Rightarrow> int \<Rightarrow> string \<Rightarrow> temp_files \<Rightarrow>
    string result \<times> temp_files" where
  "Download env t transferURL token artifactID expectedSize expectedSHA256 files =
     (case safeTransferURL (lib_url_Parse (dl_libs env)) transferURL of
        Some err \<Rightarrow> (Inl err, files)
      | None \<Rightarrow>
          if expectedSize < 0 \<or> tr_MaxDownloadBytes t < expectedSize then (Inl ErrSizeLimit, files)
          else (case cl_newRequest (dl_client env) ''GET'' transferURL of
            Some err \<Rightarrow> (Inl err, files)
          | None \<Rightarrow> (case cl_do (dl_client env) (artifact_request ''GET'' transferURL token) of
              Inl err \<Rightarrow> (Inl err, files)
            | Inr response \<Rightarrow>
                if hw_StatusCode response \<noteq> 200
                then (Inl (ErrorText (''artifact download failed with status '' @ strconv_Itoa (hw_StatusCode response))), files)
                else (case dl_createTemp env of
                  Inl err \<Rightarrow> (Inl err, files)
                | Inr random \<Rightarrow>
                    receive env t response (part_name t artifactID random) expectedSize expectedSHA256 files))))"

section \<open>Upload\<close>

text \<open>An upload sets the length of the body it announces, since the body is a stream.\<close>

record upload_http_request = http_request +
  rq_ContentLength :: int

text \<open>
  The surroundings of an upload: what \<^verbatim>\<open>os.Lstat\<close> says of the path (whether it is a regular file,
  and its size), the file's content when it is opened, and for a request the number of bytes of
  the body the transport has read when it returns, with the status of the response.
\<close>

record upload_env =
  ul_libs :: libs
  ul_lstat :: "(bool \<times> int) result"
  ul_open :: "bytes result"
  ul_newRequest :: "string \<Rightarrow> string \<Rightarrow> goerror option"
  ul_do :: "upload_http_request \<Rightarrow> nat \<times> int result"

definition upload_request :: "string \<Rightarrow> string \<Rightarrow> string \<Rightarrow> int \<Rightarrow> bytes \<Rightarrow> upload_http_request" where
  "upload_request transferURL token expectedSHA256 sz body = \<lparr>rq_Method = ''PUT'', rq_URL = transferURL,
     rq_Headers = [(''Authorization'', ''Artifact '' @ token), (''X-NetScope-Artifact-SHA256'', strings_ToLower expectedSHA256)],
     rq_Body = Some body, rq_ContentLength = sz\<rparr>"

definition Upload :: "upload_env \<Rightarrow> Transfer \<Rightarrow> string \<Rightarrow> string \<Rightarrow> string \<Rightarrow> goerror option" where
  "Upload env t transferURL token expectedSHA256 =
     (case safeTransferURL (lib_url_Parse (ul_libs env)) transferURL of
        Some err \<Rightarrow> Some err
      | None \<Rightarrow> (case ul_lstat env of
          Inl err \<Rightarrow> Some err
        | Inr (regular, sz) \<Rightarrow>
            if \<not> regular \<or> tr_MaxUploadBytes t < sz then Some ErrSizeLimit
            else (case ul_open env of
              Inl err \<Rightarrow> Some err
            | Inr content \<Rightarrow>
                let body = take (nat (int64_wrap (tr_MaxUploadBytes t + 1))) content in
                (case ul_newRequest env ''PUT'' transferURL of
                   Some err \<Rightarrow> Some err
                 | None \<Rightarrow> (case ul_do env (upload_request transferURL token expectedSHA256 sz body) of
                     (consumed, Inl err) \<Rightarrow> Some err
                   | (consumed, Inr status) \<Rightarrow>
                       if status \<noteq> 204
                       then Some (ErrorText (''artifact upload failed with status '' @ strconv_Itoa status))
                       else if hex_EncodeToString (lib_sha256 (ul_libs env) (take consumed body)) \<noteq> strings_ToLower expectedSHA256
                       then Some ErrChecksumMismatch
                       else None)))))"

section \<open>What a transfer guarantees\<close>

lemma safeTransferURL_None [accepts]:
  "safeTransferURL url_Parse v = None \<Longrightarrow> \<exists>u. url_Parse v = Some u \<and> url_Host u \<noteq> [] \<and> \<not> url_HasUser u
     \<and> (url_Scheme u = ''https'' \<or> url_Scheme u = ''http'' \<and>
          (url_Hostname u = ''localhost'' \<or> (\<exists>ip. net_ParseIP (url_Hostname u) = Some ip \<and> IP_IsLoopback ip)))"
  by (auto simp: safeTransferURL_def Let_def split: option.splits if_splits)

lemma safeID_chars:
  "safeID i \<noteq> [] \<and> set (safeID i) \<inter> {CHR ''/'', CHR 0x5C, CHR 0x00} = {}"
  by (auto simp: safeID_def filepath_Base_plain_def list_all_iff is_alnum_def is_digit_def is_lower_def is_upper_def ccode_def)

lemma copyVerified_None [accepts]:
  assumes "copyVerified L source write expectedSize maximum sha = (data, None)" and "maximum < 2 ^ 63 - 1"
  shows "data = hw_Body source \<and> hw_BodyErr source = None \<and> int (length data) = expectedSize \<and> expectedSize \<le> maximum
    \<and> hex_EncodeToString (lib_sha256 L data) = strings_ToLower sha"
proof -
  from assms(1) have m: "1 \<le> maximum" "expectedSize \<le> maximum"
    and c: "copy_limited (int64_wrap (maximum + 1)) source write = (data, None)"
    and len: "int (length data) = expectedSize" and sha: "hex_EncodeToString (lib_sha256 L data) = strings_ToLower sha"
    by (auto simp: copyVerified_def split: if_splits prod.splits option.splits)
  from m assms(2) have wrap: "int64_wrap (maximum + 1) = maximum + 1" by (simp add: int64_wrap_id)
  have data: "data = take (nat (maximum + 1)) (hw_Body source)"
    and err: "int (length (hw_Body source)) < maximum + 1 \<Longrightarrow> hw_BodyErr source = None"
    using c unfolding wrap copy_limited_def Let_def by (auto split: option.splits if_splits)
  from data len m have short: "int (length (hw_Body source)) < maximum + 1" by auto
  with data have "data = hw_Body source" by simp
  with err [OF short] len m sha show ?thesis by simp
qed

text \<open>
  C6: a download that returns a path leaves there exactly the response body, complete, with the
  announced size, within the configured limit, and with the announced SHA-256; the request went
  to an HTTPS or loopback URL without credentials, and the file lies in the temporary directory
  itself, whatever the artifact identifier is. A download that fails leaves no file behind
  where files can be removed.
\<close>

theorem download_is_verified_or_leaves_nothing:
  assumes "Download env t transferURL token artifactID expectedSize expectedSHA256 files = (res, files')"
    and "tr_MaxDownloadBytes t < 2 ^ 63 - 1"
  shows "case res of
      Inl err \<Rightarrow> dl_removes env \<longrightarrow> files' = files
    | Inr path \<Rightarrow> (\<exists>data response rest. files' = (path, data) # files
        \<and> cl_do (dl_client env) (artifact_request ''GET'' transferURL token) = Inr response
        \<and> hw_StatusCode response = 200 \<and> data = hw_Body response \<and> hw_BodyErr response = None
        \<and> int (length data) = expectedSize \<and> expectedSize \<le> tr_MaxDownloadBytes t
        \<and> hex_EncodeToString (lib_sha256 (dl_libs env) data) = strings_ToLower expectedSHA256
        \<and> safeTransferURL (lib_url_Parse (dl_libs env)) transferURL = None
        \<and> path = temp_prefix t @ ''.artifact-'' @ safeID artifactID @ rest
        \<and> set (safeID artifactID) \<inter> {CHR ''/'', CHR 0x5C, CHR 0x00} = {})"
proof (cases res)
  case (Inl err)
  with assms(1) show ?thesis
    by (auto simp: Download_def receive_def discard_def split: option.splits if_splits sum.splits prod.splits)
next
  case (Inr path)
  from assms(1) Inr obtain response random data
    where r: "cl_do (dl_client env) (artifact_request ''GET'' transferURL token) = Inr response" "hw_StatusCode response = 200"
      and url: "safeTransferURL (lib_url_Parse (dl_libs env)) transferURL = None"
      and cv: "copyVerified (dl_libs env) response (dl_write env) expectedSize (tr_MaxDownloadBytes t) expectedSHA256 = (data, None)"
      and p: "path = part_name t artifactID random" and f: "files' = (path, data) # files"
    by (auto simp: Download_def receive_def split: option.splits if_splits sum.splits prod.splits)
  from copyVerified_None [OF cv assms(2)] r url p f safeID_chars [of artifactID] Inr show ?thesis
    by (auto simp: part_name_def)
qed

definition sample_download :: download_env where
  "sample_download = \<lparr>dl_libs = sample_libs\<lparr>lib_url_Parse := \<lambda>_. Some \<lparr>url_Scheme = ''https'', url_Host = ''cp.example'',
       url_Hostname = ''cp.example'', url_HasUser = False, url_Fragment = []\<rparr>\<rparr>,
     dl_client = \<lparr>cl_newRequest = (\<lambda>_ _. None), cl_do = (\<lambda>_. Inr \<lparr>hw_StatusCode = 200, hw_Body = ''abc'', hw_BodyErr = None\<rparr>)\<rparr>,
     dl_createTemp = Inr ''7'', dl_chmod = None, dl_write = None, dl_sync = None, dl_close = None, dl_removes = True\<rparr>"

definition sample_transfer :: Transfer where
  "sample_transfer = \<lparr>tr_MaxDownloadBytes = 10, tr_MaxUploadBytes = 10, tr_TempDir = ''temp''\<rparr>"

theorem download_is_verified_or_leaves_nothing_witness:
  "(\<exists>path data. Download sample_download sample_transfer ''https://cp.example/a'' ''tok'' ''../up'' 3 (replicate 64 (CHR ''0'')) []
       = (Inr path, [(path, data)]) \<and> data = ''abc'')
   \<and> (\<exists>err. Download sample_download sample_transfer ''https://cp.example/a'' ''tok'' ''a'' 2 [] [] = (Inl err, []))"
proof
  let ?d = "Download sample_download sample_transfer ''https://cp.example/a'' ''tok'' ''../up'' 3 (replicate 64 (CHR ''0'')) []"
  have m: "tr_MaxDownloadBytes sample_transfer < 2 ^ 63 - 1" by (simp add: sample_transfer_def)
  obtain res files where d: "?d = (res, files)" by fastforce
  have "\<not> isl (fst ?d)" by code_simp
  with d obtain path where res: "res = Inr path" by (cases res) auto
  show "\<exists>path data. ?d = (Inr path, [(path, data)]) \<and> data = ''abc''"
    using download_is_verified_or_leaves_nothing [OF d m] d unfolding res by (auto simp: sample_download_def)
  let ?b = "Download sample_download sample_transfer ''https://cp.example/a'' ''tok'' ''a'' 2 [] []"
  obtain res2 files2 where b: "?b = (res2, files2)" by fastforce
  have "isl (fst ?b)" by code_simp
  with b obtain err where res2: "res2 = Inl err" by (cases res2) auto
  show "\<exists>err. ?b = (Inl err, [])"
    using download_is_verified_or_leaves_nothing [OF b m] b unfolding res2 by (auto simp: sample_download_def)
qed

text \<open>
  What \<^verbatim>\<open>net/http\<close> documents of a body with an announced positive length, for a control plane that
  acknowledges with 204 what it has received: the transport has then read the whole body, and
  it reports an error for a body of another length than announced.
\<close>

definition sends_announced_body :: "upload_env \<Rightarrow> bool" where
  "sends_announced_body env \<longleftrightarrow> (\<forall>rq consumed body. ul_do env rq = (consumed, Inr 204) \<and> rq_Body rq = Some body
     \<and> 0 < rq_ContentLength rq \<longrightarrow> consumed = length body \<and> int (length body) = rq_ContentLength rq)"

text \<open>
  C34: an upload that succeeds was acknowledged with status 204 by a permitted URL; the file was
  a regular one within the limit, its size was announced as the length of the content and its
  expected SHA-256 in the header, and what the transport read has that SHA-256. If the transport
  sends bodies as announced, then for a file that was not empty this is the file's whole
  content: it still had the announced size when it was read, and it has the expected SHA-256.
\<close>

theorem upload_success_is_verified:
  assumes "Upload env t transferURL token expectedSHA256 = None"
  shows "safeTransferURL (lib_url_Parse (ul_libs env)) transferURL = None
    \<and> (\<exists>sz content consumed body. ul_lstat env = Inr (True, sz) \<and> sz \<le> tr_MaxUploadBytes t \<and> ul_open env = Inr content
        \<and> prefix body content
        \<and> ul_do env (upload_request transferURL token expectedSHA256 sz body) = (consumed, Inr 204)
        \<and> hex_EncodeToString (lib_sha256 (ul_libs env) (take consumed body)) = strings_ToLower expectedSHA256
        \<and> (sends_announced_body env \<and> 0 < sz \<and> tr_MaxUploadBytes t < 2 ^ 63 - 1 \<longrightarrow>
             int (length content) = sz \<and> take consumed body = content
             \<and> hex_EncodeToString (lib_sha256 (ul_libs env) content) = strings_ToLower expectedSHA256))"
proof -
  let ?n = "nat (int64_wrap (tr_MaxUploadBytes t + 1))"
  from assms obtain sz content consumed where up: "ul_lstat env = Inr (True, sz)" "sz \<le> tr_MaxUploadBytes t" "ul_open env = Inr content"
    "ul_do env (upload_request transferURL token expectedSHA256 sz (take ?n content)) = (consumed, Inr 204)"
    "hex_EncodeToString (lib_sha256 (ul_libs env) (take consumed (take ?n content))) = strings_ToLower expectedSHA256"
    and url: "safeTransferURL (lib_url_Parse (ul_libs env)) transferURL = None"
    by (auto simp: Upload_def Let_def split: option.splits if_splits sum.splits prod.splits)
  have "int (length content) = sz \<and> take consumed (take ?n content) = content"
    if net: "sends_announced_body env" "0 < sz" "tr_MaxUploadBytes t < 2 ^ 63 - 1"
  proof -
    let ?rq = "upload_request transferURL token expectedSHA256 sz (take ?n content)"
    have "rq_Body ?rq = Some (take ?n content)" "0 < rq_ContentLength ?rq" "rq_ContentLength ?rq = sz"
      using net(2) by (simp_all add: upload_request_def)
    with net(1) up(4) have sent: "consumed = length (take ?n content)" "int (length (take ?n content)) = sz"
      unfolding sends_announced_body_def by metis+
    have n: "int ?n = tr_MaxUploadBytes t + 1" using net(2,3) up(2) by (simp add: int64_wrap_id)
    with sent(2) up(2) have "length (take ?n content) < ?n" by linarith
    then have "take ?n content = content" by simp
    with sent show ?thesis by simp
  qed
  with up url take_is_prefix [of ?n content] show ?thesis by metis
qed

definition sample_upload :: upload_env where
  "sample_upload = \<lparr>ul_libs = dl_libs sample_download, ul_lstat = Inr (True, 3), ul_open = Inr ''abc'', ul_newRequest = (\<lambda>_ _. None),
     ul_do = (\<lambda>rq. case rq_Body rq of None \<Rightarrow> (0, Inr 204)
       | Some body \<Rightarrow> if int (length body) = rq_ContentLength rq then (length body, Inr 204)
           else (0, Inl (ErrorText ''http: wrong body length'')))\<rparr>"

lemma sample_upload_sends: "sends_announced_body sample_upload"
  by (auto simp: sends_announced_body_def sample_upload_def split: if_splits)

theorem upload_success_is_verified_witness:
  "Upload sample_upload sample_transfer ''u'' ''tok'' (replicate 64 (CHR ''0'')) = None
   \<and> hex_EncodeToString (lib_sha256 (ul_libs sample_upload) ''abc'') = replicate 64 (CHR ''0'')"
proof
  show up: "Upload sample_upload sample_transfer ''u'' ''tok'' (replicate 64 (CHR ''0'')) = None" by code_simp
  have lower: "strings_ToLower (replicate 64 (CHR ''0'')) = replicate 64 (CHR ''0'')" by code_simp
  have "ul_lstat sample_upload = Inr (True, 3)" "ul_open sample_upload = Inr ''abc''" "tr_MaxUploadBytes sample_transfer < 2 ^ 63 - 1"
    by (simp_all add: sample_upload_def sample_transfer_def)
  with upload_success_is_verified [OF up] sample_upload_sends
  show "hex_EncodeToString (lib_sha256 (ul_libs sample_upload) ''abc'') = replicate 64 (CHR ''0'')"
    unfolding lower by auto
qed

end
