(* ===== verification/Registry.thy ===== *)
theory Registry
  imports Protocol
begin

text \<open>
  \<^verbatim>\<open>internal/modules/module.go\<close>: strict decoding of job parameters, the descriptor and the
  interface of a module, and the registry of compiled modules with one counting channel per
  module. A buffered channel of empty structs is a counter with a capacity; it is used as a
  semaphore here and by the executor, through the interface \<open>slot_pool\<close>.
\<close>

section \<open>Decoding parameters\<close>

text \<open>
  \<open>fs\<close> are the fields of the destination struct and \<open>p\<close> its zero value. The destination is
  returned only without an error: every caller leaves with the error otherwise.
\<close>

definition DecodeParameters :: "'p fields \<Rightarrow> 'p \<Rightarrow> bytes \<Rightarrow> 'p result" where
  "DecodeParameters fs p raw = (case json_Decode raw of
      DecEOF \<Rightarrow> Inl (ErrorText ''EOF'')
    | DecError \<Rightarrow> Inl (ErrorText ''invalid JSON'')
    | DecValue v rest \<Rightarrow> (case decode_struct True fs p v of
        (q, False) \<Rightarrow> Inl (ErrorText ''json: invalid field'')
      | (q, True) \<Rightarrow> (case json_Decode rest of
            DecEOF \<Rightarrow> Inr q
          | _ \<Rightarrow> Inl (ErrorText ''multiple parameter values are not allowed''))))"

lemma json_Decode_EOF_iff: "json_Decode s = DecEOF \<longleftrightarrow> skip_ws s = []"
  by (auto simp: json_Decode_def split: option.splits)

text \<open>
  The parameters a module reads again while it runs, with the lenient \<^verbatim>\<open>json.Unmarshal\<close> whose
  error it ignores, are the ones its validation saw.
\<close>

lemma DecodeParameters_unmarshal:
  assumes "DecodeParameters fs p raw = Inr q"
  shows "unmarshal_struct fs p raw = (q, True)"
proof -
  from assms obtain v rest where v: "json_Decode raw = DecValue v rest"
    and q: "decode_struct True fs p v = (q, True)" and rest: "json_Decode rest = DecEOF"
    by (auto simp: DecodeParameters_def split: decode_result.splits prod.splits bool.splits)
  from rest v have "json_Unmarshal raw = Some v"
    by (simp add: json_Unmarshal_def json_Decode_EOF_iff)
  then show ?thesis by (simp add: unmarshal_struct_def decode_struct_lenient [OF q])
qed

section \<open>Modules\<close>

record Descriptor =
  d_ID :: string
  d_Version :: string
  d_RiskClass :: RiskClass
  d_Implementation :: string
  d_RequiredTool :: string
  d_RequiredCapability :: string
  d_Platforms :: "string list"
  d_ConcurrencyLimit :: int

text \<open>
  \<open>'e\<close> is what an execution sees of its surroundings (the clock, processes, the network); it
  stands in the place of the context argument of \<^verbatim>\<open>Execute\<close>.
\<close>

record 'e Module =
  mod_Descriptor :: Descriptor
  mod_Validate :: "JobEnvelope \<Rightarrow> goerror option"
  mod_Execute :: "'e \<Rightarrow> JobEnvelope \<Rightarrow> ModuleResult \<times> goerror option"

section \<open>Channels used as semaphores\<close>

record slot_chan =
  ch_cap :: nat
  ch_len :: nat

text \<open>A send on a full channel, and a receive on an empty one, would block: \<open>None\<close>.\<close>

definition chan_send :: "slot_chan \<Rightarrow> slot_chan option" where
  "chan_send c = (if ch_len c < ch_cap c then Some (c\<lparr>ch_len := ch_len c + 1\<rparr>) else None)"

definition chan_recv :: "slot_chan \<Rightarrow> slot_chan option" where
  "chan_recv c = (if 0 < ch_len c then Some (c\<lparr>ch_len := ch_len c - 1\<rparr>) else None)"

text \<open>
  A history of a pool: \<open>True\<close> is an attempt to take a slot, \<open>False\<close> a holder giving one back
  (nothing when nobody holds one). The second component counts the holders.
\<close>

fun pool_run :: "('s \<Rightarrow> 's option) \<Rightarrow> ('s \<Rightarrow> 's option) \<Rightarrow> bool list \<Rightarrow> 's \<times> nat \<Rightarrow> 's \<times> nat" where
  "pool_run tk pt [] sh = sh"
| "pool_run tk pt (op # ops) (s, h) = pool_run tk pt ops
     (if op then (case tk s of Some s' \<Rightarrow> (s', h + 1) | None \<Rightarrow> (s, h))
      else if 0 < h then (case pt s of Some s' \<Rightarrow> (s', h - 1) | None \<Rightarrow> (s, h)) else (s, h))"

locale slot_pool =
  fixes capacity :: "'s \<Rightarrow> nat"
    and used :: "'s \<Rightarrow> nat"
    and take_slot :: "'s \<Rightarrow> 's option"
    and put_slot :: "'s \<Rightarrow> 's option"
  assumes take_SomeD: "take_slot s = Some s' \<Longrightarrow>
      used s < capacity s \<and> used s' = used s + 1 \<and> capacity s' = capacity s"
    and take_None_iff: "take_slot s = None \<longleftrightarrow> capacity s \<le> used s"
    and put_SomeD: "put_slot s = Some s' \<Longrightarrow> used s = used s' + 1 \<and> capacity s' = capacity s"
    and put_None_iff: "put_slot s = None \<longleftrightarrow> used s = 0"
begin

lemma holder_can_put: "0 < used s \<Longrightarrow> \<exists>s'. put_slot s = Some s'"
  using put_None_iff [of s] by (cases "put_slot s") auto

lemma take_put: "take_slot s = Some s' \<Longrightarrow> \<exists>s''. put_slot s' = Some s'' \<and> used s'' = used s \<and> capacity s'' = capacity s"
  using take_SomeD [of s s'] holder_can_put [of s'] put_SomeD [of s'] by fastforce

text \<open>In every history the pool counts its holders, and there are never more than its capacity.\<close>

lemma holders_bounded:
  assumes "used s \<le> capacity s"
  shows "used (fst (pool_run take_slot put_slot ops (s, used s))) = snd (pool_run take_slot put_slot ops (s, used s))
    \<and> snd (pool_run take_slot put_slot ops (s, used s)) \<le> capacity s
    \<and> capacity (fst (pool_run take_slot put_slot ops (s, used s))) = capacity s"
  using assms
proof (induction ops arbitrary: s)
  case Nil
  then show ?case by simp
next
  case (Cons op ops)
  show ?case
  proof (cases op)
    case True
    show ?thesis
    proof (cases "take_slot s")
      case None
      with True Cons show ?thesis by simp
    next
      case (Some s')
      with take_SomeD [OF Some] Cons.IH [of s'] True show ?thesis by simp
    qed
  next
    case False
    show ?thesis
    proof (cases "put_slot s")
      case None
      with put_None_iff [of s] Cons.IH [of s] Cons.prems False show ?thesis by simp
    next
      case (Some s')
      with put_SomeD [OF Some] Cons.prems Cons.IH [of s'] Cons.IH [of s] False show ?thesis
        by simp
    qed
  qed
qed

end

interpretation chan: slot_pool ch_cap ch_len chan_send chan_recv
  by unfold_locales (auto simp: chan_send_def chan_recv_def split: if_splits)

section \<open>The registry\<close>

record 'e Registry =
  reg_modules :: "(string \<times> 'e Module) list"
  reg_limits :: "(string \<times> slot_chan) list"

definition empty_Registry :: "'e Registry" where
  "empty_Registry = \<lparr>reg_modules = [], reg_limits = []\<rparr>"

fun register :: "'e Registry \<Rightarrow> 'e Module list \<Rightarrow> 'e Registry result" where
  "register r [] = Inr r"
| "register r (m # ms) =
     (let d = mod_Descriptor m in
      if d_ID d = [] then Inl (ErrorText ''module ID empty'')
      else if map_of (reg_modules r) (d_ID d) \<noteq> None
        then Inl (ErrorText (''duplicate module '' @ d_ID d))
      else let n = (if d_ConcurrencyLimit d < 1 then 1 else d_ConcurrencyLimit d)
           in register (r\<lparr>reg_modules := reg_modules r @ [(d_ID d, m)],
                reg_limits := reg_limits r @ [(d_ID d, \<lparr>ch_cap = nat n, ch_len = 0\<rparr>)]\<rparr>) ms)"

definition NewRegistry :: "'e Module list \<Rightarrow> 'e Registry result" where
  "NewRegistry ms = register empty_Registry ms"

definition Get :: "'e Registry \<Rightarrow> string \<Rightarrow> 'e Module option" where
  "Get r i = map_of (reg_modules r) i"

definition Descriptors :: "'e Registry \<Rightarrow> Descriptor list" where
  "Descriptors r = sort_key d_ID (map (mod_Descriptor \<circ> snd) (reg_modules r))"

text \<open>
  \<open>ctxErr\<close> is \<^verbatim>\<open>ctx.Err()\<close>, present once the context is done; when both cases of the
  \<^verbatim>\<open>select\<close> are ready, \<open>pick\<close> is its choice. \<open>None\<close> means that the call is still waiting.
\<close>

definition Acquire :: "goerror option \<Rightarrow> bool \<Rightarrow> string \<Rightarrow> 'e Registry \<Rightarrow> 'e Registry result option" where
  "Acquire ctxErr pick i r = (case map_of (reg_limits r) i of
      None \<Rightarrow> Some (Inl (ErrorText ''unknown module''))
    | Some sem \<Rightarrow> (case (chan_send sem, ctxErr) of
        (None, None) \<Rightarrow> None
      | (None, Some err) \<Rightarrow> Some (Inl err)
      | (Some sem', None) \<Rightarrow> Some (Inr (r\<lparr>reg_limits := AList.update i sem' (reg_limits r)\<rparr>))
      | (Some sem', Some err) \<Rightarrow>
          if pick then Some (Inr (r\<lparr>reg_limits := AList.update i sem' (reg_limits r)\<rparr>))
          else Some (Inl err)))"

text \<open>The function that \<^verbatim>\<open>Acquire\<close> returns to a holder.\<close>

definition release :: "string \<Rightarrow> 'e Registry \<Rightarrow> 'e Registry option" where
  "release i r = (case map_of (reg_limits r) i of
      None \<Rightarrow> None
    | Some sem \<Rightarrow> map_option (\<lambda>sem'. r\<lparr>reg_limits := AList.update i sem' (reg_limits r)\<rparr>) (chan_recv sem))"

section \<open>Building a registry\<close>

definition module_ID :: "'e Module \<Rightarrow> string" where
  "module_ID m = d_ID (mod_Descriptor m)"

definition module_slots :: "'e Module \<Rightarrow> nat" where
  "module_slots m = nat (max 1 (d_ConcurrencyLimit (mod_Descriptor m)))"

text \<open>What a registry of the modules \<open>ms\<close> looks like before any module is acquired.\<close>

definition registry_of :: "'e Module list \<Rightarrow> 'e Registry" where
  "registry_of ms = \<lparr>reg_modules = map (\<lambda>m. (module_ID m, m)) ms,
     reg_limits = map (\<lambda>m. (module_ID m, \<lparr>ch_cap = module_slots m, ch_len = 0\<rparr>)) ms\<rparr>"

lemma map_of_modules_None_iff:
  "map_of (map (\<lambda>m. (module_ID m, m)) ms) i = None \<longleftrightarrow> i \<notin> module_ID ` set ms"
  by (auto simp: map_of_eq_None_iff image_image)

lemma register_registry_of:
  assumes "distinct (map module_ID ms0)"
  shows "register (registry_of ms0) ms = Inr r \<longleftrightarrow>
     [] \<notin> module_ID ` set ms \<and> distinct (map module_ID (ms0 @ ms)) \<and> r = registry_of (ms0 @ ms)"
  using assms
proof (induction ms arbitrary: ms0)
  case Nil
  then show ?case by auto
next
  case (Cons m ms)
  have lookup: "map_of (reg_modules (registry_of ms0)) (d_ID (mod_Descriptor m)) = None
      \<longleftrightarrow> module_ID m \<notin> module_ID ` set ms0"
    using map_of_modules_None_iff [of ms0 "module_ID m"] by (simp add: registry_of_def module_ID_def)
  have slots: "nat (if d_ConcurrencyLimit (mod_Descriptor m) < 1 then 1
      else d_ConcurrencyLimit (mod_Descriptor m)) = module_slots m"
    by (simp add: module_slots_def)
  have add: "(registry_of ms0)\<lparr>reg_modules := reg_modules (registry_of ms0) @ [(d_ID (mod_Descriptor m), m)],
      reg_limits := reg_limits (registry_of ms0) @
        [(d_ID (mod_Descriptor m), \<lparr>ch_cap = module_slots m, ch_len = 0\<rparr>)]\<rparr> = registry_of (ms0 @ [m])"
    by (simp add: registry_of_def module_ID_def)
  show ?case
  proof (cases "module_ID m = [] \<or> module_ID m \<in> module_ID ` set ms0")
    case True
    with lookup show ?thesis by (auto simp: Let_def module_ID_def)
  next
    case False
    with lookup slots add have "register (registry_of ms0) (m # ms) = register (registry_of (ms0 @ [m])) ms"
      by (simp add: Let_def module_ID_def)
    moreover have "distinct (map module_ID (ms0 @ [m]))" using False Cons.prems by auto
    ultimately show ?thesis using Cons.IH [of "ms0 @ [m]"] False by auto
  qed
qed

lemma NewRegistry_Inr_iff:
  "NewRegistry ms = Inr r \<longleftrightarrow>
     [] \<notin> module_ID ` set ms \<and> distinct (map module_ID ms) \<and> r = registry_of ms"
  using register_registry_of [of "[]" ms r]
  by (simp add: NewRegistry_def empty_Registry_def registry_of_def)

lemma map_of_modules:
  "distinct (map module_ID ms) \<Longrightarrow>
    map_of (map (\<lambda>m. (module_ID m, f m)) ms) i = Some y \<longleftrightarrow> (\<exists>m\<in>set ms. module_ID m = i \<and> y = f m)"
  by (subst map_of_eq_Some_iff) (auto simp: comp_def)

text \<open>
  A registry is built exactly when every module has an identifier and no two share one; it
  then finds each module under its own identifier and nothing else, and lists the descriptors
  of all of them in strictly increasing order of identifier.
\<close>

theorem registry_holds_each_module_once:
  "((\<exists>r. NewRegistry ms = Inr r) \<longleftrightarrow>
      [] \<notin> set (map (d_ID \<circ> mod_Descriptor) ms) \<and> distinct (map (d_ID \<circ> mod_Descriptor) ms))
   \<and> (NewRegistry ms = Inr r \<longrightarrow>
      (Get r i = Some m \<longleftrightarrow> m \<in> set ms \<and> d_ID (mod_Descriptor m) = i)
      \<and> set (Descriptors r) = mod_Descriptor ` set ms \<and> sorted_wrt (<) (map d_ID (Descriptors r)))"
proof (intro conjI impI)
  show "(\<exists>r. NewRegistry ms = Inr r) \<longleftrightarrow>
      [] \<notin> set (map (d_ID \<circ> mod_Descriptor) ms) \<and> distinct (map (d_ID \<circ> mod_Descriptor) ms)"
    by (simp add: NewRegistry_Inr_iff module_ID_def [abs_def] comp_def)
next
  assume "NewRegistry ms = Inr r"
  then have dist: "distinct (map module_ID ms)" and r: "r = registry_of ms"
    by (auto simp: NewRegistry_Inr_iff)
  show "Get r i = Some m \<longleftrightarrow> m \<in> set ms \<and> d_ID (mod_Descriptor m) = i"
    using map_of_modules [OF dist, of "\<lambda>m. m" i m]
    by (auto simp: Get_def r registry_of_def module_ID_def)
  show "set (Descriptors r) = mod_Descriptor ` set ms"
    by (auto simp: Descriptors_def r registry_of_def)
  have "mset (Descriptors r) = mset (map mod_Descriptor ms)"
    by (simp add: Descriptors_def r registry_of_def comp_def)
  then have "mset (map d_ID (Descriptors r)) = mset (map d_ID (map mod_Descriptor ms))"
    by (metis mset_map)
  also have "map d_ID (map mod_Descriptor ms) = map module_ID ms" by (simp add: module_ID_def)
  finally have "mset (map d_ID (Descriptors r)) = mset (map module_ID ms)" .
  with dist have "distinct (map d_ID (Descriptors r))" by (metis mset_eq_imp_distinct_iff)
  moreover have "sorted (map d_ID (Descriptors r))" by (simp add: Descriptors_def)
  ultimately show "sorted_wrt (<) (map d_ID (Descriptors r))" by (simp add: strict_sorted_iff)
qed

definition sample_module :: "string \<Rightarrow> int \<Rightarrow> unit Module" where
  "sample_module i n = \<lparr>mod_Descriptor = \<lparr>d_ID = i, d_Version = ''0.1.0'', d_RiskClass = RiskPassive,
       d_Implementation = ''builtin'', d_RequiredTool = [], d_RequiredCapability = [], d_Platforms = [],
       d_ConcurrencyLimit = n\<rparr>,
     mod_Validate = (\<lambda>_. None), mod_Execute = (\<lambda>_ _. (zero_ModuleResult, None))\<rparr>"

theorem registry_holds_each_module_once_witness:
  "Get (registry_of [sample_module ''b'' 2, sample_module ''a'' 0]) ''b'' = Some (sample_module ''b'' 2)
   \<and> sorted_wrt (<) (map d_ID (Descriptors (registry_of [sample_module ''b'' 2, sample_module ''a'' 0])))
   \<and> \<not> (\<exists>r. NewRegistry [sample_module ''a'' 2, sample_module ''a'' 0] = Inr r)"
proof -
  let ?ms = "[sample_module ''b'' 2, sample_module ''a'' 0]"
  have "NewRegistry ?ms = Inr (registry_of ?ms)"
    by (simp add: NewRegistry_Inr_iff module_ID_def sample_module_def)
  with registry_holds_each_module_once [of ?ms "registry_of ?ms" "''b''" "sample_module ''b'' 2"]
    registry_holds_each_module_once [of "[sample_module ''a'' 2, sample_module ''a'' 0]"]
  show ?thesis by (simp add: sample_module_def)
qed

section \<open>Module slots\<close>

text \<open>
  A history of calls on a registry: an \<^verbatim>\<open>Acquire\<close> that succeeds makes its caller a holder of the
  module, and a holder calls its \<^verbatim>\<open>release\<close> once. Calls that fail or still wait change nothing.
\<close>

datatype reg_op = RAcquire "goerror option" bool string | RRelease string

fun reg_step :: "reg_op \<Rightarrow> 'e Registry \<times> string list \<Rightarrow> 'e Registry \<times> string list" where
  "reg_step (RAcquire ctxErr pick i) (r, held) = (case Acquire ctxErr pick i r of
      Some (Inr r') \<Rightarrow> (r', i # held)
    | _ \<Rightarrow> (r, held))"
| "reg_step (RRelease i) (r, held) =
     (if i \<in> set held then (case release i r of Some r' \<Rightarrow> (r', remove1 i held) | None \<Rightarrow> (r, held))
      else (r, held))"

definition reg_run :: "reg_op list \<Rightarrow> 'e Registry \<times> string list \<Rightarrow> 'e Registry \<times> string list" where
  "reg_run ops rh = fold reg_step ops rh"

text \<open>Each channel counts the holders of its module, within the capacity it was made with.\<close>

definition limit_ok :: "'e Module list \<Rightarrow> string list \<Rightarrow> string \<Rightarrow> slot_chan option \<Rightarrow> bool" where
  "limit_ok ms held i oc \<longleftrightarrow> (case oc of
      None \<Rightarrow> i \<notin> module_ID ` set ms \<and> i \<notin> set held
    | Some c \<Rightarrow> ch_len c = count_list held i \<and> ch_len c \<le> ch_cap c
        \<and> (\<exists>m\<in>set ms. module_ID m = i \<and> ch_cap c = module_slots m))"

definition reg_inv :: "'e Module list \<Rightarrow> 'e Registry \<times> string list \<Rightarrow> bool" where
  "reg_inv ms rh \<longleftrightarrow> (\<forall>i. limit_ok ms (snd rh) i (map_of (reg_limits (fst rh)) i))"

lemma count_list_remove1:
  "count_list (remove1 x xs) y = (if x = y \<and> x \<in> set xs then count_list xs y - 1 else count_list xs y)"
proof (induction xs)
  case (Cons a xs)
  then show ?case using count_list_0_iff [of xs x] by auto
qed simp

lemma set_remove1_other: "x \<noteq> i \<Longrightarrow> x \<in> set (remove1 i xs) \<longleftrightarrow> x \<in> set xs"
  by (induction xs) auto

lemma limit_ok_send:
  assumes "limit_ok ms held i (Some c)" and "chan_send c = Some c'"
  shows "limit_ok ms (i # held) i (Some c')"
  using assms(1) chan.take_SomeD [OF assms(2)] by (simp add: limit_ok_def)

lemma limit_ok_recv:
  assumes "limit_ok ms held i (Some c)" and "chan_recv c = Some c'" and "i \<in> set held"
  shows "limit_ok ms (remove1 i held) i (Some c')"
  using assms(1,3) chan.put_SomeD [OF assms(2)] by (auto simp: limit_ok_def count_list_remove1)

lemma limit_ok_other:
  assumes "j \<noteq> i"
  shows "limit_ok ms (i # held) j oc = limit_ok ms held j oc"
    and "limit_ok ms (remove1 i held) j oc = limit_ok ms held j oc"
  using assms by (auto simp: limit_ok_def count_list_remove1 set_remove1_other split: option.splits)

lemma reg_inv_acquire:
  assumes inv: "reg_inv ms (r, held)" and "Acquire ctxErr pick i r = Some (Inr r')"
  shows "reg_inv ms (r', i # held)"
proof -
  from assms(2) obtain c c' where c: "map_of (reg_limits r) i = Some c" and c': "chan_send c = Some c'"
    and r': "r' = r\<lparr>reg_limits := AList.update i c' (reg_limits r)\<rparr>"
    by (auto simp: Acquire_def split: option.splits if_splits)
  have ok: "limit_ok ms held j (map_of (reg_limits r) j)" for j using inv by (simp add: reg_inv_def)
  from ok [of i] c have "limit_ok ms held i (Some c)" by simp
  then have "limit_ok ms (i # held) i (Some c')" using c' by (rule limit_ok_send)
  with ok show ?thesis
    by (auto simp: reg_inv_def r' update_conv' limit_ok_other)
qed

lemma reg_inv_release:
  assumes inv: "reg_inv ms (r, held)" and "release i r = Some r'" and held: "i \<in> set held"
  shows "reg_inv ms (r', remove1 i held)"
proof -
  from assms(2) obtain c c' where c: "map_of (reg_limits r) i = Some c" and c': "chan_recv c = Some c'"
    and r': "r' = r\<lparr>reg_limits := AList.update i c' (reg_limits r)\<rparr>"
    by (auto simp: release_def split: option.splits)
  have ok: "limit_ok ms held j (map_of (reg_limits r) j)" for j using inv by (simp add: reg_inv_def)
  from ok [of i] c have "limit_ok ms held i (Some c)" by simp
  then have "limit_ok ms (remove1 i held) i (Some c')" using c' held by (rule limit_ok_recv)
  with ok show ?thesis
    by (auto simp: reg_inv_def r' update_conv' limit_ok_other)
qed

lemma reg_inv_step: "reg_inv ms rh \<Longrightarrow> reg_inv ms (reg_step op rh)"
  by (cases rh; cases op) (auto simp: reg_inv_acquire reg_inv_release split: option.splits sum.splits)

lemma reg_inv_run: "reg_inv ms rh \<Longrightarrow> reg_inv ms (reg_run ops rh)"
  unfolding reg_run_def by (induction ops arbitrary: rh) (auto simp: reg_inv_step)

lemma reg_inv_new:
  assumes "NewRegistry ms = Inr r"
  shows "reg_inv ms (r, [])"
proof -
  from assms have dist: "distinct (map module_ID ms)" and r: "r = registry_of ms"
    by (auto simp: NewRegistry_Inr_iff)
  let ?f = "\<lambda>m. \<lparr>ch_cap = module_slots m, ch_len = 0\<rparr>"
  have "limit_ok ms [] i (map_of (map (\<lambda>m. (module_ID m, ?f m)) ms) i)" for i
  proof (cases "map_of (map (\<lambda>m. (module_ID m, ?f m)) ms) i")
    case None
    moreover from None have "i \<notin> module_ID ` set ms" by (simp add: map_of_eq_None_iff image_image)
    ultimately show ?thesis by (simp add: limit_ok_def)
  next
    case (Some c)
    with map_of_modules [OF dist, of ?f i c] show ?thesis by (auto simp: limit_ok_def)
  qed
  then show ?thesis by (simp add: reg_inv_def r registry_of_def)
qed

text \<open>
  In every history of acquiring and releasing modules of a newly built registry, a module
  is never held more often at once than its concurrency limit (at least one) allows, every
  holder's release goes through without waiting, and a module below its limit is granted at
  once to a caller whose context is live.
\<close>

theorem module_concurrency_is_bounded:
  assumes "NewRegistry ms = Inr r0" and "m \<in> set ms" and "i = d_ID (mod_Descriptor m)"
    and "reg_run ops (r0, []) = (r, held)"
  shows "int (count_list held i) \<le> max 1 (d_ConcurrencyLimit (mod_Descriptor m))
    \<and> (i \<in> set held \<longrightarrow> release i r \<noteq> None)
    \<and> (int (count_list held i) < max 1 (d_ConcurrencyLimit (mod_Descriptor m)) \<longrightarrow>
        (\<exists>r'. Acquire None pick i r = Some (Inr r')))"
proof -
  from assms(1) have dist: "distinct (map module_ID ms)" by (auto simp: NewRegistry_Inr_iff)
  have inv: "reg_inv ms (r, held)"
    using reg_inv_run [OF reg_inv_new [OF assms(1)], of ops] assms(4) by simp
  have i: "module_ID m = i" using assms(3) by (simp add: module_ID_def)
  from inv have "limit_ok ms held i (map_of (reg_limits r) i)" by (simp add: reg_inv_def)
  with assms(2) i obtain c m' where c: "map_of (reg_limits r) i = Some c"
    and len: "ch_len c = count_list held i" "ch_len c \<le> ch_cap c"
    and m': "m' \<in> set ms" "module_ID m' = i" "ch_cap c = module_slots m'"
    by (auto simp: limit_ok_def split: option.splits)
  from dist m'(1,2) assms(2) i have "m' = m" by (auto simp: distinct_map inj_on_def)
  with m' have cap: "int (ch_cap c) = max 1 (d_ConcurrencyLimit (mod_Descriptor m))"
    by (simp add: module_slots_def)
  have "release i r \<noteq> None" if "i \<in> set held"
    using that c len chan.put_None_iff [of c] count_list_0_iff [of held i] by (auto simp: release_def)
  moreover have "\<exists>r'. Acquire None pick i r = Some (Inr r')"
    if "int (count_list held i) < max 1 (d_ConcurrencyLimit (mod_Descriptor m))"
    using that c len cap chan.take_None_iff [of c] by (auto simp: Acquire_def split: option.splits)
  ultimately show ?thesis using len cap by auto
qed

theorem module_concurrency_is_bounded_witness:
  "\<exists>r held. reg_run [RAcquire None True ''a'', RAcquire None True ''a''] (registry_of [sample_module ''a'' 1], []) = (r, held)
     \<and> int (count_list held ''a'') \<le> max 1 (d_ConcurrencyLimit (mod_Descriptor (sample_module ''a'' 1)))
     \<and> (''a'' \<in> set held \<longrightarrow> release ''a'' r \<noteq> None)"
proof -
  let ?ms = "[sample_module ''a'' 1]"
  have new: "NewRegistry ?ms = Inr (registry_of ?ms)"
    by (simp add: NewRegistry_Inr_iff module_ID_def sample_module_def)
  obtain r held where run: "reg_run [RAcquire None True ''a'', RAcquire None True ''a''] (registry_of ?ms, []) = (r, held)"
    by fastforce
  have "''a'' = d_ID (mod_Descriptor (sample_module ''a'' 1))" by (simp add: sample_module_def)
  from module_concurrency_is_bounded [OF new _ this run] run show ?thesis by auto
qed

end
