(* ===== verification/Process.thy ===== *)
theory Process
  imports Protocol
begin

text \<open>
  \<^verbatim>\<open>internal/process/runner.go\<close>: the buffer that keeps a bounded prefix of a tool's output,
  and the runner that starts tools from a compiled list. Looking a tool up and running it are
  arguments of the model: \<open>lookPath\<close> is \<^verbatim>\<open>exec.LookPath\<close>, and \<open>runCmd\<close> gives, for a started
  command, the chunks the process writes to its two outputs and the error of \<^verbatim>\<open>cmd.Run\<close>.
\<close>

section \<open>The bounded buffer\<close>

record boundedBuffer =
  bb_b :: bytes
  bb_limit :: int
  bb_truncated :: bool

definition bb_Write :: "bytes \<Rightarrow> boundedBuffer \<Rightarrow> int \<times> boundedBuffer" where
  "bb_Write p w =
     (let n = int (length p);
          remaining = bb_limit w - int (length (bb_b w));
          keep = (if n > remaining then remaining else n);
          w1 = (if remaining > 0 then w\<lparr>bb_b := bb_b w @ take (nat keep) p\<rparr> else w);
          w2 = (if n > remaining then w1\<lparr>bb_truncated := True\<rparr> else w1)
      in (n, w2))"

text \<open>The writes of a process, in order.\<close>

definition bb_write_all :: "bytes list \<Rightarrow> boundedBuffer \<Rightarrow> boundedBuffer" where
  "bb_write_all chunks w = fold (\<lambda>p b. snd (bb_Write p b)) chunks w"

definition new_buffer :: "int \<Rightarrow> boundedBuffer" where
  "new_buffer limit = \<lparr>bb_b = [], bb_limit = limit, bb_truncated = False\<rparr>"

section \<open>A sink that keeps a prefix, as an interface\<close>

text \<open>
  What a reader of the output relies on: each write keeps as much as fits and says so when it
  drops something. For a whole sequence of writes the contents are the prefix of what was
  written, and the mark is set exactly when something is missing.
\<close>

locale prefix_sink =
  fixes put :: "'a list \<Rightarrow> 's \<Rightarrow> 's"
    and contents :: "'s \<Rightarrow> 'a list"
    and dropped :: "'s \<Rightarrow> bool"
    and limit :: "'s \<Rightarrow> nat"
    and invar :: "'s \<Rightarrow> bool"
  assumes invar_put: "invar s \<Longrightarrow> invar (put p s)"
    and limit_put: "invar s \<Longrightarrow> limit (put p s) = limit s"
    and contents_put: "invar s \<Longrightarrow> contents (put p s) = take (limit s) (contents s @ p)"
    and dropped_put: "invar s \<Longrightarrow> dropped (put p s) \<longleftrightarrow> dropped s \<or> limit s < length (contents s) + length p"
    and contents_le: "invar s \<Longrightarrow> length (contents s) \<le> limit s"
begin

lemma put_all:
  assumes "invar s"
  shows "contents (fold put ps s) = take (limit s) (contents s @ concat ps)
    \<and> (dropped (fold put ps s) \<longleftrightarrow> dropped s \<or> limit s < length (contents s) + length (concat ps))
    \<and> limit (fold put ps s) = limit s"
  using assms
proof (induction ps arbitrary: s)
  case Nil
  then show ?case using contents_le [of s] by auto
next
  case (Cons p ps)
  note IH = Cons.IH [OF invar_put [OF Cons.prems, of p]]
  have "take (limit s) (take (limit s) (contents s @ p) @ concat ps)
      = take (limit s) (contents s @ p @ concat ps)"
  proof (cases "length (contents s @ p) \<le> limit s")
    case False
    then show ?thesis by (simp add: min_def)
  qed simp
  moreover have "dropped s \<or> limit s < length (contents s) + length p
      \<or> limit s < length (take (limit s) (contents s @ p)) + length (concat ps)
      \<longleftrightarrow> dropped s \<or> limit s < length (contents s) + length (concat (p # ps))"
    by (auto simp: min_def)
  ultimately show ?case
    using IH Cons.prems by (simp add: limit_put contents_put dropped_put)
qed

end

definition bb_inv :: "boundedBuffer \<Rightarrow> bool" where
  "bb_inv w \<longleftrightarrow> 0 \<le> bb_limit w \<and> int (length (bb_b w)) \<le> bb_limit w"

lemma bb_Write_contents:
  assumes "bb_inv w"
  shows "bb_b (snd (bb_Write p w)) = take (nat (bb_limit w)) (bb_b w @ p)"
proof (cases "int (length (bb_b w)) < bb_limit w")
  case True
  then have "nat (min (int (length p)) (bb_limit w - int (length (bb_b w))))
      = min (length p) (nat (bb_limit w) - length (bb_b w))"
    by linarith
  with True show ?thesis
    by (auto simp: bb_Write_def Let_def min_def split: if_splits)
next
  case False
  with assms have "length (bb_b w) = nat (bb_limit w)" by (auto simp: bb_inv_def)
  with False show ?thesis by (simp add: bb_Write_def Let_def)
qed

interpretation bsink: prefix_sink "\<lambda>p w. snd (bb_Write p w)" bb_b bb_truncated "\<lambda>w. nat (bb_limit w)" bb_inv
proof unfold_locales
  fix w :: boundedBuffer and p :: bytes
  assume inv: "bb_inv w"
  have lim: "bb_limit (snd (bb_Write p w)) = bb_limit w"
    by (simp add: bb_Write_def Let_def)
  then show "nat (bb_limit (snd (bb_Write p w))) = nat (bb_limit w)" by simp
  show "bb_b (snd (bb_Write p w)) = take (nat (bb_limit w)) (bb_b w @ p)"
    using inv by (rule bb_Write_contents)
  then have "length (bb_b (snd (bb_Write p w))) \<le> nat (bb_limit w)" by simp
  with lim inv show "bb_inv (snd (bb_Write p w))" by (auto simp: bb_inv_def)
  show "bb_truncated (snd (bb_Write p w)) \<longleftrightarrow>
      bb_truncated w \<or> nat (bb_limit w) < length (bb_b w) + length p"
    using inv by (auto simp: bb_Write_def Let_def bb_inv_def)
  show "length (bb_b w) \<le> nat (bb_limit w)" using inv by (auto simp: bb_inv_def)
qed

lemma bb_Write_count: "fst (bb_Write p w) = int (length p)"
  by (simp add: bb_Write_def Let_def)

text \<open>
  C27: a bounded buffer with a non-negative limit holds, after any sequence of writes, exactly
  the first \<open>limit\<close> bytes of everything written, and is marked as truncated exactly when more
  than that was written; no write ever reports a short count to the process.
\<close>

theorem bounded_buffer_keeps_prefix:
  assumes "0 \<le> limit"
  shows "bb_b (bb_write_all chunks (new_buffer limit)) = take (nat limit) (concat chunks)
    \<and> (bb_truncated (bb_write_all chunks (new_buffer limit)) \<longleftrightarrow> limit < int (length (concat chunks)))"
proof -
  have "bb_inv (new_buffer limit)" using assms by (simp add: bb_inv_def new_buffer_def)
  from bsink.put_all [OF this, of chunks] assms show ?thesis
    by (simp add: bb_write_all_def new_buffer_def nat_less_iff)
qed

theorem bounded_buffer_keeps_prefix_witness:
  "bb_b (bb_write_all [''abc'', ''def''] (new_buffer 4)) = ''abcd''
   \<and> bb_truncated (bb_write_all [''abc'', ''def''] (new_buffer 4))"
  using bounded_buffer_keeps_prefix [of 4 "[''abc'', ''def'']"] by simp

section \<open>The runner\<close>

record Output =
  out_Stdout :: bytes
  out_Stderr :: bytes
  out_StdoutTruncated :: bool
  out_StderrTruncated :: bool

record Runner =
  run_MaxStdout :: int
  run_MaxStderr :: int

text \<open>What is handed to the operating system when a process starts.\<close>

record Command =
  cmd_Path :: string
  cmd_Args :: "string list"
  cmd_Dir :: string
  cmd_Env :: "string list"

record process_env =
  pe_goos :: string
  pe_getenv :: "string \<Rightarrow> string"
  pe_lookPath :: "string \<Rightarrow> string result"
  pe_runCmd :: "Command \<Rightarrow> bytes list \<times> bytes list \<times> goerror option"

definition allowed_binaries :: "string list" where
  "allowed_binaries = [''ping'', ''traceroute'', ''tracert'', ''nmap'', ''tshark'', ''zeek'', ''suricata'', ''iperf3'']"

definition minimalEnvironment :: "process_env \<Rightarrow> string list" where
  "minimalEnvironment env =
     (let path = (if pe_goos env = ''windows''
          then pe_getenv env ''SystemRoot'' @ CHR 0x5C # ''System32;'' @ pe_getenv env ''SystemRoot''
          else ''/usr/local/sbin:/usr/local/bin:/usr/sbin:/usr/bin:/sbin:/bin'');
          base = [''PATH='' @ path, ''LANG=C'', ''LC_ALL=C'']
      in if pe_goos env = ''windows'' \<and> pe_getenv env ''SystemRoot'' \<noteq> []
         then base @ [''SystemRoot='' @ pe_getenv env ''SystemRoot''] else base)"

definition zero_Output :: Output where
  "zero_Output = \<lparr>out_Stdout = [], out_Stderr = [], out_StdoutTruncated = False, out_StderrTruncated = False\<rparr>"

text \<open>The output, the error, and the command that was started, if one was.\<close>

definition RunInDir :: "process_env \<Rightarrow> Runner \<Rightarrow> string \<Rightarrow> string \<Rightarrow> string list \<Rightarrow>
    Output \<times> goerror option \<times> Command option" where
  "RunInDir env r dir binary args =
     (if binary \<notin> set allowed_binaries \<or> contains_any binary [CHR 0x0D, CHR 0x0A]
      then (zero_Output, Some (ErrorText ''invalid executable''), None)
      else case pe_lookPath env binary of
        Inl err \<Rightarrow> (zero_Output, Some err, None)
      | Inr path \<Rightarrow>
          if list_ex (\<lambda>arg. contains_any arg [CHR 0x00, CHR 0x0D, CHR 0x0A]) args
          then (zero_Output, Some (ErrorText ''invalid process argument''), None)
          else
            let cmd = \<lparr>cmd_Path = path, cmd_Args = args, cmd_Dir = dir, cmd_Env = minimalEnvironment env\<rparr>;
                (outs, errs, err) = pe_runCmd env cmd;
                out = bb_write_all outs (new_buffer (run_MaxStdout r));
                errout = bb_write_all errs (new_buffer (run_MaxStderr r))
            in (\<lparr>out_Stdout = bb_b out, out_Stderr = bb_b errout,
                 out_StdoutTruncated = bb_truncated out, out_StderrTruncated = bb_truncated errout\<rparr>,
                err, Some cmd))"

definition Run :: "process_env \<Rightarrow> Runner \<Rightarrow> string \<Rightarrow> string list \<Rightarrow>
    Output \<times> goerror option \<times> Command option" where
  "Run env r binary args = RunInDir env r [] binary args"

text \<open>
  C10: the runner starts a process only for a tool of the compiled list, at the path the lookup
  gave for it, with arguments that hold no NUL, CR or LF, and with the fixed minimal
  environment; what it returns of each output is within the configured limit.
\<close>

theorem runner_starts_only_listed_tools:
  assumes "RunInDir env r dir binary args = (out, err, Some cmd)"
    and "0 \<le> run_MaxStdout r" and "0 \<le> run_MaxStderr r"
  shows "binary \<in> {''ping'', ''traceroute'', ''tracert'', ''nmap'', ''tshark'', ''zeek'', ''suricata'', ''iperf3''}
    \<and> pe_lookPath env binary = Inr (cmd_Path cmd) \<and> cmd_Args cmd = args
    \<and> (\<forall>arg\<in>set args. set arg \<inter> {CHR 0x00, CHR 0x0D, CHR 0x0A} = {})
    \<and> cmd_Env cmd = minimalEnvironment env
    \<and> int (length (out_Stdout out)) \<le> run_MaxStdout r \<and> int (length (out_Stderr out)) \<le> run_MaxStderr r"
proof -
  from assms(1) obtain path where tool: "binary \<in> set allowed_binaries" and path: "pe_lookPath env binary = Inr path"
    and args: "\<not> list_ex (\<lambda>arg. contains_any arg [CHR 0x00, CHR 0x0D, CHR 0x0A]) args"
    and cmd: "cmd = \<lparr>cmd_Path = path, cmd_Args = args, cmd_Dir = dir, cmd_Env = minimalEnvironment env\<rparr>"
    and out: "out_Stdout out = bb_b (bb_write_all (fst (pe_runCmd env cmd)) (new_buffer (run_MaxStdout r)))"
    and errout: "out_Stderr out = bb_b (bb_write_all (fst (snd (pe_runCmd env cmd))) (new_buffer (run_MaxStderr r)))"
    by (auto simp: RunInDir_def Let_def split: if_splits sum.splits prod.splits)
  have "length (bb_b (bb_write_all cs (new_buffer lim))) \<le> nat lim" if "0 \<le> lim" for cs lim
  proof -
    have "bb_inv (new_buffer lim)" using that by (simp add: bb_inv_def new_buffer_def)
    from bsink.put_all [OF this, of cs] show ?thesis
      by (simp add: bb_write_all_def new_buffer_def)
  qed
  from this [OF assms(2), of "fst (pe_runCmd env cmd)"] this [OF assms(3), of "fst (snd (pe_runCmd env cmd))"]
  have "int (length (out_Stdout out)) \<le> run_MaxStdout r \<and> int (length (out_Stderr out)) \<le> run_MaxStderr r"
    using out errout assms(2,3) by auto
  with tool path args cmd show ?thesis
    by (auto simp: allowed_binaries_def list_ex_iff contains_any_iff)
qed

definition sample_process_env :: process_env where
  "sample_process_env = \<lparr>pe_goos = ''linux'', pe_getenv = (\<lambda>_. []),
     pe_lookPath = (\<lambda>b. Inr (''/usr/bin/'' @ b)), pe_runCmd = (\<lambda>_. ([''hello''], [], None))\<rparr>"

definition sample_runner :: Runner where
  "sample_runner = \<lparr>run_MaxStdout = 3, run_MaxStderr = 3\<rparr>"

theorem runner_starts_only_listed_tools_witness:
  "\<exists>out err cmd. RunInDir sample_process_env sample_runner [] ''ping'' [''-c'', ''1''] = (out, err, Some cmd)
     \<and> pe_lookPath sample_process_env ''ping'' = Inr (cmd_Path cmd)
     \<and> int (length (out_Stdout out)) \<le> run_MaxStdout sample_runner"
proof -
  obtain out err cmd where run: "RunInDir sample_process_env sample_runner [] ''ping'' [''-c'', ''1'']
      = (out, err, Some cmd)"
    by (simp add: RunInDir_def allowed_binaries_def contains_any_def sample_process_env_def Let_def)
  with runner_starts_only_listed_tools [OF run] show ?thesis
    by (auto simp: sample_runner_def)
qed

end
