(* ===== verification/Adapters.thy ===== *)
theory Adapters
  imports Registry Target Process Signing
begin

text \<open>
  What the module adapters under \<^verbatim>\<open>internal/modules/\<close> share: the surroundings of an
  execution, the skeleton of a result, and the lemma that parameters checked by \<^verbatim>\<open>Validate\<close>
  are the parameters \<^verbatim>\<open>Execute\<close> reads.
\<close>

section \<open>Surroundings of an execution\<close>

text \<open>
  What one run of a module observes: the clock when it starts and when it builds its result,
  the time \<^verbatim>\<open>time.Since(start)\<close> measured, processes and the runner the module was made with,
  the resolver, TCP connections, TLS handshakes, HTTP exchanges and the XML decoder. The
  context of the call ends one of these operations with its error. \<^verbatim>\<open>nil\<close> slices of the
  resolver are \<open>None\<close>; an IP address comes with \<^verbatim>\<open>To4() != nil\<close>. The reply to the n-th HTTP
  request of a run is a redirect to a URL, a response, or a transport error.
\<close>

record http_response =
  hr_StatusCode :: int
  hr_ContentType :: string
  hr_ContentLength :: int
  hr_Body :: bytes
  hr_BodyErr :: "goerror option"

datatype http_reply = HttpRedirect URL | HttpResponse http_response | HttpError goerror

record peer_certificate =
  pc_Subject :: string
  pc_Issuer :: string
  pc_NotBefore :: time
  pc_NotAfter :: time
  pc_DNSNames :: "string list option"

record tls_state =
  ts_VersionName :: string
  ts_CipherSuiteName :: string
  ts_PeerCertificates :: "peer_certificate list"

record exec_env =
  xe_start :: time
  xe_end :: time
  xe_since :: duration
  xe_process :: process_env
  xe_runner :: Runner
  xe_LookupIPAddr :: "string \<Rightarrow> (bool \<times> string) list \<times> goerror option"
  xe_LookupCNAME :: "string \<Rightarrow> string \<times> goerror option"
  xe_LookupMX :: "string \<Rightarrow> string list \<times> goerror option"
  xe_LookupNS :: "string \<Rightarrow> string list \<times> goerror option"
  xe_LookupTXT :: "string \<Rightarrow> string list option \<times> goerror option"
  xe_dial :: "duration \<Rightarrow> string \<Rightarrow> goerror option"
  xe_handshake :: "string \<Rightarrow> tls_state result"
  xe_newRequest :: "string \<Rightarrow> string \<Rightarrow> goerror option"
  xe_http :: "nat \<Rightarrow> http_reply"
  xe_xml :: "bytes \<Rightarrow> json option"

definition goos :: "exec_env \<Rightarrow> string" where
  "goos env = pe_goos (xe_process env)"

section \<open>Results\<close>

definition completed :: "exec_env \<Rightarrow> JobEnvelope \<Rightarrow> string \<Rightarrow> ModuleResult" where
  "completed env j summary = zero_ModuleResult\<lparr>mr_JobID := je_JobID j, mr_ModuleID := je_ModuleID j,
     mr_StartedAt := xe_start env, mr_CompletedAt := xe_end env, mr_Status := ''COMPLETED'',
     mr_Summary := summary\<rparr>"

definition observation :: "string \<Rightarrow> string \<Rightarrow> (string \<times> json) list \<Rightarrow> ModuleObservation" where
  "observation kind message d = \<lparr>mo_Kind = kind, mo_Message = message, mo_Data = d\<rparr>"

definition float_of_int :: "int \<Rightarrow> float64" where
  "float_of_int n = Finite (of_int n)"

definition json_int :: "int \<Rightarrow> json" where
  "json_int n = JNumber (strconv_Itoa n)"

text \<open>A string slice in a map of \<^verbatim>\<open>any\<close>: the nil slice becomes null.\<close>

definition json_strings :: "string list option \<Rightarrow> json" where
  "json_strings vals = (case vals of None \<Rightarrow> JNull | Some vs \<Rightarrow> JArray (map JString vs))"

text \<open>A slice built by \<^verbatim>\<open>append\<close> from nil.\<close>

definition appended :: "'a list \<Rightarrow> 'a list option" where
  "appended vs = (if vs = [] then None else Some vs)"

text \<open>\<^verbatim>\<open>d.Milliseconds()\<close>.\<close>

definition Milliseconds :: "duration \<Rightarrow> int" where
  "Milliseconds d = go_quot d time_Millisecond"

text \<open>\<^verbatim>\<open>net.JoinHostPort\<close>.\<close>

definition JoinHostPort :: "string \<Rightarrow> string \<Rightarrow> string" where
  "JoinHostPort host port =
     (if CHR '':'' \<in> set host then CHR ''['' # host @ '']:'' @ port else host @ CHR '':'' # port)"

section \<open>Validation of parameters\<close>

text \<open>
  The checks of an adapter on decoded parameters: a decoding error is returned, and so is the
  error of the first check that fails.
\<close>

definition check_params :: "'p fields \<Rightarrow> 'p \<Rightarrow> ('p \<Rightarrow> goerror option) \<Rightarrow> bytes \<Rightarrow> goerror option" where
  "check_params fs zero check raw = (case DecodeParameters fs zero raw of
      Inl err \<Rightarrow> Some err
    | Inr p \<Rightarrow> check p)"

definition read_params :: "'p fields \<Rightarrow> 'p \<Rightarrow> bytes \<Rightarrow> 'p" where
  "read_params fs zero raw = fst (unmarshal_struct fs zero raw)"

lemma check_params_read [accepts]:
  assumes "check_params fs zero check raw = None"
  shows "check (read_params fs zero raw) = None"
  using assms DecodeParameters_unmarshal [of fs zero raw]
  by (auto simp: check_params_def read_params_def split: sum.splits)

lemma JoinHostPort_inj_port:
  "JoinHostPort host p = JoinHostPort host q \<longleftrightarrow> p = q"
  by (simp add: JoinHostPort_def)

section \<open>Sample surroundings and jobs\<close>

definition sample_env :: exec_env where
  "sample_env = \<lparr>xe_start = 1, xe_end = 2, xe_since = 1, xe_process = sample_process_env, xe_runner = sample_runner,
     xe_LookupIPAddr = (\<lambda>_. ([], None)), xe_LookupCNAME = (\<lambda>_. ([], None)), xe_LookupMX = (\<lambda>_. ([], None)),
     xe_LookupNS = (\<lambda>_. ([], None)), xe_LookupTXT = (\<lambda>_. (None, None)), xe_dial = (\<lambda>_ _. None),
     xe_handshake = (\<lambda>_. Inl Canceled), xe_newRequest = (\<lambda>_ _. None), xe_http = (\<lambda>_. HttpError Canceled),
     xe_xml = (\<lambda>_. None)\<rparr>"

text \<open>A job envelope in which only the target and the parameters matter to an adapter.\<close>

definition adapter_job :: "string \<Rightarrow> string \<Rightarrow> bytes \<Rightarrow> JobEnvelope" where
  "adapter_job ty v raw = \<lparr>je_ProtocolVersion = ''1.0'', je_JobID = [], je_OrganizationID = [], je_AgentID = [],
     je_ModuleID = [], je_ModuleVersionRequirement = [], je_ScopeID = [], je_ScopeEnvironment = [], je_AssetID = None,
     je_ServiceID = None, je_DiagnosticRunID = None, je_VantagePointID = None,
     je_Target = \<lparr>jt_Type = ty, jt_Value = v\<rparr>, je_ValidatedParameters = raw, je_RiskClass = RiskSafeActive,
     je_AuthorizationReference = [], je_IssuedAt = 0, je_ExpiresAt = 0, je_TimeoutSeconds = 0, je_Nonce = [],
     je_SigningKeyID = [], je_SignatureAlgorithm = [], je_Signature = []\<rparr>"

text \<open>The parameter text of the witnesses: quotation marks are written as a character code.\<close>

definition quoted :: "string \<Rightarrow> string" where
  "quoted s = CHR 0x22 # s @ [CHR 0x22]"

end
