(* ===== verification/ToolModules.thy ===== *)
theory ToolModules
  imports Adapters
begin

text \<open>
  The adapters that run an external tool: \<^verbatim>\<open>internal/modules/ping\<close>, \<^verbatim>\<open>route\<close> and \<^verbatim>\<open>nmap\<close>,
  and the four whose validation always refuses the job in this protocol version
  (\<^verbatim>\<open>iperf\<close>, \<^verbatim>\<open>tshark\<close>, \<^verbatim>\<open>zeek\<close>, \<^verbatim>\<open>suricata\<close>). Every adapter gives a descriptor, a validation of the
  job, and an execution that builds the arguments of one fixed tool.
\<close>

definition all_platforms :: "string list" where
  "all_platforms = [''linux'', ''windows'', ''darwin'']"

section \<open>ping\<close>

record ping_params =
  pp_Samples :: int
  pp_TimeoutMS :: int

definition ping_fields :: "ping_params fields" where
  "ping_fields = [(''samples'', int_field (\<lambda>n. pp_Samples_update (\<lambda>_. n))),
     (''timeoutMs'', int_field (\<lambda>n. pp_TimeoutMS_update (\<lambda>_. n)))]"

definition ping_zero :: ping_params where
  "ping_zero = \<lparr>pp_Samples = 0, pp_TimeoutMS = 0\<rparr>"

definition ping_Descriptor :: Descriptor where
  "ping_Descriptor = \<lparr>d_ID = ''network.ping'', d_Version = ''0.1.0'', d_RiskClass = RiskSafeActive,
     d_Implementation = ''external-tool'', d_RequiredTool = ''ping'', d_RequiredCapability = ''ping'',
     d_Platforms = all_platforms, d_ConcurrencyLimit = 8\<rparr>"

definition ping_check :: "ping_params \<Rightarrow> goerror option" where
  "ping_check p =
     (if pp_Samples p < 1 \<or> 10 < pp_Samples p \<or> pp_TimeoutMS p < 100 \<or> 10000 < pp_TimeoutMS p
      then Some (ErrorText ''count or timeout outside safe profile'') else None)"

definition ping_Validate :: "url_parser \<Rightarrow> JobEnvelope \<Rightarrow> goerror option" where
  "ping_Validate url_Parse j = (case snd (Host url_Parse (je_Target j)) of
      Some err \<Rightarrow> Some err
    | None \<Rightarrow> check_params ping_fields ping_zero ping_check (je_ValidatedParameters j))"

definition ping_args :: "string \<Rightarrow> ping_params \<Rightarrow> string \<Rightarrow> string list" where
  "ping_args os p host =
     (if os = ''windows'' then [''-n'', strconv_Itoa (pp_Samples p), ''-w'', strconv_Itoa (pp_TimeoutMS p), host]
      else if os = ''darwin'' then [''-c'', strconv_Itoa (pp_Samples p), ''-W'', strconv_Itoa (pp_TimeoutMS p), host]
      else [''-c'', strconv_Itoa (pp_Samples p), ''-W'',
            strconv_Itoa (go_quot (int64_wrap (pp_TimeoutMS p + 999)) 1000), host])"

definition ping_Execute :: "url_parser \<Rightarrow> exec_env \<Rightarrow> JobEnvelope \<Rightarrow> ModuleResult \<times> goerror option" where
  "ping_Execute url_Parse env j =
     (let p = read_params ping_fields ping_zero (je_ValidatedParameters j);
          host = fst (Host url_Parse (je_Target j));
          (out, err, _) = Run (xe_process env) (xe_runner env) ''ping'' (ping_args (goos env) p host)
      in ((completed env j ''Ping profile completed'')
            \<lparr>mr_Observations := [observation ''ping.output'' ''Bounded tool output''
                [(''output'', JString (strings_TrimSpace (out_Stdout out)))]],
             mr_Truncated := out_StdoutTruncated out \<or> out_StderrTruncated out\<rparr>, err))"

definition ping_module :: "url_parser \<Rightarrow> exec_env Module" where
  "ping_module url_Parse = \<lparr>mod_Descriptor = ping_Descriptor, mod_Validate = ping_Validate url_Parse,
     mod_Execute = ping_Execute url_Parse\<rparr>"

section \<open>route\<close>

record route_params =
  rp_MaxHops :: int
  rp_TimeoutMS :: int

record hop =
  hop_Hop :: int
  hop_Address :: string
  hop_Hostname :: string
  hop_Latencies :: "string list"
  hop_Timeout :: bool

definition route_fields :: "route_params fields" where
  "route_fields = [(''maxHops'', int_field (\<lambda>n. rp_MaxHops_update (\<lambda>_. n))),
     (''timeoutMs'', int_field (\<lambda>n. rp_TimeoutMS_update (\<lambda>_. n)))]"

definition route_zero :: route_params where
  "route_zero = \<lparr>rp_MaxHops = 0, rp_TimeoutMS = 0\<rparr>"

definition routeBinary :: "string \<Rightarrow> string" where
  "routeBinary os = (if os = ''windows'' then ''tracert'' else ''traceroute'')"

definition route_Descriptor :: "string \<Rightarrow> Descriptor" where
  "route_Descriptor os = \<lparr>d_ID = ''network.route'', d_Version = ''0.1.0'', d_RiskClass = RiskSafeActive,
     d_Implementation = ''external-tool'', d_RequiredTool = routeBinary os, d_RequiredCapability = ''route'',
     d_Platforms = all_platforms, d_ConcurrencyLimit = 2\<rparr>"

definition route_check :: "route_params \<Rightarrow> goerror option" where
  "route_check p =
     (if rp_MaxHops p < 1 \<or> 32 < rp_MaxHops p \<or> rp_TimeoutMS p < 100 \<or> 10000 < rp_TimeoutMS p
      then Some (ErrorText ''maxHops outside safe profile'') else None)"

definition route_Validate :: "url_parser \<Rightarrow> JobEnvelope \<Rightarrow> goerror option" where
  "route_Validate url_Parse j = (case snd (Host url_Parse (je_Target j)) of
      Some err \<Rightarrow> Some err
    | None \<Rightarrow> check_params route_fields route_zero route_check (je_ValidatedParameters j))"

text \<open>
  \<^verbatim>\<open>fmt.Sprintf("%.3f", float64(ms)/1000)\<close>: three decimals are exact for a whole number of
  milliseconds as long as the quotient is below \<open>2\<^sup>4\<^sup>2\<close>, far above the accepted range.
\<close>

definition seconds_text :: "int \<Rightarrow> string" where
  "seconds_text ms = (if ms < 0 then ''-'' else []) @ show_nat (nat \<bar>ms\<bar> div 1000) @ CHR ''.'' #
     pad_left 3 (show_nat (nat \<bar>ms\<bar> mod 1000))"

definition route_command :: "string \<Rightarrow> route_params \<Rightarrow> string \<Rightarrow> string \<times> string list" where
  "route_command os p host =
     (if os = ''windows''
      then (''tracert'', [''-h'', strconv_Itoa (rp_MaxHops p), ''-d'', ''-w'', strconv_Itoa (rp_TimeoutMS p), host])
      else (''traceroute'', [''-m'', strconv_Itoa (rp_MaxHops p), ''-n'', ''-w'', seconds_text (rp_TimeoutMS p), host]))"

text \<open>One pass over the fields after the hop number; a field is a latency when the next one is the unit.\<close>

definition hop_field :: "hop \<Rightarrow> string \<Rightarrow> string list \<Rightarrow> hop" where
  "hop_field h field rest =
     (if field = ''*'' then h\<lparr>hop_Timeout := True\<rparr>
      else if suffix ''ms'' field \<or> (rest \<noteq> [] \<and> hd rest = ''ms'')
        then h\<lparr>hop_Latencies := hop_Latencies h @ [field]\<rparr>
      else let candidate = strings_Trim field ''()[]'' in
        if ValidateHost candidate = None then
          (if contains_any candidate '':0123456789'' then h\<lparr>hop_Address := candidate\<rparr>
           else if hop_Hostname h = [] then h\<lparr>hop_Hostname := candidate\<rparr> else h)
        else h)"

fun hop_fields :: "hop \<Rightarrow> string list \<Rightarrow> hop" where
  "hop_fields h [] = h"
| "hop_fields h (field # rest) = hop_fields (hop_field h field rest) rest"

definition parse_hop :: "string \<Rightarrow> hop option" where
  "parse_hop line = (case strings_Fields line of
      first # f # fs \<Rightarrow> (case strconv_ParseInt first of
          None \<Rightarrow> None
        | Some n \<Rightarrow> if n < 1 \<or> 255 < n then None
            else Some (hop_fields \<lparr>hop_Hop = n, hop_Address = [], hop_Hostname = [],
                  hop_Latencies = [], hop_Timeout = False\<rparr> (f # fs)))
    | _ \<Rightarrow> None)"

definition route_normalize :: "string \<Rightarrow> hop list" where
  "route_normalize output = List.map_filter parse_hop (split_on (CHR 0x0A) output)"

text \<open>A hop as it appears in the observation (\<^verbatim>\<open>omitempty\<close> on three fields).\<close>

definition hop_json :: "hop \<Rightarrow> json" where
  "hop_json h = JObject ([(''hop'', json_int (hop_Hop h))]
     @ (if hop_Address h = [] then [] else [(''address'', JString (hop_Address h))])
     @ (if hop_Hostname h = [] then [] else [(''hostname'', JString (hop_Hostname h))])
     @ (if hop_Latencies h = [] then [] else [(''latencies'', JArray (map JString (hop_Latencies h)))])
     @ [(''timeout'', JBool (hop_Timeout h))])"

definition hops_json :: "hop list \<Rightarrow> json" where
  "hops_json hs = (if hs = [] then JNull else JArray (map hop_json hs))"

definition route_Execute :: "url_parser \<Rightarrow> exec_env \<Rightarrow> JobEnvelope \<Rightarrow> ModuleResult \<times> goerror option" where
  "route_Execute url_Parse env j =
     (let p = read_params route_fields route_zero (je_ValidatedParameters j);
          host = fst (Host url_Parse (je_Target j));
          (binary, args) = route_command (goos env) p host;
          (out, err, _) = Run (xe_process env) (xe_runner env) binary args;
          hops = route_normalize (out_Stdout out)
      in ((completed env j ''Route trace profile completed'')
            \<lparr>mr_Observations := [observation ''route.hops'' ''Normalized route hops'' [(''hops'', hops_json hops)]],
             mr_Truncated := out_StdoutTruncated out \<or> out_StderrTruncated out\<rparr>, err))"

definition route_module :: "string \<Rightarrow> url_parser \<Rightarrow> exec_env Module" where
  "route_module os url_Parse = \<lparr>mod_Descriptor = route_Descriptor os, mod_Validate = route_Validate url_Parse,
     mod_Execute = route_Execute url_Parse\<rparr>"

section \<open>nmap\<close>

record nmap_params =
  np_Profile :: string
  np_MaxHosts :: int

definition nmap_fields :: "nmap_params fields" where
  "nmap_fields = [(''profile'', string_field (\<lambda>s. np_Profile_update (\<lambda>_. s))),
     (''maxHosts'', int_field (\<lambda>n. np_MaxHosts_update (\<lambda>_. n)))]"

definition nmap_zero :: nmap_params where
  "nmap_zero = \<lparr>np_Profile = [], np_MaxHosts = 0\<rparr>"

definition nmap_Descriptor :: "string \<Rightarrow> Descriptor" where
  "nmap_Descriptor i = \<lparr>d_ID = i, d_Version = ''0.1.0'', d_RiskClass = RiskControlledActive,
     d_Implementation = ''external-tool'', d_RequiredTool = ''nmap'', d_RequiredCapability = ''nmap'',
     d_Platforms = all_platforms, d_ConcurrencyLimit = 1\<rparr>"

text \<open>The shift stays below \<open>2\<^sup>3\<^sup>1\<close>, so it does not leave the range of \<^verbatim>\<open>int\<close>.\<close>

definition cidrWithinLimit :: "string \<Rightarrow> int \<Rightarrow> bool" where
  "cidrWithinLimit v maximum = (case net_ParseCIDR v of
      None \<Rightarrow> False
    | Some (_, ones, bits) \<Rightarrow>
        if 31 \<le> int bits - int ones then False else 2 ^ (bits - ones) \<le> maximum)"

definition nmap_check :: "string \<Rightarrow> JobTarget \<Rightarrow> nmap_params \<Rightarrow> goerror option" where
  "nmap_check i target p =
     (let maximum = (if i = ''nmap.services'' then 64 else 256) in
      if np_MaxHosts p < 1 \<or> maximum < np_MaxHosts p
      then Some (ErrorText ''maxHosts is outside the controlled profile'')
      else if i = ''nmap.discovery'' \<and> np_Profile p \<noteq> ''DISCOVERY''
      then Some (ErrorText ''discovery module requires DISCOVERY profile'')
      else if i = ''nmap.services'' \<and> np_Profile p \<noteq> ''COMMON_SERVICES'' \<and> np_Profile p \<noteq> ''AUTHORIZED_SERVICE_INVENTORY''
      then Some (ErrorText ''service module profile is invalid'')
      else if jt_Type target = ''CIDR'' \<and> \<not> cidrWithinLimit (jt_Value target) (np_MaxHosts p)
      then Some (ErrorText ''CIDR exceeds maxHosts'')
      else None)"

definition nmap_Validate :: "url_parser \<Rightarrow> string \<Rightarrow> JobEnvelope \<Rightarrow> goerror option" where
  "nmap_Validate url_Parse i j =
     (let target = je_Target j in
      case ValidateTarget url_Parse target of
        Some err \<Rightarrow> Some err
      | None \<Rightarrow>
          if jt_Type target \<noteq> ''HOSTNAME'' \<and> jt_Type target \<noteq> ''IP'' \<and> jt_Type target \<noteq> ''CIDR''
          then Some (ErrorText ''Nmap requires HOSTNAME, IP or CIDR target'')
          else check_params nmap_fields nmap_zero (nmap_check i target) (je_ValidatedParameters j))"

definition nmap_args :: "string \<Rightarrow> string \<Rightarrow> string list" where
  "nmap_args i v =
     (if i = ''nmap.services''
      then [''-sT'', ''--top-ports'', ''100'', ''--version-light'', ''-oX'', ''-'', v]
      else [''-sn'', ''-oX'', ''-'', v])"

definition nmap_Execute :: "string \<Rightarrow> exec_env \<Rightarrow> JobEnvelope \<Rightarrow> ModuleResult \<times> goerror option" where
  "nmap_Execute i env j =
     (let (out, err, _) = Run (xe_process env) (xe_runner env) ''nmap'' (nmap_args i (jt_Value (je_Target j)));
          r = (completed env j ''Nmap fixed profile completed'')
                \<lparr>mr_Truncated := out_StdoutTruncated out \<or> out_StderrTruncated out\<rparr>
      in case err of
        Some e \<Rightarrow> (r, Some e)
      | None \<Rightarrow> (case xe_xml env (out_Stdout out) of
            None \<Rightarrow> (r, Some (ErrorText ''invalid bounded Nmap XML output''))
          | Some hosts \<Rightarrow>
              (r\<lparr>mr_Observations := [observation ''nmap.xml'' ''Parsed structured Nmap result'' [(''hosts'', hosts)]]\<rparr>, None)))"

definition nmap_module :: "url_parser \<Rightarrow> string \<Rightarrow> exec_env Module" where
  "nmap_module url_Parse i = \<lparr>mod_Descriptor = nmap_Descriptor i, mod_Validate = nmap_Validate url_Parse i,
     mod_Execute = nmap_Execute i\<rparr>"

section \<open>Adapters that refuse every job of this protocol version\<close>

record iperf_params =
  ip_DestinationEndpointID :: string
  ip_DurationSeconds :: int

definition iperf_fields :: "iperf_params fields" where
  "iperf_fields = [(''destinationEndpointId'', string_field (\<lambda>s. ip_DestinationEndpointID_update (\<lambda>_. s))),
     (''durationSeconds'', int_field (\<lambda>n. ip_DurationSeconds_update (\<lambda>_. n)))]"

definition iperf_zero :: iperf_params where
  "iperf_zero = \<lparr>ip_DestinationEndpointID = [], ip_DurationSeconds = 0\<rparr>"

definition iperf_Descriptor :: Descriptor where
  "iperf_Descriptor = \<lparr>d_ID = ''performance.iperf3'', d_Version = ''0.1.0'', d_RiskClass = RiskControlledActive,
     d_Implementation = ''external-tool'', d_RequiredTool = ''iperf3'', d_RequiredCapability = ''iperf3'',
     d_Platforms = all_platforms, d_ConcurrencyLimit = 1\<rparr>"

definition iperf_Validate :: "JobEnvelope \<Rightarrow> goerror option" where
  "iperf_Validate j = check_params iperf_fields iperf_zero
     (\<lambda>p. if ip_DestinationEndpointID p = [] \<or> ip_DurationSeconds p < 1 \<or> 30 < ip_DurationSeconds p
          then Some (ErrorText ''iperf3 controlled profile is invalid'')
          else Some (ErrorText ''Protocol v1 does not convey the approved destination endpoint details''))
     (je_ValidatedParameters j)"

definition iperf_Execute :: "exec_env \<Rightarrow> JobEnvelope \<Rightarrow> ModuleResult \<times> goerror option" where
  "iperf_Execute env j = (zero_ModuleResult, Some (ErrorText ''controlled endpoint details are unavailable''))"

definition iperf_module :: "exec_env Module" where
  "iperf_module = \<lparr>mod_Descriptor = iperf_Descriptor, mod_Validate = iperf_Validate, mod_Execute = iperf_Execute\<rparr>"

text \<open>The three traffic adapters differ in their descriptor and one error text only.\<close>

record traffic_params =
  tp_ArtifactID :: string
  tp_Preset :: string

definition traffic_fields :: "traffic_params fields" where
  "traffic_fields = [(''artifactId'', string_field (\<lambda>s. tp_ArtifactID_update (\<lambda>_. s))),
     (''preset'', string_field (\<lambda>s. tp_Preset_update (\<lambda>_. s)))]"

definition traffic_zero :: traffic_params where
  "traffic_zero = \<lparr>tp_ArtifactID = [], tp_Preset = []\<rparr>"

definition traffic_Validate :: "string \<Rightarrow> JobEnvelope \<Rightarrow> goerror option" where
  "traffic_Validate invalid j = check_params traffic_fields traffic_zero
     (\<lambda>p. if tp_ArtifactID p = [] \<or> (tp_Preset p \<noteq> ''METADATA'' \<and> tp_Preset p \<noteq> ''PROTOCOL_SUMMARY'' \<and> tp_Preset p \<noteq> ''EVE_IMPORT'')
          then Some (ErrorText invalid)
          else Some (ErrorText ''Protocol v1 does not define authorized artifact content delivery''))
     (je_ValidatedParameters j)"

definition traffic_Execute :: "exec_env \<Rightarrow> JobEnvelope \<Rightarrow> ModuleResult \<times> goerror option" where
  "traffic_Execute env j = (zero_ModuleResult, Some (ErrorText ''artifact content is unavailable''))"

definition tshark_Descriptor :: Descriptor where
  "tshark_Descriptor = \<lparr>d_ID = ''traffic.tshark'', d_Version = ''0.1.0'', d_RiskClass = RiskPassive,
     d_Implementation = ''external-tool'', d_RequiredTool = ''tshark'', d_RequiredCapability = ''tshark'',
     d_Platforms = all_platforms, d_ConcurrencyLimit = 1\<rparr>"

definition tshark_Validate :: "JobEnvelope \<Rightarrow> goerror option" where
  "tshark_Validate = traffic_Validate ''TShark artifact or preset is invalid''"

definition tshark_module :: "exec_env Module" where
  "tshark_module = \<lparr>mod_Descriptor = tshark_Descriptor,
     mod_Validate = tshark_Validate, mod_Execute = traffic_Execute\<rparr>"

definition zeek_Descriptor :: Descriptor where
  "zeek_Descriptor = \<lparr>d_ID = ''traffic.zeek'', d_Version = ''0.1.0'', d_RiskClass = RiskPassive,
     d_Implementation = ''external-tool'', d_RequiredTool = ''zeek'', d_RequiredCapability = ''zeek'',
     d_Platforms = [''linux'', ''darwin''], d_ConcurrencyLimit = 1\<rparr>"

definition zeek_Validate :: "JobEnvelope \<Rightarrow> goerror option" where
  "zeek_Validate = traffic_Validate ''Zeek artifact or preset is invalid''"

definition zeek_module :: "exec_env Module" where
  "zeek_module = \<lparr>mod_Descriptor = zeek_Descriptor,
     mod_Validate = zeek_Validate, mod_Execute = traffic_Execute\<rparr>"

definition suricata_Descriptor :: Descriptor where
  "suricata_Descriptor = \<lparr>d_ID = ''security.suricata'', d_Version = ''0.1.0'', d_RiskClass = RiskPassive,
     d_Implementation = ''external-tool'', d_RequiredTool = ''suricata'', d_RequiredCapability = ''suricata'',
     d_Platforms = all_platforms, d_ConcurrencyLimit = 1\<rparr>"

definition suricata_Validate :: "JobEnvelope \<Rightarrow> goerror option" where
  "suricata_Validate = traffic_Validate ''Suricata artifact or preset is invalid''"

definition suricata_module :: "exec_env Module" where
  "suricata_module = \<lparr>mod_Descriptor = suricata_Descriptor,
     mod_Validate = suricata_Validate, mod_Execute = traffic_Execute\<rparr>"

section \<open>What an accepted job runs\<close>








lemma nmap_Validate_None [accepts]:
  assumes "nmap_Validate url_Parse i j = None"
  shows "ValidateTarget url_Parse (je_Target j) = None
    \<and> jt_Type (je_Target j) \<in> {''HOSTNAME'', ''IP'', ''CIDR''}
    \<and> nmap_check i (je_Target j) (read_params nmap_fields nmap_zero (je_ValidatedParameters j)) = None"
  using assms by (auto simp: nmap_Validate_def Let_def check_params_read split: option.splits if_splits)

lemma ValidateTarget_clean:
  assumes "ValidateTarget url_Parse target = None"
  shows "jt_Value target \<noteq> [] \<and> length (jt_Value target) \<le> 2048
    \<and> set (jt_Value target) \<inter> {CHR 0x00, CHR 0x0D, CHR 0x0A} = {}"
  using assms by (auto simp: ValidateTarget_def Let_def contains_any_iff split: if_splits)

lemma Trim_brackets_hd: "hd s = CHR ''-'' \<Longrightarrow> s \<noteq> [] \<Longrightarrow> hd (strings_Trim s ''[]'') = CHR ''-''
    \<and> strings_Trim s ''[]'' \<noteq> []"
proof -
  assume "hd s = CHR ''-''" "s \<noteq> []"
  then obtain t where s: "s = CHR ''-'' # t" by (cases s) auto
  let ?P = "\<lambda>c. c \<in> set ''[]''"
  have "dropWhile ?P s = s" by (simp add: s)
  then have trim: "strings_Trim s ''[]'' = rev (dropWhile ?P (rev s))" by (simp only: strings_Trim_def)
  have "\<exists>u. rev (dropWhile ?P (rev s)) = CHR ''-'' # u"
  proof -
    have "suffix (dropWhile ?P (rev s)) (rev s)" by (rule suffix_dropWhile)
    then have "prefix (rev (dropWhile ?P (rev s))) s" by (simp add: suffix_to_prefix)
    moreover have "dropWhile ?P (rev s) \<noteq> []" by (auto simp: s dropWhile_eq_Nil_conv)
    ultimately show ?thesis by (cases "rev (dropWhile ?P (rev s))") (auto simp: s)
  qed
  then show ?thesis unfolding trim by force
qed

text \<open>An accepted target value never starts with a hyphen, except inside a URL.\<close>

lemma accepted_value_not_option:
  assumes "ValidateTarget url_Parse target = None" and "jt_Type target \<in> {''HOSTNAME'', ''IP'', ''CIDR''}"
  shows "hd (jt_Value target) \<noteq> CHR ''-''"
proof
  let ?v = "jt_Value target"
  assume dash: "hd ?v = CHR ''-''"
  have ne: "?v \<noteq> []" using ValidateTarget_clean [OF assms(1)] by simp
  have no_ip: "net_ParseIP (strings_Trim ?v ''[]'') = None"
  proof (rule ccontr)
    assume "net_ParseIP (strings_Trim ?v ''[]'') \<noteq> None"
    then have "list_all ip_char (strings_Trim ?v ''[]'')" by (simp add: net_ParseIP_chars)
    then have "ip_char (hd (strings_Trim ?v ''[]''))"
      using Trim_brackets_hd [OF dash ne] by (cases "strings_Trim ?v ''[]''") simp_all
    with Trim_brackets_hd [OF dash ne] show False using ip_char_host_char by auto
  qed
  from assms(2) consider "jt_Type target = ''HOSTNAME''" | "jt_Type target = ''IP''" | "jt_Type target = ''CIDR''"
    by blast
  then show False
  proof cases
    case 1
    with assms(1) have "ValidateHost ?v = None" by (auto simp: ValidateTarget_def Let_def split: if_splits)
    with dash ne show False by (cases ?v) (auto simp: ValidateHost_def split: if_splits)
  next
    case 2
    with assms(1) no_ip show False by (auto simp: ValidateTarget_def Let_def split: if_splits)
  next
    case 3
    with assms(1) have "net_ParseCIDR ?v \<noteq> None" by (auto simp: ValidateTarget_def Let_def split: if_splits)
    then obtain a where "netip_ParseAddr (takeWhile (\<lambda>c. c \<noteq> CHR ''/'') ?v) = Some a"
      by (auto simp: net_ParseCIDR_def Let_def split: if_splits option.splits)
    then have "list_all ip_char (takeWhile (\<lambda>c. c \<noteq> CHR ''/'') ?v)" by (simp add: netip_ParseAddr_chars)
    with dash ne ip_char_host_char [of "CHR ''-''"] show False by (cases ?v) auto
  qed
qed

lemma nmap_check_None:
  assumes "nmap_check i target p = None"
  shows "1 \<le> np_MaxHosts p \<and> np_MaxHosts p \<le> (if i = ''nmap.services'' then 64 else 256)
    \<and> (jt_Type target = ''CIDR'' \<longrightarrow> cidrWithinLimit (jt_Value target) (np_MaxHosts p))"
  using assms by (auto simp: nmap_check_def Let_def split: if_splits)

text \<open>
  C12: an accepted Nmap job runs \<^verbatim>\<open>nmap\<close> with the fixed options of its module and the target's
  value as its only operand, and returns what that run gave: its error, its truncation, or the
  error of an output that is no XML. The operand does not start with a hyphen and has no NUL, CR
  or LF; it is a host name that passes validation, one address, or a network of no more
  addresses than the job's \<^verbatim>\<open>maxHosts\<close>, at most 256 for discovery and 64 for services. No bound is
  claimed for host names: see \<open>hostname_may_be_octet_ranges\<close>.
\<close>

theorem nmap_job_runs_fixed_profile:
  assumes "nmap_Validate url_Parse i j = None" and "i = ''nmap.discovery'' \<or> i = ''nmap.services''"
    and "v = jt_Value (je_Target j)"
    and "maxHosts = np_MaxHosts (read_params nmap_fields nmap_zero (je_ValidatedParameters j))"
    and "Run (xe_process env) (xe_runner env) ''nmap''
        ((if i = ''nmap.services'' then [''-sT'', ''--top-ports'', ''100'', ''--version-light'', ''-oX'', ''-'']
          else [''-sn'', ''-oX'', ''-'']) @ [v]) = (out, err, cmd)"
  shows "snd (nmap_Execute i env j) = (case err of Some e \<Rightarrow> Some e
        | None \<Rightarrow> if xe_xml env (out_Stdout out) = None then Some (ErrorText ''invalid bounded Nmap XML output'') else None)
    \<and> (mr_Truncated (fst (nmap_Execute i env j)) \<longleftrightarrow> out_StdoutTruncated out \<or> out_StderrTruncated out)
    \<and> v \<noteq> [] \<and> hd v \<noteq> CHR ''-'' \<and> set v \<inter> {CHR 0x00, CHR 0x0D, CHR 0x0A} = {}
    \<and> (jt_Type (je_Target j) = ''HOSTNAME'' \<and> ValidateHost v = None
       \<or> jt_Type (je_Target j) = ''IP'' \<and> net_ParseIP (strings_Trim v ''[]'') \<noteq> None
       \<or> jt_Type (je_Target j) = ''CIDR'' \<and> (\<exists>addr ones bits. net_ParseCIDR v = Some (addr, ones, bits) \<and> 2 ^ (bits - ones) \<le> maxHosts
           \<and> maxHosts \<le> (if i = ''nmap.services'' then 64 else 256)))"
proof -
  let ?p = "read_params nmap_fields nmap_zero (je_ValidatedParameters j)"
  from nmap_Validate_None [OF assms(1)] have ok: "ValidateTarget url_Parse (je_Target j) = None"
    and ty: "jt_Type (je_Target j) \<in> {''HOSTNAME'', ''IP'', ''CIDR''}"
    and check: "nmap_check i (je_Target j) ?p = None" by auto
  have "\<exists>addr ones bits. net_ParseCIDR v = Some (addr, ones, bits) \<and> 2 ^ (bits - ones) \<le> maxHosts
      \<and> maxHosts \<le> (if i = ''nmap.services'' then 64 else 256)" if "jt_Type (je_Target j) = ''CIDR''"
    using nmap_check_None [OF check] that assms(3,4)
    by (auto simp: cidrWithinLimit_def split: option.splits if_splits)
  moreover have "jt_Type (je_Target j) = ''HOSTNAME'' \<Longrightarrow> ValidateHost v = None"
    "jt_Type (je_Target j) = ''IP'' \<Longrightarrow> net_ParseIP (strings_Trim v ''[]'') \<noteq> None"
    using ok assms(3) by (auto simp: ValidateTarget_def Let_def split: if_splits)
  ultimately have operand: "jt_Type (je_Target j) = ''HOSTNAME'' \<and> ValidateHost v = None
       \<or> jt_Type (je_Target j) = ''IP'' \<and> net_ParseIP (strings_Trim v ''[]'') \<noteq> None
       \<or> jt_Type (je_Target j) = ''CIDR'' \<and> (\<exists>addr ones bits. net_ParseCIDR v = Some (addr, ones, bits) \<and> 2 ^ (bits - ones) \<le> maxHosts
           \<and> maxHosts \<le> (if i = ''nmap.services'' then 64 else 256))"
    using ty by auto
  have "Run (xe_process env) (xe_runner env) ''nmap'' (nmap_args i v) = (out, err, cmd)"
    using assms(2,5) by (auto simp: nmap_args_def)
  then have "snd (nmap_Execute i env j) = (case err of Some e \<Rightarrow> Some e
        | None \<Rightarrow> if xe_xml env (out_Stdout out) = None then Some (ErrorText ''invalid bounded Nmap XML output'') else None)
      \<and> (mr_Truncated (fst (nmap_Execute i env j)) \<longleftrightarrow> out_StdoutTruncated out \<or> out_StderrTruncated out)"
    by (simp add: nmap_Execute_def Let_def assms(3) [symmetric] split: option.split)
  with operand ValidateTarget_clean [OF ok] accepted_value_not_option [OF ok ty] assms(3) show ?thesis by simp
qed

definition sample_nmap_job :: JobEnvelope where
  "sample_nmap_job = adapter_job ''CIDR'' ''10.0.0.0/26''
     (CHR 0x7B # quoted ''profile'' @ CHR '':'' # quoted ''DISCOVERY'' @ CHR '','' # quoted ''maxHosts'' @ '':64}'')"

lemma sample_nmap_accepted: "nmap_Validate no_url ''nmap.discovery'' sample_nmap_job = None"
  by code_simp

theorem nmap_job_runs_fixed_profile_witness:
  "nmap_Validate no_url ''nmap.discovery'' sample_nmap_job = None
   \<and> (\<exists>out err cmd. Run sample_process_env sample_runner ''nmap'' [''-sn'', ''-oX'', ''-'', ''10.0.0.0/26''] = (out, err, cmd)
       \<and> (err \<noteq> None \<longrightarrow> snd (nmap_Execute ''nmap.discovery'' sample_env sample_nmap_job) = err))
   \<and> (\<exists>addr ones bits. net_ParseCIDR ''10.0.0.0/26'' = Some (addr, ones, bits) \<and> 2 ^ (bits - ones) \<le> (64::int))"
proof -
  have v: "''10.0.0.0/26'' = jt_Value (je_Target sample_nmap_job)" and ty: "jt_Type (je_Target sample_nmap_job) = ''CIDR''"
    by (simp_all add: sample_nmap_job_def adapter_job_def)
  have m: "64 = np_MaxHosts (read_params nmap_fields nmap_zero (je_ValidatedParameters sample_nmap_job))" by code_simp
  obtain out err cmd where run: "Run sample_process_env sample_runner ''nmap'' [''-sn'', ''-oX'', ''-'', ''10.0.0.0/26''] = (out, err, cmd)"
    by (rule prod_cases3)
  then have "Run (xe_process sample_env) (xe_runner sample_env) ''nmap'' [''-sn'', ''-oX'', ''-'', ''10.0.0.0/26''] = (out, err, cmd)"
    by (simp add: sample_env_def)
  with nmap_job_runs_fixed_profile [OF sample_nmap_accepted _ v m, of sample_env out err cmd] sample_nmap_accepted run ty show ?thesis
    by auto
qed

text \<open>
  A host name may consist of digits, hyphens and dots, which Nmap reads as ranges of octets: this
  job for one host is accepted.
\<close>

lemma hostname_may_be_octet_ranges:
  "nmap_Validate no_url ''nmap.discovery'' (adapter_job ''HOSTNAME'' ''10.0-255.0-255.0-255''
     (CHR 0x7B # quoted ''profile'' @ CHR '':'' # quoted ''DISCOVERY'' @ CHR '','' # quoted ''maxHosts'' @ '':1}'')) = None"
  by code_simp

section \<open>Route hops\<close>

definition hop_ok :: "hop \<Rightarrow> bool" where
  "hop_ok h \<longleftrightarrow> 1 \<le> hop_Hop h \<and> hop_Hop h \<le> 255
     \<and> (hop_Address h = [] \<or> ValidateHost (hop_Address h) = None)
     \<and> (hop_Hostname h = [] \<or> ValidateHost (hop_Hostname h) = None)"

lemma hop_field_ok: "hop_ok h \<Longrightarrow> hop_ok (hop_field h field rest)"
  unfolding hop_field_def hop_ok_def Let_def by (simp split: if_split) blast

lemma hop_fields_ok: "hop_ok h \<Longrightarrow> hop_ok (hop_fields h fs)"
  by (induction h fs rule: hop_fields.induct) (simp_all add: hop_field_ok)

lemma parse_hop_ok:
  assumes "parse_hop line = Some h"
  shows "hop_ok h"
proof -
  from assms obtain n fs where n: "\<not> n < 1" "\<not> 255 < n"
    and h: "h = hop_fields \<lparr>hop_Hop = n, hop_Address = [], hop_Hostname = [],
                  hop_Latencies = [], hop_Timeout = False\<rparr> fs"
    by (auto simp: parse_hop_def simp del: hop_fields.simps split: list.splits option.splits if_splits)
  show ?thesis unfolding h by (rule hop_fields_ok) (use n in \<open>simp add: hop_ok_def\<close>)
qed

text \<open>
  C31: whatever a route tool prints, every hop the adapter reports has a number from 1 to 255
  and only addresses and host names that pass host validation, and there are no more hops than
  lines of output.
\<close>

theorem route_hops_are_validated:
  "(\<forall>h\<in>set (route_normalize output). 1 \<le> hop_Hop h \<and> hop_Hop h \<le> 255
      \<and> (hop_Address h = [] \<or> ValidateHost (hop_Address h) = None)
      \<and> (hop_Hostname h = [] \<or> ValidateHost (hop_Hostname h) = None))
   \<and> length (route_normalize output) \<le> length (split_on (CHR 0x0A) output)"
proof -
  have "hop_ok h" if "h \<in> set (route_normalize output)" for h
    using that parse_hop_ok by (auto simp: route_normalize_def List.map_filter_def)
  then show ?thesis
    by (auto simp: hop_ok_def route_normalize_def List.map_filter_def)
qed

theorem route_hops_are_validated_witness:
  "\<exists>h. route_normalize '' 1  router.example (10.0.0.1)  1.2 ms  *'' = [h] \<and> hop_Address h = ''10.0.0.1''
     \<and> 1 \<le> hop_Hop h \<and> hop_Hop h \<le> 255 \<and> ValidateHost (hop_Address h) = None"
proof -
  let ?out = "'' 1  router.example (10.0.0.1)  1.2 ms  *''"
  have hops: "map hop_Address (route_normalize ?out) = [''10.0.0.1'']" by code_simp
  then obtain h where h: "route_normalize ?out = [h]" "hop_Address h = ''10.0.0.1''" by auto
  with route_hops_are_validated [of ?out] show ?thesis by simp
qed

section \<open>Refusing adapters\<close>

text \<open>
  The iperf3, TShark, Zeek and Suricata adapters refuse every job, whatever its
  parameters, and would fail if they were executed.
\<close>

theorem unsupported_adapters_refuse_every_job:
  "iperf_Validate j \<noteq> None \<and> tshark_Validate j \<noteq> None \<and> zeek_Validate j \<noteq> None \<and> suricata_Validate j \<noteq> None
   \<and> snd (iperf_Execute env j) \<noteq> None \<and> snd (traffic_Execute env j) \<noteq> None"
  by (auto simp: iperf_Validate_def tshark_Validate_def zeek_Validate_def suricata_Validate_def
      traffic_Validate_def check_params_def iperf_Execute_def traffic_Execute_def split: sum.splits)

end
