(* ===== verification/NetModules.thy ===== *)
theory NetModules
  imports Adapters
begin

text \<open>
  The adapters that use the network themselves: \<^verbatim>\<open>internal/modules/dns\<close>, \<^verbatim>\<open>tcp\<close>, \<^verbatim>\<open>http\<close>
  (with its redirect policy) and \<^verbatim>\<open>tls\<close>. The resolver, dialer, TLS handshake and the peers'
  HTTP replies come from the surroundings of the execution.
\<close>

definition net_platforms :: "string list" where
  "net_platforms = [''linux'', ''windows'', ''darwin'']"

section \<open>dns\<close>

record dns_params =
  dp_RecordType :: string

definition dns_fields :: "dns_params fields" where
  "dns_fields = [(''recordType'', string_field (\<lambda>s. dp_RecordType_update (\<lambda>_. s)))]"

definition dns_zero :: dns_params where
  "dns_zero = \<lparr>dp_RecordType = []\<rparr>"

definition dns_Descriptor :: Descriptor where
  "dns_Descriptor = \<lparr>d_ID = ''network.dns'', d_Version = ''0.1.0'', d_RiskClass = RiskSafeActive,
     d_Implementation = ''builtin'', d_RequiredTool = [], d_RequiredCapability = ''dns'',
     d_Platforms = net_platforms, d_ConcurrencyLimit = 8\<rparr>"

definition dns_check :: "dns_params \<Rightarrow> goerror option" where
  "dns_check p =
     (if strings_ToUpper (dp_RecordType p) \<in> {''A'', ''AAAA'', ''CNAME'', ''MX'', ''NS'', ''TXT''}
      then None else Some (ErrorText ''unsupported DNS record type''))"

definition dns_Validate :: "url_parser \<Rightarrow> JobEnvelope \<Rightarrow> goerror option" where
  "dns_Validate url_Parse j =
     (case check_params dns_fields dns_zero dns_check (je_ValidatedParameters j) of
        Some err \<Rightarrow> Some err
      | None \<Rightarrow> snd (Host url_Parse (je_Target j)))"

definition dns_lookup :: "exec_env \<Rightarrow> string \<Rightarrow> string \<Rightarrow> string list option \<times> goerror option" where
  "dns_lookup env rtype host =
     (if rtype = ''A'' \<or> rtype = ''AAAA'' then
        (let (ips, err) = xe_LookupIPAddr env host
         in (appended (map snd (filter (\<lambda>(is4, _). (rtype = ''A'') = is4) ips)), err))
      else if rtype = ''CNAME'' then (let (v, err) = xe_LookupCNAME env host in (Some [v], err))
      else if rtype = ''MX'' then (let (v, err) = xe_LookupMX env host in (appended v, err))
      else if rtype = ''NS'' then (let (v, err) = xe_LookupNS env host in (appended v, err))
      else if rtype = ''TXT'' then xe_LookupTXT env host
      else (None, None))"

definition dns_Execute :: "url_parser \<Rightarrow> exec_env \<Rightarrow> JobEnvelope \<Rightarrow> ModuleResult \<times> goerror option" where
  "dns_Execute url_Parse env j =
     (let p = read_params dns_fields dns_zero (je_ValidatedParameters j);
          host = fst (Host url_Parse (je_Target j));
          rtype = strings_ToUpper (dp_RecordType p);
          (vals, err) = dns_lookup env rtype host
      in ((completed env j ''DNS lookup completed'')
            \<lparr>mr_Observations := [observation ''dns.records'' ''Validated DNS response''
                [(''recordType'', JString rtype), (''records'', json_strings vals)]],
             mr_Metrics := [(''DNS_DURATION_MS'', float_of_int (Milliseconds (xe_since env)))]\<rparr>, err))"

definition dns_module :: "url_parser \<Rightarrow> exec_env Module" where
  "dns_module url_Parse = \<lparr>mod_Descriptor = dns_Descriptor, mod_Validate = dns_Validate url_Parse,
     mod_Execute = dns_Execute url_Parse\<rparr>"

section \<open>tcp\<close>

record tcp_params =
  tc_Port :: int
  tc_TimeoutMS :: int

definition tcp_fields :: "tcp_params fields" where
  "tcp_fields = [(''port'', int_field (\<lambda>n. tc_Port_update (\<lambda>_. n))),
     (''timeoutMs'', int_field (\<lambda>n. tc_TimeoutMS_update (\<lambda>_. n)))]"

definition tcp_zero :: tcp_params where
  "tcp_zero = \<lparr>tc_Port = 0, tc_TimeoutMS = 0\<rparr>"

definition tcp_Descriptor :: Descriptor where
  "tcp_Descriptor = \<lparr>d_ID = ''network.tcp'', d_Version = ''0.1.0'', d_RiskClass = RiskSafeActive,
     d_Implementation = ''builtin'', d_RequiredTool = [], d_RequiredCapability = ''tcp'',
     d_Platforms = net_platforms, d_ConcurrencyLimit = 16\<rparr>"

definition tcp_check :: "tcp_params \<Rightarrow> goerror option" where
  "tcp_check p =
     (if tc_Port p < 1 \<or> 65535 < tc_Port p \<or> tc_TimeoutMS p < 100 \<or> 10000 < tc_TimeoutMS p
      then Some (ErrorText ''port or timeout out of range'') else None)"

definition tcp_Validate :: "url_parser \<Rightarrow> JobEnvelope \<Rightarrow> goerror option" where
  "tcp_Validate url_Parse j = (case snd (Host url_Parse (je_Target j)) of
      Some err \<Rightarrow> Some err
    | None \<Rightarrow> check_params tcp_fields tcp_zero tcp_check (je_ValidatedParameters j))"

definition tcp_Execute :: "url_parser \<Rightarrow> exec_env \<Rightarrow> JobEnvelope \<Rightarrow> ModuleResult \<times> goerror option" where
  "tcp_Execute url_Parse env j =
     (let p = read_params tcp_fields tcp_zero (je_ValidatedParameters j);
          host = fst (Host url_Parse (je_Target j));
          timeout = int64_wrap (tc_TimeoutMS p * time_Millisecond);
          err = xe_dial env timeout (JoinHostPort host (strconv_Itoa (tc_Port p)))
      in ((completed env j ''TCP connection succeeded'')
            \<lparr>mr_Metrics := [(''TCP_CONNECT_DURATION_MS'', float_of_int (Milliseconds (xe_since env))),
                            (''AVAILABILITY'', float_of_int 1)]\<rparr>, err))"

definition tcp_module :: "url_parser \<Rightarrow> exec_env Module" where
  "tcp_module url_Parse = \<lparr>mod_Descriptor = tcp_Descriptor, mod_Validate = tcp_Validate url_Parse,
     mod_Execute = tcp_Execute url_Parse\<rparr>"

section \<open>http\<close>

record http_params =
  hp_Method :: string
  hp_RedirectLimit :: int
  hp_ExpectedStatus :: int
  hp_MaxResponseBytes :: int

definition http_fields :: "http_params fields" where
  "http_fields = [(''method'', string_field (\<lambda>s. hp_Method_update (\<lambda>_. s))),
     (''redirectLimit'', int_field (\<lambda>n. hp_RedirectLimit_update (\<lambda>_. n))),
     (''expectedStatus'', int_field (\<lambda>n. hp_ExpectedStatus_update (\<lambda>_. n))),
     (''maxResponseBytes'', int_field (\<lambda>n. hp_MaxResponseBytes_update (\<lambda>_. n)))]"

definition http_zero :: http_params where
  "http_zero = \<lparr>hp_Method = [], hp_RedirectLimit = 0, hp_ExpectedStatus = 0, hp_MaxResponseBytes = 0\<rparr>"

definition http_Descriptor :: Descriptor where
  "http_Descriptor = \<lparr>d_ID = ''network.http'', d_Version = ''0.1.0'', d_RiskClass = RiskSafeActive,
     d_Implementation = ''builtin'', d_RequiredTool = [], d_RequiredCapability = ''http'',
     d_Platforms = net_platforms, d_ConcurrencyLimit = 8\<rparr>"

definition http_check :: "http_params \<Rightarrow> goerror option" where
  "http_check p =
     (if hp_Method p \<noteq> ''HEAD'' \<and> hp_Method p \<noteq> ''GET''
      then Some (ErrorText ''only HEAD and GET profiles are allowed'')
      else if hp_RedirectLimit p < 0 \<or> 5 < hp_RedirectLimit p \<or> hp_ExpectedStatus p < 100 \<or> 599 < hp_ExpectedStatus p
         \<or> hp_MaxResponseBytes p < 0 \<or> 1048576 < hp_MaxResponseBytes p
      then Some (ErrorText ''HTTP profile limits are invalid'')
      else None)"

definition http_Validate :: "url_parser \<Rightarrow> JobEnvelope \<Rightarrow> goerror option" where
  "http_Validate url_Parse j =
     (if jt_Type (je_Target j) \<noteq> ''URL'' then Some (ErrorText ''HTTP module requires a URL target'')
      else case url_Parse (jt_Value (je_Target j)) of
        None \<Rightarrow> Some (ErrorText ''absolute HTTP(S) URL without credentials required'')
      | Some u \<Rightarrow>
          if \<not> (url_Scheme u = ''http'' \<or> url_Scheme u = ''https'') \<or> url_Host u = [] \<or> url_HasUser u
          then Some (ErrorText ''absolute HTTP(S) URL without credentials required'')
          else check_params http_fields http_zero http_check (je_ValidatedParameters j))"

text \<open>
  \<^verbatim>\<open>strings.EqualFold\<close> with the folding of ASCII letters and of the two other runes that fold
  to ASCII letters; other non-ASCII letters count as different here unless they are equal.
\<close>

definition strings_EqualFold :: "string \<Rightarrow> string \<Rightarrow> bool" where
  "strings_EqualFold s t \<longleftrightarrow> fold_name s = fold_name t"

text \<open>\<open>via\<close> is the number of requests made so far.\<close>

definition CheckRedirect :: "int \<Rightarrow> URL \<Rightarrow> URL \<Rightarrow> nat \<Rightarrow> goerror option" where
  "CheckRedirect limit origin u via =
     (if limit < int via then Some (ErrorText ''redirect limit reached'')
      else if \<not> strings_EqualFold (url_Hostname u) (url_Hostname origin)
      then Some (ErrorText ''cross-host redirect rejected'')
      else None)"

text \<open>
  \<^verbatim>\<open>Client.Do\<close>: the URLs requested, in order, and the response or the error. The n-th request
  goes to \<open>u\<close>; a redirect is followed when \<^verbatim>\<open>CheckRedirect\<close> allows it.
\<close>

function http_do :: "(nat \<Rightarrow> http_reply) \<Rightarrow> int \<Rightarrow> URL \<Rightarrow> nat \<Rightarrow> URL \<Rightarrow> URL list \<times> http_response result" where
  "http_do reply limit origin n u = (case reply n of
      HttpError err \<Rightarrow> ([u], Inl err)
    | HttpResponse resp \<Rightarrow> ([u], Inr resp)
    | HttpRedirect u' \<Rightarrow> (case CheckRedirect limit origin u' (Suc n) of
          Some err \<Rightarrow> ([u], Inl err)
        | None \<Rightarrow> (let (us, r) = http_do reply limit origin (Suc n) u' in (u # us, r))))"
  by pat_completeness auto

termination
  by (relation "measure (\<lambda>(reply, limit, origin, n, u). nat (limit + 1) - n)")
    (auto simp: CheckRedirect_def split: if_splits)

declare http_do.simps [simp del]

text \<open>\<^verbatim>\<open>io.Copy\<close> from a reader limited to \<open>n\<close> bytes: the count and the error of the body.\<close>

definition limited_copy :: "int \<Rightarrow> bytes \<Rightarrow> goerror option \<Rightarrow> int \<times> goerror option" where
  "limited_copy n body err =
     (if int (length body) < n then (int (length body), err) else (max 0 n, None))"

definition zero_URL :: URL where
  "zero_URL = \<lparr>url_Scheme = [], url_Host = [], url_Hostname = [], url_HasUser = False, url_Fragment = []\<rparr>"

text \<open>Validation has parsed the target before, so \<open>zero_URL\<close> never stands in for the origin then.\<close>

definition http_Execute :: "url_parser \<Rightarrow> exec_env \<Rightarrow> JobEnvelope \<Rightarrow> ModuleResult \<times> goerror option" where
  "http_Execute url_Parse env j =
     (let p = read_params http_fields http_zero (je_ValidatedParameters j);
          limit = hp_MaxResponseBytes p;
          origin = (case url_Parse (jt_Value (je_Target j)) of Some u \<Rightarrow> u | None \<Rightarrow> zero_URL)
      in case xe_newRequest env (hp_Method p) (jt_Value (je_Target j)) of
        Some err \<Rightarrow> (zero_ModuleResult, Some err)
      | None \<Rightarrow> (case snd (http_do (xe_http env) (hp_RedirectLimit p) origin 0 origin) of
          Inl err \<Rightarrow> (zero_ModuleResult, Some err)
        | Inr resp \<Rightarrow>
            let (n, readErr) = limited_copy (int64_wrap (limit + 1)) (hr_Body resp) (hr_BodyErr resp);
                r = (completed env j ''HTTP request completed'')
                  \<lparr>mr_Metrics := [(''HTTP_STATUS'', float_of_int (hr_StatusCode resp)),
                                  (''HTTP_DURATION_MS'', float_of_int (Milliseconds (xe_since env)))],
                   mr_Observations := [observation ''http.transaction'' ''Bounded HTTP transaction metadata''
                     [(''statusCode'', json_int (hr_StatusCode resp)), (''expectedStatus'', json_int (hp_ExpectedStatus p)),
                      (''tls'', JBool (url_Scheme origin = ''https'')), (''contentType'', JString (hr_ContentType resp)),
                      (''contentLength'', json_int (hr_ContentLength resp)), (''bytesRead'', json_int n)]]\<rparr>
            in (if limit < n
                then r\<lparr>mr_Truncated := True, mr_Warnings := [''response body exceeded configured observation limit'']\<rparr>
                else r, readErr)))"

definition http_module :: "url_parser \<Rightarrow> exec_env Module" where
  "http_module url_Parse = \<lparr>mod_Descriptor = http_Descriptor, mod_Validate = http_Validate url_Parse,
     mod_Execute = http_Execute url_Parse\<rparr>"

section \<open>tls\<close>

record tls_params =
  tl_Port :: int
  tl_ExpiryWarningDays :: int

definition tls_fields :: "tls_params fields" where
  "tls_fields = [(''port'', int_field (\<lambda>n. tl_Port_update (\<lambda>_. n))),
     (''expiryWarningDays'', int_field (\<lambda>n. tl_ExpiryWarningDays_update (\<lambda>_. n)))]"

definition tls_zero :: tls_params where
  "tls_zero = \<lparr>tl_Port = 0, tl_ExpiryWarningDays = 0\<rparr>"

definition tls_Descriptor :: Descriptor where
  "tls_Descriptor = \<lparr>d_ID = ''network.tls'', d_Version = ''0.1.0'', d_RiskClass = RiskSafeActive,
     d_Implementation = ''builtin'', d_RequiredTool = [], d_RequiredCapability = ''tls'',
     d_Platforms = net_platforms, d_ConcurrencyLimit = 8\<rparr>"

definition tls_check :: "tls_params \<Rightarrow> goerror option" where
  "tls_check p =
     (if tl_Port p < 1 \<or> 65535 < tl_Port p \<or> tl_ExpiryWarningDays p < 1 \<or> 365 < tl_ExpiryWarningDays p
      then Some (ErrorText ''TLS port or expiry threshold is invalid'') else None)"

definition tls_Validate :: "url_parser \<Rightarrow> JobEnvelope \<Rightarrow> goerror option" where
  "tls_Validate url_Parse j = (case snd (Host url_Parse (je_Target j)) of
      Some err \<Rightarrow> Some err
    | None \<Rightarrow> check_params tls_fields tls_zero tls_check (je_ValidatedParameters j))"

text \<open>
  \<^verbatim>\<open>time.Until(t).Hours()/24\<close>, read at the end of the run, as an exact quotient: the rounding
  of \<^verbatim>\<open>float64\<close> is not modelled here.
\<close>

definition days_until :: "exec_env \<Rightarrow> time \<Rightarrow> rat" where
  "days_until env t = of_int (time_Sub t (xe_end env)) / of_int (24 * time_Hour)"

definition certificate_data :: "exec_env \<Rightarrow> peer_certificate \<Rightarrow> (string \<times> json) list" where
  "certificate_data env x =
     [(''subject'', JString (pc_Subject x)), (''issuer'', JString (pc_Issuer x)),
      (''notBefore'', JString (format_RFC3339Nano (pc_NotBefore x))),
      (''notAfter'', JString (format_RFC3339Nano (pc_NotAfter x))),
      (''dnsNames'', json_strings (pc_DNSNames x)),
      (''daysUntilExpiration'', json_int (go_quot (time_Sub (pc_NotAfter x) (xe_end env)) (24 * time_Hour)))]"

definition tls_Execute :: "url_parser \<Rightarrow> exec_env \<Rightarrow> JobEnvelope \<Rightarrow> ModuleResult \<times> goerror option" where
  "tls_Execute url_Parse env j =
     (let p = read_params tls_fields tls_zero (je_ValidatedParameters j);
          host = fst (Host url_Parse (je_Target j))
      in case xe_dial env (10 * time_Second) (JoinHostPort host (strconv_Itoa (tl_Port p))) of
        Some err \<Rightarrow> (zero_ModuleResult, Some err)
      | None \<Rightarrow> (case xe_handshake env host of
          Inl err \<Rightarrow> (zero_ModuleResult, Some err)
        | Inr s \<Rightarrow>
            let d = [(''protocol'', JString (ts_VersionName s)), (''cipherSuite'', JString (ts_CipherSuiteName s)),
                     (''hostnameValidated'', JBool True)]
                  @ (case ts_PeerCertificates s of [] \<Rightarrow> [] | x # _ \<Rightarrow> certificate_data env x);
                r = (completed env j ''TLS handshake completed'')
                  \<lparr>mr_Observations := [observation ''tls.connection'' ''Validated TLS connection'' d]\<rparr>
            in (case ts_PeerCertificates s of
                  [] \<Rightarrow> r
                | x # _ \<Rightarrow> r\<lparr>mr_Metrics := [(''TLS_DAYS_UNTIL_EXPIRATION'', Finite (days_until env (pc_NotAfter x)))]\<rparr>,
                None)))"

definition tls_module :: "url_parser \<Rightarrow> exec_env Module" where
  "tls_module url_Parse = \<lparr>mod_Descriptor = tls_Descriptor, mod_Validate = tls_Validate url_Parse,
     mod_Execute = tls_Execute url_Parse\<rparr>"

section \<open>Redirects\<close>

lemma CheckRedirect_None:
  "CheckRedirect limit origin u via = None \<longleftrightarrow>
     int via \<le> limit \<and> strings_EqualFold (url_Hostname u) (url_Hostname origin)"
  by (auto simp: CheckRedirect_def)

lemma http_do_followed:
  assumes "reply n = HttpRedirect u'" and "CheckRedirect limit origin u' (Suc n) = None"
  shows "fst (http_do reply limit origin n u) = u # fst (http_do reply limit origin (Suc n) u')"
  by (subst http_do.simps) (simp add: assms split: prod.splits)

lemma http_do_last:
  assumes "\<not> (\<exists>u'. reply n = HttpRedirect u' \<and> CheckRedirect limit origin u' (Suc n) = None)"
  shows "fst (http_do reply limit origin n u) = [u]"
  using assms by (subst http_do.simps) (auto split: http_reply.splits option.splits)

lemma http_do_requests:
  "int (length (fst (http_do reply limit origin n u))) + int n \<le> max (int n) limit + 1
    \<and> (\<exists>us. fst (http_do reply limit origin n u) = u # us
        \<and> (\<forall>w\<in>set us. strings_EqualFold (url_Hostname w) (url_Hostname origin)))"
proof (induction reply limit origin n u rule: http_do.induct)
  case (1 reply limit origin n u)
  show ?case
  proof (cases "\<exists>u'. reply n = HttpRedirect u' \<and> CheckRedirect limit origin u' (Suc n) = None")
    case True
    then obtain u' where u': "reply n = HttpRedirect u'" "CheckRedirect limit origin u' (Suc n) = None"
      by blast
    with 1 [OF u'] http_do_followed [of reply n u' limit origin u] show ?thesis
      by (auto simp: CheckRedirect_None)
  next
    case False
    then show ?thesis by (simp add: http_do_last)
  qed
qed

lemma http_check_None: "http_check p = None \<longleftrightarrow>
    (hp_Method p = ''HEAD'' \<or> hp_Method p = ''GET'') \<and> 0 \<le> hp_RedirectLimit p \<and> hp_RedirectLimit p \<le> 5
    \<and> 100 \<le> hp_ExpectedStatus p \<and> hp_ExpectedStatus p \<le> 599
    \<and> 0 \<le> hp_MaxResponseBytes p \<and> hp_MaxResponseBytes p \<le> 1048576"
  by (auto simp: http_check_def)

lemma http_Validate_None [accepts]:
  assumes "http_Validate url_Parse j = None"
  shows "(\<exists>u. url_Parse (jt_Value (je_Target j)) = Some u)
    \<and> http_check (read_params http_fields http_zero (je_ValidatedParameters j)) = None"
  using assms by (auto simp: http_Validate_def check_params_read split: option.splits if_splits)

text \<open>
  C13: an accepted HTTP job makes at most six requests, however the servers redirect it, and
  every request goes to the host name of the target, up to letter case. If the exchange fails,
  its error is returned. Otherwise at most one byte more than the job's limit, which is at most
  one megabyte, is read of the body: that number is in the observation, an error of the body
  behind it is not seen, and a longer body is reported as truncated.
\<close>

theorem http_job_stays_on_target_host:
  assumes "http_Validate url_Parse j = None" and "url_Parse (jt_Value (je_Target j)) = Some origin"
    and "p = read_params http_fields http_zero (je_ValidatedParameters j)"
    and "http_do (xe_http env) (hp_RedirectLimit p) origin 0 origin = (urls, reply)"
  shows "length urls \<le> 6 \<and> (\<forall>u\<in>set urls. strings_EqualFold (url_Hostname u) (url_Hostname origin))
    \<and> hp_MaxResponseBytes p \<le> 1048576
    \<and> (case xe_newRequest env (hp_Method p) (jt_Value (je_Target j)) of
        Some err \<Rightarrow> http_Execute url_Parse env j = (zero_ModuleResult, Some err)
      | None \<Rightarrow> (case reply of
          Inl err \<Rightarrow> http_Execute url_Parse env j = (zero_ModuleResult, Some err)
        | Inr resp \<Rightarrow> (\<exists>r ob. http_Execute url_Parse env j
              = (r, if int (length (hr_Body resp)) \<le> hp_MaxResponseBytes p then hr_BodyErr resp else None)
            \<and> mr_Observations r = [ob]
            \<and> map_of (mo_Data ob) ''bytesRead'' = Some (json_int (min (int (length (hr_Body resp))) (hp_MaxResponseBytes p + 1)))
            \<and> (mr_Truncated r \<longleftrightarrow> hp_MaxResponseBytes p < int (length (hr_Body resp))))))"
proof -
  have p: "http_check p = None" using http_Validate_None [OF assms(1)] assms(3) by simp
  then have lim: "0 \<le> hp_RedirectLimit p" "hp_RedirectLimit p \<le> 5" "0 \<le> hp_MaxResponseBytes p"
    "hp_MaxResponseBytes p \<le> 1048576" by (auto simp: http_check_None)
  have wrap: "int64_wrap (hp_MaxResponseBytes p + 1) = hp_MaxResponseBytes p + 1"
    using lim by (simp add: int64_wrap_id)
  have "int (length urls) \<le> hp_RedirectLimit p + 1"
    and host: "\<forall>u\<in>set urls. strings_EqualFold (url_Hostname u) (url_Hostname origin)"
    using http_do_requests [of "xe_http env" "hp_RedirectLimit p" origin 0 origin] lim assms(4)
    by (auto simp: strings_EqualFold_def)
  then have "length urls \<le> 6" using lim by linarith
  moreover have "case xe_newRequest env (hp_Method p) (jt_Value (je_Target j)) of
        Some err \<Rightarrow> http_Execute url_Parse env j = (zero_ModuleResult, Some err)
      | None \<Rightarrow> (case reply of
          Inl err \<Rightarrow> http_Execute url_Parse env j = (zero_ModuleResult, Some err)
        | Inr resp \<Rightarrow> (\<exists>r ob. http_Execute url_Parse env j
              = (r, if int (length (hr_Body resp)) \<le> hp_MaxResponseBytes p then hr_BodyErr resp else None)
            \<and> mr_Observations r = [ob]
            \<and> map_of (mo_Data ob) ''bytesRead'' = Some (json_int (min (int (length (hr_Body resp))) (hp_MaxResponseBytes p + 1)))
            \<and> (mr_Truncated r \<longleftrightarrow> hp_MaxResponseBytes p < int (length (hr_Body resp)))))"
    using lim by (simp add: http_Execute_def Let_def assms(2,4) assms(3) [symmetric] wrap limited_copy_def completed_def
        zero_ModuleResult_def observation_def min_def split: option.split sum.split)
      (intro allI impI, rule arg_cong [of _ _ json_int], linarith)
  ultimately show ?thesis using host lim(4) by blast
qed

definition sample_url :: url_parser where
  "sample_url s = Some \<lparr>url_Scheme = ''https'', url_Host = ''example.org'', url_Hostname = ''example.org'',
     url_HasUser = False, url_Fragment = []\<rparr>"

definition sample_http_job :: JobEnvelope where
  "sample_http_job = adapter_job ''URL'' ''https://example.org/''
     (CHR 0x7B # quoted ''method'' @ CHR '':'' # quoted ''GET'' @ CHR '','' # quoted ''redirectLimit'' @ '':5,''
       @ quoted ''expectedStatus'' @ '':200,'' @ quoted ''maxResponseBytes'' @ '':1024}'')"

lemma sample_http_accepted: "http_Validate sample_url sample_http_job = None"
  by code_simp

definition sample_http_response :: http_response where
  "sample_http_response = \<lparr>hr_StatusCode = 200, hr_ContentType = [], hr_ContentLength = -1,
     hr_Body = replicate 2000 (CHR ''x''), hr_BodyErr = Some Canceled\<rparr>"

theorem http_job_stays_on_target_host_witness:
  "\<exists>r ob. http_Execute sample_url (sample_env\<lparr>xe_http := \<lambda>_. HttpResponse sample_http_response\<rparr>) sample_http_job = (r, None)
     \<and> mr_Observations r = [ob] \<and> map_of (mo_Data ob) ''bytesRead'' = Some (json_int 1025) \<and> mr_Truncated r"
proof -
  let ?env = "sample_env\<lparr>xe_http := \<lambda>_. HttpResponse sample_http_response\<rparr>"
  let ?p = "read_params http_fields http_zero (je_ValidatedParameters sample_http_job)"
  obtain origin where origin: "sample_url (jt_Value (je_Target sample_http_job)) = Some origin"
    by (simp add: sample_url_def)
  have limit: "hp_MaxResponseBytes ?p = 1024" by code_simp
  have "http_do (xe_http ?env) (hp_RedirectLimit ?p) origin 0 origin = ([origin], Inr sample_http_response)"
    by (subst http_do.simps) simp
  from http_job_stays_on_target_host [OF sample_http_accepted origin refl this] limit show ?thesis
    by (simp add: sample_env_def sample_http_response_def)
qed

section \<open>Connections\<close>

lemma tcp_check_None: "tcp_check p = None \<longleftrightarrow>
    1 \<le> tc_Port p \<and> tc_Port p \<le> 65535 \<and> 100 \<le> tc_TimeoutMS p \<and> tc_TimeoutMS p \<le> 10000"
  by (auto simp: tcp_check_def)

lemma tcp_Validate_None [accepts]:
  assumes "tcp_Validate url_Parse j = None"
  shows "snd (Host url_Parse (je_Target j)) = None
    \<and> tcp_check (read_params tcp_fields tcp_zero (je_ValidatedParameters j)) = None"
  using assms by (auto simp: tcp_Validate_def check_params_read split: option.splits)

text \<open>
  An accepted TCP job opens one connection, to the target's host at a port from 1 to 65535
  and with a timeout from 100 milliseconds to 10 seconds, and reports the target as available
  exactly when that connection could be made, since an error of the dialer is the error of the
  run.
\<close>

theorem tcp_job_dials_target:
  assumes "tcp_Validate url_Parse j = None"
  shows "\<exists>port timeout. 1 \<le> port \<and> port \<le> 65535
    \<and> 100 * time_Millisecond \<le> timeout \<and> timeout \<le> 10 * time_Second
    \<and> snd (tcp_Execute url_Parse env j)
        = xe_dial env timeout (JoinHostPort (fst (Host url_Parse (je_Target j))) (strconv_Itoa port))
    \<and> map_of (mr_Metrics (fst (tcp_Execute url_Parse env j))) ''AVAILABILITY'' = Some (Finite 1)"
proof -
  let ?p = "read_params tcp_fields tcp_zero (je_ValidatedParameters j)"
  have p: "1 \<le> tc_Port ?p" "tc_Port ?p \<le> 65535" "100 \<le> tc_TimeoutMS ?p" "tc_TimeoutMS ?p \<le> 10000"
    using tcp_Validate_None [OF assms] by (auto simp: tcp_check_None)
  have wrap: "int64_wrap (tc_TimeoutMS ?p * time_Millisecond) = tc_TimeoutMS ?p * time_Millisecond"
    using p by (simp add: int64_wrap_id time_units)
  show ?thesis
    by (intro exI [of _ "tc_Port ?p"] exI [of _ "tc_TimeoutMS ?p * time_Millisecond"])
      (use p wrap in \<open>simp add: tcp_Execute_def Let_def float_of_int_def time_units\<close>)
qed

definition sample_tcp_job :: JobEnvelope where
  "sample_tcp_job = adapter_job ''IP'' ''192.0.2.7''
     (CHR 0x7B # quoted ''port'' @ '':443,'' @ quoted ''timeoutMs'' @ '':2000}'')"

lemma sample_tcp_accepted: "tcp_Validate no_url sample_tcp_job = None"
  by code_simp

theorem tcp_job_dials_target_witness:
  "tcp_Validate no_url sample_tcp_job = None
   \<and> (\<exists>port::int. 1 \<le> port \<and> port \<le> 65535 \<and> snd (tcp_Execute no_url sample_env sample_tcp_job) = None)"
  using tcp_job_dials_target [OF sample_tcp_accepted, of sample_env] sample_tcp_accepted
  by (auto simp: sample_env_def)

end
