(* ===== verification/Capabilities.thy ===== *)
theory Capabilities
  imports ToolModules NetModules Encoding
begin

text \<open>
  \<^verbatim>\<open>internal/capabilities/capabilities.go\<close>: detection of external tools and the capability report
  of a registry, and the registry of the twelve modules that \<^verbatim>\<open>cmd/netscope-agent/main.go\<close>
  compiles in. Looking a tool up and running it for its version are arguments of the model.
\<close>

section \<open>Detecting tools\<close>

text \<open>
  The platform, the path lookup, and the combined output and error of a command given by its
  path, arguments and environment. Here \<^verbatim>\<open>greenbone\<close> is looked up although the runner would
  never start it.
\<close>

record caps_env =
  ce_goos :: string
  ce_goarch :: string
  ce_lookPath :: "string \<Rightarrow> string result"
  ce_combinedOutput :: "string \<Rightarrow> string list \<Rightarrow> string list \<Rightarrow> bytes \<times> goerror option"

record toolState =
  tool_Name :: string
  tool_Version :: string
  tool_Available :: bool

definition routeTool :: "caps_env \<Rightarrow> string" where
  "routeTool env = (if ce_goos env = ''windows'' then ''tracert'' else ''traceroute'')"

definition versionArguments :: "caps_env \<Rightarrow> string \<Rightarrow> string list" where
  "versionArguments env name =
     (if ce_goos env = ''windows'' \<and> (name = ''ping'' \<or> name = ''tracert'') then [''/?'']
      else if name = ''suricata'' then [''--build-info'']
      else [''--version''])"

definition minimalPath :: "caps_env \<Rightarrow> string" where
  "minimalPath env =
     (if ce_goos env = ''windows'' then ''C:'' @ CHR 0x5C # ''Windows'' @ CHR 0x5C # ''System32;C:'' @ CHR 0x5C # ''Windows''
      else ''/usr/local/sbin:/usr/local/bin:/usr/sbin:/usr/bin:/sbin:/bin'')"

definition detectTool :: "caps_env \<Rightarrow> string \<Rightarrow> toolState" where
  "detectTool env name = (case ce_lookPath env name of
      Inl err \<Rightarrow> \<lparr>tool_Name = name, tool_Version = [], tool_Available = False\<rparr>
    | Inr path \<Rightarrow>
        let (output, err) = ce_combinedOutput env path (versionArguments env name) [''PATH='' @ minimalPath env];
            output = take 256 output
        in \<lparr>tool_Name = name,
            tool_Version = (if err = None \<or> 0 < length output
              then strings_TrimSpace (hd (split_on (CHR 0x0A) output)) else []),
            tool_Available = True\<rparr>)"

section \<open>The report\<close>

record Report =
  rep_Manifest :: CapabilityManifest
  rep_available :: "string \<rightharpoonup> bool"

definition toolNames :: "caps_env \<Rightarrow> string list" where
  "toolNames env = [''ping'', routeTool env, ''nmap'', ''tshark'', ''zeek'', ''suricata'', ''iperf3'', ''greenbone'']"

definition supportedPlatform :: "string list \<Rightarrow> string \<Rightarrow> bool" where
  "supportedPlatform platforms current = list_ex (\<lambda>p. p = current) platforms"

definition withheld :: "string \<Rightarrow> bool" where
  "withheld i \<longleftrightarrow> prefix ''traffic.'' i \<or> i = ''security.suricata'' \<or> i = ''performance.iperf3''"

definition tool_available :: "caps_env \<Rightarrow> string \<Rightarrow> bool" where
  "tool_available env name = (case map_of (map (\<lambda>n. (n, detectTool env n)) (toolNames env)) name of
      None \<Rightarrow> False
    | Some st \<Rightarrow> tool_Available st)"

definition isAvailable :: "caps_env \<Rightarrow> Descriptor \<Rightarrow> bool" where
  "isAvailable env d \<longleftrightarrow> supportedPlatform (d_Platforms d) (ce_goos env)
     \<and> (d_RequiredTool d \<noteq> [] \<longrightarrow> tool_available env (d_RequiredTool d))
     \<and> \<not> withheld (d_ID d)"

definition module_capability :: "caps_env \<Rightarrow> Descriptor \<Rightarrow> ModuleCapability" where
  "module_capability env d = \<lparr>mc_ModuleID = d_ID d, mc_CapabilityID = d_RequiredCapability d,
     mc_Available = isAvailable env d, mc_Implementation = d_Implementation d,
     mc_ModuleVersion = d_Version d, mc_RiskClasses = [d_RiskClass d]\<rparr>"

definition available_map :: "caps_env \<Rightarrow> Descriptor list \<Rightarrow> string \<rightharpoonup> bool" where
  "available_map env ds = fold (\<lambda>d m. m(d_RequiredCapability d \<mapsto> isAvailable env d)) ds Map.empty"

definition external_tool :: "toolState \<Rightarrow> ExternalTool" where
  "external_tool st = \<lparr>et_Name = tool_Name st, et_Version = tool_Version st, et_Available = tool_Available st\<rparr>"

definition Discover :: "caps_env \<Rightarrow> string \<Rightarrow> 'e Registry \<Rightarrow> Report" where
  "Discover env agentID registry =
     (let external = sort_key et_Name (map (\<lambda>n. external_tool (detectTool env n)) (toolNames env));
          ds = Descriptors registry
      in \<lparr>rep_Manifest = \<lparr>cm_ProtocolVersion = Version, cm_AgentID = agentID,
            cm_Platform = ce_goos env @ CHR ''/'' # ce_goarch env,
            cm_Modules = sort_key mc_ModuleID (map (module_capability env) ds),
            cm_ExternalTools = external,
            cm_NetworkCapabilities = sort (map d_RequiredCapability (filter (isAvailable env) ds)),
            cm_ArtifactCapabilities = []\<rparr>,
          rep_available = available_map env ds\<rparr>)"

definition Has :: "Report \<Rightarrow> string \<Rightarrow> bool" where
  "Has r c \<longleftrightarrow> rep_available r c = Some True"

text \<open>
  The keys of the map are among the capabilities of the manifest's modules, which gives the
  model its range over the map.
\<close>

definition Summary :: "Report \<Rightarrow> string list" where
  "Summary r = sort (filter (Has r) (remdups (map mc_CapabilityID (cm_Modules (rep_Manifest r)))))"

text \<open>The error of \<^verbatim>\<open>json.Marshal\<close> is ignored: nil is hashed then.\<close>

definition Hash :: "libs \<Rightarrow> Report \<Rightarrow> string" where
  "Hash L r = (case CapabilityManifest_json (rep_Manifest r) of
      Inl err \<Rightarrow> hex_EncodeToString (lib_sha256 L [])
    | Inr encoded \<Rightarrow> hex_EncodeToString (lib_sha256 L encoded))"

section \<open>The compiled registry\<close>

definition compiled_modules :: "string \<Rightarrow> url_parser \<Rightarrow> exec_env Module list" where
  "compiled_modules os url_Parse =
     [ping_module url_Parse, route_module os url_Parse, dns_module url_Parse, tcp_module url_Parse,
      http_module url_Parse, tls_module url_Parse, nmap_module url_Parse ''nmap.discovery'',
      nmap_module url_Parse ''nmap.services'', tshark_module, zeek_module, suricata_module, iperf_module]"

lemmas descriptor_defs = ping_Descriptor_def route_Descriptor_def dns_Descriptor_def tcp_Descriptor_def
  http_Descriptor_def tls_Descriptor_def nmap_Descriptor_def tshark_Descriptor_def zeek_Descriptor_def
  suricata_Descriptor_def iperf_Descriptor_def

lemmas module_defs = ping_module_def route_module_def dns_module_def tcp_module_def http_module_def
  tls_module_def nmap_module_def tshark_module_def zeek_module_def suricata_module_def iperf_module_def

definition compiled_descriptors :: "string \<Rightarrow> Descriptor list" where
  "compiled_descriptors os = [ping_Descriptor, route_Descriptor os, dns_Descriptor, tcp_Descriptor,
     http_Descriptor, tls_Descriptor, nmap_Descriptor ''nmap.discovery'', nmap_Descriptor ''nmap.services'',
     tshark_Descriptor, zeek_Descriptor, suricata_Descriptor, iperf_Descriptor]"

lemma compiled_descriptors: "map mod_Descriptor (compiled_modules os url_Parse) = compiled_descriptors os"
  by (simp add: compiled_modules_def compiled_descriptors_def module_defs)

lemma compiled_ids: "map d_ID (compiled_descriptors os) =
    [''network.ping'', ''network.route'', ''network.dns'', ''network.tcp'', ''network.http'', ''network.tls'',
     ''nmap.discovery'', ''nmap.services'', ''traffic.tshark'', ''traffic.zeek'', ''security.suricata'', ''performance.iperf3'']"
  by (simp add: compiled_descriptors_def descriptor_defs)

lemma compiled_capabilities: "map d_RequiredCapability (compiled_descriptors os) =
    [''ping'', ''route'', ''dns'', ''tcp'', ''http'', ''tls'', ''nmap'', ''nmap'', ''tshark'', ''zeek'', ''suricata'', ''iperf3'']"
  by (simp add: compiled_descriptors_def descriptor_defs)

lemma compiled_module_ID: "map module_ID (compiled_modules os url_Parse) = map d_ID (compiled_descriptors os)"
  by (simp add: compiled_descriptors [of os url_Parse, symmetric] module_ID_def comp_def)

lemma compiled_registry: "NewRegistry (compiled_modules os url_Parse) = Inr (registry_of (compiled_modules os url_Parse))"
proof -
  have "[] \<notin> set (map module_ID (compiled_modules os url_Parse))"
    and "distinct (map module_ID (compiled_modules os url_Parse))"
    unfolding compiled_module_ID compiled_ids by simp_all
  then show ?thesis by (simp add: NewRegistry_Inr_iff)
qed

lemma set_Descriptors_compiled:
  "set (Descriptors (registry_of (compiled_modules os url_Parse))) = set (compiled_descriptors os)"
  by (auto simp: Descriptors_def registry_of_def compiled_descriptors [of os url_Parse, symmetric])

section \<open>What the report says\<close>

lemma available_map_Some:
  assumes "\<And>d d'. d \<in> set ds \<Longrightarrow> d' \<in> set ds \<Longrightarrow> d_RequiredCapability d = d_RequiredCapability d' \<Longrightarrow>
      isAvailable env d = isAvailable env d'"
  shows "available_map env ds c = Some b \<longleftrightarrow> (\<exists>d\<in>set ds. d_RequiredCapability d = c \<and> isAvailable env d = b)"
proof -
  have "fold (\<lambda>d m. m(d_RequiredCapability d \<mapsto> isAvailable env d)) ds m c = Some b \<longleftrightarrow>
      (\<exists>d\<in>set ds. d_RequiredCapability d = c \<and> isAvailable env d = b)
      \<or> (\<forall>d\<in>set ds. d_RequiredCapability d \<noteq> c) \<and> m c = Some b" for m
    using assms
  proof (induction ds arbitrary: m)
    case (Cons d ds)
    have same: "isAvailable env d = isAvailable env d'"
      if "d' \<in> set ds" "d_RequiredCapability d = d_RequiredCapability d'" for d'
      using Cons.prems that by simp
    have IH: "fold (\<lambda>d m. m(d_RequiredCapability d \<mapsto> isAvailable env d)) ds m c = Some b \<longleftrightarrow>
      (\<exists>d\<in>set ds. d_RequiredCapability d = c \<and> isAvailable env d = b)
      \<or> (\<forall>d\<in>set ds. d_RequiredCapability d \<noteq> c) \<and> m c = Some b" for m
      by (rule Cons.IH) (simp add: Cons.prems)
    show ?case unfolding fold.simps comp_def IH using same by auto
  qed simp
  from this [of Map.empty] show ?thesis by (simp add: available_map_def)
qed

lemma descriptor_capability:
  "d_RequiredCapability ping_Descriptor = ''ping''" "d_RequiredCapability (route_Descriptor os) = ''route''"
  "d_RequiredCapability dns_Descriptor = ''dns''" "d_RequiredCapability tcp_Descriptor = ''tcp''"
  "d_RequiredCapability http_Descriptor = ''http''" "d_RequiredCapability tls_Descriptor = ''tls''"
  "d_RequiredCapability (nmap_Descriptor i) = ''nmap''" "d_RequiredCapability tshark_Descriptor = ''tshark''"
  "d_RequiredCapability zeek_Descriptor = ''zeek''" "d_RequiredCapability suricata_Descriptor = ''suricata''"
  "d_RequiredCapability iperf_Descriptor = ''iperf3''"
  by (simp_all add: descriptor_defs)

lemma nmap_same_availability:
  "isAvailable env (nmap_Descriptor ''nmap.discovery'') = isAvailable env (nmap_Descriptor ''nmap.services'')"
  by (simp add: isAvailable_def nmap_Descriptor_def withheld_def)

text \<open>The availability of a compiled module is a function of its capability.\<close>

lemma compiled_availability_of:
  "\<forall>d\<in>set (compiled_descriptors os). isAvailable env d
     = isAvailable env (the (map_of (map (\<lambda>d. (d_RequiredCapability d, d)) (compiled_descriptors os)) (d_RequiredCapability d)))"
  by (simp add: compiled_descriptors_def descriptor_capability nmap_same_availability)

lemma compiled_same_availability:
  assumes "d \<in> set (compiled_descriptors os)" and "d' \<in> set (compiled_descriptors os)"
    and "d_RequiredCapability d = d_RequiredCapability d'"
  shows "isAvailable env d = isAvailable env d'"
  by (simp only: bspec [OF compiled_availability_of assms(1)] bspec [OF compiled_availability_of assms(2)] assms(3))

lemma withheld_unavailable: "withheld (d_ID d) \<Longrightarrow> \<not> isAvailable env d"
  by (simp add: isAvailable_def)

lemma compiled_withheld:
  assumes "d \<in> set (compiled_descriptors os)" and "d_RequiredCapability d \<in> {''tshark'', ''zeek'', ''suricata'', ''iperf3''}"
  shows "withheld (d_ID d)"
  using assms unfolding compiled_descriptors_def
  by (auto simp: descriptor_capability withheld_def tshark_Descriptor_def zeek_Descriptor_def
      suricata_Descriptor_def iperf_Descriptor_def)

lemma module_capability_cap: "mc_CapabilityID (module_capability env d) = d_RequiredCapability d"
  by (simp add: module_capability_def)

lemma Discover_Has:
  "Has (Discover env agentID (registry_of (compiled_modules os url_Parse))) c \<longleftrightarrow>
     (\<exists>d\<in>set (compiled_descriptors os). d_RequiredCapability d = c \<and> isAvailable env d)"
proof -
  let ?ds = "Descriptors (registry_of (compiled_modules os url_Parse))"
  have "available_map env ?ds c = Some True \<longleftrightarrow> (\<exists>d\<in>set ?ds. d_RequiredCapability d = c \<and> isAvailable env d = True)"
    by (rule available_map_Some) (unfold set_Descriptors_compiled, rule compiled_same_availability)
  then show ?thesis by (simp add: Has_def Discover_def Let_def set_Descriptors_compiled)
qed

text \<open>
  C29: for the compiled modules the three views of the report agree: the executor's check
  \<^verbatim>\<open>Has\<close>, the advertised network capabilities and the enrollment summary name the same
  capabilities; a module is advertised as available exactly when its platform is supported,
  its tool was found and its adapter is not withheld, so that TShark, Zeek, Suricata and iperf3
  are never offered.
\<close>

theorem capability_report_is_consistent:
  assumes "NewRegistry (compiled_modules os url_Parse) = Inr registry"
    and "report = Discover env agentID registry"
  shows "(Has report c \<longleftrightarrow> c \<in> set (cm_NetworkCapabilities (rep_Manifest report)))
    \<and> (Has report c \<longleftrightarrow> c \<in> set (Summary report))
    \<and> (\<forall>mc\<in>set (cm_Modules (rep_Manifest report)). mc_Available mc \<longrightarrow> Has report (mc_CapabilityID mc))
    \<and> \<not> Has report ''tshark'' \<and> \<not> Has report ''zeek'' \<and> \<not> Has report ''suricata'' \<and> \<not> Has report ''iperf3''"
proof -
  have reg: "registry = registry_of (compiled_modules os url_Parse)"
    using assms(1) by (simp add: compiled_registry)
  have has: "Has report c \<longleftrightarrow> (\<exists>d\<in>set (compiled_descriptors os). d_RequiredCapability d = c \<and> isAvailable env d)" for c
    using Discover_Has assms(2) reg by simp
  have mods: "set (cm_Modules (rep_Manifest report)) = module_capability env ` set (compiled_descriptors os)"
    by (simp add: assms(2) reg Discover_def Let_def set_Descriptors_compiled)
  have "set (cm_NetworkCapabilities (rep_Manifest report))
      = d_RequiredCapability ` {d \<in> set (compiled_descriptors os). isAvailable env d}"
    by (simp add: assms(2) reg Discover_def Let_def set_Descriptors_compiled)
  moreover have "c \<in> set (Summary report) \<longleftrightarrow> Has report c"
    using has [of c] by (auto simp: Summary_def mods image_image module_capability_cap)
  moreover have "\<forall>mc\<in>set (cm_Modules (rep_Manifest report)). mc_Available mc \<longrightarrow> Has report (mc_CapabilityID mc)"
    unfolding mods using has by (auto simp: module_capability_def)
  moreover have "\<not> Has report c" if "c \<in> {''tshark'', ''zeek'', ''suricata'', ''iperf3''}" for c
    using that compiled_withheld withheld_unavailable unfolding has by blast
  ultimately show ?thesis using has [of c] by auto
qed

definition sample_caps_env :: caps_env where
  "sample_caps_env = \<lparr>ce_goos = ''linux'', ce_goarch = ''amd64'', ce_lookPath = (\<lambda>n. Inr (''/usr/bin/'' @ n)),
     ce_combinedOutput = (\<lambda>_ _ _. (''v1'', None))\<rparr>"

theorem capability_report_is_consistent_witness:
  "\<exists>registry. NewRegistry (compiled_modules ''linux'' no_url) = Inr registry
     \<and> \<not> Has (Discover sample_caps_env [] registry) ''zeek''
     \<and> (Has (Discover sample_caps_env [] registry) ''dns'' \<longleftrightarrow>
         ''dns'' \<in> set (cm_NetworkCapabilities (rep_Manifest (Discover sample_caps_env [] registry))))"
  using capability_report_is_consistent [OF compiled_registry refl] compiled_registry by blast

end
