(* ===== verification/Evidence.thy ===== *)
theory Evidence
  imports JobVerifier Encoding
begin

text \<open>
  \<^verbatim>\<open>internal/evidence/artifact.go\<close>: random identifiers and evidence manifests. The bytes of
  \<^verbatim>\<open>crypto/rand\<close>, or its error, are an argument.
\<close>

unbundle bit_operations_syntax

definition NewID :: "bytes result \<Rightarrow> string result" where
  "NewID random = (case random of
      Inl err \<Rightarrow> Inl err
    | Inr v \<Rightarrow>
        let v = v[6 := char_of (ccode (v ! 6) AND 0x0f OR 0x40)];
            v = v[8 := char_of (ccode (v ! 8) AND 0x3f OR 0x80)];
            part = (\<lambda>a b. hex_EncodeToString (take (b - a) (drop a v)))
        in Inr (part 0 4 @ CHR ''-'' # part 4 6 @ CHR ''-'' # part 6 8 @ CHR ''-'' # part 8 10 @ CHR ''-'' # part 10 16))"

text \<open>
  A \<^verbatim>\<open>map[string]any\<close> is given by its members, each with the encoding of its value; \<open>None\<close> is
  the nil map.
\<close>

definition marshal_map :: "(string \<times> string result) list \<Rightarrow> string result" where
  "marshal_map ms = map_result (\<lambda>vs. marshal_object (zip (map fst ms) vs)) (collect (map snd ms))"

definition NewManifest :: "libs \<Rightarrow> bytes result \<Rightarrow> string \<Rightarrow> string \<Rightarrow> string \<Rightarrow>
    (string \<times> string result) list option \<Rightarrow> EvidenceManifest result" where
  "NewManifest L random source summary artifactKind structured =
     (case structured of
        None \<Rightarrow> Inl (ErrorText ''evidence source, summary and structured data are required'')
      | Some ms \<Rightarrow>
          if source = [] \<or> summary = []
          then Inl (ErrorText ''evidence source, summary and structured data are required'')
          else (case marshal_map ms of
              Inl err \<Rightarrow> Inl err
            | Inr d \<Rightarrow> (case NewID random of
                Inl err \<Rightarrow> Inl err
              | Inr i \<Rightarrow> Inr \<lparr>ev_EvidenceID = i, ev_ArtifactID = None, ev_Source = source,
                  ev_ContentType = ''application/json'', ev_Summary = summary, ev_StructuredData = d,
                  ev_SHA256 = hex_EncodeToString (lib_sha256 L d), ev_SizeBytes = int (length d),
                  ev_ArtifactKind = artifactKind\<rparr>)))"

section \<open>Identifiers\<close>

lemma version_byte: "(n::nat) AND 0x0f OR 0x40 = n mod 16 + 64"
proof -
  have m: "n AND 0x0f = n mod 16" using take_bit_eq_mask [of 4 n] by (simp add: mask_eq_exp_minus_1 take_bit_eq_mod)
  have "(n AND 0x0f) AND 0x40 = (0::nat)" by (simp add: and.assoc)
  then show ?thesis using disjunctive_add_eq_or [of "n AND 0x0f" "0x40"] m by simp
qed

lemma variant_byte: "(n::nat) AND 0x3f OR 0x80 = n mod 64 + 128"
proof -
  have m: "n AND 0x3f = n mod 64" using take_bit_eq_mask [of 6 n] by (simp add: mask_eq_exp_minus_1 take_bit_eq_mod)
  have "(n AND 0x3f) AND 0x80 = (0::nat)" by (simp add: and.assoc)
  then show ?thesis using disjunctive_add_eq_or [of "n AND 0x3f" "0x80"] m by simp
qed

lemma hex_byte_hex: "list_all is_hex (hex_byte c)"
  using hex_byte_lower [of c] by (auto simp: list_all_iff is_hex_def)

lemma hex_char_values:
  "hex_char 4 = CHR ''4''" "hex_char 8 = CHR ''8''" "hex_char 9 = CHR ''9''" "hex_char 10 = CHR ''a''" "hex_char 11 = CHR ''b''"
  by code_simp+

lemma version_nibble: "hex_char ((n mod 16 + 64) div 16) = CHR ''4''"
proof -
  have "(n mod 16 + 64) div 16 = (4::nat)" by linarith
  then show ?thesis by (simp add: hex_char_values)
qed

lemma variant_nibble: "hex_char ((n mod 64 + 128) div 16) \<in> set ''89abAB''"
proof -
  have "(n mod 64 + 128) div 16 = n mod 64 div 16 + 8" by simp
  moreover have "n mod 64 div 16 < 4" by (simp add: less_mult_imp_div_less)
  then have "n mod 64 div 16 \<in> {0, 1, 2, 3}" by auto
  ultimately have "(n mod 64 + 128) div 16 \<in> {8, 9, 10, 11}" by auto
  then show ?thesis by (elim insertE) (simp_all add: hex_char_values)
qed

lemma match_classes_append:
  "match_classes ps s \<Longrightarrow> match_classes qs t \<Longrightarrow> match_classes (ps @ qs) (s @ t)"
  by (simp add: match_classes_def)

lemma match_classes_Cons: "match_classes (p # ps) (c # s) \<longleftrightarrow> p c \<and> match_classes ps s"
  by (auto simp: match_classes_def)

lemma match_classes_hex:
  assumes "list_all is_hex s" and "length s = n"
  shows "match_classes (replicate n is_hex) s"
  using assms by (induction s arbitrary: n) (auto simp: match_classes_def)

lemma hex_EncodeToString_hex: "list_all is_hex (hex_EncodeToString bs)"
  using hex_EncodeToString_lower [of bs] by (auto simp: list_all_iff is_hex_def)

text \<open>The shape of an identifier: five groups of hexadecimal digits of given bytes.\<close>

definition uuid_text :: "bytes \<Rightarrow> bytes \<Rightarrow> bytes \<Rightarrow> bytes \<Rightarrow> bytes \<Rightarrow> string" where
  "uuid_text a b c d e = hex_EncodeToString a @ ''-'' @ hex_EncodeToString b @ ''-'' @ hex_EncodeToString c
     @ ''-'' @ hex_EncodeToString d @ ''-'' @ hex_EncodeToString e"

lemma uuid_text_matches:
  assumes "length a = 4" "length b = 2" "length e = 6"
    and c: "hex_EncodeToString c = n # c'" "n \<in> set ''12345''" "length c' = 3" "list_all is_hex c'"
    and d: "hex_EncodeToString d = m # d'" "m \<in> set ''89abAB''" "length d' = 3" "list_all is_hex d'"
  shows "uuidPattern (uuid_text a b c d e)"
proof -
  have "uuid_text a b c d e = hex_EncodeToString a @ ''-'' @ hex_EncodeToString b @ ''-'' @ [n] @ c'
     @ ''-'' @ [m] @ d' @ ''-'' @ hex_EncodeToString e"
    by (simp add: uuid_text_def c(1) d(1))
  moreover have "match_classes uuid_classes \<dots>"
    unfolding uuid_classes_def
    by (intro match_classes_append match_classes_hex hex_EncodeToString_hex)
      (use assms in \<open>simp_all add: match_classes_Cons match_classes_def\<close>)
  ultimately show ?thesis by (simp add: uuidPattern_def)
qed

definition versioned :: "bytes \<Rightarrow> bytes" where
  "versioned v = v[6 := char_of (ccode (v ! 6) mod 16 + 64), 8 := char_of (ccode (v ! 8) mod 64 + 128)]"

lemma NewID_uuid_text:
  "NewID (Inr v) = Inr (uuid_text (take 4 (versioned v)) (take 2 (drop 4 (versioned v))) (take 2 (drop 6 (versioned v)))
     (take 2 (drop 8 (versioned v))) (take 6 (drop 10 (versioned v))))"
  by (simp add: NewID_def Let_def uuid_text_def versioned_def version_byte variant_byte)

lemma take_2_drop: "Suc i < length v \<Longrightarrow> take 2 (drop i v) = [v ! i, v ! Suc i]"
  by (simp add: Cons_nth_drop_Suc [symmetric] numeral_2_eq_2)

text \<open>
  From any sixteen random bytes the agent makes an identifier of 36 characters in the form
  of a version 4 UUID, which the pattern for job identifiers accepts.
\<close>

theorem new_identifiers_are_uuids:
  assumes "length v = 16"
  shows "\<exists>i. NewID (Inr v) = Inr i \<and> uuidPattern i \<and> length i = 36"
proof -
  let ?w = "versioned v"
  have len: "length ?w = 16" using assms by (simp add: versioned_def)
  have low: "is_hex (hex_char (n mod 16))" for n
    using hex_char_ok [of "n mod 16"] by (simp add: is_hex_def)
  have byte: "is_hex (hex_char (ccode c div 16))" for c
    using hex_byte_hex [of c] by (simp add: hex_byte_def)
  have small: "(n mod 16 + 64) mod 256 = n mod 16 + 64" "(n mod 64 + 128) mod 256 = n mod 64 + 128" for n :: nat
    by (simp_all add: mod_less)
  have "take 2 (drop 6 ?w) = [?w ! 6, ?w ! 7]" "take 2 (drop 8 ?w) = [?w ! 8, ?w ! 9]"
    using take_2_drop [of 6 ?w] take_2_drop [of 8 ?w] len by simp_all
  moreover have "?w ! 6 = char_of (ccode (v ! 6) mod 16 + 64)" "?w ! 8 = char_of (ccode (v ! 8) mod 64 + 128)"
    using assms by (simp_all add: versioned_def)
  ultimately have c: "hex_EncodeToString (take 2 (drop 6 ?w)) = CHR ''4'' #
        [hex_char ((ccode (v ! 6) mod 16 + 64) mod 16), hex_char (ccode (?w ! 7) div 16), hex_char (ccode (?w ! 7) mod 16)]"
    and d: "hex_EncodeToString (take 2 (drop 8 ?w)) = hex_char ((ccode (v ! 8) mod 64 + 128) div 16) #
        [hex_char ((ccode (v ! 8) mod 64 + 128) mod 16), hex_char (ccode (?w ! 9) div 16), hex_char (ccode (?w ! 9) mod 16)]"
    by (simp_all only: hex_EncodeToString_def hex_byte_def list.map concat.simps append.simps ccode_char_of small version_nibble)
  have "uuidPattern (uuid_text (take 4 ?w) (take 2 (drop 4 ?w)) (take 2 (drop 6 ?w)) (take 2 (drop 8 ?w)) (take 6 (drop 10 ?w)))"
    by (rule uuid_text_matches [OF _ _ _ c _ _ _ d variant_nibble]) (simp_all add: len low byte del: mod_add_self2)
  moreover have "length (uuid_text (take 4 ?w) (take 2 (drop 4 ?w)) (take 2 (drop 6 ?w)) (take 2 (drop 8 ?w)) (take 6 (drop 10 ?w))) = 36"
    by (simp add: uuid_text_def len)
  ultimately show ?thesis by (simp add: NewID_uuid_text)
qed

theorem new_identifiers_are_uuids_witness:
  "\<exists>i. NewID (Inr (replicate 16 CHR 0xFF)) = Inr i \<and> uuidPattern i \<and> length i = 36"
  using new_identifiers_are_uuids [of "replicate 16 CHR 0xFF"] by simp

section \<open>Manifests\<close>

lemma NewManifest_Inr [accepts]:
  assumes "NewManifest L random source summary kind structured = Inr m"
  shows "source \<noteq> [] \<and> summary \<noteq> [] \<and> ev_Source m = source \<and> ev_Summary m = summary \<and> ev_ArtifactKind m = kind
    \<and> ev_SizeBytes m = int (length (ev_StructuredData m))
    \<and> ev_SHA256 m = hex_EncodeToString (lib_sha256 L (ev_StructuredData m))
    \<and> NewID random = Inr (ev_EvidenceID m)
    \<and> (\<exists>ms. structured = Some ms \<and> marshal_map ms = Inr (ev_StructuredData m))"
  using assms by (auto simp: NewManifest_def split: option.splits if_splits sum.splits)

end
