(* ===== verification/Spool.thy ===== *)
theory Spool
  imports Encoding
begin

text \<open>
  \<^verbatim>\<open>internal/spool/spool.go\<close>: the directory of undelivered items. The directory is a list of named
  files; the outcomes of the operating system's calls and the clock are arguments, and so is the
  sender that \<^verbatim>\<open>Flush\<close> delivers to. The mutex makes each operation atomic.
\<close>

section \<open>State\<close>

record spool_file =
  sf_IsDir :: bool
  sf_Data :: bytes
  sf_ModTime :: time

type_synonym spool_dir = "(string \<times> spool_file) list"

record Queue =
  q_MaxBytes :: int
  q_MaxAge :: duration

record item =
  it_Kind :: string
  it_Payload :: bytes

text \<open>
  One call's view of the operating system: the error of reading the directory, whether the
  metadata of an entry can be read, the errors of reading and of removing a file, the random
  part of a new name (or the error), the errors of changing its mode, of writing (with the
  number of bytes written before) and of syncing, and the clock when an entry is examined and
  when a name is made.
\<close>

record spool_io =
  io_readDir :: "goerror option"
  io_info :: "string \<Rightarrow> bool"
  io_read :: "string \<Rightarrow> goerror option"
  io_remove :: "string \<Rightarrow> goerror option"
  io_createTemp :: "string result"
  io_chmod :: "goerror option"
  io_write :: "(nat \<times> goerror) option"
  io_sync :: "goerror option"
  io_now :: "string \<Rightarrow> time"
  io_clock :: time

section \<open>Health and Enqueue\<close>

definition counted :: "spool_io \<Rightarrow> string \<times> spool_file \<Rightarrow> bool" where
  "counted io e \<longleftrightarrow> \<not> sf_IsDir (snd e) \<and> io_info io (fst e)"

definition healthUnlocked :: "spool_io \<Rightarrow> spool_dir \<Rightarrow> (int \<times> int) result" where
  "healthUnlocked io dir = (case io_readDir io of
      Some err \<Rightarrow> Inl err
    | None \<Rightarrow> let e = filter (counted io) dir
        in Inr (int (length e), sum_list (map (\<lambda>x. int (length (sf_Data (snd x)))) e)))"

definition Health :: "spool_io \<Rightarrow> spool_dir \<Rightarrow> (int \<times> int) result" where
  "Health io dir = healthUnlocked io dir"

text \<open>\<^verbatim>\<open>Format("20060102T150405.000000000")\<close>.\<close>

definition spool_timestamp :: "time \<Rightarrow> string" where
  "spool_timestamp t =
     (let (y, m, d) = civil_date (t div (24 * time_Hour));
          rest = t mod (24 * time_Hour)
      in pad_int 4 y @ pad_int 2 m @ pad_int 2 d @ CHR ''T'' #
         pad_int 2 (rest div time_Hour) @ pad_int 2 (rest mod time_Hour div time_Minute)
         @ pad_int 2 (rest mod time_Minute div time_Second) @ CHR ''.'' # pad_int 9 (rest mod time_Second))"

definition safe_kind :: "string \<Rightarrow> string" where
  "safe_kind kind = map (\<lambda>c. if is_alnum c \<or> c = CHR ''-'' \<or> c = CHR ''_'' then c else CHR ''-'') kind"

definition item_json :: "string \<Rightarrow> bytes \<Rightarrow> string result" where
  "item_json kind payload = marshal_struct [(''kind'', text_value kind), (''payload'', marshal_raw payload)]"

definition remove_file :: "string \<Rightarrow> spool_dir \<Rightarrow> spool_dir" where
  "remove_file name dir = filter (\<lambda>e. fst e \<noteq> name) dir"

text \<open>\<^verbatim>\<open>_ = os.Remove(p)\<close>: a failed removal leaves the file in place.\<close>

definition try_remove :: "spool_io \<Rightarrow> string \<Rightarrow> spool_dir \<Rightarrow> spool_dir" where
  "try_remove io name dir = (if io_remove io name = None then remove_file name dir else dir)"

text \<open>
  \<open>encoded\<close> is what \<^verbatim>\<open>json.Marshal(v)\<close> gives for the value. \<^verbatim>\<open>os.CreateTemp\<close> opens the file
  exclusively: it never hands out the name of an existing entry. The name and the text of the
  new item, or the error:
\<close>

definition spool_admit :: "spool_io \<Rightarrow> Queue \<Rightarrow> string \<Rightarrow> string result \<Rightarrow> spool_dir \<Rightarrow> (string \<times> bytes) result" where
  "spool_admit io q kind encoded dir =
     (if kind \<noteq> ''result'' \<and> kind \<noteq> ''failure'' \<and> kind \<noteq> ''evidence''
      then Inl (ErrorText ''unsupported spool item kind'')
      else case encoded of Inl err \<Rightarrow> Inl err
      | Inr payload \<Rightarrow> (case item_json kind payload of Inl err \<Rightarrow> Inl err
      | Inr b \<Rightarrow>
        if q_MaxBytes q < int (length b) then Inl (ErrorText ''spool item exceeds total spool limit'')
        else (case healthUnlocked io dir of Inl err \<Rightarrow> Inl err
        | Inr (_, bytes_used) \<Rightarrow>
          if q_MaxBytes q < bytes_used + int (length b) then Inl (ErrorText ''spool is full'')
          else (case io_createTemp io of Inl err \<Rightarrow> Inl err
          | Inr random \<Rightarrow>
            let name = spool_timestamp (io_clock io) @ CHR ''-'' # safe_kind kind @ CHR ''-'' # random @ ''.json''
            in if name \<in> fst ` set dir then Inl (ErrorText ''file exists'') else Inr (name, b)))))"

definition new_file :: "spool_io \<Rightarrow> bytes \<Rightarrow> spool_file" where
  "new_file io b = \<lparr>sf_IsDir = False, sf_Data = b, sf_ModTime = io_clock io\<rparr>"

definition write_item :: "spool_io \<Rightarrow> string \<Rightarrow> bytes \<Rightarrow> spool_dir \<Rightarrow> goerror option \<times> spool_dir" where
  "write_item io name b dir = (case io_chmod io of
      Some err \<Rightarrow> (Some err, try_remove io name (dir @ [(name, new_file io [])]))
    | None \<Rightarrow> (case io_write io of
        Some (n, err) \<Rightarrow> (Some err, try_remove io name (dir @ [(name, new_file io (take n b))]))
      | None \<Rightarrow> (io_sync io, dir @ [(name, new_file io b)])))"

definition Enqueue :: "spool_io \<Rightarrow> Queue \<Rightarrow> string \<Rightarrow> string result \<Rightarrow> spool_dir \<Rightarrow> goerror option \<times> spool_dir" where
  "Enqueue io q kind encoded dir = (case spool_admit io q kind encoded dir of
      Inl err \<Rightarrow> (Some err, dir)
    | Inr (name, b) \<Rightarrow> write_item io name b dir)"

section \<open>Flush\<close>

text \<open>\<^verbatim>\<open>json.Unmarshal(b, &queued)\<close>; the flag is false when it returns an error.\<close>

definition item_member :: "string \<times> json \<times> string \<Rightarrow> item \<times> bool \<Rightarrow> item \<times> bool" where
  "item_member m it = (case m of (key, v, raw) \<Rightarrow> (case it of (i, ok) \<Rightarrow>
     if fold_name key = fold_name ''kind'' then
       (case v of JString s \<Rightarrow> (i\<lparr>it_Kind := s\<rparr>, ok) | JNull \<Rightarrow> (i, ok) | _ \<Rightarrow> (i, False))
     else if fold_name key = fold_name ''payload'' then (i\<lparr>it_Payload := raw\<rparr>, ok)
     else (i, ok)))"

definition unmarshal_item :: "bytes \<Rightarrow> item option" where
  "unmarshal_item b = (case json_Unmarshal b of
      Some (JObject ms) \<Rightarrow>
        (let (i, ok) = fold item_member (raw_members b) (\<lparr>it_Kind = [], it_Payload = []\<rparr>, True)
         in if ok then Some i else None)
    | Some JNull \<Rightarrow> Some \<lparr>it_Kind = [], it_Payload = []\<rparr>
    | _ \<Rightarrow> None)"

text \<open>What the loop does with one entry.\<close>

datatype entry_action = SkipEntry | DropEntry | FailEntry goerror | DeliverEntry string bytes

definition classify :: "spool_io \<Rightarrow> Queue \<Rightarrow> string \<times> spool_file \<Rightarrow> entry_action" where
  "classify io q e =
     (if sf_IsDir (snd e) \<or> \<not> suffix ''.json'' (fst e) then SkipEntry
      else if \<not> io_info io (fst e) then SkipEntry
      else if q_MaxAge q < time_Sub (io_now io (fst e)) (sf_ModTime (snd e)) then DropEntry
      else if length (sf_Data (snd e)) < 1 \<or> q_MaxBytes q < int (length (sf_Data (snd e))) then DropEntry
      else case io_read io (fst e) of Some err \<Rightarrow> FailEntry err
      | None \<Rightarrow> (case unmarshal_item (sf_Data (snd e)) of
          None \<Rightarrow> DropEntry
        | Some i \<Rightarrow> if it_Kind i = [] then DropEntry else DeliverEntry (it_Kind i) (it_Payload i)))"

text \<open>
  \<open>send\<close> is the sender, given the number of items sent before in this call. The log lists the
  items handed to it, in order, with whether it accepted them.
\<close>

type_synonym send_log = "(string \<times> string \<times> bytes \<times> bool) list"

fun flush_loop :: "spool_io \<Rightarrow> Queue \<Rightarrow> (nat \<Rightarrow> string \<Rightarrow> bytes \<Rightarrow> goerror option) \<Rightarrow> nat \<Rightarrow> spool_dir \<Rightarrow> spool_dir \<Rightarrow>
    goerror option \<times> send_log \<times> spool_dir" where
  "flush_loop io q send n [] dir = (None, [], dir)"
| "flush_loop io q send n (e # es) dir = (case classify io q e of
      SkipEntry \<Rightarrow> flush_loop io q send n es dir
    | DropEntry \<Rightarrow> flush_loop io q send n es (try_remove io (fst e) dir)
    | FailEntry err \<Rightarrow> (Some err, [], dir)
    | DeliverEntry kind payload \<Rightarrow> (case send n kind payload of
        Some err \<Rightarrow> (Some err, [(fst e, kind, payload, False)], dir)
      | None \<Rightarrow> (case io_remove io (fst e) of
          Some err \<Rightarrow> (Some err, [(fst e, kind, payload, True)], dir)
        | None \<Rightarrow> (let (err, sent, dir') = flush_loop io q send (Suc n) es (remove_file (fst e) dir)
                   in (err, (fst e, kind, payload, True) # sent, dir')))))"

definition Flush :: "spool_io \<Rightarrow> Queue \<Rightarrow> (nat \<Rightarrow> string \<Rightarrow> bytes \<Rightarrow> goerror option) \<Rightarrow> spool_dir \<Rightarrow>
    goerror option \<times> send_log \<times> spool_dir" where
  "Flush io q send dir = (case io_readDir io of
      Some err \<Rightarrow> (Some err, [], dir)
    | None \<Rightarrow> flush_loop io q send 0 (sort_key fst dir) dir)"

section \<open>The size limit\<close>

definition dir_size :: "spool_dir \<Rightarrow> int" where
  "dir_size dir = sum_list (map (\<lambda>e. if sf_IsDir (snd e) then 0 else int (length (sf_Data (snd e)))) dir)"

lemma dir_size_append [simp]: "dir_size (xs @ ys) = dir_size xs + dir_size ys"
  by (simp add: dir_size_def)

lemma dir_size_nonneg: "0 \<le> dir_size dir"
  unfolding dir_size_def by (rule sum_list_nonneg) auto

lemma dir_size_filter: "dir_size (filter P dir) \<le> dir_size dir"
proof (induction dir)
  case (Cons e dir)
  moreover have "0 \<le> (if sf_IsDir (snd e) then 0 else int (length (sf_Data (snd e))))" by simp
  ultimately show ?case by (simp add: dir_size_def)
qed simp

lemma dir_size_remove: "dir_size (remove_file name dir) \<le> dir_size dir"
  by (simp add: remove_file_def dir_size_filter)

lemma dir_size_try_remove: "dir_size (try_remove io name dir) \<le> dir_size dir"
  by (simp add: try_remove_def dir_size_remove)

text \<open>The files an operation does not see, because their metadata cannot be read.\<close>

definition unseen :: "spool_io \<Rightarrow> spool_dir \<Rightarrow> spool_dir" where
  "unseen io dir = filter (\<lambda>e. \<not> io_info io (fst e)) dir"

lemma healthUnlocked_size:
  assumes "healthUnlocked io dir = Inr (n, tot)"
  shows "dir_size dir = tot + dir_size (unseen io dir)"
proof -
  have "dir_size dir = sum_list (map (\<lambda>x. int (length (sf_Data (snd x)))) (filter (counted io) dir)) + dir_size (unseen io dir)"
    by (induction dir) (auto simp: dir_size_def counted_def unseen_def)
  with assms show ?thesis by (simp add: healthUnlocked_def Let_def split: option.splits)
qed

lemma spool_admit_Inr [accepts]:
  assumes "spool_admit io q kind encoded dir = Inr (name, b)"
  shows "kind \<in> {''result'', ''failure'', ''evidence''} \<and> name \<notin> fst ` set dir \<and> suffix ''.json'' name
    \<and> (\<exists>payload. encoded = Inr payload \<and> item_json kind payload = Inr b)
    \<and> (\<exists>n tot. healthUnlocked io dir = Inr (n, tot) \<and> tot + int (length b) \<le> q_MaxBytes q)"
  using assms by (auto simp: spool_admit_def Let_def suffix_def split: if_splits sum.splits) force+

lemma spool_admit_room:
  assumes "spool_admit io q kind encoded dir = Inr (name, b)"
  shows "dir_size dir + int (length b) \<le> q_MaxBytes q + dir_size (unseen io dir)"
  using spool_admit_Inr [OF assms] healthUnlocked_size by fastforce

lemma write_item_size: "dir_size (snd (write_item io name b dir)) \<le> dir_size dir + int (length b)"
proof -
  have new: "dir_size [(name, new_file io c)] = int (length c)" for c
    by (simp add: dir_size_def new_file_def)
  have tr: "dir_size (try_remove io name (dir @ [(name, new_file io (take n b))])) \<le> dir_size dir + int (length b)" for n
    using dir_size_try_remove [of io name "dir @ [(name, new_file io (take n b))]"] new [of "take n b"] by simp
  from tr [of 0] show ?thesis
    using tr by (auto simp: write_item_def new split: option.splits prod.splits)
qed

lemma Enqueue_size:
  "dir_size (snd (Enqueue io q kind encoded dir)) \<le> max (dir_size dir) (q_MaxBytes q + dir_size (unseen io dir))"
proof (cases "spool_admit io q kind encoded dir")
  case (Inr nb)
  obtain name b where nb: "nb = (name, b)" by (cases nb)
  from spool_admit_room [OF Inr [unfolded nb]] write_item_size [of io name b dir]
  show ?thesis by (simp add: Enqueue_def Inr nb)
qed (simp add: Enqueue_def)

lemma flush_loop_subset: "set (snd (snd (flush_loop io q send n es dir))) \<subseteq> set dir
    \<and> dir_size (snd (snd (flush_loop io q send n es dir))) \<le> dir_size dir"
proof (induction io q send n es dir rule: flush_loop.induct)
  case (2 io q send n e es dir)
  have sub: "set (try_remove io (fst e) dir) \<subseteq> set dir" "set (remove_file (fst e) dir) \<subseteq> set dir"
    by (auto simp: try_remove_def remove_file_def)
  show ?case
  proof (cases "classify io q e")
    case SkipEntry
    then show ?thesis using 2(1) by simp
  next
    case DropEntry
    then show ?thesis using 2(2) sub(1) dir_size_try_remove [of io "fst e" dir] by fastforce
  next
    case (DeliverEntry kind payload)
    show ?thesis
    proof (cases "send n kind payload = None \<and> io_remove io (fst e) = None")
      case True
      with 2(3) [OF DeliverEntry] sub(2) dir_size_remove [of "fst e" dir] DeliverEntry show ?thesis
        by (auto simp: split_beta)
    next
      case False
      with DeliverEntry show ?thesis by (auto split: option.splits)
    qed
  qed simp
qed simp

text \<open>A history of operations on one queue, each with its own view of the operating system.\<close>

datatype spool_op = OpEnqueue spool_io string "string result"
  | OpFlush spool_io "nat \<Rightarrow> string \<Rightarrow> bytes \<Rightarrow> goerror option"

fun spool_step :: "Queue \<Rightarrow> spool_op \<Rightarrow> spool_dir \<Rightarrow> spool_dir" where
  "spool_step q (OpEnqueue io kind encoded) dir = snd (Enqueue io q kind encoded dir)"
| "spool_step q (OpFlush io send) dir = snd (snd (Flush io q send dir))"

text \<open>At every enqueue of the history the unseen files hold at most \<open>H\<close> bytes.\<close>

fun unseen_within :: "Queue \<Rightarrow> int \<Rightarrow> spool_op list \<Rightarrow> spool_dir \<Rightarrow> bool" where
  "unseen_within q H [] dir = True"
| "unseen_within q H (op # ops) dir =
     ((case op of OpEnqueue io kind encoded \<Rightarrow> dir_size (unseen io dir) \<le> H | OpFlush io send \<Rightarrow> True)
      \<and> unseen_within q H ops (spool_step q op dir))"

lemma Flush_size: "dir_size (snd (snd (Flush io q send dir))) \<le> dir_size dir"
  using flush_loop_subset [of io q send 0 "sort_key fst dir" dir] by (simp add: Flush_def split: option.split)

lemma spool_step_size:
  assumes "unseen_within q H (op # ops) dir"
  shows "dir_size (spool_step q op dir) \<le> max (dir_size dir) (q_MaxBytes q + H)"
proof (cases op)
  case (OpEnqueue io kind encoded)
  with assms Enqueue_size [of io q kind encoded dir] show ?thesis by auto
next
  case (OpFlush io send)
  with Flush_size [of io q send dir] show ?thesis by simp
qed

text \<open>
  C28: a history of enqueue and flush operations never makes the spool larger than it was at the
  start or than the configured total size, whichever is more, also when writes fail half way
  and cannot be undone. The code does not count files whose metadata it cannot read; if they
  hold up to \<open>H\<close> bytes at every enqueue, the limit can be exceeded by up to \<open>H\<close>.
\<close>

theorem spool_stays_within_limit:
  assumes "unseen_within q H ops dir"
  shows "dir_size (fold (spool_step q) ops dir) \<le> max (dir_size dir) (q_MaxBytes q + H)"
  using assms
proof (induction ops arbitrary: dir)
  case (Cons op ops)
  from Cons.prems Cons.IH have "dir_size (fold (spool_step q) ops (spool_step q op dir)) \<le> max (dir_size (spool_step q op dir)) (q_MaxBytes q + H)"
    by simp
  with spool_step_size [OF Cons.prems] show ?case by auto
qed simp

definition sample_io :: spool_io where
  "sample_io = \<lparr>io_readDir = None, io_info = (\<lambda>_. True), io_read = (\<lambda>_. None), io_remove = (\<lambda>_. None),
     io_createTemp = Inr ''42'', io_chmod = None, io_write = None, io_sync = None, io_now = (\<lambda>_. 5), io_clock = 5\<rparr>"

definition sample_queue :: Queue where
  "sample_queue = \<lparr>q_MaxBytes = 64, q_MaxAge = 100\<rparr>"

text \<open>
  Two files of 30 bytes within a limit of 64, and an enqueue that cannot read the metadata of
  either: the spool ends up above the limit.
\<close>

definition sample_full_dir :: spool_dir where
  "sample_full_dir = [(''a.json'', \<lparr>sf_IsDir = False, sf_Data = replicate 30 (CHR ''x''), sf_ModTime = 1\<rparr>),
     (''b.json'', \<lparr>sf_IsDir = False, sf_Data = replicate 30 (CHR ''x''), sf_ModTime = 1\<rparr>)]"

theorem spool_stays_within_limit_witness:
  "let dir = fold (spool_step sample_queue) [OpEnqueue (sample_io\<lparr>io_info := \<lambda>_. False\<rparr>) ''result'' (Inr ''{}'')] sample_full_dir
   in dir_size sample_full_dir \<le> 64 \<and> 64 < dir_size dir \<and> dir_size dir \<le> 64 + 60"
proof -
  let ?ops = "[OpEnqueue (sample_io\<lparr>io_info := \<lambda>_. False\<rparr>) ''result'' (Inr ''{}'')]"
  have size: "dir_size sample_full_dir = 60" by (simp add: dir_size_def sample_full_dir_def)
  moreover have "unseen_within sample_queue 60 ?ops sample_full_dir"
    by (simp add: unseen_def size)
  from spool_stays_within_limit [OF this]
  have "dir_size (fold (spool_step sample_queue) ?ops sample_full_dir) \<le> 64 + 60" by (simp add: size sample_queue_def)
  moreover have "64 < dir_size (fold (spool_step sample_queue) ?ops sample_full_dir)" by code_simp
  ultimately show ?thesis unfolding Let_def by simp
qed

section \<open>Delivery\<close>

fun delivery :: "spool_io \<Rightarrow> Queue \<Rightarrow> string \<times> spool_file \<Rightarrow> (string \<times> string \<times> bytes) option" where
  "delivery io q e = (case classify io q e of DeliverEntry kind payload \<Rightarrow> Some (fst e, kind, payload) | _ \<Rightarrow> None)"

text \<open>The items a flush has to deliver, in the order of their file names.\<close>

definition deliverables :: "spool_io \<Rightarrow> Queue \<Rightarrow> spool_dir \<Rightarrow> (string \<times> string \<times> bytes) list" where
  "deliverables io q es = List.map_filter (delivery io q) es"

definition log_items :: "send_log \<Rightarrow> (string \<times> string \<times> bytes) list" where
  "log_items sent = map (\<lambda>(name, kind, payload, ok). (name, kind, payload)) sent"

lemma deliverables_simps [simp]:
  "deliverables io q [] = []"
  "deliverables io q (e # es) = (case classify io q e of
      DeliverEntry kind payload \<Rightarrow> (fst e, kind, payload) # deliverables io q es
    | _ \<Rightarrow> deliverables io q es)"
  by (auto simp: deliverables_def map_filter_simps split: entry_action.splits)

lemma log_items_Cons [simp]:
  "log_items ((name, kind, payload, ok) # sent) = (name, kind, payload) # log_items sent"
  "log_items [] = []"
  by (simp_all add: log_items_def)

lemma flush_loop_all_accepted:
  assumes "flush_loop io q send n es dir = (None, sent, dir')"
  shows "\<forall>(_, _, _, ok)\<in>set sent. ok"
  using assms
proof (induction io q send n es dir arbitrary: sent dir' rule: flush_loop.induct)
  case (2 io q send n e es dir)
  show ?case
  proof (cases "classify io q e")
    case (DeliverEntry kind payload)
    with "2.prems" have ok: "send n kind payload = None" "io_remove io (fst e) = None" by (auto split: option.splits)
    obtain err1 sent1 dir1 where rest: "flush_loop io q send (Suc n) es (remove_file (fst e) dir) = (err1, sent1, dir1)"
      by (metis prod_cases3)
    with DeliverEntry ok "2.prems" have "err1 = None" "sent = (fst e, kind, payload, True) # sent1" by auto
    with 2(3) [OF DeliverEntry ok] rest show ?thesis by simp
  qed (use 2 in auto)
qed simp

lemma remove_file_mem: "(name, f) \<in> set dir \<Longrightarrow> (name, f) \<notin> set (remove_file x dir) \<Longrightarrow> x = name"
  by (auto simp: remove_file_def)

lemma try_remove_mem: "(name, f) \<in> set dir \<Longrightarrow> (name, f) \<notin> set (try_remove io x dir) \<Longrightarrow> x = name"
  by (auto simp: try_remove_def remove_file_def split: if_splits)

lemma flush_loop_removed:
  assumes "flush_loop io q send n es dir = (err, sent, dir')" and "(name, f) \<in> set dir" and "(name, f) \<notin> set dir'"
  shows "\<exists>e\<in>set es. fst e = name \<and> (classify io q e = DropEntry
    \<or> (\<exists>kind payload. classify io q e = DeliverEntry kind payload \<and> (name, kind, payload, True) \<in> set sent))"
  using assms
proof (induction io q send n es dir arbitrary: err sent dir' rule: flush_loop.induct)
  case (2 io q send n e es dir)
  show ?case
  proof (cases "classify io q e")
    case SkipEntry
    with 2(1) [OF SkipEntry] "2.prems" show ?thesis by auto
  next
    case DropEntry
    show ?thesis
    proof (cases "(name, f) \<in> set (try_remove io (fst e) dir)")
      case True
      with 2(2) [OF DropEntry] "2.prems" DropEntry show ?thesis by auto
    next
      case False
      with try_remove_mem "2.prems"(2) DropEntry show ?thesis by auto
    qed
  next
    case (DeliverEntry kind payload)
    have ok: "send n kind payload = None" "io_remove io (fst e) = None"
      using "2.prems" DeliverEntry by (auto split: option.splits)
    obtain err1 sent1 dir1 where rest: "flush_loop io q send (Suc n) es (remove_file (fst e) dir) = (err1, sent1, dir1)"
      by (metis prod_cases3)
    with "2.prems"(1) DeliverEntry ok have sent: "sent = (fst e, kind, payload, True) # sent1" "dir' = dir1" by auto
    show ?thesis
    proof (cases "(name, f) \<in> set (remove_file (fst e) dir)")
      case True
      with 2(3) [OF DeliverEntry ok rest] "2.prems"(3) sent show ?thesis by auto
    next
      case False
      with remove_file_mem "2.prems"(2) DeliverEntry sent show ?thesis by auto
    qed
  next
    case (FailEntry err')
    with "2.prems" show ?thesis by auto
  qed
qed auto

text \<open>
  When an entry ends the flush: its content cannot be read, the sender refuses its item (the
  sender is asked with the number of items sent before), or the delivered file cannot be removed.
\<close>

definition stop_error :: "spool_io \<Rightarrow> Queue \<Rightarrow> (nat \<Rightarrow> string \<Rightarrow> bytes \<Rightarrow> goerror option) \<Rightarrow> nat \<Rightarrow> string \<times> spool_file \<Rightarrow> goerror option" where
  "stop_error io q send n e = (case classify io q e of
      FailEntry err \<Rightarrow> Some err
    | DeliverEntry kind payload \<Rightarrow> (case send n kind payload of Some err \<Rightarrow> Some err | None \<Rightarrow> io_remove io (fst e))
    | _ \<Rightarrow> None)"

text \<open>No entry of the list ends the flush, if \<open>n\<close> items were sent before the first.\<close>

definition passes :: "spool_io \<Rightarrow> Queue \<Rightarrow> (nat \<Rightarrow> string \<Rightarrow> bytes \<Rightarrow> goerror option) \<Rightarrow> nat \<Rightarrow> spool_dir \<Rightarrow> bool" where
  "passes io q send n es \<longleftrightarrow> (\<forall>pre e post. es = pre @ e # post
     \<longrightarrow> stop_error io q send (n + length (deliverables io q pre)) e = None)"

lemma stop_error_simps [simp]:
  "classify io q e = SkipEntry \<Longrightarrow> stop_error io q send n e = None"
  "classify io q e = DropEntry \<Longrightarrow> stop_error io q send n e = None"
  "classify io q e = FailEntry err \<Longrightarrow> stop_error io q send n e = Some err"
  "classify io q e = DeliverEntry kind payload \<Longrightarrow>
     stop_error io q send n e = (case send n kind payload of Some err \<Rightarrow> Some err | None \<Rightarrow> io_remove io (fst e))"
  by (simp_all add: stop_error_def)

lemma deliverables_append [simp]: "deliverables io q (xs @ ys) = deliverables io q xs @ deliverables io q ys"
  by (induction xs) (auto split: entry_action.splits)

lemma passes_Nil: "passes io q send n []"
  by (simp add: passes_def)

lemma passes_Cons:
  assumes "stop_error io q send n e = None" and "passes io q send (n + length (deliverables io q [e])) es"
  shows "passes io q send n (e # es)"
  unfolding passes_def
proof (intro allI impI)
  fix pre x post
  assume eq: "e # es = pre @ x # post"
  show "stop_error io q send (n + length (deliverables io q pre)) x = None"
  proof (cases pre)
    case Nil
    with eq assms(1) show ?thesis by simp
  next
    case (Cons e' pre')
    with eq have "es = pre' @ x # post" "e' = e" by simp_all
    with assms(2) Cons show ?thesis
      unfolding passes_def using deliverables_append [of io q "[e]" pre'] by (metis add.assoc append_Cons append_Nil length_append)
  qed
qed

text \<open>
  What a flush has done when it returns: it handled the entries up to the first that ends it,
  or all, sent the deliverable ones of them, and left the entries behind it alone.
\<close>

definition flush_outcome :: "spool_io \<Rightarrow> Queue \<Rightarrow> (nat \<Rightarrow> string \<Rightarrow> bytes \<Rightarrow> goerror option) \<Rightarrow> nat \<Rightarrow> spool_dir \<Rightarrow>
    goerror option \<Rightarrow> send_log \<Rightarrow> bool" where
  "flush_outcome io q send n es err sent \<longleftrightarrow> (case err of
      None \<Rightarrow> passes io q send n es \<and> log_items sent = deliverables io q es
    | Some er \<Rightarrow> (\<exists>pre e post. es = pre @ e # post \<and> passes io q send n pre
        \<and> stop_error io q send (n + length (deliverables io q pre)) e = Some er
        \<and> log_items sent = deliverables io q (pre @ [e])))"

lemma passes_ConsD:
  assumes "passes io q send n (e # es)"
  shows "stop_error io q send n e = None" "passes io q send (n + length (deliverables io q [e])) es"
proof -
  show "stop_error io q send n e = None"
    using assms unfolding passes_def by (metis add_0_right append_Nil deliverables_simps(1) list.size(3))
  show "passes io q send (n + length (deliverables io q [e])) es"
    unfolding passes_def
  proof (intro allI impI)
    fix pre x post
    assume "es = pre @ x # post"
    then have "e # es = (e # pre) @ x # post" by simp
    with assms have "stop_error io q send (n + length (deliverables io q (e # pre))) x = None" unfolding passes_def by blast
    with deliverables_append [of io q "[e]" pre]
    show "stop_error io q send (n + length (deliverables io q [e]) + length (deliverables io q pre)) x = None"
      by (simp add: add.assoc)
  qed
qed

lemma flush_outcome_Cons:
  assumes "stop_error io q send n e = None" and "flush_outcome io q send (n + length (deliverables io q [e])) es err sent"
    and "log_items sent' = deliverables io q [e] @ log_items sent"
  shows "flush_outcome io q send n (e # es) err sent'"
proof (cases err)
  case None
  with assms passes_Cons [OF assms(1)] deliverables_append [of io q "[e]" es] show ?thesis by (simp add: flush_outcome_def)
next
  case (Some er)
  with assms(2) obtain pre x post where p: "es = pre @ x # post" "passes io q send (n + length (deliverables io q [e])) pre"
    "stop_error io q send (n + length (deliverables io q [e]) + length (deliverables io q pre)) x = Some er"
    "log_items sent = deliverables io q (pre @ [x])" unfolding flush_outcome_def by auto
  have "deliverables io q (e # ys) = deliverables io q [e] @ deliverables io q ys" for ys
    using deliverables_append [of io q "[e]" ys] by simp
  note first = this
  show ?thesis
    unfolding flush_outcome_def Some option.case
  proof (intro exI conjI)
    show "e # es = (e # pre) @ x # post" by (simp add: p(1))
    show "passes io q send n (e # pre)" by (rule passes_Cons [OF assms(1) p(2)])
    show "stop_error io q send (n + length (deliverables io q (e # pre))) x = Some er"
      unfolding first [of pre] length_append using p(3) by (simp only: add.assoc)
    show "log_items sent' = deliverables io q ((e # pre) @ [x])"
      unfolding append_Cons first [of "pre @ [x]"] assms(3) p(4) ..
  qed
qed

lemma flush_outcome_stop:
  assumes "stop_error io q send n e = Some er" and "log_items sent = deliverables io q [e]"
  shows "flush_outcome io q send n (e # es) (Some er) sent"
  unfolding flush_outcome_def using assms
  by (simp only: option.case) (intro exI [of _ "[]"] exI [of _ e] exI [of _ es], simp add: passes_Nil)

lemma flush_loop_outcome:
  assumes "flush_loop io q send n es dir = (err, sent, dir')"
  shows "flush_outcome io q send n es err sent"
  using assms
proof (induction io q send n es dir arbitrary: err sent dir' rule: flush_loop.induct)
  case (2 io q send n e es dir)
  show ?case
  proof (cases "classify io q e")
    case SkipEntry
    with 2(1) [OF SkipEntry] "2.prems" show ?thesis by (intro flush_outcome_Cons [of _ _ _ _ _ _ _ sent]) simp_all
  next
    case DropEntry
    with 2(2) [OF DropEntry] "2.prems" show ?thesis by (intro flush_outcome_Cons [of _ _ _ _ _ _ _ sent]) simp_all
  next
    case (FailEntry er)
    with "2.prems" show ?thesis by (auto intro!: flush_outcome_stop)
  next
    case (DeliverEntry kind payload)
    show ?thesis
    proof (cases "send n kind payload = None \<and> io_remove io (fst e) = None")
      case True
      obtain err1 sent1 dir1 where rest: "flush_loop io q send (Suc n) es (remove_file (fst e) dir) = (err1, sent1, dir1)"
        by (metis prod_cases3)
      with 2(3) [OF DeliverEntry _ _ rest] True "2.prems" DeliverEntry show ?thesis
        by (intro flush_outcome_Cons [of _ _ _ _ _ _ _ sent1]) auto
    next
      case False
      then obtain er where er: "stop_error io q send n e = Some er" using False DeliverEntry by (cases "send n kind payload") auto
      with "2.prems" DeliverEntry have "err = Some er" "log_items sent = deliverables io q [e]" by (auto split: option.splits)
      with flush_outcome_stop [OF er] show ?thesis by simp
    qed
  qed
qed (simp add: flush_outcome_def passes_Nil)

text \<open>What is behind the entry that ends the loop makes no difference.\<close>

lemma flush_loop_stops:
  assumes "passes io q send n pre" and "stop_error io q send (n + length (deliverables io q pre)) e \<noteq> None"
  shows "flush_loop io q send n (pre @ e # post) dir = flush_loop io q send n (pre @ [e]) dir"
  using assms
proof (induction pre arbitrary: n dir)
  case Nil
  then show ?case by (cases "classify io q e") (auto split: option.splits)
next
  case (Cons x pre)
  from passes_ConsD [OF Cons.prems(1)] have x: "stop_error io q send n x = None"
    and pre: "passes io q send (n + length (deliverables io q [x])) pre" .
  have "stop_error io q send (n + length (deliverables io q [x]) + length (deliverables io q pre)) e \<noteq> None"
    using Cons.prems(2) deliverables_append [of io q "[x]" pre] by (simp add: add.assoc)
  note IH = Cons.IH [OF pre this]
  show ?case using x IH by (cases "classify io q x") (auto split: option.splits)
qed

text \<open>Sent files that can be removed are gone.\<close>

lemma flush_loop_gone:
  assumes "flush_loop io q send n es dir = (err, sent, dir')" and "(name, kind, payload, True) \<in> set sent"
    and "io_remove io name = None"
  shows "name \<notin> fst ` set dir'"
  using assms
proof (induction io q send n es dir arbitrary: err sent dir' rule: flush_loop.induct)
  case (2 io q send n e es dir)
  show ?case
  proof (cases "classify io q e")
    case (DeliverEntry k p)
    show ?thesis
    proof (cases "send n k p = None \<and> io_remove io (fst e) = None")
      case True
      obtain err1 sent1 dir1 where rest: "flush_loop io q send (Suc n) es (remove_file (fst e) dir) = (err1, sent1, dir1)"
        by (metis prod_cases3)
      with True "2.prems"(1) DeliverEntry have eq: "sent = (fst e, k, p, True) # sent1" "dir' = dir1" by auto
      have "set dir1 \<subseteq> set (remove_file (fst e) dir)"
        using flush_loop_subset [of io q send "Suc n" es "remove_file (fst e) dir"] rest by simp
      then have "fst e \<notin> fst ` set dir1" by (auto simp: remove_file_def)
      with 2(3) [OF DeliverEntry _ _ rest] True "2.prems"(2,3) eq show ?thesis
        by (cases "name = fst e") (simp_all only: set_ConsD, auto)
    next
      case False
      with "2.prems" DeliverEntry show ?thesis by (auto split: option.splits)
    qed
  qed (use 2 in auto)
qed auto

lemma flush_loop_keeps:
  assumes "flush_loop io q send n es dir = (err, sent, dir')" and "set es \<subseteq> set dir" and "distinct (map fst dir)"
    and "(name, f) \<in> set dir" and "classify io q (name, f) = DeliverEntry kind payload" and "(name, kind, payload, True) \<notin> set sent"
  shows "(name, f) \<in> set dir'"
proof (rule ccontr)
  assume "(name, f) \<notin> set dir'"
  from flush_loop_removed [OF assms(1,4) this] obtain f' where e: "(name, f') \<in> set es"
    "classify io q (name, f') = DropEntry \<or> (\<exists>kind payload. classify io q (name, f') = DeliverEntry kind payload
        \<and> (name, kind, payload, True) \<in> set sent)" by auto
  from e(1) assms(2-4) have "f' = f" by (metis map_of_eq_Some_iff option.inject subsetD)
  with e(2) assms(5,6) show False by auto
qed

lemma flush_loop_leaves:
  assumes "flush_loop io q send 0 (sort_key fst dir) dir = (err, sent, dir')" and "sort_key fst dir = pre @ e # post"
    and "passes io q send 0 pre" and "stop_error io q send (length (deliverables io q pre)) e \<noteq> None" and "distinct (map fst dir)"
  shows "set post \<subseteq> set dir'"
proof
  fix x assume x: "x \<in> set post"
  obtain name f where nf: "x = (name, f)" by (cases x)
  have "distinct (map fst (sort_key fst dir))" using assms(5) by (simp add: distinct_map)
  then have "distinct (map fst (pre @ e # post))" unfolding assms(2) .
  then have "fst ` set post \<inter> fst ` set (pre @ [e]) = {}" by auto
  moreover have "name \<in> fst ` set post" using x nf by (force intro: rev_image_eqI)
  ultimately have other: "name \<notin> fst ` set (pre @ [e])" by blast
  from x nf assms(2) have "(name, f) \<in> set (sort_key fst dir)" by simp
  then have mem: "(name, f) \<in> set dir" by simp
  have "flush_loop io q send 0 (pre @ e # post) dir = flush_loop io q send 0 (pre @ [e]) dir"
    by (rule flush_loop_stops [OF assms(3)]) (simp only: add_0 assms(4) not_False_eq_True)
  note loop = assms(1) [unfolded assms(2) this]
  from flush_loop_removed [OF loop mem] other show "x \<in> set dir'" using nf by force
qed

text \<open>
  C7: a flush hands the deliverable items to the sender in the order of their file names and
  ends at the first entry that cannot be read, whose item is refused, or whose file cannot be
  removed: it returns the error of that entry, every entry before it caused none, and nothing
  behind it is sent or removed. It returns no error only if no entry caused one, and then it
  has delivered every deliverable item. A deliverable item that is gone from the directory
  afterwards was accepted by the sender; an accepted one is gone if its file can be removed;
  nothing is added. If the directory cannot be read, nothing happens.
\<close>

theorem flush_delivers_in_order_without_loss:
  assumes "distinct (map fst dir)" and "Flush io q send dir = (err, sent, dir')"
  shows "(if io_readDir io \<noteq> None then err = io_readDir io \<and> sent = [] \<and> dir' = dir
      else case err of
        None \<Rightarrow> passes io q send 0 (sort_key fst dir) \<and> log_items sent = deliverables io q (sort_key fst dir)
          \<and> (\<forall>(_, _, _, ok)\<in>set sent. ok)
      | Some er \<Rightarrow> (\<exists>pre e post. sort_key fst dir = pre @ e # post \<and> passes io q send 0 pre
          \<and> stop_error io q send (length (deliverables io q pre)) e = Some er
          \<and> log_items sent = deliverables io q (pre @ [e]) \<and> set post \<subseteq> set dir'))
    \<and> (\<forall>(name, f)\<in>set dir. \<forall>kind payload. classify io q (name, f) = DeliverEntry kind payload \<longrightarrow>
          (name, f) \<in> set dir' \<or> (name, kind, payload, True) \<in> set sent)
    \<and> (\<forall>(name, kind, payload, ok)\<in>set sent. ok \<and> io_remove io name = None \<longrightarrow> name \<notin> fst ` set dir')
    \<and> set dir' \<subseteq> set dir"
proof (cases "io_readDir io")
  case (Some e)
  with assms(2) show ?thesis by (auto simp: Flush_def)
next
  case None
  let ?es = "sort_key fst dir"
  from None assms(2) have loop: "flush_loop io q send 0 ?es dir = (err, sent, dir')" by (simp add: Flush_def)
  have sub: "set dir' \<subseteq> set dir" using flush_loop_subset [of io q send 0 ?es dir] loop by simp
  have kept: "(name, f) \<in> set dir' \<or> (name, kind, payload, True) \<in> set sent"
    if "(name, f) \<in> set dir" and "classify io q (name, f) = DeliverEntry kind payload" for name f kind payload
    using flush_loop_keeps [OF loop _ _ that(1)] assms(1) that(2) by auto
  have gone: "name \<notin> fst ` set dir'" if "(name, kind, payload, ok) \<in> set sent" "ok" "io_remove io name = None" for name kind payload ok
    using flush_loop_gone [OF loop, of name kind payload] that by simp
  have "if io_readDir io \<noteq> None then err = io_readDir io \<and> sent = [] \<and> dir' = dir
      else case err of
        None \<Rightarrow> passes io q send 0 ?es \<and> log_items sent = deliverables io q ?es \<and> (\<forall>(_, _, _, ok)\<in>set sent. ok)
      | Some er \<Rightarrow> (\<exists>pre e post. ?es = pre @ e # post \<and> passes io q send 0 pre
          \<and> stop_error io q send (length (deliverables io q pre)) e = Some er
          \<and> log_items sent = deliverables io q (pre @ [e]) \<and> set post \<subseteq> set dir')"
  proof (cases err)
    case None
    with \<open>io_readDir io = None\<close> flush_loop_outcome [OF loop] flush_loop_all_accepted [OF loop [unfolded None]] show ?thesis
      by (simp add: flush_outcome_def)
  next
    case (Some er)
    with flush_loop_outcome [OF loop] obtain pre e post where p: "?es = pre @ e # post" "passes io q send 0 pre"
      "stop_error io q send (length (deliverables io q pre)) e = Some er" "log_items sent = deliverables io q (pre @ [e])"
      unfolding flush_outcome_def by auto
    have "set post \<subseteq> set dir'" by (rule flush_loop_leaves [OF loop p(1,2)]) (use p(3) assms(1) in auto)
    with p show ?thesis unfolding Some \<open>io_readDir io = None\<close> by (simp only: option.case simp_thms if_False) blast
  qed
  with kept gone sub show ?thesis by blast
qed

text \<open>A directory with one item, whose text is written with character codes for the quotation marks.\<close>

definition sample_item_text :: bytes where
  "sample_item_text = CHR 0x7B # CHR 0x22 # ''kind'' @ CHR 0x22 # CHR '':'' # CHR 0x22 # ''result'' @ CHR 0x22 # CHR '','' #
     CHR 0x22 # ''payload'' @ CHR 0x22 # '':[1]}''"

definition sample_dir :: spool_dir where
  "sample_dir = [(''a.json'', \<lparr>sf_IsDir = False, sf_Data = sample_item_text, sf_ModTime = 1\<rparr>)]"

lemma sample_deliverables: "deliverables sample_io sample_queue (sort_key fst sample_dir) = [(''a.json'', ''result'', ''[1]'')]"
  by code_simp

theorem flush_delivers_in_order_without_loss_witness:
  "(\<exists>sent dir'. Flush sample_io sample_queue (\<lambda>_ _ _. None) sample_dir = (None, sent, dir')
      \<and> log_items sent = [(''a.json'', ''result'', ''[1]'')])
   \<and> snd (snd (Flush sample_io sample_queue (\<lambda>_ _ _. Some Canceled) sample_dir)) = sample_dir"
proof
  have d: "distinct (map fst sample_dir)" by (simp add: sample_dir_def)
  obtain err sent dir' where f: "Flush sample_io sample_queue (\<lambda>_ _ _. None) sample_dir = (err, sent, dir')"
    by (metis prod_cases3)
  moreover have "fst (Flush sample_io sample_queue (\<lambda>_ _ _. None) sample_dir) = None" by code_simp
  moreover have "io_readDir sample_io = None" by (simp add: sample_io_def)
  ultimately show "\<exists>sent dir'. Flush sample_io sample_queue (\<lambda>_ _ _. None) sample_dir = (None, sent, dir')
      \<and> log_items sent = [(''a.json'', ''result'', ''[1]'')]"
    using flush_delivers_in_order_without_loss [OF d f] sample_deliverables by auto
  show "snd (snd (Flush sample_io sample_queue (\<lambda>_ _ _. Some Canceled) sample_dir)) = sample_dir"
    by code_simp
qed

end
