(* ===== verification/Executor.thy ===== *)
theory Executor
  imports Capabilities Evidence Spool
begin

text \<open>
  \<^verbatim>\<open>internal/executor/executor.go\<close>: admission of jobs, their bounded execution, and the report of
  exactly one outcome per job. The control plane, the clock, the random source and what a
  module observes are given per call. Goroutines appear in the theory \<open>Concurrency\<close>; here each
  handler is a function on the executor's state.
\<close>

section \<open>State\<close>

record Executor =
  ex_Registry :: "exec_env Registry"
  ex_Verifier :: JobVerifier
  ex_Capabilities :: Report
  ex_Queue :: Queue
  ex_Spool :: spool_dir
  ex_MaxJobTimeout :: duration
  ex_MaxResultBytes :: int
  ex_slots :: slot_chan
  ex_lastResult :: "LastJobResult option"

text \<open>
  What one call of the executor meets: the clock at the points where the code reads it, the
  answers of the control plane, the state of the context, the ticks of the cancellation monitor
  with the answers it gets, the module's surroundings, random bytes and the file system.
\<close>

record run_env =
  rn_libs :: libs
  rn_ftoa :: "rat \<Rightarrow> string"
  rn_now :: time
  rn_startJob :: "goerror option"
  rn_reportFailure :: "JobFailure \<Rightarrow> goerror option"
  rn_reportResult :: "JobResult \<Rightarrow> goerror option"
  rn_io :: spool_io
  rn_failedAt :: time
  rn_begin :: time
  rn_acquireCtx :: "goerror option"
  rn_acquirePick :: bool
  rn_cancellation :: "JobCancellation result"
  rn_started :: time
  rn_exec :: exec_env
  rn_ticks :: "JobCancellation result list"
  rn_ctxErr :: "goerror option"
  rn_completed :: time
  rn_random1 :: "bytes result"
  rn_random2 :: "bytes result"

text \<open>The report a handler made, and whether the control plane took it.\<close>

datatype report = FailureReport JobFailure bool | ResultReport JobResult bool

section \<open>Small functions\<close>

definition New_Executor :: "nat \<Rightarrow> Executor \<Rightarrow> Executor" where
  "New_Executor maximum e = e\<lparr>ex_slots := \<lparr>ch_cap = maximum, ch_len = 0\<rparr>\<rparr>"

definition Running :: "Executor \<Rightarrow> nat" where
  "Running e = ch_len (ex_slots e)"

definition LastResult :: "Executor \<Rightarrow> LastJobResult option" where
  "LastResult e = ex_lastResult e"

definition recordLast :: "string \<Rightarrow> string \<Rightarrow> time \<Rightarrow> Executor \<Rightarrow> Executor" where
  "recordLast jobID status completedAt e =
     e\<lparr>ex_lastResult := Some \<lparr>ljr_JobID = jobID, ljr_Status = status, ljr_CompletedAt = completedAt\<rparr>\<rparr>"

definition replace_char :: "char \<Rightarrow> char \<Rightarrow> string \<Rightarrow> string" where
  "replace_char a b s = map (\<lambda>c. if c = a then b else c) s"

definition safeSummary :: "string \<Rightarrow> string" where
  "safeSummary v =
     (let v = strings_TrimSpace (replace_char (CHR 0x0A) (CHR '' '') (replace_char (CHR 0x0D) (CHR '' '') v));
          v = (if v = [] then ''Agent could not complete the requested operation.'' else v)
      in if 2000 < length v then take 2000 v else v)"

definition allowedMetric :: "string \<Rightarrow> bool" where
  "allowedMetric name \<longleftrightarrow> name \<in> {''AVAILABILITY'', ''LATENCY_MS'', ''PACKET_LOSS_PERCENT'', ''DNS_DURATION_MS'',
     ''TCP_CONNECT_DURATION_MS'', ''TLS_DAYS_UNTIL_EXPIRATION'', ''HTTP_DURATION_MS'', ''HTTP_STATUS''}"

definition artifactKind :: "string \<Rightarrow> string" where
  "artifactKind moduleID =
     (if moduleID = ''network.dns'' then ''DNS_RESPONSE''
      else if moduleID = ''network.tls'' then ''TLS_METADATA''
      else if moduleID = ''network.http'' then ''HTTP_TRANSACTION''
      else if moduleID = ''network.route'' then ''ROUTE_HOPS''
      else if moduleID = ''nmap.discovery'' \<or> moduleID = ''nmap.services'' then ''NMAP_RESULT''
      else if moduleID = ''traffic.zeek'' then ''ZEEK_EVENT''
      else if moduleID = ''security.suricata'' then ''SURICATA_EVENT''
      else ''STRUCTURED_RESULT'')"

section \<open>Reporting a failure\<close>

definition reject :: "run_env \<Rightarrow> JobEnvelope \<Rightarrow> FailureCode \<Rightarrow> string \<Rightarrow> bool \<Rightarrow> Executor \<Rightarrow> report \<times> Executor" where
  "reject env job code summary retryable e =
     (let failure = \<lparr>jf_ProtocolVersion = Version, jf_JobID = je_JobID job, jf_AgentID = je_AgentID job,
            jf_Code = code, jf_Summary = safeSummary summary, jf_OccurredAt = rn_failedAt env, jf_Retryable = retryable\<rparr>;
          err = rn_reportFailure env failure;
          e1 = (if err \<noteq> None
                then e\<lparr>ex_Spool := snd (Enqueue (rn_io env) (ex_Queue e) ''failure'' (JobFailure_json failure) (ex_Spool e))\<rparr>
                else e);
          status = (if code = FailureTimeout then ''TIMED_OUT''
                    else if code = FailureCancelled then ''CANCELLED'' else ''FAILED'')
      in (FailureReport failure (err = None), recordLast (je_JobID job) status (jf_OccurredAt failure) e1))"

section \<open>Submit\<close>

text \<open>
  The checks between verification and the reservation of a slot, in order: the module, or the
  failure to report together with the error to return.
\<close>

definition Submit_checks :: "JobEnvelope \<Rightarrow> Executor \<Rightarrow> (FailureCode \<times> goerror) + exec_env Module" where
  "Submit_checks job e = (case Get (ex_Registry e) (je_ModuleID job) of
      None \<Rightarrow> Inl (FailureModuleUnavailable, ErrorText ''module is not compiled into this agent'')
    | Some m \<Rightarrow>
        let descriptor = mod_Descriptor m in
        (case ValidateModuleVersion (je_ModuleVersionRequirement job) (d_Version descriptor) of
           Some err \<Rightarrow> Inl (FailureCode_of err, err)
         | None \<Rightarrow>
             if d_RiskClass descriptor \<noteq> je_RiskClass job
             then Inl (FailureInvalidJob, ErrorText ''job risk class differs from the compiled module'')
             else if d_RequiredCapability descriptor \<noteq> [] \<and> \<not> Has (ex_Capabilities e) (d_RequiredCapability descriptor)
             then Inl (FailureCapabilityMissing, ErrorText ''required module capability is unavailable'')
             else (case mod_Validate m job of
                 Some err \<Rightarrow> Inl (FailureInvalidJob, err)
               | None \<Rightarrow> Inr m)))"

text \<open>
  The error, the report if the job was rejected, the module to execute if it was accepted, and
  the new state. Without an error the caller starts \<^verbatim>\<open>execute\<close> in a goroutine, which owns the
  slot taken here.
\<close>

definition Submit :: "run_env \<Rightarrow> JobEnvelope \<Rightarrow> Executor \<Rightarrow> (goerror \<times> report + exec_env Module) \<times> Executor" where
  "Submit env job e =
     (let (verr, v') = Verify (rn_libs env) (rn_now env) job (ex_Verifier e);
          e = e\<lparr>ex_Verifier := v'\<rparr>;
          refuse = (\<lambda>err code summary retryable e. let (rep, e') = reject env job code summary retryable e in (Inl (err, rep), e'))
      in case verr of
        Some err \<Rightarrow> refuse err (FailureCode_of err) (error_text err) False e
      | None \<Rightarrow> (case Submit_checks job e of
          Inl (code, err) \<Rightarrow> refuse err code (error_text err) False e
        | Inr m \<Rightarrow> (case chan_send (ex_slots e) of
            None \<Rightarrow> refuse (ErrorText ''no local execution slot is available'') FailureInternal
                      ''no local execution slot is available'' True e
          | Some slots \<Rightarrow> (case rn_startJob env of
              Some err \<Rightarrow> refuse err FailureInternal ''job start acknowledgement failed'' True
                (e\<lparr>ex_slots := (case chan_recv slots of Some s \<Rightarrow> s | None \<Rightarrow> slots)\<rparr>)
            | None \<Rightarrow> (Inr m, e\<lparr>ex_slots := slots\<rparr>)))))"

section \<open>Normalization of results\<close>

definition wire_observation :: "JobEnvelope \<Rightarrow> time \<Rightarrow> ModuleObservation \<Rightarrow> Observation" where
  "wire_observation job completedAt ob = \<lparr>ob_EvidenceID = None, ob_AssetID = je_AssetID job, ob_Category = mo_Kind ob,
     ob_Status = StatusInformational, ob_Severity = ''INFORMATIONAL'', ob_Confidence = ConfidenceHigh,
     ob_Title = mo_Message ob, ob_Summary = mo_Message ob,
     ob_Meaning = ''The module obtained this direct technical result from the authorized target.'',
     ob_Impact = ''Operational impact requires Control Plane correlation with other evidence and vantage points.'',
     ob_SuggestedAction = ''Review the structured technical evidence and compare with relevant observations.'',
     ob_ObservedAt = completedAt\<rparr>"

text \<open>A map of \<^verbatim>\<open>any\<close>, or of \<^verbatim>\<open>float64\<close>, as a member of the structured data; an empty list is the nil map.\<close>

definition data_value :: "(string \<times> json) list \<Rightarrow> string result" where
  "data_value d = (if d = [] then Inr ''null'' else marshal_map (map (\<lambda>(k, v). (k, Inr (marshal_json v))) d))"

definition metrics_value :: "(rat \<Rightarrow> string) \<Rightarrow> (string \<times> float64) list \<Rightarrow> string result" where
  "metrics_value ftoa ms = (if ms = [] then Inr ''null'' else marshal_map (map (\<lambda>(k, v). (k, float_value ftoa v)) ms))"

definition structured_observation :: "ModuleObservation \<Rightarrow> string result" where
  "structured_observation ob = marshal_map [(''category'', text_value (mo_Kind ob)),
     (''summary'', text_value (mo_Message ob)), (''data'', data_value (mo_Data ob))]"

definition wire_metric :: "time \<Rightarrow> string \<times> float64 \<Rightarrow> Metric" where
  "wire_metric completedAt m = (case m of (name, v) \<Rightarrow>
     \<lparr>me_Name = name, me_NumericValue = Some v, me_TextValue = [],
      me_Status = (if name = ''AVAILABILITY''
        then (if float_ge v 1 then StatusHealthy else StatusWarning) else StatusInformational),
      me_ObservedAt = completedAt\<rparr>)"

definition structured_data :: "(rat \<Rightarrow> string) \<Rightarrow> JobEnvelope \<Rightarrow> ModuleResult \<Rightarrow> (string \<times> string result) list" where
  "structured_data ftoa job result =
     [(''moduleId'', text_value (je_ModuleID job)), (''summary'', text_value (mr_Summary result)),
      (''observations'', marshal_slice structured_observation (mr_Observations result)),
      (''metrics'', metrics_value ftoa (mr_Metrics result)), (''truncated'', bool_value (mr_Truncated result))]"

definition wire_result :: "JobEnvelope \<Rightarrow> ModuleResult \<Rightarrow> string \<Rightarrow> EvidenceManifest \<Rightarrow> JobResult" where
  "wire_result job result resultIdentity manifest =
     \<lparr>jr_ProtocolVersion = Version, jr_ResultIdentity = resultIdentity, jr_ResultVersion = 1, jr_JobID = je_JobID job,
      jr_AgentID = je_AgentID job, jr_ModuleID = je_ModuleID job, jr_Status = ''SUCCEEDED'',
      jr_StartedAt = mr_StartedAt result, jr_CompletedAt = mr_CompletedAt result, jr_Summary = safeSummary (mr_Summary result),
      jr_Observations = map (\<lambda>ob. (wire_observation job (mr_CompletedAt result) ob)\<lparr>ob_EvidenceID := Some (ev_EvidenceID manifest)\<rparr>)
        (mr_Observations result),
      jr_Metrics = map (wire_metric (mr_CompletedAt result)) (filter (allowedMetric \<circ> fst) (mr_Metrics result)),
      jr_Warnings = mr_Warnings result, jr_EvidenceManifest = [manifest], jr_ToolVersion = mr_ToolVersion result,
      jr_Truncated = mr_Truncated result\<rparr>"

definition omission_warning :: string where
  "omission_warning = ''Detailed result exceeded the local protocol limit and was omitted.''"

definition reduced_result :: "JobResult \<Rightarrow> JobResult" where
  "reduced_result wire = wire\<lparr>jr_Observations := [], jr_EvidenceManifest := [],
     jr_Warnings := jr_Warnings wire @ [omission_warning], jr_Truncated := True\<rparr>"

text \<open>The error of the second \<^verbatim>\<open>json.Marshal\<close> is ignored: nil has length 0.\<close>

definition encoded_length :: "string result \<Rightarrow> int" where
  "encoded_length r = (case r of Inl _ \<Rightarrow> 0 | Inr t \<Rightarrow> int (length t))"

definition normalize_result :: "run_env \<Rightarrow> int \<Rightarrow> JobEnvelope \<Rightarrow> ModuleResult \<Rightarrow> JobResult result" where
  "normalize_result env maxBytes job result = (case NewID (rn_random1 env) of
      Inl err \<Rightarrow> Inl err
    | Inr resultIdentity \<Rightarrow>
        (case NewManifest (rn_libs env) (rn_random2 env) (je_ModuleID job) (mr_Summary result)
                (artifactKind (je_ModuleID job)) (Some (structured_data (rn_ftoa env) job result)) of
           Inl err \<Rightarrow> Inl err
         | Inr manifest \<Rightarrow>
             let wire = wire_result job result resultIdentity manifest in
             (case JobResult_json (rn_ftoa env) wire of
                Inl err \<Rightarrow> Inl err
              | Inr encoded \<Rightarrow>
                  if maxBytes < int (length encoded) then
                    (if maxBytes < encoded_length (JobResult_json (rn_ftoa env) (reduced_result wire))
                     then Inl (ErrorText ''result exceeds local protocol limit'')
                     else Inr (reduced_result wire))
                  else Inr wire)))"

section \<open>Execution\<close>

text \<open>
  The monitor polls until the context is done or a cancellation is seen; the list holds the
  answers it gets at its ticks before the context is done. It reports whether it cancelled.
\<close>

fun monitorCancellation :: "JobCancellation result list \<Rightarrow> bool" where
  "monitorCancellation [] = False"
| "monitorCancellation (status # ticks) = (case status of
      Inr c \<Rightarrow> if jc_CancellationRequested c then True else monitorCancellation ticks
    | Inl err \<Rightarrow> monitorCancellation ticks)"

definition exec_timeout :: "run_env \<Rightarrow> JobEnvelope \<Rightarrow> Executor \<Rightarrow> duration" where
  "exec_timeout env job e =
     (let timeout = int64_wrap (je_TimeoutSeconds job * time_Second);
          timeout = (if 0 < ex_MaxJobTimeout e \<and> ex_MaxJobTimeout e < timeout then ex_MaxJobTimeout e else timeout);
          remaining = time_Sub (je_ExpiresAt job) (rn_begin env)
      in if remaining < timeout then remaining else timeout)"

text \<open>After the module slot is taken: the cancellation check, the run of the module, and the report.\<close>

definition deliver_result :: "run_env \<Rightarrow> JobEnvelope \<Rightarrow> JobResult \<Rightarrow> Executor \<Rightarrow> report \<times> Executor" where
  "deliver_result env job wire e =
     (let err = rn_reportResult env wire;
          e1 = (if err \<noteq> None
                then e\<lparr>ex_Spool := snd (Enqueue (rn_io env) (ex_Queue e) ''result'' (JobResult_json (rn_ftoa env) wire) (ex_Spool e))\<rparr>
                else e)
      in (ResultReport wire (err = None), recordLast (je_JobID job) ''SUCCEEDED'' (jr_CompletedAt wire) e1))"

definition run_module :: "run_env \<Rightarrow> JobEnvelope \<Rightarrow> exec_env Module \<Rightarrow> Executor \<Rightarrow> report \<times> Executor" where
  "run_module env job m e =
     (case mod_Execute m (rn_exec env) job of
        (result, Some runErr) \<Rightarrow>
          if monitorCancellation (rn_ticks env)
          then reject env job FailureCancelled ''job cancellation was requested'' False e
          else let code = (if rn_ctxErr env = Some DeadlineExceeded then FailureTimeout else FailureProcessFailed)
               in reject env job code (safeSummary (error_text runErr)) (code = FailureInternal) e
      | (result, None) \<Rightarrow>
          let result = (if mr_StartedAt result = 0 then result\<lparr>mr_StartedAt := rn_started env\<rparr> else result);
              result = (if mr_CompletedAt result = 0 then result\<lparr>mr_CompletedAt := rn_completed env\<rparr> else result)
          in (case normalize_result env (ex_MaxResultBytes e) job result of
                Inl err \<Rightarrow> reject env job FailureInternal ''result normalization failed'' False e
              | Inr wire \<Rightarrow> deliver_result env job wire e))"

definition execute_held :: "run_env \<Rightarrow> JobEnvelope \<Rightarrow> exec_env Module \<Rightarrow> Executor \<Rightarrow> report \<times> Executor" where
  "execute_held env job m e =
     (case rn_cancellation env of
        Inr c \<Rightarrow> if jc_CancellationRequested c
          then reject env job FailureCancelled ''job cancellation was requested'' False e
          else run_module env job m e
      | Inl err \<Rightarrow> run_module env job m e)"

text \<open>The deferred \<^verbatim>\<open>release()\<close> and \<^verbatim>\<open><-e.slots\<close>.\<close>

definition release_module :: "JobEnvelope \<Rightarrow> Executor \<Rightarrow> Executor" where
  "release_module job e = (case release (je_ModuleID job) (ex_Registry e) of
      Some r \<Rightarrow> e\<lparr>ex_Registry := r\<rparr> | None \<Rightarrow> e)"

definition release_slot :: "Executor \<Rightarrow> Executor" where
  "release_slot e = (case chan_recv (ex_slots e) of Some c \<Rightarrow> e\<lparr>ex_slots := c\<rparr> | None \<Rightarrow> e)"

text \<open>
  The whole handler, for a run during which \<^verbatim>\<open>Acquire\<close> returns; \<open>None\<close> when it would wait for
  ever (no slot becomes free and the context never ends).
\<close>

definition execute :: "run_env \<Rightarrow> JobEnvelope \<Rightarrow> exec_env Module \<Rightarrow> Executor \<Rightarrow> (report \<times> Executor) option" where
  "execute env job m e =
     (if exec_timeout env job e \<le> 0
      then (let (rep, e1) = reject env job FailureJobExpired ''job expired before execution'' False e
            in Some (rep, release_slot e1))
      else case Acquire (rn_acquireCtx env) (rn_acquirePick env) (je_ModuleID job) (ex_Registry e) of
        None \<Rightarrow> None
      | Some (Inl err) \<Rightarrow>
          (let (rep, e1) = reject env job FailureInternal ''module execution slot could not be reserved'' True e
           in Some (rep, release_slot e1))
      | Some (Inr r) \<Rightarrow>
          (let (rep, e1) = execute_held env job m (e\<lparr>ex_Registry := r\<rparr>)
           in Some (rep, release_slot (release_module job e1))))"

section \<open>Summaries\<close>

lemma replace_char_gone: "a \<noteq> b \<Longrightarrow> a \<notin> set (replace_char a b s)"
  by (auto simp: replace_char_def)

lemma set_replace_char: "c \<in> set (replace_char a b s) \<Longrightarrow> c = b \<or> c \<in> set s"
  by (auto simp: replace_char_def split: if_splits)

lemma flattened_clean:
  "set (replace_char (CHR 0x0A) (CHR '' '') (replace_char (CHR 0x0D) (CHR '' '') v)) \<inter> {CHR 0x0A, CHR 0x0D} = {}"
proof -
  have "CHR 0x0A \<notin> set (replace_char (CHR 0x0A) (CHR '' '') w)" for w by (rule replace_char_gone) simp
  moreover have "CHR 0x0D \<notin> set (replace_char (CHR 0x0A) (CHR '' '') (replace_char (CHR 0x0D) (CHR '' '') v))"
    using replace_char_gone [of "CHR 0x0D" "CHR '' ''" v] set_replace_char by fastforce
  ultimately show ?thesis by auto
qed

text \<open>
  Every summary the agent reports is one line of at most 2000 bytes and never empty,
  whatever text a module or an error carries.
\<close>

theorem summaries_are_one_bounded_line:
  "safeSummary v \<noteq> [] \<and> length (safeSummary v) \<le> 2000 \<and> set (safeSummary v) \<inter> {CHR 0x0A, CHR 0x0D} = {}"
proof -
  define w where "w = strings_TrimSpace (replace_char (CHR 0x0A) (CHR '' '') (replace_char (CHR 0x0D) (CHR '' '') v))"
  define u where "u = (if w = [] then ''Agent could not complete the requested operation.'' else w)"
  have "set w \<inter> {CHR 0x0A, CHR 0x0D} = {}"
    using flattened_clean [of v] set_strings_TrimSpace
      [of "replace_char (CHR 0x0A) (CHR '' '') (replace_char (CHR 0x0D) (CHR '' '') v)"]
    unfolding w_def by (simp add: disjoint_iff subset_iff)
  then have u: "u \<noteq> []" "set u \<inter> {CHR 0x0A, CHR 0x0D} = {}" by (auto simp: u_def)
  have s: "safeSummary v = (if 2000 < length u then take 2000 u else u)"
    unfolding safeSummary_def Let_def u_def w_def by simp
  have "set (take 2000 u) \<subseteq> set u" by (rule set_take_subset)
  with u show ?thesis unfolding s by auto
qed

section \<open>Results\<close>

lemma JobResult_json_reduced:
  assumes "JobResult_json ftoa wire = Inr t"
  shows "\<exists>t'. JobResult_json ftoa (reduced_result wire) = Inr t'"
proof -
  have "\<exists>t. JobResult_json ftoa wire = Inr t" using assms by blast
  then show ?thesis
    by (auto simp: JobResult_json_def marshal_struct_Inr_iff marshal_slice_Inr_iff reduced_result_def omit_empty_def)
qed

lemma normalize_result_Inr [accepts]:
  assumes "normalize_result env maxBytes job result = Inr wire"
  shows "\<exists>i m w t. NewID (rn_random1 env) = Inr i \<and> w = wire_result job result i m
    \<and> NewManifest (rn_libs env) (rn_random2 env) (je_ModuleID job) (mr_Summary result)
                (artifactKind (je_ModuleID job)) (Some (structured_data (rn_ftoa env) job result)) = Inr m
    \<and> JobResult_json (rn_ftoa env) wire = Inr t \<and> int (length t) \<le> maxBytes
    \<and> (wire = w \<or> wire = reduced_result w \<and> (\<exists>t0. JobResult_json (rn_ftoa env) w = Inr t0 \<and> maxBytes < int (length t0)))"
proof -
  from assms obtain i m t0 where i: "NewID (rn_random1 env) = Inr i"
    and m: "NewManifest (rn_libs env) (rn_random2 env) (je_ModuleID job) (mr_Summary result)
                (artifactKind (je_ModuleID job)) (Some (structured_data (rn_ftoa env) job result)) = Inr m"
    and t0: "JobResult_json (rn_ftoa env) (wire_result job result i m) = Inr t0"
    and alt: "if maxBytes < int (length t0)
      then wire = reduced_result (wire_result job result i m) \<and> encoded_length (JobResult_json (rn_ftoa env) wire) \<le> maxBytes
      else wire = wire_result job result i m"
    by (auto simp: normalize_result_def Let_def split: sum.splits if_splits)
  show ?thesis
  proof (cases "maxBytes < int (length t0)")
    case True
    with alt JobResult_json_reduced [OF t0] obtain t where "JobResult_json (rn_ftoa env) wire = Inr t" by auto
    with True alt i m t0 show ?thesis by (auto simp: encoded_length_def)
  next
    case False
    with alt i m t0 show ?thesis by auto
  qed
qed

lemma reported_result_fields:
  assumes "normalize_result env maxBytes job result = Inr wire"
  shows "jr_JobID wire = je_JobID job \<and> jr_AgentID wire = je_AgentID job \<and> jr_ModuleID wire = je_ModuleID job
    \<and> jr_Status wire = ''SUCCEEDED''"
  using normalize_result_Inr [OF assms] by (auto simp: wire_result_def reduced_result_def)

text \<open>
  C32: a result the agent reports has an encoding within the configured limit; it names the job,
  agent and module of the envelope and the status SUCCEEDED, and carries only metrics of the
  protocol's list. Its details are dropped only when the full result is over the limit, and
  then it says so and is marked as truncated.
\<close>

theorem reported_result_fits_limit:
  assumes "normalize_result env maxBytes job result = Inr wire"
  shows "(\<exists>t. JobResult_json (rn_ftoa env) wire = Inr t \<and> int (length t) \<le> maxBytes)
    \<and> jr_JobID wire = je_JobID job \<and> jr_AgentID wire = je_AgentID job \<and> jr_ModuleID wire = je_ModuleID job
    \<and> jr_Status wire = ''SUCCEEDED''
    \<and> (\<forall>m\<in>set (jr_Metrics wire). allowedMetric (me_Name m))
    \<and> (length (jr_Observations wire) = length (mr_Observations result) \<and> jr_Truncated wire = mr_Truncated result
       \<or> jr_Observations wire = [] \<and> jr_Truncated wire \<and> omission_warning \<in> set (jr_Warnings wire))"
proof -
  from normalize_result_Inr [OF assms] obtain i m w t where w: "w = wire_result job result i m"
    and t: "JobResult_json (rn_ftoa env) wire = Inr t" "int (length t) \<le> maxBytes"
    and alt: "wire = w \<or> wire = reduced_result w" by blast
  from alt show ?thesis
  proof
    assume "wire = w"
    then show ?thesis using t by (auto simp: w wire_result_def wire_metric_def)
  next
    assume "wire = reduced_result w"
    then show ?thesis using t by (auto simp: w wire_result_def reduced_result_def wire_metric_def)
  qed
qed

section \<open>Time limits\<close>

text \<open>
  The time a job is given is never more than the job's own timeout, the local maximum, or
  what is left until the job expires; a job of an accepted envelope is run only if it has not
  expired when its goroutine starts.
\<close>

theorem execution_time_is_bounded:
  assumes "1 \<le> je_TimeoutSeconds job" and "je_TimeoutSeconds job \<le> 14400"
  shows "exec_timeout env job e \<le> je_TimeoutSeconds job * time_Second
    \<and> (0 < ex_MaxJobTimeout e \<longrightarrow> exec_timeout env job e \<le> ex_MaxJobTimeout e)
    \<and> exec_timeout env job e \<le> time_Sub (je_ExpiresAt job) (rn_begin env)
    \<and> (0 \<le> ex_MaxJobTimeout e \<longrightarrow> (0 < exec_timeout env job e \<longleftrightarrow> rn_begin env < je_ExpiresAt job))"
proof -
  have wrap: "int64_wrap (je_TimeoutSeconds job * time_Second) = je_TimeoutSeconds job * time_Second"
    using assms by (simp add: int64_wrap_id time_Second_def)
  have pos: "0 < je_TimeoutSeconds job * time_Second" using assms(1) by (simp add: time_Second_def)
  show ?thesis
    using pos time_Sub_pos_iff [of "je_ExpiresAt job" "rn_begin env"]
    unfolding exec_timeout_def Let_def wrap by (auto simp: not_less simp del: time_Sub_pos_iff)
qed

section \<open>Admission\<close>

lemma Submit_checks_Inr [accepts]:
  assumes "Submit_checks job e = Inr m"
  shows "Get (ex_Registry e) (je_ModuleID job) = Some m \<and> je_ModuleVersionRequirement job = d_Version (mod_Descriptor m)
    \<and> d_RiskClass (mod_Descriptor m) = je_RiskClass job
    \<and> (d_RequiredCapability (mod_Descriptor m) \<noteq> [] \<longrightarrow> Has (ex_Capabilities e) (d_RequiredCapability (mod_Descriptor m)))
    \<and> mod_Validate m job = None"
  using assms
  by (auto simp: Submit_checks_def Let_def ValidateModuleVersion_def split: option.splits if_splits)

lemma reject_fields [simp]:
  "ex_Registry (snd (reject env job code summary retryable e)) = ex_Registry e"
  "ex_Verifier (snd (reject env job code summary retryable e)) = ex_Verifier e"
  "ex_Capabilities (snd (reject env job code summary retryable e)) = ex_Capabilities e"
  "ex_Queue (snd (reject env job code summary retryable e)) = ex_Queue e"
  "ex_slots (snd (reject env job code summary retryable e)) = ex_slots e"
  "ex_MaxJobTimeout (snd (reject env job code summary retryable e)) = ex_MaxJobTimeout e"
  "ex_MaxResultBytes (snd (reject env job code summary retryable e)) = ex_MaxResultBytes e"
  by (simp_all add: reject_def Let_def recordLast_def)

lemma send_recv: "chan_send c = Some c' \<Longrightarrow> chan_recv c' = Some c"
  by (auto simp: chan_send_def chan_recv_def split: if_splits)

text \<open>Every way through \<^verbatim>\<open>Submit\<close>.\<close>

lemma Submit_cases:
  assumes "Submit env job e = (res, e')"
  obtains (refused) err code summary retryable e1
    where "res = Inl (err, fst (reject env job code summary retryable e1))"
      "e' = snd (reject env job code summary retryable e1)"
      "e1 = e\<lparr>ex_Verifier := snd (Verify (rn_libs env) (rn_now env) job (ex_Verifier e))\<rparr>"
      "retryable \<longrightarrow> fst (Verify (rn_libs env) (rn_now env) job (ex_Verifier e)) = None \<and> code = FailureInternal"
  | (accepted) m slots where "res = Inr m" "fst (Verify (rn_libs env) (rn_now env) job (ex_Verifier e)) = None"
      "Submit_checks job (e\<lparr>ex_Verifier := snd (Verify (rn_libs env) (rn_now env) job (ex_Verifier e))\<rparr>) = Inr m"
      "chan_send (ex_slots e) = Some slots" "rn_startJob env = None"
      "e' = e\<lparr>ex_Verifier := snd (Verify (rn_libs env) (rn_now env) job (ex_Verifier e)), ex_slots := slots\<rparr>"
proof -
  obtain verr v' where V: "Verify (rn_libs env) (rn_now env) job (ex_Verifier e) = (verr, v')" by fastforce
  let ?e = "e\<lparr>ex_Verifier := v'\<rparr>"
  show thesis
  proof (cases verr)
    case (Some err)
    with assms V show thesis
      by (intro refused [of err "FailureCode_of err" "error_text err" False ?e])
        (auto simp: Submit_def Let_def split: prod.splits)
  next
    case None
    show thesis
    proof (cases "Submit_checks job ?e")
      case (Inl ce)
      obtain code err where ce: "ce = (code, err)" by fastforce
      with Inl None assms V show thesis
        by (intro refused [of err code "error_text err" False ?e]) (auto simp: Submit_def Let_def split: prod.splits)
    next
      case (Inr m)
      show thesis
      proof (cases "chan_send (ex_slots e)")
        case None
        with Inr \<open>verr = None\<close> assms V show thesis
          by (intro refused [of "ErrorText ''no local execution slot is available''" FailureInternal
                "''no local execution slot is available''" True ?e])
            (auto simp: Submit_def Let_def split: prod.splits)
      next
        case (Some slots)
        show thesis
        proof (cases "rn_startJob env")
          case None
          with Some Inr \<open>verr = None\<close> assms V show thesis by (intro accepted [of m slots]) (auto simp: Submit_def Let_def)
        next
          case (Some err)
          with \<open>chan_send (ex_slots e) = Some slots\<close> Inr \<open>verr = None\<close> assms V show thesis
            by (intro refused [of err FailureInternal "''job start acknowledgement failed''" True ?e])
              (auto simp: Submit_def Let_def send_recv split: prod.splits)
        qed
      qed
    qed
  qed
qed

text \<open>
  C8: a job is started only if it passes verification, names a compiled module at exactly its
  version and risk class, the module's capability was discovered, the module accepts the job,
  a slot was free and the control plane acknowledged the start. Otherwise exactly one failure
  is reported for that job and no slot stays taken.
\<close>

theorem submit_starts_only_checked_jobs:
  assumes "Submit env job e = (res, e')"
  shows "(case res of
      Inr m \<Rightarrow> Verify_checks (rn_libs env) (rn_now env) (ex_Verifier e) job = None
        \<and> Get (ex_Registry e) (je_ModuleID job) = Some m \<and> je_ModuleVersionRequirement job = d_Version (mod_Descriptor m)
        \<and> d_RiskClass (mod_Descriptor m) = je_RiskClass job
        \<and> (d_RequiredCapability (mod_Descriptor m) \<noteq> [] \<longrightarrow> Has (ex_Capabilities e) (d_RequiredCapability (mod_Descriptor m)))
        \<and> mod_Validate m job = None \<and> rn_startJob env = None
        \<and> Running e' = Running e + 1 \<and> Running e < ch_cap (ex_slots e)
    | Inl (err, rep) \<Rightarrow> (\<exists>f ok. rep = FailureReport f ok \<and> jf_JobID f = je_JobID job) \<and> Running e' = Running e)"
  using assms
proof (cases rule: Submit_cases)
  case (refused err code summary retryable e1)
  then show ?thesis
    by (auto simp: Running_def reject_def Let_def recordLast_def)
next
  case (accepted m slots)
  then show ?thesis
    using Submit_checks_Inr [OF accepted(3)] chan.take_SomeD [OF accepted(4)]
    by (simp add: Running_def fst_Verify_None)
qed

section \<open>A sample executor\<close>

definition sample_manifest :: CapabilityManifest where
  "sample_manifest = \<lparr>cm_ProtocolVersion = Version, cm_AgentID = [], cm_Platform = ''linux/amd64'', cm_Modules = [],
     cm_ExternalTools = [], cm_NetworkCapabilities = [''tcp''], cm_ArtifactCapabilities = []\<rparr>"

definition sample_executor :: Executor where
  "sample_executor = \<lparr>ex_Registry = registry_of [tcp_module no_url], ex_Verifier = sample_verifier,
     ex_Capabilities = \<lparr>rep_Manifest = sample_manifest, rep_available = [''tcp'' \<mapsto> True]\<rparr>,
     ex_Queue = sample_queue, ex_Spool = [], ex_MaxJobTimeout = 3600 * time_Second, ex_MaxResultBytes = 100000,
     ex_slots = \<lparr>ch_cap = 2, ch_len = 0\<rparr>, ex_lastResult = None\<rparr>"

definition sample_run :: run_env where
  "sample_run = \<lparr>rn_libs = sample_libs, rn_ftoa = (\<lambda>_. ''1''), rn_now = 2000, rn_startJob = None,
     rn_reportFailure = (\<lambda>_. None), rn_reportResult = (\<lambda>_. None), rn_io = sample_io, rn_failedAt = 2500,
     rn_begin = 2100, rn_acquireCtx = None, rn_acquirePick = True, rn_cancellation = Inl Canceled, rn_started = 2200,
     rn_exec = sample_env, rn_ticks = [], rn_ctxErr = None, rn_completed = 2300,
     rn_random1 = Inr (replicate 16 (CHR 0x00)), rn_random2 = Inr (replicate 16 (CHR 0x01))\<rparr>"

definition sample_tcp_envelope :: JobEnvelope where
  "sample_tcp_envelope = sample_job\<lparr>je_ValidatedParameters := je_ValidatedParameters sample_tcp_job\<rparr>"

lemma sample_normalized:
  "map_result jr_Status (normalize_result sample_run 100000 sample_tcp_envelope (fst (tcp_Execute no_url sample_env sample_tcp_envelope)))
     = Inr ''SUCCEEDED''"
  by code_simp

lemma sample_submitted: "isl (fst (Submit sample_run sample_tcp_envelope sample_executor)) = False"
  by code_simp

theorem reported_result_fits_limit_witness:
  "\<exists>wire. normalize_result sample_run 100000 sample_tcp_envelope (fst (tcp_Execute no_url sample_env sample_tcp_envelope)) = Inr wire
     \<and> jr_JobID wire = je_JobID sample_tcp_envelope \<and> (\<forall>m\<in>set (jr_Metrics wire). allowedMetric (me_Name m))"
proof -
  obtain wire where w: "normalize_result sample_run 100000 sample_tcp_envelope
      (fst (tcp_Execute no_url sample_env sample_tcp_envelope)) = Inr wire"
    using sample_normalized by (auto simp: map_result_def split: sum.splits)
  then show ?thesis using reported_result_fits_limit [OF w] by blast
qed

theorem execution_time_is_bounded_witness:
  "exec_timeout sample_run sample_tcp_envelope sample_executor \<le> 60 * time_Second
   \<and> 0 < exec_timeout sample_run sample_tcp_envelope sample_executor"
  using execution_time_is_bounded [of sample_tcp_envelope sample_run sample_executor]
  by (simp add: sample_tcp_envelope_def sample_job_def sample_executor_def sample_run_def time_Second_def)

theorem submit_starts_only_checked_jobs_witness:
  "\<exists>m e'. Submit sample_run sample_tcp_envelope sample_executor = (Inr m, e') \<and> mod_Validate m sample_tcp_envelope = None
     \<and> Running e' = 1"
proof -
  obtain res e' where "Submit sample_run sample_tcp_envelope sample_executor = (res, e')" by fastforce
  with sample_submitted obtain m where r: "Submit sample_run sample_tcp_envelope sample_executor = (Inr m, e')"
    by (cases res) simp_all
  then show ?thesis using submit_starts_only_checked_jobs [OF r] by (simp add: Running_def sample_executor_def)
qed

section \<open>Refusals that invite a retry\<close>

lemma Verify_checks_later:
  assumes "Verify_checks L now v job = None" and "now \<le> later" and "later < je_ExpiresAt job"
    and "v_AgentID v' = v_AgentID v" "v_OrganizationID v' = v_OrganizationID v" "v_TrustedKeys v' = v_TrustedKeys v"
      "v_RequireSigned v' = v_RequireSigned v"
  shows "Verify_checks L later v' job = None"
  using assms(1,2,3) unfolding Verify_checks_iff assms(4-7) by (elim conjE) (intro conjI; (assumption | linarith))

lemma Verify_again:
  assumes "fst (Verify L now job v) = None" and "now \<le> later" and "later < je_ExpiresAt job"
  shows "fst (Verify L later job (snd (Verify L now job v))) = fail FailureReplay ''job nonce was already accepted''"
proof -
  let ?v = "snd (Verify L now job v)"
  from assms(1) have c: "Verify_checks L now v job = None" and a: "fst (admit_nonce now job v) = None"
    by (simp_all add: fst_Verify_None)
  then have "v_seen ?v = (je_Nonce job, je_ExpiresAt job) # filter (\<lambda>(_, e). now < e) (v_seen v)"
    unfolding admit_nonce_accept_iff by (simp add: Verify_def admit_nonce_def Let_def)
  moreover have "Verify_checks L later ?v job = None"
    using c assms(2,3) by (rule Verify_checks_later) (simp_all add: Verify_frame)
  ultimately show ?thesis using assms(3) by (simp add: Verify_def admit_nonce_def Let_def)
qed

text \<open>
  C37: a refusal that the agent marks as retryable is final for that envelope. Its nonce has been
  taken by then, so the same envelope, submitted again before it expires, is answered with
  REPLAY_REJECTED, which is not retryable.
\<close>

theorem retryable_refusal_is_final:
  assumes "Submit env job e = (Inl (err, FailureReport f ok), e')" and "jf_Retryable f"
    and "rn_libs env' = rn_libs env" and "rn_now env \<le> rn_now env'" and "rn_now env' < je_ExpiresAt job"
  shows "\<exists>err' f' ok'. fst (Submit env' job e') = Inl (err', FailureReport f' ok')
    \<and> jf_Code f' = FailureReplay \<and> \<not> jf_Retryable f'"
  using assms(1)
proof (cases rule: Submit_cases)
  case (refused err1 code summary retryable e1)
  with assms(2) have retryable by (auto simp: reject_def Let_def)
  with refused have acc: "fst (Verify (rn_libs env) (rn_now env) job (ex_Verifier e)) = None" by simp
  from refused have v: "ex_Verifier e' = snd (Verify (rn_libs env) (rn_now env) job (ex_Verifier e))" by simp
  have "fst (Verify (rn_libs env') (rn_now env') job (ex_Verifier e')) = fail FailureReplay ''job nonce was already accepted''"
    unfolding v assms(3) using acc assms(4,5) by (rule Verify_again)
  then show ?thesis
    by (auto simp: Submit_def Let_def fail_def reject_def FailureCode_of_def split: prod.splits)
next
  case (accepted m slots)
  then show ?thesis by simp
qed

theorem retryable_refusal_is_final_witness:
  "let busy = sample_executor\<lparr>ex_slots := \<lparr>ch_cap = 1, ch_len = 1\<rparr>\<rparr>;
       e' = snd (Submit sample_run sample_tcp_envelope busy)
   in \<exists>err' f' ok'. fst (Submit (sample_run\<lparr>rn_now := 2600\<rparr>) sample_tcp_envelope e') = Inl (err', FailureReport f' ok')
     \<and> jf_Code f' = FailureReplay"
proof -
  let ?busy = "sample_executor\<lparr>ex_slots := \<lparr>ch_cap = 1, ch_len = 1\<rparr>\<rparr>"
  obtain res e' where r: "Submit sample_run sample_tcp_envelope ?busy = (res, e')" by fastforce
  have "(case fst (Submit sample_run sample_tcp_envelope ?busy) of Inl (err, FailureReport f ok) \<Rightarrow> jf_Retryable f | _ \<Rightarrow> False)"
    by code_simp
  with r obtain err f ok where res: "res = Inl (err, FailureReport f ok)" and f: "jf_Retryable f"
    by (auto split: sum.splits prod.splits report.splits)
  show ?thesis
    using retryable_refusal_is_final [OF r [unfolded res] f, of "sample_run\<lparr>rn_now := 2600\<rparr>"] r
    by (auto simp: sample_run_def sample_tcp_envelope_def sample_job_def)
qed

section \<open>Cancellation\<close>

text \<open>
  A cancellation that the control plane requests before the module runs, or that makes the
  running module fail, is reported as CANCELLED; but one that the monitor sees while the module
  completes without an error has no effect on the report, which is that of an undisturbed run.
\<close>

theorem cancellation_reporting:
  "(\<forall>c. rn_cancellation env = Inr c \<and> jc_CancellationRequested c \<longrightarrow>
       execute_held env job m e = reject env job FailureCancelled ''job cancellation was requested'' False e)
   \<and> (rn_cancellation env = Inl nocheck \<and> monitorCancellation (rn_ticks env) \<longrightarrow>
       execute_held env job m e =
         (if snd (mod_Execute m (rn_exec env) job) \<noteq> None
          then reject env job FailureCancelled ''job cancellation was requested'' False e
          else execute_held (env\<lparr>rn_ticks := []\<rparr>) job m e))"
proof -
  have frame: "reject (env\<lparr>rn_ticks := ticks\<rparr>) job code summary r e = reject env job code summary r e"
    "normalize_result (env\<lparr>rn_ticks := ticks\<rparr>) n job result = normalize_result env n job result"
    "deliver_result (env\<lparr>rn_ticks := ticks\<rparr>) job wire e = deliver_result env job wire e"
    for ticks code summary r n result wire
    by (simp_all add: reject_def normalize_result_def deliver_result_def Let_def split: sum.split)
  show ?thesis
    by (auto simp: execute_held_def run_module_def frame Let_def split: prod.split) (simp_all add: frame split: sum.split)
qed

definition sample_cancellation :: JobCancellation where
  "sample_cancellation = \<lparr>jc_ProtocolVersion = Version, jc_JobID = je_JobID sample_job, jc_CancellationRequested = True,
     jc_RequestedAt = None, jc_JobStatus = ''CANCELLED''\<rparr>"

theorem cancellation_reporting_witness:
  "fst (execute_held (sample_run\<lparr>rn_ticks := [Inr sample_cancellation]\<rparr>) sample_tcp_envelope (tcp_module no_url) sample_executor)
     = fst (execute_held sample_run sample_tcp_envelope (tcp_module no_url) sample_executor)"
proof -
  have "rn_cancellation sample_run = Inl Canceled" "snd (mod_Execute (tcp_module no_url) (rn_exec sample_run) sample_tcp_envelope) = None"
    "rn_ticks sample_run = []"
    by (simp_all add: sample_run_def tcp_module_def tcp_Execute_def Let_def sample_env_def)
  then show ?thesis
    using cancellation_reporting [of "sample_run\<lparr>rn_ticks := [Inr sample_cancellation]\<rparr>" sample_tcp_envelope
        "tcp_module no_url" sample_executor Canceled] by (simp add: sample_run_def sample_cancellation_def)
qed

end
