(* ===== verification/JsonText.thy ===== *)
theory JsonText
  imports Encoding
begin

text \<open>
  Reading back what \<^verbatim>\<open>encoding/json\<close> writes: the decoder inverts the encoder on strings, literals,
  integers, and on the objects and arrays built from them, and a text the encoder wrote is left
  unchanged when it is written again as a \<^verbatim>\<open>json.RawMessage\<close>. The spool and the stored identity
  rest on these facts.
\<close>

section \<open>Fuel-free equations of the parser\<close>

definition pv :: "nat \<Rightarrow> string \<Rightarrow> (json \<times> string) option" where
  "pv d s = parse_value (2 * length s + 1) d s"

definition pe :: "nat \<Rightarrow> string \<Rightarrow> (json list \<times> string) option" where
  "pe d s = parse_elements (2 * length s + 2) d s"

definition pm :: "nat \<Rightarrow> string \<Rightarrow> ((string \<times> json) list \<times> string) option" where
  "pm d s = parse_members (2 * length s + 1) d s"

lemma pv_fuel: "2 * length s + 1 \<le> n \<Longrightarrow> parse_value n d s = pv d s"
  unfolding pv_def using parse_fuel_bounds [of s] by blast

lemma pe_fuel: "2 * length s + 2 \<le> n \<Longrightarrow> parse_elements n d s = pe d s"
  unfolding pe_def using parse_fuel_bounds [of s] by blast

lemma pm_fuel: "2 * length s + 1 \<le> n \<Longrightarrow> parse_members n d s = pm d s"
  unfolding pm_def using parse_fuel_bounds [of s] by blast

lemma pv_object:
  assumes "skip_ws s = CHR 0x7B # cs" and "take 1 (skip_ws cs) \<noteq> [CHR 0x7D]" and "0 < d"
  shows "pv d s = map_option (\<lambda>(ms, t). (JObject ms, t)) (pm (d - 1) cs)"
  using assms skip_ws_ConsD [OF assms(1)] by (simp add: pv_def parse_value.simps pm_fuel)

lemma pv_array:
  assumes "skip_ws s = CHR 0x5B # cs" and "take 1 (skip_ws cs) \<noteq> [CHR 0x5D]" and "0 < d"
  shows "pv d s = map_option (\<lambda>(vs, t). (JArray vs, t)) (pe (d - 1) cs)"
  using assms skip_ws_ConsD [OF assms(1)] by (simp add: pv_def parse_value.simps pe_fuel)

lemma pv_string:
  assumes "skip_ws s = CHR 0x22 # cs"
  shows "pv d s = map_option (\<lambda>(r, t). (JString (unquote r), t)) (scan_string cs)"
  using assms by (simp add: pv_def parse_value.simps)

lemma pm_step:
  assumes "skip_ws s = CHR 0x22 # t" and "scan_string t = Some (k, t1)" and "skip_ws t1 = CHR '':'' # t2"
    and "pv d t2 = Some (v, t3)" and "skip_ws t3 = c # cs"
  shows "pm d s = (if c = CHR '','' then map_option (\<lambda>(ms, u). ((unquote k, v) # ms, u)) (pm d cs)
    else if c = CHR 0x7D then Some ([(unquote k, v)], cs) else None)"
proof -
  have l2: "length t2 < length s"
    using skip_ws_ConsD [OF assms(1)] scan_string_progress [OF assms(2)] skip_ws_ConsD [OF assms(3)] by simp
  have l3: "length t3 < length t2" using parse_progress(1) assms(4) unfolding pv_def by blast
  then have "length cs < length s" using l2 skip_ws_ConsD [OF assms(5)] by simp
  then show ?thesis using assms l2 by (simp add: pm_def [of d s] parse_members.simps pv_fuel pm_fuel Let_def)
qed

lemma pe_step:
  assumes "pv d s = Some (v, t)" and "skip_ws t = c # cs"
  shows "pe d s = (if c = CHR '','' then map_option (\<lambda>(vs, u). (v # vs, u)) (pe d cs)
    else if c = CHR 0x5D then Some ([v], cs) else None)"
proof -
  have "length t < length s" using parse_progress(1) assms(1) unfolding pv_def by blast
  then have "length cs < length s" using skip_ws_ConsD [OF assms(2)] by simp
  moreover have "pe d s = parse_elements (Suc (2 * length s + 1)) d s" by (simp add: pe_def)
  ultimately show ?thesis using assms unfolding parse_elements.simps(2) by (simp add: pv_fuel pe_fuel)
qed

lemma pv_blank: "skip_ws s = [] \<Longrightarrow> pv d s = None"
  by (simp add: pv_def parse_value.simps)

lemma json_Decode_pv: "pv max_nesting_depth s = Some (v, rest) \<Longrightarrow> json_Decode s = DecValue v rest"
  using pv_blank [of s] by (auto simp: json_Decode_def parse_fuel_def pv_fuel)

section \<open>Strings\<close>

text \<open>A string with its invalid bytes replaced by U+FFFD, and the strings this leaves alone.\<close>

fun clean_utf8 :: "string \<Rightarrow> string" where
  "clean_utf8 [] = []"
| "clean_utf8 (c # cs) =
     (if ccode c < 128 then c # clean_utf8 cs
      else let w = rune_width (c # cs) in
        if w = 0 then replacement_char @ clean_utf8 cs else take w (c # cs) @ clean_utf8 (drop (w - 1) cs))"

definition valid_utf8 :: "string \<Rightarrow> bool" where
  "valid_utf8 s \<longleftrightarrow> clean_utf8 s = s"

lemma valid_utf8_ascii: "list_all (\<lambda>c. ccode c < 128) s \<Longrightarrow> valid_utf8 s"
  unfolding valid_utf8_def by (induction s) auto

text \<open>The bytes of a rune beyond ASCII.\<close>

lemma rune_split:
  assumes w: "rune_width (c # cs) = w" and "w \<noteq> 0" and c: "128 \<le> ccode c"
  obtains xs u where "cs = xs @ u" "w = Suc (length xs)" "xs \<noteq> []" "\<forall>x\<in>set xs. 128 \<le> ccode x \<and> ccode x \<le> 191"
    "ccode c = 226 \<longrightarrow> length xs = 2" "\<forall>u'. rune_width (c # xs @ u') = w"
proof -
  note defs = rune_width_def utf8_cont_def Let_def
  from assms consider (two) "w = 2" | (three) "w = 3" | (four) "w = 4" by (auto simp: defs split: if_splits)
  then show thesis
  proof cases
    case two
    then obtain a r where cs: "cs = a # r" using w c by (cases cs) (auto simp: defs split: if_splits)
    from w two have lead: "ccode c \<le> 223" by (auto simp: defs split: if_splits)
    have "rune_width (c # a # u) = rune_width (c # a # r)" for u using lead by (simp add: defs)
    moreover have "128 \<le> ccode a \<and> ccode a \<le> 191" using w c lead two unfolding cs by (auto simp: defs split: if_splits)
    ultimately show thesis using that [of "[a]" r] w two lead cs by simp
  next
    case three
    then obtain a b r where cs: "cs = a # b # r"
      using w c by (cases cs; cases "tl cs") (auto simp: defs split: if_splits)
    from w three have lead: "ccode c < 240" by (auto simp: defs split: if_splits)
    have "rune_width (c # a # b # u) = rune_width (c # a # b # r)" for u using lead by (simp add: defs)
    moreover have "128 \<le> ccode a \<and> ccode a \<le> 191 \<and> 128 \<le> ccode b \<and> ccode b \<le> 191"
      using w three unfolding cs by (simp add: defs split: if_splits)
    ultimately show thesis using that [of "[a, b]" r] w three cs by simp
  next
    case four
    then obtain a b e r where cs: "cs = a # b # e # r"
      using w c by (cases cs; cases "tl cs"; cases "tl (tl cs)") (auto simp: defs split: if_splits)
    from w four have lead: "240 \<le> ccode c" by (auto simp: defs split: if_splits)
    have "rune_width (c # a # b # e # u) = rune_width (c # a # b # e # r)" for u by (simp add: defs)
    moreover have "128 \<le> ccode a \<and> ccode a \<le> 191 \<and> 128 \<le> ccode b \<and> ccode b \<le> 191 \<and> 128 \<le> ccode e \<and> ccode e \<le> 191"
      using w four lead unfolding cs by (simp add: defs split: if_splits)
    ultimately show thesis using that [of "[a, b, e]" r] w four cs lead by simp
  qed
qed

definition separators :: "string list" where
  "separators = [[CHR 0xE2, CHR 0x80, CHR 0xA8], [CHR 0xE2, CHR 0x80, CHR 0xA9]]"

text \<open>The bytes of one rune beyond ASCII, in whatever context.\<close>

definition high_rune :: "string \<Rightarrow> bool" where
  "high_rune x \<longleftrightarrow> (\<exists>c xs. x = c # xs \<and> 194 \<le> ccode c \<and> xs \<noteq> [] \<and> (\<forall>y\<in>set xs. 128 \<le> ccode y \<and> ccode y \<le> 191)
     \<and> (ccode c = 226 \<longrightarrow> length xs = 2) \<and> (\<forall>u. rune_width (c # xs @ u) = Suc (length xs)))"

text \<open>
  A relation between what \<^verbatim>\<open>json.Marshal\<close> writes and what it means holds of whole strings if it
  holds of the pieces the encoder writes.
\<close>

lemma quote_body_pieces:
  assumes nil: "P [] []" and app: "\<And>x y x' y'. P x y \<Longrightarrow> P x' y' \<Longrightarrow> P (x @ x') (y @ y')"
    and byte: "\<And>c. ccode c < 128 \<Longrightarrow> P (quote_byte c) [c]"
    and bad: "P (CHR 0x5C # ''ufffd'') replacement_char"
    and ls: "P (CHR 0x5C # ''u2028'') [CHR 0xE2, CHR 0x80, CHR 0xA8]"
    and ps: "P (CHR 0x5C # ''u2029'') [CHR 0xE2, CHR 0x80, CHR 0xA9]"
    and rune: "\<And>x. high_rune x \<Longrightarrow> x \<notin> set separators \<Longrightarrow> P x x"
  shows "P (quote_body s) (clean_utf8 s)"
proof (induction s rule: quote_body.induct)
  case 1
  show ?case by (simp add: nil)
next
  case (2 c cs)
  show ?case
  proof (cases "ccode c < 128")
    case True
    with app [OF byte [OF True] "2.IH"(1) [OF True]] show ?thesis by simp
  next
    case False
    then have c: "128 \<le> ccode c" by simp
    show ?thesis
    proof (cases "rune_width (c # cs) = 0")
      case True
      with app [OF bad "2.IH"(2) [OF False refl True]] False show ?thesis by simp
    next
      case w: False
      have lead: "194 \<le> ccode c" using w c by (auto simp: rune_width_def Let_def split: if_splits)
      from rune_split [OF refl w c] obtain xs v where xs: "cs = xs @ v" "rune_width (c # cs) = Suc (length xs)" "xs \<noteq> []"
        "\<forall>x\<in>set xs. 128 \<le> ccode x \<and> ccode x \<le> 191" "ccode c = 226 \<longrightarrow> length xs = 2" "\<forall>u'. rune_width (c # xs @ u') = rune_width (c # cs)"
        by blast
      have high: "high_rune (c # xs)"
        unfolding high_rune_def
        by (intro exI [of _ c] exI [of _ xs] conjI refl lead xs(3,4,5) xs(6) [unfolded xs(2)])
      have IH: "P (quote_body v) (clean_utf8 v)" using "2.IH"(3) [OF False refl w] xs(1,2) by simp
      have clean: "clean_utf8 (c # cs) = (c # xs) @ clean_utf8 v" using False w xs(1,2) by (simp add: Let_def)
      have sep: "take 3 (c # cs) = [CHR 0xE2, a, b] \<longleftrightarrow> c # xs = [CHR 0xE2, a, b]" for a b
      proof (cases "c = CHR 0xE2")
        case True
        with xs(5) obtain x y where "xs = [x, y]" by (auto simp: ccode_def numeral_2_eq_2 length_Suc_conv)
        with xs(1) show ?thesis by simp
      qed simp
      have body: "quote_body (c # cs) = (if c # xs = [CHR 0xE2, CHR 0x80, CHR 0xA8] then CHR 0x5C # ''u2028''
          else if c # xs = [CHR 0xE2, CHR 0x80, CHR 0xA9] then CHR 0x5C # ''u2029'' else c # xs) @ quote_body v"
        using False w xs(1,2) sep by (simp add: Let_def)
      show ?thesis unfolding clean body
        by (rule app [OF _ IH]) (use ls ps rune [OF high] in \<open>auto simp: separators_def\<close>)
    qed
  qed
qed

declare quote_body.simps [simp del] clean_utf8.simps [simp del]

text \<open>To the scanner, \<^verbatim>\<open>unquote\<close> and \<^verbatim>\<open>compact\<close> the pieces mean the following.\<close>

definition scans :: "string \<Rightarrow> bool" where
  "scans x \<longleftrightarrow> (\<forall>u. scan_string (x @ u) = (case scan_string u of None \<Rightarrow> None | Some (r, t) \<Rightarrow> Some (x @ r, t)))"

definition keeps :: "string \<Rightarrow> bool" where
  "keeps x \<longleftrightarrow> (\<forall>u. compact True (x @ u) = x @ compact True u)"

definition reads :: "string \<Rightarrow> string \<Rightarrow> bool" where
  "reads x y \<longleftrightarrow> (\<forall>u. unquote (x @ u) = y @ unquote u)"

lemmas hex_digit_defs = is_hex_def is_hex_lower_def is_digit_def ccode_def

lemma scans_append: "scans x \<Longrightarrow> scans y \<Longrightarrow> scans (x @ y)"
  by (simp add: scans_def split: option.split)

lemma scans_plain: "list_all (\<lambda>c. c \<noteq> CHR 0x22 \<and> c \<noteq> CHR 0x5C \<and> 32 \<le> ccode c) x \<Longrightarrow> scans x"
proof (induction x)
  case (Cons c x)
  then show ?case by (auto simp: scans_def not_less split: option.split)
qed (simp add: scans_def split: option.split)

lemma scans_escape:
  "e \<in> set [CHR ''b'', CHR ''f'', CHR ''n'', CHR ''r'', CHR ''t'', CHR 0x5C, CHR ''/'', CHR 0x22] \<Longrightarrow> scans [CHR 0x5C, e]"
  unfolding scans_def by (auto split: option.split)

lemma scans_unicode: "list_all is_hex [a, b, c, d] \<Longrightarrow> scans [CHR 0x5C, CHR ''u'', a, b, c, d]"
  by (auto simp: scans_def split: option.split)

lemma scans_hex_escape: "scans (hex_escape c)"
proof -
  have "list_all is_hex (hex_byte c)" using hex_byte_lower [of c] by (auto simp: list_all_iff is_hex_def)
  moreover have "is_hex (CHR ''0'')" by (simp add: hex_digit_defs)
  ultimately show ?thesis by (simp add: hex_escape_def hex_byte_def scans_unicode)
qed

lemma scans_quote_byte: "scans (quote_byte c)"
proof -
  have "scans [c]" if "c \<noteq> CHR 0x22" "c \<noteq> CHR 0x5C" "\<not> ccode c < 32" using that scans_plain [of "[c]"] by simp
  then show ?thesis using scans_hex_escape [of c] by (simp add: quote_byte_def scans_escape)
qed

lemma high_rune_bytes: "high_rune x \<Longrightarrow> list_all (\<lambda>c. 128 \<le> ccode c) x"
  by (auto simp: high_rune_def list_all_iff)

lemma high_byte_plain: "128 \<le> ccode c \<Longrightarrow> c \<noteq> CHR 0x22 \<and> c \<noteq> CHR 0x5C \<and> 32 \<le> ccode c"
  by (auto simp: ccode_def)

lemma scans_quote_body: "scans (quote_body s)"
proof (rule quote_body_pieces [where P = "\<lambda>x _. scans x"])
  show "scans x" if "high_rune x" for x
    using high_rune_bytes [OF that] by (intro scans_plain) (simp add: list_all_iff high_byte_plain)
  show "scans []" by (simp add: scans_plain)
  show "scans (CHR 0x5C # ''ufffd'')" "scans (CHR 0x5C # ''u2028'')" "scans (CHR 0x5C # ''u2029'')"
    by (simp_all add: scans_unicode hex_digit_defs)
qed (simp_all add: scans_append scans_quote_byte)

lemma scan_marshal_string: "scan_string (quote_body s @ CHR 0x22 # u) = Some (quote_body s, u)"
  using scans_quote_body [of s] by (simp add: scans_def)

subsection \<open>Decoding\<close>

lemma reads_append: "reads x y \<Longrightarrow> reads x' y' \<Longrightarrow> reads (x @ x') (y @ y')"
  by (simp add: reads_def)

lemma reads_high:
  assumes "high_rune x"
  shows "reads x x"
proof -
  from assms obtain c xs where x: "x = c # xs" "194 \<le> ccode c" "\<forall>u. rune_width (c # xs @ u) = Suc (length xs)"
    unfolding high_rune_def by blast
  then have "c \<noteq> CHR 0x5C" by (auto simp: ccode_def)
  with x show ?thesis by (simp add: reads_def Let_def)
qed

lemma reads_unicode:
  assumes "hex4 [a, b, c, d] = r" and "r < 55296 \<or> 57344 \<le> r"
  shows "reads [CHR 0x5C, CHR ''u'', a, b, c, d] (utf8_encode r)"
proof -
  have "hex4 (a # b # c # d # u) = r" for u using assms(1) by (simp add: hex4_def)
  then show ?thesis using assms(2) by (auto simp: reads_def Let_def)
qed

lemma reads_hex_escape:
  assumes "ccode c < 128"
  shows "reads (hex_escape c) [c]"
proof -
  have "hex4 [CHR ''0'', CHR ''0'', hex_char (ccode c div 16), hex_char (ccode c mod 16)] = ccode c"
    using assms hex_char_ok [of "ccode c div 16"] hex_char_ok [of "ccode c mod 16"]
    by (simp add: hex4_def hex_value_def [of "CHR ''0''"] is_digit_def ccode_def)
  from reads_unicode [OF this] assms show ?thesis
    by (simp add: hex_escape_def hex_byte_def utf8_encode_def ccode_def)
qed

lemma reads_quote_byte:
  assumes "ccode c < 128"
  shows "reads (quote_byte c) [c]"
  using reads_hex_escape [OF assms] assms by (auto simp: quote_byte_def reads_def simple_escape_def)

lemma replaced_runes:
  "utf8_encode 65533 = replacement_char" "utf8_encode 8232 = [CHR 0xE2, CHR 0x80, CHR 0xA8]"
  "utf8_encode 8233 = [CHR 0xE2, CHR 0x80, CHR 0xA9]" "hex4 ''fffd'' = 65533" "hex4 ''2028'' = 8232" "hex4 ''2029'' = 8233"
  by code_simp+

lemma reads_quote_body: "reads (quote_body s) (clean_utf8 s)"
proof (rule quote_body_pieces [where P = reads])
  show "reads (CHR 0x5C # ''ufffd'') replacement_char" "reads (CHR 0x5C # ''u2028'') [CHR 0xE2, CHR 0x80, CHR 0xA8]"
    "reads (CHR 0x5C # ''u2029'') [CHR 0xE2, CHR 0x80, CHR 0xA9]"
    using reads_unicode [OF replaced_runes(4)] reads_unicode [OF replaced_runes(5)] reads_unicode [OF replaced_runes(6)]
    by (simp_all add: replaced_runes)
qed (simp_all add: reads_append reads_quote_byte reads_high, simp add: reads_def)

lemma unquote_quote_body: "unquote (quote_body s) = clean_utf8 s"
  using reads_quote_body [of s] by (simp add: reads_def) (metis append_Nil2 unquote.simps(1))

subsection \<open>Writing again\<close>

lemma keeps_append: "keeps x \<Longrightarrow> keeps y \<Longrightarrow> keeps (x @ y)"
  by (simp add: keeps_def)

definition plain_char :: "char \<Rightarrow> bool" where
  "plain_char c \<longleftrightarrow> c \<notin> {CHR 0x22, CHR 0x5C, CHR ''<'', CHR ''>'', CHR ''&'', CHR 0xE2}"

lemma keeps_plain: "list_all plain_char x \<Longrightarrow> keeps x"
proof (induction x)
  case (Cons c x)
  then show ?case by (simp add: keeps_def plain_char_def)
qed (simp add: keeps_def)

lemma keeps_escape: "e \<noteq> CHR 0xE2 \<Longrightarrow> keeps [CHR 0x5C, e]"
  by (simp add: keeps_def)

lemma keeps_unicode:
  assumes "list_all plain_char [a, b, c, d]"
  shows "keeps [CHR 0x5C, CHR ''u'', a, b, c, d]"
  using keeps_append [OF keeps_escape [of "CHR ''u''"] keeps_plain [OF assms]] by simp

lemma hex_plain: "is_hex c \<Longrightarrow> plain_char c"
  by (auto simp: plain_char_def hex_digit_defs)

lemma keeps_quote_byte:
  assumes "ccode c < 128"
  shows "keeps (quote_byte c)"
proof -
  have "list_all is_hex (hex_byte c)" using hex_byte_lower [of c] by (auto simp: list_all_iff is_hex_def)
  moreover have "plain_char (CHR ''0'')" by (simp add: plain_char_def)
  ultimately have "keeps (hex_escape c)"
    using keeps_unicode [of "CHR ''0''" "CHR ''0''" "hex_char (ccode c div 16)" "hex_char (ccode c mod 16)"]
    by (simp add: hex_escape_def hex_byte_def hex_plain)
  moreover have "keeps [c]" if "c \<noteq> CHR 0x22" "c \<noteq> CHR 0x5C" "c \<noteq> CHR ''<''" "c \<noteq> CHR ''>''" "c \<noteq> CHR ''&''"
  proof (rule keeps_plain)
    have "c \<noteq> CHR 0xE2" using assms by (auto simp: ccode_def)
    with that show "list_all plain_char [c]" by (simp add: plain_char_def)
  qed
  ultimately show ?thesis by (simp add: quote_byte_def keeps_escape)
qed

lemma keeps_high:
  assumes "high_rune x" and "x \<notin> set separators"
  shows "keeps x"
proof -
  from assms(1) obtain c xs where x: "x = c # xs" "194 \<le> ccode c" "\<forall>y\<in>set xs. 128 \<le> ccode y \<and> ccode y \<le> 191"
    "ccode c = 226 \<longrightarrow> length xs = 2" unfolding high_rune_def by blast
  have "plain_char y" if "y \<in> set xs" for y using x(3) that by (auto simp: plain_char_def ccode_def)
  then have tail: "keeps xs" by (intro keeps_plain) (simp add: list_all_iff)
  show ?thesis
  proof (cases "c = CHR 0xE2")
    case True
    with x(4) obtain a b where xs: "xs = [a, b]" by (auto simp: ccode_def numeral_2_eq_2 length_Suc_conv)
    with assms(2) x(1) True have "\<not> (a = CHR 0x80 \<and> (b = CHR 0xA8 \<or> b = CHR 0xA9))" by (auto simp: separators_def)
    with tail xs x(1) True show ?thesis by (auto simp: keeps_def)
  next
    case False
    then have "plain_char c" using x(2) by (auto simp: plain_char_def ccode_def)
    with keeps_append [OF keeps_plain [of "[c]"] tail] x(1) show ?thesis by simp
  qed
qed

lemma keeps_quote_body: "keeps (quote_body s)"
proof (rule quote_body_pieces [where P = "\<lambda>x _. keeps x"])
  show "keeps (CHR 0x5C # ''ufffd'')" "keeps (CHR 0x5C # ''u2028'')" "keeps (CHR 0x5C # ''u2029'')"
    by (simp_all add: keeps_unicode plain_char_def)
qed (simp_all add: keeps_append keeps_quote_byte keeps_high, simp add: keeps_def)

section \<open>Texts of values\<close>

text \<open>What may follow a value without changing how it is read.\<close>

definition delimited :: "string \<Rightarrow> bool" where
  "delimited u \<longleftrightarrow> u = [] \<or> hd u \<in> {CHR '','', CHR 0x5D, CHR 0x7D} \<or> is_ws (hd u)"

definition parses :: "nat \<Rightarrow> json \<Rightarrow> string \<Rightarrow> bool" where
  "parses k v t \<longleftrightarrow> (\<forall>d u. k \<le> d \<longrightarrow> delimited u \<longrightarrow> pv d (t @ u) = Some (v, u))"

definition compacted :: "string \<Rightarrow> bool" where
  "compacted t \<longleftrightarrow> (\<forall>u. compact False (t @ u) = t @ compact False u)"

lemma parsesD: "parses k v t \<Longrightarrow> k \<le> d \<Longrightarrow> delimited u \<Longrightarrow> pv d (t @ u) = Some (v, u)"
  by (simp add: parses_def)

lemma parses_mono: "parses k v t \<Longrightarrow> k \<le> k' \<Longrightarrow> parses k' v t"
  by (simp add: parses_def)

lemma skip_ws_append: "list_all is_ws w \<Longrightarrow> skip_ws (w @ s) = skip_ws s"
  by (induction w) (simp_all add: skip_ws_def)

lemma pv_ws:
  assumes "list_all is_ws w"
  shows "pv d (w @ s) = pv d s"
proof -
  have "parse_value (Suc n) d (w @ s) = parse_value (Suc n) d s" for n
    by (simp add: parse_value.simps(2) skip_ws_append [OF assms])
  note same = this [of "2 * length (w @ s)"]
  have "pv d (w @ s) = parse_value (Suc (2 * length (w @ s))) d (w @ s)" by (simp add: pv_def)
  also have "\<dots> = pv d s" unfolding same by (rule pv_fuel) simp
  finally show ?thesis .
qed

lemma skip_nonws: "\<not> is_ws c \<Longrightarrow> skip_ws (c # s) = c # s"
  by (simp add: skip_ws_def)

lemma parses_string: "parses k (JString (clean_utf8 s)) (marshal_string s)"
proof -
  have "skip_ws (CHR 0x22 # u) = CHR 0x22 # u" for u by (simp add: skip_nonws is_ws_def)
  then show ?thesis
    by (simp add: parses_def marshal_string_def pv_string scan_marshal_string unquote_quote_body)
qed

lemma parses_literal:
  "parses k (JBool True) ''true''" "parses k (JBool False) ''false''" "parses k JNull ''null''"
  by (simp_all add: parses_def pv_def parse_value.simps skip_ws_def is_ws_def)

lemma compacted_append: "compacted x \<Longrightarrow> compacted y \<Longrightarrow> compacted (x @ y)"
  by (simp add: compacted_def)

lemma compacted_plain: "list_all (\<lambda>c. plain_char c \<and> \<not> is_ws c) x \<Longrightarrow> compacted x"
proof (induction x)
  case (Cons c x)
  then show ?case by (simp add: compacted_def plain_char_def)
qed (simp add: compacted_def)

lemma compacted_string: "compacted (marshal_string s)"
  using keeps_quote_body [of s] by (simp add: compacted_def marshal_string_def keeps_def is_ws_def)

subsection \<open>Objects and arrays\<close>

text \<open>
  The text of an object with white space as \<^verbatim>\<open>json.MarshalIndent\<close> puts it: before each name, after
  each colon, and before the closing brace. Without white space it is what \<^verbatim>\<open>json.Marshal\<close> writes.
\<close>

definition object_text :: "string \<Rightarrow> string \<Rightarrow> string \<Rightarrow> (string \<times> string) list \<Rightarrow> string" where
  "object_text w1 w2 w3 ms = CHR 0x7B # join_with '','' (map (\<lambda>(k, t). w1 @ marshal_string k @ CHR '':'' # w2 @ t) ms) @ w3 @ [CHR 0x7D]"

definition array_text :: "string \<Rightarrow> string \<Rightarrow> string list \<Rightarrow> string" where
  "array_text w1 w3 ts = CHR 0x5B # join_with '','' (map (\<lambda>t. w1 @ t) ts) @ w3 @ [CHR 0x5D]"

lemma braces_object_text: "braces (map (\<lambda>(k, t). marshal_string k @ CHR '':'' # t) ms) = object_text [] [] [] ms"
  by (simp add: braces_def object_text_def)

lemma delimited_end:
  "list_all is_ws w \<Longrightarrow> c \<in> {CHR '','', CHR 0x5D, CHR 0x7D} \<Longrightarrow> delimited (w @ c # u)"
  by (cases w) (auto simp: delimited_def)

lemma pm_member:
  assumes ws: "list_all is_ws w1" "list_all is_ws w2" and v: "pv d (t @ r) = Some (v, r)"
    and r: "skip_ws r = c # cs"
  shows "pm d (w1 @ marshal_string k @ CHR '':'' # w2 @ t @ r) =
    (if c = CHR '','' then map_option (\<lambda>(ms, u). ((clean_utf8 k, v) # ms, u)) (pm d cs)
     else if c = CHR 0x7D then Some ([(clean_utf8 k, v)], cs) else None)"
proof -
  have q: "\<not> is_ws (CHR 0x22)" "\<not> is_ws (CHR '':'')" by (simp_all add: is_ws_def)
  have "skip_ws (w1 @ marshal_string k @ CHR '':'' # w2 @ t @ r) = CHR 0x22 # quote_body k @ CHR 0x22 # CHR '':'' # w2 @ t @ r"
    by (simp add: skip_ws_append ws marshal_string_def skip_nonws q)
  from pm_step [OF this scan_marshal_string skip_nonws [OF q(2)] _ r] v
  show ?thesis by (simp add: pv_ws ws unquote_quote_body)
qed

lemma pm_members:
  assumes ws: "list_all is_ws w1" "list_all is_ws w2" "list_all is_ws w3" and "ms \<noteq> []"
    and "\<forall>(k, t, v)\<in>set ms. parses n v t" and "n \<le> d"
  shows "pm d (join_with '','' (map (\<lambda>(k, t). w1 @ marshal_string k @ CHR '':'' # w2 @ t) (map (\<lambda>(k, t, v). (k, t)) ms)) @ w3 @ CHR 0x7D # u)
    = Some (map (\<lambda>(k, t, v). (clean_utf8 k, v)) ms, u)"
  using assms(4,5)
proof (induction ms rule: list_nonempty_induct)
  case (single m)
  obtain k t v where m: "m = (k, t, v)" by (cases m)
  with single have "pv d (t @ w3 @ CHR 0x7D # u) = Some (v, w3 @ CHR 0x7D # u)"
    using assms(6) by (auto intro: parsesD delimited_end [OF ws(3)])
  moreover have "skip_ws (w3 @ CHR 0x7D # u) = CHR 0x7D # u" by (simp add: skip_ws_append ws skip_nonws is_ws_def)
  ultimately show ?case using pm_member [OF ws(1,2)] by (simp add: m)
next
  case (cons m ms)
  obtain k t v where m: "m = (k, t, v)" by (cases m)
  let ?rest = "join_with '','' (map (\<lambda>(k, t). w1 @ marshal_string k @ CHR '':'' # w2 @ t) (map (\<lambda>(k, t, v). (k, t)) ms)) @ w3 @ CHR 0x7D # u"
  have "pv d (t @ CHR '','' # ?rest) = Some (v, CHR '','' # ?rest)"
    using cons.prems m assms(6) delimited_end [of "[]" "CHR '',''"] by (auto intro: parsesD)
  moreover have "skip_ws (CHR '','' # ?rest) = CHR '','' # ?rest" by (simp add: skip_nonws is_ws_def)
  moreover have "pm d ?rest = Some (map (\<lambda>(k, t, v). (clean_utf8 k, v)) ms, u)" using cons.IH cons.prems by simp
  moreover from cons.hyps obtain m' ms' where "ms = m' # ms'" by (cases ms) auto
  ultimately show ?case using pm_member [OF ws(1,2), of d t "CHR '','' # ?rest" v "CHR '',''" ?rest k] by (simp add: m)
qed

lemma parses_object:
  assumes ws: "list_all is_ws w1" "list_all is_ws w2" "list_all is_ws w3" and "ms \<noteq> []"
    and "\<forall>(k, t, v)\<in>set ms. parses n v t"
  shows "parses (Suc n) (JObject (map (\<lambda>(k, t, v). (clean_utf8 k, v)) ms)) (object_text w1 w2 w3 (map (\<lambda>(k, t, v). (k, t)) ms))"
proof -
  let ?body = "join_with '','' (map (\<lambda>(k, t). w1 @ marshal_string k @ CHR '':'' # w2 @ t) (map (\<lambda>(k, t, v). (k, t)) ms))"
  obtain k t v ms' where ms: "ms = (k, t, v) # ms'" using assms(4) by (cases ms) auto
  have first: "take 1 (skip_ws (?body @ r)) \<noteq> [CHR 0x7D]" for r
    by (cases ms') (simp_all add: ms skip_ws_append ws marshal_string_def skip_nonws is_ws_def)
  show ?thesis unfolding parses_def
  proof (intro allI impI)
    fix d u assume d: "Suc n \<le> d" "delimited u"
    have "pv d (CHR 0x7B # ?body @ w3 @ CHR 0x7D # u) = map_option (\<lambda>(ms, t). (JObject ms, t)) (pm (d - 1) (?body @ w3 @ CHR 0x7D # u))"
      by (rule pv_object) (use d first in \<open>simp_all add: skip_nonws is_ws_def\<close>)
    also have "pm (d - 1) (?body @ w3 @ CHR 0x7D # u) = Some (map (\<lambda>(k, t, v). (clean_utf8 k, v)) ms, u)"
      using pm_members [OF ws assms(4,5), of "d - 1" u] d by simp
    finally show "pv d (object_text w1 w2 w3 (map (\<lambda>(k, t, v). (k, t)) ms) @ u)
        = Some (JObject (map (\<lambda>(k, t, v). (clean_utf8 k, v)) ms), u)"
      by (simp add: object_text_def)
  qed
qed

lemma pe_elements:
  assumes ws: "list_all is_ws w1" "list_all is_ws w3" and "ts \<noteq> []" and "\<forall>(t, v)\<in>set ts. parses n v t" and "n \<le> d"
  shows "pe d (join_with '','' (map (\<lambda>t. w1 @ t) (map fst ts)) @ w3 @ CHR 0x5D # u) = Some (map snd ts, u)"
  using assms(3,4)
proof (induction ts rule: list_nonempty_induct)
  case (single m)
  obtain t v where m: "m = (t, v)" by (cases m)
  with single have "pv d (t @ w3 @ CHR 0x5D # u) = Some (v, w3 @ CHR 0x5D # u)"
    using assms(5) by (auto intro: parsesD delimited_end [OF ws(2)])
  then have "pv d (w1 @ t @ w3 @ CHR 0x5D # u) = Some (v, w3 @ CHR 0x5D # u)" by (simp add: pv_ws ws)
  from pe_step [OF this] show ?case by (simp add: m skip_ws_append ws skip_nonws is_ws_def)
next
  case (cons m ts)
  obtain t v where m: "m = (t, v)" by (cases m)
  let ?rest = "join_with '','' (map (\<lambda>t. w1 @ t) (map fst ts)) @ w3 @ CHR 0x5D # u"
  have "pv d (t @ CHR '','' # ?rest) = Some (v, CHR '','' # ?rest)"
    using cons.prems m assms(5) delimited_end [of "[]" "CHR '',''"] by (auto intro: parsesD)
  then have "pv d (w1 @ t @ CHR '','' # ?rest) = Some (v, CHR '','' # ?rest)" by (simp add: pv_ws ws)
  from pe_step [OF this, of "CHR '',''" ?rest]
  have "pe d (w1 @ t @ CHR '','' # ?rest) = map_option (\<lambda>(vs, u). (v # vs, u)) (pe d ?rest)"
    by (simp add: skip_nonws is_ws_def)
  moreover have "pe d ?rest = Some (map snd ts, u)" using cons.IH cons.prems by simp
  moreover from cons.hyps obtain m' ts' where "ts = m' # ts'" by (cases ts) auto
  ultimately show ?case by (simp add: m)
qed

lemma parses_array:
  assumes ws: "list_all is_ws w1" "list_all is_ws w3" and "ts \<noteq> []"
    and "\<forall>(t, v)\<in>set ts. parses n v t \<and> skip_ws t = t \<and> t \<noteq> [] \<and> hd t \<noteq> CHR 0x5D"
  shows "parses (Suc n) (JArray (map snd ts)) (array_text w1 w3 (map fst ts))"
proof -
  let ?body = "join_with '','' (map (\<lambda>t. w1 @ t) (map fst ts))"
  obtain t v ts' where ts: "ts = (t, v) # ts'" using assms(3) by (cases ts) auto
  with assms(4) obtain c t' where t: "t = c # t'" "\<not> is_ws c" "c \<noteq> CHR 0x5D"
    by (cases t) (auto simp: skip_ws_def dropWhile_eq_self_iff)
  have first: "take 1 (skip_ws (?body @ r)) \<noteq> [CHR 0x5D]" for r
    by (cases ts') (simp_all add: ts t skip_ws_append ws skip_nonws)
  have inner: "\<forall>(t, v)\<in>set ts. parses n v t" using assms(4) by auto
  show ?thesis unfolding parses_def
  proof (intro allI impI)
    fix d u assume d: "Suc n \<le> d" "delimited u"
    have "pv d (CHR 0x5B # ?body @ w3 @ CHR 0x5D # u) = map_option (\<lambda>(vs, t). (JArray vs, t)) (pe (d - 1) (?body @ w3 @ CHR 0x5D # u))"
      by (rule pv_array) (use d first in \<open>simp_all add: skip_nonws is_ws_def\<close>)
    also have "pe (d - 1) (?body @ w3 @ CHR 0x5D # u) = Some (map snd ts, u)"
      using pe_elements [OF ws assms(3) inner, of "d - 1" u] d by simp
    finally show "pv d (array_text w1 w3 (map fst ts) @ u) = Some (JArray (map snd ts), u)"
      by (simp add: array_text_def)
  qed
qed

section \<open>What \<^verbatim>\<open>json.Marshal\<close> writes\<close>

text \<open>
  A text of nesting depth at most \<open>n\<close> that is read as a value wherever it stands, starts with no
  white space, and is not changed by compaction.
\<close>

definition wire_text :: "nat \<Rightarrow> string \<Rightarrow> bool" where
  "wire_text n t \<longleftrightarrow> (\<exists>v. parses n v t) \<and> compacted t \<and> t \<noteq> [] \<and> skip_ws t = t"

lemma wire_text_mono: "wire_text n t \<Longrightarrow> n \<le> k \<Longrightarrow> wire_text k t"
  unfolding wire_text_def using parses_mono by blast

lemma wire_text_string: "wire_text n (marshal_string s)"
  unfolding wire_text_def using parses_string compacted_string
  by (auto simp: marshal_string_def skip_nonws is_ws_def)

lemma wire_text_literal: "t \<in> {''true'', ''false'', ''null''} \<Longrightarrow> wire_text n t"
  unfolding wire_text_def using parses_literal
  by (auto simp: skip_ws_def is_ws_def compacted_plain plain_char_def)

lemma compacted_join: "\<forall>x\<in>set xs. compacted x \<Longrightarrow> compacted (join_with '','' xs)"
proof (induction "'',''" xs rule: join_with.induct)
  case (3 x y xs)
  have "compacted '',''" by (simp add: compacted_plain plain_char_def is_ws_def)
  from compacted_append [OF this, of "join_with '','' (y # xs)"] 3 show ?case by (simp add: compacted_append)
qed (simp_all add: compacted_def)

definition wire_ok :: "nat \<Rightarrow> string result \<Rightarrow> bool" where
  "wire_ok n r \<longleftrightarrow> (case r of Inl _ \<Rightarrow> True | Inr x \<Rightarrow> wire_text n x)"

lemma wire_text_struct:
  assumes "marshal_struct ms = Inr t" and "ms \<noteq> []" and "\<forall>m\<in>set ms. wire_ok n (snd m)"
  shows "wire_text (Suc n) t"
proof -
  have "collect (map (\<lambda>(name, v). member name v) ms) = Inr ys \<Longrightarrow>
      \<exists>us. ys = map (\<lambda>(k, t). marshal_string k @ CHR '':'' # t) us \<and> length us = length ms \<and> (\<forall>(k, t)\<in>set us. wire_text n t)" for ys
    using assms(3)
  proof (induction ms arbitrary: ys)
    case (Cons m ms)
    obtain k r where m: "m = (k, r)" by (cases m)
    with Cons.prems obtain x zs where x: "r = Inr x" "ys = (marshal_string k @ CHR '':'' # x) # zs"
      "collect (map (\<lambda>(name, v). member name v) ms) = Inr zs"
      by (cases r) (auto simp: member_def split: sum.splits)
    from x(1) Cons.prems m have "wire_text n x" by (simp add: wire_ok_def)
    moreover from Cons.IH [OF x(3)] Cons.prems m obtain us where "zs = map (\<lambda>(k, t). marshal_string k @ CHR '':'' # t) us"
      "length us = length ms" "\<forall>(k, t)\<in>set us. wire_text n t" by auto
    ultimately show ?case using x m by (intro exI [of _ "(k, x) # us"]) auto
  qed simp
  with assms(1) obtain us where us: "t = object_text [] [] [] us" "length us = length ms" "\<forall>(k, t)\<in>set us. wire_text n t"
    by (auto simp: marshal_struct_def map_result_def braces_object_text split: sum.splits)
  define vs where "vs = map (\<lambda>(k, t). (k, t, SOME v. parses n v t)) us"
  have "\<forall>(k, t, v)\<in>set vs. parses n v t"
    using us(3) by (auto simp: vs_def wire_text_def split_beta intro: someI_ex)
  moreover have "vs \<noteq> []" using us(2) assms(2) by (auto simp: vs_def)
  moreover have "map (\<lambda>(k, t, v). (k, t)) vs = us" by (simp add: vs_def comp_def split_beta)
  ultimately have "\<exists>v. parses (Suc n) v t" using parses_object [of "[]" "[]" "[]" vs n] us(1) by auto
  moreover have "compacted t"
  proof -
    have "compacted [CHR 0x7B]" "compacted [CHR 0x7D]" "compacted [CHR '':'']"
      by (simp_all add: compacted_plain plain_char_def is_ws_def)
    moreover from us(3) this(3) have "\<forall>x\<in>set (map (\<lambda>(k, t). marshal_string k @ [CHR '':''] @ t) us). compacted x"
      by (auto simp: wire_text_def simp del: append.simps intro!: compacted_append compacted_string)
    ultimately have "compacted ([CHR 0x7B] @ join_with '','' (map (\<lambda>(k, t). marshal_string k @ [CHR '':''] @ t) us) @ [CHR 0x7D])"
      by (intro compacted_append compacted_join)
    then show ?thesis using us(1) by (simp add: object_text_def)
  qed
  ultimately show ?thesis by (simp add: wire_text_def us(1) object_text_def skip_nonws is_ws_def)
qed

lemma wire_ok_values [simp]: "wire_ok n (text_value s)" "wire_ok n (bool_value b)" "wire_ok n (time_value x)"
  by (auto simp: wire_ok_def text_value_def bool_value_def time_value_def wire_text_string wire_text_literal)

lemma wire_text_JobFailure: "JobFailure_json f = Inr t \<Longrightarrow> wire_text 1 t"
  unfolding JobFailure_json_def One_nat_def by (rule wire_text_struct) auto

text \<open>A \<^verbatim>\<open>json.RawMessage\<close> that the encoder wrote is written as it is.\<close>

lemma marshal_raw_wire:
  assumes "wire_text n t" and "n \<le> max_nesting_depth"
  shows "marshal_raw t = Inr t"
proof -
  from assms(1) obtain v where v: "parses n v t" and c: "compacted t" by (auto simp: wire_text_def)
  from parsesD [OF v assms(2), of "[]"] have "json_Decode t = DecValue v []" by (intro json_Decode_pv) (simp add: delimited_def)
  moreover from c have "compact False t = t" by (simp add: compacted_def) (metis append_Nil2 compact.simps(1))
  ultimately show ?thesis by (simp add: marshal_raw_def json_Unmarshal_def skip_ws_def)
qed

end
