(* ===== verification/Delivery.thy ===== *)
theory Delivery
  imports Executor Client JsonText
begin

text \<open>
  From a report that could not be delivered to its later delivery: \<^verbatim>\<open>Executor.reject\<close>, \<^verbatim>\<open>Queue.Enqueue\<close>,
  \<^verbatim>\<open>Queue.Flush\<close> and \<^verbatim>\<open>Client.Send\<close> together. What the spool writes is read back as it was written,
  and a spooled failure leaves the directory only after the control plane has answered for it or
  when it is over age.
\<close>

section \<open>Spool items read back\<close>

lemma raw_member_list_member:
  assumes "parses n v x" and "n \<le> max_nesting_depth" and "skip_ws x = x" and "x \<noteq> []" and "delimited r"
  shows "raw_member_list (Suc m) (marshal_string k @ CHR '':'' # x @ r) = (clean_utf8 k, v, x) #
    (case skip_ws r of [] \<Rightarrow> [] | c # cs \<Rightarrow> if c = CHR '','' then raw_member_list m cs else [])"
proof -
  obtain c xs where x: "x = c # xs" "\<not> is_ws c"
    using assms(3,4) by (cases x) (auto simp: skip_ws_def dropWhile_eq_self_iff simp del: dropWhile.simps)
  have ws: "skip_ws (CHR 0x22 # t) = CHR 0x22 # t" "skip_ws (CHR '':'' # t) = CHR '':'' # t" "skip_ws (x @ r) = x @ r" for t
    using x by (simp_all add: skip_nonws is_ws_def [of "CHR 0x22"] is_ws_def [of "CHR '':''"])
  have "parse_value (parse_fuel (x @ r)) max_nesting_depth (x @ r) = Some (v, r)"
    using parsesD [OF assms(1,2,5)] by (simp add: pv_fuel parse_fuel_def)
  then show ?thesis using ws by (simp add: marshal_string_def scan_marshal_string unquote_quote_body Let_def)
qed

lemma item_json_wire:
  assumes "wire_text n payload" and "n < max_nesting_depth"
  shows "item_json kind payload = Inr (object_text [] [] [] [(''kind'', marshal_string kind), (''payload'', payload)])"
  using marshal_raw_wire [OF assms(1)] assms(2)
  by (simp add: item_json_def marshal_struct_def member_def text_value_def braces_def object_text_def)

lemma item_reads_back:
  assumes wire: "wire_text n payload" and n: "n < max_nesting_depth" and kind: "valid_utf8 kind"
    and b: "item_json kind payload = Inr b"
  shows "unmarshal_item b = Some \<lparr>it_Kind = kind, it_Payload = payload\<rparr>"
proof -
  from wire obtain v where v: "parses n v payload" "skip_ws payload = payload" "payload \<noteq> []" by (auto simp: wire_text_def)
  have names: "clean_utf8 ''kind'' = ''kind''" "clean_utf8 ''payload'' = ''payload''" "clean_utf8 kind = kind"
    using kind by (simp_all add: valid_utf8_def clean_utf8.simps ccode_def)
  have b': "b = object_text [] [] [] [(''kind'', marshal_string kind), (''payload'', payload)]"
    using item_json_wire [OF wire n, of kind] b by simp
  let ?ms = "[(''kind'', marshal_string kind, JString (clean_utf8 kind)), (''payload'', payload, v)]"
  have "parses (Suc n) (JObject (map (\<lambda>(k, t, v). (clean_utf8 k, v)) ?ms)) (object_text [] [] [] (map (\<lambda>(k, t, v). (k, t)) ?ms))"
    by (rule parses_object) (use v parses_string [of n kind] in simp_all)
  then have "parses (Suc n) (JObject [(''kind'', JString kind), (''payload'', v)]) b" by (simp add: b' names)
  from parsesD [OF this, of max_nesting_depth "[]"] n
  have "json_Decode b = DecValue (JObject [(''kind'', JString kind), (''payload'', v)]) []"
    by (intro json_Decode_pv) (simp add: delimited_def)
  then have un: "json_Unmarshal b = Some (JObject [(''kind'', JString kind), (''payload'', v)])"
    by (simp add: json_Unmarshal_def skip_ws_def)
  let ?tail = "marshal_string ''payload'' @ CHR '':'' # payload @ [CHR 0x7D]"
  have split: "b = CHR 0x7B # marshal_string ''kind'' @ CHR '':'' # marshal_string kind @ CHR '','' # ?tail"
    by (simp add: b' object_text_def)
  have first: "raw_member_list (Suc m) (marshal_string ''kind'' @ CHR '':'' # marshal_string kind @ CHR '','' # ?tail)
      = (''kind'', JString kind, marshal_string kind) # raw_member_list m ?tail" for m
    using raw_member_list_member [OF parses_string [of 0 kind], of "CHR '','' # ?tail" m "''kind''"] wire_text_string [of 0 kind]
    by (simp add: wire_text_def names skip_nonws is_ws_def delimited_def)
  have second: "raw_member_list (Suc m) ?tail = [(''payload'', v, payload)]" for m
    using raw_member_list_member [OF v(1) _ v(2,3), of "[CHR 0x7D]" m "''payload''"] n
    by (simp add: names skip_nonws is_ws_def delimited_def)
  have "raw_members b = raw_member_list (length b) (tl b)"
    by (simp add: raw_members_def split skip_nonws is_ws_def)
  also obtain m where "length b = Suc (Suc m)" by (simp add: split marshal_string_def)
  finally have "raw_members b = [(''kind'', JString kind, marshal_string kind), (''payload'', v, payload)]"
    using first second by (simp add: split)
  moreover have "fold_name ''payload'' \<noteq> fold_name ''kind''" by code_simp
  ultimately show ?thesis using un by (simp add: unmarshal_item_def item_member_def)
qed

lemma Enqueue_None [accepts]:
  assumes "Enqueue io q kind encoded dir = (None, dir')"
  shows "\<exists>name payload b. encoded = Inr payload \<and> item_json kind payload = Inr b \<and> dir' = dir @ [(name, new_file io b)]
    \<and> name \<notin> fst ` set dir \<and> suffix ''.json'' name \<and> int (length b) \<le> q_MaxBytes q \<and> kind \<in> {''result'', ''failure'', ''evidence''}"
proof -
  from assms obtain name b where a: "spool_admit io q kind encoded dir = Inr (name, b)" and w: "write_item io name b dir = (None, dir')"
    by (auto simp: Enqueue_def split: sum.splits)
  from w have "dir' = dir @ [(name, new_file io b)]" by (auto simp: write_item_def split: option.splits)
  moreover from a have "int (length b) \<le> q_MaxBytes q" by (auto simp: spool_admit_def Let_def split: if_splits sum.splits)
  ultimately show ?thesis using spool_admit_Inr [OF a] by blast
qed

lemma kind_valid: "kind \<in> {''result'', ''failure'', ''evidence''} \<Longrightarrow> valid_utf8 kind \<and> kind \<noteq> []"
  by (auto intro!: valid_utf8_ascii simp: ccode_def)

lemma object_text_nonempty: "object_text w1 w2 w3 ms \<noteq> []"
  by (simp add: object_text_def)

text \<open>What a flush in later surroundings \<open>io'\<close> does with a file that an enqueue in \<open>io\<close> wrote.\<close>

definition over_age :: "spool_io \<Rightarrow> spool_io \<Rightarrow> Queue \<Rightarrow> string \<Rightarrow> bool" where
  "over_age io io' q name \<longleftrightarrow> q_MaxAge q < time_Sub (io_now io' name) (io_clock io)"

lemma Enqueue_classified:
  assumes "Enqueue io q kind (Inr payload) dir = (None, dir')" and "wire_text n payload" and "n < max_nesting_depth"
  obtains name f where "dir' = dir @ [(name, f)]" "name \<notin> fst ` set dir"
    "\<And>io'. classify io' q (name, f) = (if \<not> io_info io' name then SkipEntry else if over_age io io' q name then DropEntry
       else case io_read io' name of Some err \<Rightarrow> FailEntry err | None \<Rightarrow> DeliverEntry kind payload)"
proof -
  from Enqueue_None [OF assms(1)] obtain name b where b: "item_json kind payload = Inr b" "dir' = dir @ [(name, new_file io b)]"
    "name \<notin> fst ` set dir" "suffix ''.json'' name" "int (length b) \<le> q_MaxBytes q" "kind \<in> {''result'', ''failure'', ''evidence''}"
    by auto
  from b(1) item_json_wire [OF assms(2,3), of kind] object_text_nonempty have ne: "b \<noteq> []" by auto
  have "unmarshal_item b = Some \<lparr>it_Kind = kind, it_Payload = payload\<rparr>"
    using item_reads_back [OF assms(2,3) _ b(1)] kind_valid [OF b(6)] by blast
  with b ne kind_valid [OF b(6)] have "classify io' q (name, new_file io b) = (if \<not> io_info io' name then SkipEntry
       else if over_age io io' q name then DropEntry
       else case io_read io' name of Some err \<Rightarrow> FailEntry err | None \<Rightarrow> DeliverEntry kind payload)" for io'
    by (auto simp: classify_def new_file_def over_age_def not_less Suc_le_eq split: option.split)
  from that [OF b(2,3) this] show thesis .
qed

section \<open>What a flush does with one file\<close>

lemma Flush_removed:
  assumes "distinct (map fst dir)" and "Flush io q send dir = (err, sent, dir')" and "(name, f) \<in> set dir" and "(name, f) \<notin> set dir'"
  shows "classify io q (name, f) = DropEntry
    \<or> (\<exists>kind payload. classify io q (name, f) = DeliverEntry kind payload \<and> (name, kind, payload, True) \<in> set sent)"
proof -
  from assms(2-4) have loop: "flush_loop io q send 0 (sort_key fst dir) dir = (err, sent, dir')"
    by (auto simp: Flush_def split: option.splits)
  from flush_loop_removed [OF loop assms(3,4)] obtain f' where f': "(name, f') \<in> set dir"
    "classify io q (name, f') = DropEntry \<or> (\<exists>kind payload. classify io q (name, f') = DeliverEntry kind payload
        \<and> (name, kind, payload, True) \<in> set sent)" by auto
  from f'(1) assms(1,3) have "f' = f" by (metis map_of_eq_Some_iff option.inject)
  with f'(2) show ?thesis by simp
qed

lemma Flush_success:
  assumes "Flush io q send dir = (None, sent, dir')" and "(name, f) \<in> set dir"
  shows "(\<forall>err. classify io q (name, f) \<noteq> FailEntry err)
    \<and> (\<forall>kind payload. classify io q (name, f) = DeliverEntry kind payload \<longrightarrow> (name, kind, payload, True) \<in> set sent \<and> name \<notin> fst ` set dir')"
proof -
  let ?es = "sort_key fst dir"
  from assms(1) have loop: "flush_loop io q send 0 ?es dir = (None, sent, dir')" by (auto simp: Flush_def split: option.splits)
  from flush_loop_outcome [OF loop] have passes: "passes io q send 0 ?es" and log: "log_items sent = deliverables io q ?es"
    by (simp_all add: flush_outcome_def)
  from assms(2) have "(name, f) \<in> set ?es" by simp
  then obtain pre post where es: "?es = pre @ (name, f) # post" by (meson split_list)
  with passes have go: "stop_error io q send (length (deliverables io q pre)) (name, f) = None" by (simp add: passes_def)
  have "(name, kind, payload, True) \<in> set sent \<and> name \<notin> fst ` set dir'"
    if cl: "classify io q (name, f) = DeliverEntry kind payload" for kind payload
  proof -
    have "(name, kind, payload) \<in> set (log_items sent)" unfolding log es using cl by simp
    then obtain ok where ok: "(name, kind, payload, ok) \<in> set sent" by (auto simp: log_items_def)
    with flush_loop_all_accepted [OF loop] have "ok" by auto
    with ok have sent: "(name, kind, payload, True) \<in> set sent" by simp
    from go cl have "io_remove io name = None" by (simp split: option.splits)
    from flush_loop_gone [OF loop sent this] sent show ?thesis by blast
  qed
  moreover have "classify io q (name, f) \<noteq> FailEntry err" for err using go by auto
  ultimately show ?thesis by blast
qed

text \<open>
  C21: what is enqueued is delivered. Where \<^verbatim>\<open>Enqueue\<close> returns no error for a value that \<^verbatim>\<open>json.Marshal\<close>
  encoded, the directory has exactly one new file, under a new name. As long as the metadata of
  that file can be read and it is not over age, a later flush that returns no error has handed
  the same kind and the same payload, byte for byte, to a sender that accepted it, and has
  removed the file; a flush that returns an error has done so with the item too, or the file is
  still there.
\<close>

theorem enqueued_item_is_delivered:
  assumes "Enqueue io q kind (Inr payload) dir = (None, dir')" and "wire_text n payload" and "n < max_nesting_depth"
    and "distinct (map fst dir)" and "Flush io' q send dir' = (err, sent, dir'')"
  shows "\<exists>name f. dir' = dir @ [(name, f)] \<and> name \<notin> fst ` set dir
    \<and> (io_info io' name \<and> \<not> over_age io io' q name \<longrightarrow>
        (if err = None then (name, kind, payload, True) \<in> set sent \<and> name \<notin> fst ` set dir''
         else (name, f) \<in> set dir'' \<or> (name, kind, payload, True) \<in> set sent))"
proof -
  from assms(1-3) obtain name f where new: "dir' = dir @ [(name, f)]" "name \<notin> fst ` set dir"
    and cl: "classify io' q (name, f) = (if \<not> io_info io' name then SkipEntry else if over_age io io' q name then DropEntry
       else case io_read io' name of Some err \<Rightarrow> FailEntry err | None \<Rightarrow> DeliverEntry kind payload)"
    by (rule Enqueue_classified) blast
  have mem: "(name, f) \<in> set dir'" and dist: "distinct (map fst dir')" using new assms(4) by auto
  have "if err = None then (name, kind, payload, True) \<in> set sent \<and> name \<notin> fst ` set dir''
        else (name, f) \<in> set dir'' \<or> (name, kind, payload, True) \<in> set sent"
    if "io_info io' name" "\<not> over_age io io' q name"
  proof (cases err)
    case None
    with Flush_success [OF assms(5) [unfolded None] mem] cl that show ?thesis by (auto split: option.splits)
  next
    case (Some er)
    with Flush_removed [OF dist assms(5) mem] cl that show ?thesis by (auto split: option.splits)
  qed
  with new show ?thesis by blast
qed

theorem enqueued_item_is_delivered_witness:
  "\<exists>name f dir sent dir'. Enqueue sample_io sample_queue ''failure'' (Inr (marshal_string ''x'')) [] = (None, dir)
     \<and> Flush sample_io sample_queue (\<lambda>_ _ _. None) dir = (None, sent, dir')
     \<and> dir = [(name, f)] \<and> (name, ''failure'', marshal_string ''x'', True) \<in> set sent \<and> name \<notin> fst ` set dir'"
proof -
  let ?e = "Enqueue sample_io sample_queue ''failure'' (Inr (marshal_string ''x'')) []"
  obtain e dir where e: "?e = (e, dir)" by fastforce
  moreover have "fst ?e = None" by code_simp
  ultimately have e': "?e = (None, dir)" by simp
  obtain err sent dir' where f: "Flush sample_io sample_queue (\<lambda>_ _ _. None) dir = (err, sent, dir')" by (metis prod_cases3)
  have "fst (Flush sample_io sample_queue (\<lambda>_ _ _. None) (snd ?e)) = None" by code_simp
  with e f have "err = None" by simp
  with f have f': "Flush sample_io sample_queue (\<lambda>_ _ _. None) dir = (None, sent, dir')" by simp
  have young: "\<not> over_age sample_io sample_io sample_queue name" "io_info sample_io name" for name
    by (simp_all add: over_age_def sample_io_def sample_queue_def time_Sub_def)
  from enqueued_item_is_delivered [OF e' wire_text_string [of 0] _ _ f'] e' f' young show ?thesis
    by (auto simp: max_nesting_depth_def)
qed

section \<open>From an unreported failure to the control plane\<close>

lemma flush_loop_sent:
  assumes "flush_loop io q send n es dir = (err, sent, dir')" and "(name, kind, payload, True) \<in> set sent"
  shows "\<exists>m. send m kind payload = None"
  using assms
proof (induction io q send n es dir arbitrary: err sent dir' rule: flush_loop.induct)
  case (2 io q send n e es dir)
  show ?case
  proof (cases "classify io q e")
    case (DeliverEntry k p)
    show ?thesis
    proof (cases "send n k p = None \<and> io_remove io (fst e) = None")
      case True
      obtain err1 sent1 dir1 where rest: "flush_loop io q send (Suc n) es (remove_file (fst e) dir) = (err1, sent1, dir1)"
        by (metis prod_cases3)
      with 2(3) [OF DeliverEntry _ _ rest] True "2.prems" DeliverEntry show ?thesis by auto
    next
      case False
      with "2.prems" DeliverEntry show ?thesis by (auto split: option.splits)
    qed
  qed (use 2 in auto)
qed auto

lemma Flush_sent:
  "Flush io q send dir = (err, sent, dir') \<Longrightarrow> (name, kind, payload, True) \<in> set sent \<Longrightarrow> \<exists>m. send m kind payload = None"
  by (auto simp: Flush_def dest: flush_loop_sent split: option.splits)

text \<open>Why the spool can refuse an encoded value.\<close>

definition spool_refusal :: "spool_io \<Rightarrow> Queue \<Rightarrow> string \<Rightarrow> string \<Rightarrow> spool_dir \<Rightarrow> goerror \<Rightarrow> bool" where
  "spool_refusal io q kind payload dir err \<longleftrightarrow>
     io_readDir io = Some err \<or> io_createTemp io = Inl err \<or> io_chmod io = Some err \<or> (\<exists>n. io_write io = Some (n, err)) \<or> io_sync io = Some err
     \<or> err = ErrorText ''file exists''
     \<or> (\<exists>b. item_json kind payload = Inr b \<and> (q_MaxBytes q < int (length b)
          \<or> (\<exists>n tot. healthUnlocked io dir = Inr (n, tot) \<and> q_MaxBytes q < tot + int (length b))))"

lemma Enqueue_refused:
  assumes "fst (Enqueue io q kind (Inr payload) dir) = Some err" and "wire_text n payload" and "n < max_nesting_depth"
    and "kind \<in> {''result'', ''failure'', ''evidence''}"
  shows "spool_refusal io q kind payload dir err"
proof -
  from item_json_wire [OF assms(2,3)] obtain b where b: "item_json kind payload = Inr b" by blast
  show ?thesis
  proof (cases "spool_admit io q kind (Inr payload) dir")
    case (Inr nb)
    with assms(1) show ?thesis
      by (cases nb) (auto simp: Enqueue_def write_item_def spool_refusal_def split: option.splits)
  next
    case (Inl er)
    with assms(1) have er: "spool_admit io q kind (Inr payload) dir = Inl err" by (simp add: Enqueue_def)
    have "healthUnlocked io dir = Inl e \<Longrightarrow> io_readDir io = Some e" for e
      by (simp add: healthUnlocked_def Let_def split: option.splits)
    with er assms(4) b show ?thesis
      by (auto simp: spool_admit_def spool_refusal_def Let_def split: if_splits sum.splits)
  qed
qed

text \<open>
  The control plane answered a report of the failure with the text \<open>t\<close> under its job's path: it
  acknowledged it, or the job is already in a terminal state.
\<close>

definition failure_answered :: "(nat \<Rightarrow> client_env) \<Rightarrow> Client \<Rightarrow> string \<Rightarrow> bytes \<Rightarrow> bool" where
  "failure_answered cp c jobID t \<longleftrightarrow> (\<exists>n. let rq = build_request c ''POST'' (job_path jobID ''fail'') (Some t)
     in acknowledged (cp n) rq \<or> answered_with (cp n) rq ''JOB_STATE_INVALID'')"

text \<open>
  C20: a failure the control plane did not take at once is accounted for. Either it has no encoding, or the spool
  refused it with an error of the file system or for want of room, or it has a file of its own
  in the spool. After any later flush through the client that file is still there, or it was
  over age, or the control plane has acknowledged a request that carried exactly this failure
  under its job's path or answered it with JOB_STATE_INVALID; after a flush without an error the
  control plane has answered and the file is gone, unless it was over age or its metadata could
  not be read. (The client's decoder is assumed to read back the failure from its encoding, and
  the transport to return no \<^verbatim>\<open>APIError\<close> of its own.)
\<close>

theorem undelivered_failure_is_answered_for:
  assumes "reject env job code summary retryable e = (FailureReport f False, e')"
    and "\<forall>t. JobFailure_json f = Inr t \<longrightarrow> wd_JobFailure dec t = Some f"
    and "distinct (map fst (ex_Spool e))"
    and "Flush io' (ex_Queue e) (\<lambda>n. Send (cp n) c ftoa dec) (ex_Spool e') = (err, sent, dir')"
    and "\<forall>n. plain_transport (cp n)"
  shows "jf_JobID f = je_JobID job
    \<and> (isl (JobFailure_json f) \<or> (\<exists>t. JobFailure_json f = Inr t
      \<and> ((\<exists>er. fst (Enqueue (rn_io env) (ex_Queue e) ''failure'' (Inr t) (ex_Spool e)) = Some er
             \<and> spool_refusal (rn_io env) (ex_Queue e) ''failure'' t (ex_Spool e) er)
      \<or> (\<exists>name sf. ex_Spool e' = ex_Spool e @ [(name, sf)] \<and> name \<notin> fst ` set (ex_Spool e)
          \<and> ((name, sf) \<in> set dir' \<or> over_age (rn_io env) io' (ex_Queue e) name \<or> failure_answered cp c (je_JobID job) t)
          \<and> (err = None \<and> io_info io' name \<and> \<not> over_age (rn_io env) io' (ex_Queue e) name \<longrightarrow>
               failure_answered cp c (je_JobID job) t \<and> name \<notin> fst ` set dir')))))"
proof (cases "JobFailure_json f")
  case (Inl er)
  with assms(1) show ?thesis by (auto simp: reject_def Let_def recordLast_def)
next
  case t: (Inr t)
  let ?io = "rn_io env" and ?q = "ex_Queue e"
  from assms(1) have f: "jf_JobID f = je_JobID job"
    and sp: "ex_Spool e' = snd (Enqueue ?io ?q ''failure'' (Inr t) (ex_Spool e))"
    by (auto simp: reject_def Let_def recordLast_def t [symmetric])
  note wire = wire_text_JobFailure [OF t]
  have answered: "failure_answered cp c (je_JobID job) t" if "(name, ''failure'', t, True) \<in> set sent" for name
  proof -
    from Flush_sent [OF assms(4) that] obtain m where "Send (cp m) c ftoa dec ''failure'' t = None" by blast
    with assms(2) t have "ReportFailure (cp m) c f = None" by (simp add: Send_def)
    from ReportFailure_None [OF _ this] assms(5) t f show ?thesis by (auto simp: failure_answered_def Let_def)
  qed
  show ?thesis
  proof (cases "fst (Enqueue ?io ?q ''failure'' (Inr t) (ex_Spool e))")
    case (Some er)
    from Enqueue_refused [OF this wire] have "spool_refusal ?io ?q ''failure'' t (ex_Spool e) er" by (simp add: max_nesting_depth_def)
    with Some f t show ?thesis by blast
  next
    case None
    with sp have "Enqueue ?io ?q ''failure'' (Inr t) (ex_Spool e) = (None, ex_Spool e')" by (simp add: prod_eq_iff)
    then obtain name sf where n: "ex_Spool e' = ex_Spool e @ [(name, sf)]" "name \<notin> fst ` set (ex_Spool e)"
      and cl: "classify io' ?q (name, sf) = (if \<not> io_info io' name then SkipEntry else if over_age ?io io' ?q name then DropEntry
         else case io_read io' name of Some err \<Rightarrow> FailEntry err | None \<Rightarrow> DeliverEntry ''failure'' t)"
      by (rule Enqueue_classified [OF _ wire]) (auto simp: max_nesting_depth_def)
    have dist: "distinct (map fst (ex_Spool e'))" and mem: "(name, sf) \<in> set (ex_Spool e')" using assms(3) n by auto
    from Flush_removed [OF dist assms(4) mem] cl answered
    have "(name, sf) \<in> set dir' \<or> over_age ?io io' ?q name \<or> failure_answered cp c (je_JobID job) t"
      by (auto split: if_splits option.splits)
    moreover have "failure_answered cp c (je_JobID job) t \<and> name \<notin> fst ` set dir'"
      if "err = None" "io_info io' name" "\<not> over_age ?io io' ?q name"
      using Flush_success [OF assms(4) [unfolded that(1)] mem] cl that answered by (auto split: option.splits)
    ultimately show ?thesis using f n t by blast
  qed
qed

definition sample_offline :: run_env where
  "sample_offline = sample_run\<lparr>rn_reportFailure := \<lambda>_. Some Canceled\<rparr>"

definition sample_failure :: JobFailure where
  "sample_failure = \<lparr>jf_ProtocolVersion = Version, jf_JobID = je_JobID sample_job, jf_AgentID = je_AgentID sample_job,
     jf_Code = FailureInvalidJob, jf_Summary = ''bad'', jf_OccurredAt = 2500, jf_Retryable = False\<rparr>"

definition sample_spooling :: Executor where
  "sample_spooling = sample_executor\<lparr>ex_Queue := \<lparr>q_MaxBytes = 4096, q_MaxAge = 100\<rparr>\<rparr>"

definition sample_online :: client_env where
  "sample_online = \<lparr>cl_newRequest = (\<lambda>_ _. None), cl_do = (\<lambda>_. Inr \<lparr>hw_StatusCode = 204, hw_Body = [], hw_BodyErr = None\<rparr>)\<rparr>"

definition sample_decoders :: wire_decoders where
  "sample_decoders = \<lparr>wd_JobResult = \<lambda>_. None, wd_JobFailure = \<lambda>_. Some sample_failure, wd_EvidenceRequest = \<lambda>_. None\<rparr>"

theorem undelivered_failure_is_answered_for_witness:
  "\<exists>e' t name sent dir'. reject sample_offline sample_job FailureInvalidJob ''bad'' False sample_spooling = (FailureReport sample_failure False, e')
     \<and> JobFailure_json sample_failure = Inr t \<and> name \<in> fst ` set (ex_Spool e')
     \<and> Flush sample_io (ex_Queue sample_spooling) (\<lambda>n. Send sample_online \<lparr>c_base = [], c_version = []\<rparr> (\<lambda>_. []) sample_decoders)
          (ex_Spool e') = (None, sent, dir')
     \<and> failure_answered (\<lambda>_. sample_online) \<lparr>c_base = [], c_version = []\<rparr> (je_JobID sample_job) t \<and> name \<notin> fst ` set dir'"
proof -
  let ?c = "\<lparr>c_base = [], c_version = []\<rparr>"
  let ?send = "\<lambda>n. Send sample_online ?c (\<lambda>_. []) sample_decoders"
  let ?r = "reject sample_offline sample_job FailureInvalidJob ''bad'' False sample_spooling"
  obtain rep e' where r: "?r = (rep, e')" by fastforce
  have "safeSummary ''bad'' = ''bad''" by code_simp
  with r have rep: "rep = FailureReport sample_failure False"
    by (auto simp: reject_def Let_def sample_offline_def sample_failure_def sample_run_def)
  have "\<not> isl (JobFailure_json sample_failure)" by code_simp
  then obtain t where t: "JobFailure_json sample_failure = Inr t" by (cases "JobFailure_json sample_failure") simp_all
  obtain err sent dir' where fl: "Flush sample_io (ex_Queue sample_spooling) ?send (ex_Spool e') = (err, sent, dir')"
    by (metis prod_cases3)
  have "fst (Flush sample_io (ex_Queue sample_spooling) ?send (ex_Spool (snd ?r))) = None" by code_simp
  with r fl have fine: "err = None" by simp
  have "fst (Enqueue (rn_io sample_offline) (ex_Queue sample_spooling) ''failure'' (JobFailure_json sample_failure) (ex_Spool sample_spooling)) = None"
    by code_simp
  moreover have "\<not> over_age (rn_io sample_offline) sample_io (ex_Queue sample_spooling) name" "io_info sample_io name" for name
    by (simp_all add: over_age_def sample_offline_def sample_run_def sample_spooling_def sample_io_def time_Sub_def)
  moreover have "plain_transport sample_online" "distinct (map fst (ex_Spool sample_spooling))"
    by (auto simp: plain_transport_def sample_online_def sample_spooling_def sample_executor_def)
  moreover have "wd_JobFailure sample_decoders x = Some sample_failure" for x by (simp add: sample_decoders_def)
  ultimately obtain name sf where "ex_Spool e' = ex_Spool sample_spooling @ [(name, sf)]" "failure_answered (\<lambda>_. sample_online) ?c (je_JobID sample_job) t"
    "name \<notin> fst ` set dir'"
    using undelivered_failure_is_answered_for [OF r [unfolded rep] _ _ fl] t fine by auto
  then show ?thesis using r rep t fl fine by force
qed

end
