(* ===== verification/Concurrency.thy ===== *)
theory Concurrency
  imports Executor
begin

text \<open>
  The executor with its goroutines. \<^verbatim>\<open>Submit\<close> runs in the poll loop; every accepted job runs
  \<^verbatim>\<open>execute\<close> in a goroutine of its own. A state holds the shared executor, the goroutines, the
  reports made so far and the jobs submitted so far; a step is one atomic part of a handler, so
  the reachable states are those of every interleaving.
\<close>

section \<open>States and steps\<close>

record task =
  t_job :: JobEnvelope
  t_module :: "exec_env Module"
  t_holding :: bool

record agent_state =
  as_ex :: Executor
  as_tasks :: "task list"
  as_reports :: "(JobEnvelope \<times> report) list"
  as_submitted :: "JobEnvelope list"

text \<open>A goroutine ends: its report is recorded and its execution slot is free again.\<close>

definition end_task :: "JobEnvelope \<Rightarrow> task list \<Rightarrow> report \<times> Executor \<Rightarrow> agent_state \<Rightarrow> agent_state" where
  "end_task job tasks re s = s\<lparr>as_ex := release_slot (snd re), as_tasks := tasks,
     as_reports := (job, fst re) # as_reports s\<rparr>"

inductive exec_step :: "run_env \<Rightarrow> agent_state \<Rightarrow> agent_state \<Rightarrow> bool" where
  accept: "Submit env job (as_ex s) = (Inr m, e) \<Longrightarrow>
    exec_step env s (s\<lparr>as_ex := e, as_tasks := as_tasks s @ [\<lparr>t_job = job, t_module = m, t_holding = False\<rparr>],
      as_submitted := job # as_submitted s\<rparr>)"
| refuse: "Submit env job (as_ex s) = (Inl (err, rep), e) \<Longrightarrow>
    exec_step env s (s\<lparr>as_ex := e, as_reports := (job, rep) # as_reports s, as_submitted := job # as_submitted s\<rparr>)"
| expire: "as_tasks s = ts1 @ t # ts2 \<Longrightarrow> \<not> t_holding t \<Longrightarrow> exec_timeout env (t_job t) (as_ex s) \<le> 0 \<Longrightarrow>
    exec_step env s (end_task (t_job t) (ts1 @ ts2)
      (reject env (t_job t) FailureJobExpired ''job expired before execution'' False (as_ex s)) s)"
| give_up: "as_tasks s = ts1 @ t # ts2 \<Longrightarrow> \<not> t_holding t \<Longrightarrow> 0 < exec_timeout env (t_job t) (as_ex s) \<Longrightarrow>
    Acquire (rn_acquireCtx env) (rn_acquirePick env) (je_ModuleID (t_job t)) (ex_Registry (as_ex s)) = Some (Inl err) \<Longrightarrow>
    exec_step env s (end_task (t_job t) (ts1 @ ts2)
      (reject env (t_job t) FailureInternal ''module execution slot could not be reserved'' True (as_ex s)) s)"
| acquire: "as_tasks s = ts1 @ t # ts2 \<Longrightarrow> \<not> t_holding t \<Longrightarrow> 0 < exec_timeout env (t_job t) (as_ex s) \<Longrightarrow>
    Acquire (rn_acquireCtx env) (rn_acquirePick env) (je_ModuleID (t_job t)) (ex_Registry (as_ex s)) = Some (Inr r) \<Longrightarrow>
    exec_step env s (s\<lparr>as_ex := (as_ex s)\<lparr>ex_Registry := r\<rparr>, as_tasks := ts1 @ t\<lparr>t_holding := True\<rparr> # ts2\<rparr>)"
| finish: "as_tasks s = ts1 @ t # ts2 \<Longrightarrow> t_holding t \<Longrightarrow>
    execute_held env (t_job t) (t_module t) (as_ex s) = (rep, e) \<Longrightarrow>
    exec_step env s (end_task (t_job t) (ts1 @ ts2) (rep, release_module (t_job t) e) s)"

inductive_cases exec_stepE: "exec_step env s s'"

text \<open>A step of a goroutine submits nothing.\<close>

definition goroutine_step :: "run_env \<Rightarrow> agent_state \<Rightarrow> agent_state \<Rightarrow> bool" where
  "goroutine_step env s s' \<longleftrightarrow> exec_step env s s' \<and> as_submitted s' = as_submitted s"

definition exec_reach :: "agent_state \<Rightarrow> agent_state \<Rightarrow> bool" where
  "exec_reach = (\<lambda>s s'. \<exists>env. exec_step env s s')\<^sup>*\<^sup>*"

text \<open>The state after \<^verbatim>\<open>executor.New\<close> and the registration of the modules \<open>ms\<close>.\<close>

definition initial :: "exec_env Module list \<Rightarrow> nat \<Rightarrow> agent_state \<Rightarrow> bool" where
  "initial ms maximum s \<longleftrightarrow> NewRegistry ms = Inr (ex_Registry (as_ex s))
     \<and> ex_slots (as_ex s) = \<lparr>ch_cap = maximum, ch_len = 0\<rparr>
     \<and> as_tasks s = [] \<and> as_reports s = [] \<and> as_submitted s = []"

section \<open>The handler is a path of steps\<close>

text \<open>
  Running the handler \<^verbatim>\<open>execute\<close> from beginning to end is one of the interleavings: where it
  returns, the steps of its goroutine lead to the same executor and report.
\<close>

lemma execute_is_path:
  assumes "execute env (t_job t) (t_module t) (as_ex s) = Some (rep, e)"
    and "as_tasks s = ts1 @ t # ts2" and "\<not> t_holding t"
  shows "(exec_step env)\<^sup>*\<^sup>* s (s\<lparr>as_ex := e, as_tasks := ts1 @ ts2, as_reports := (t_job t, rep) # as_reports s\<rparr>)"
proof (cases "exec_timeout env (t_job t) (as_ex s) \<le> 0")
  case True
  from expire [OF assms(2,3) True] True assms(1) show ?thesis
    by (auto simp: execute_def end_task_def split: prod.splits)
next
  case False
  then have pos: "0 < exec_timeout env (t_job t) (as_ex s)" by simp
  show ?thesis
  proof (cases "Acquire (rn_acquireCtx env) (rn_acquirePick env) (je_ModuleID (t_job t)) (ex_Registry (as_ex s))")
    case None
    with assms(1) False show ?thesis by (simp add: execute_def)
  next
    case (Some res)
    show ?thesis
    proof (cases res)
      case (Inl err)
      with give_up [OF assms(2,3) pos, of err] Some assms(1) False show ?thesis
        by (auto simp: execute_def end_task_def split: prod.splits)
    next
      case (Inr r)
      let ?s1 = "s\<lparr>as_ex := (as_ex s)\<lparr>ex_Registry := r\<rparr>, as_tasks := ts1 @ t\<lparr>t_holding := True\<rparr> # ts2\<rparr>"
      obtain rep1 e1 where held: "execute_held env (t_job t) (t_module t) ((as_ex s)\<lparr>ex_Registry := r\<rparr>) = (rep1, e1)"
        by fastforce
      have "exec_step env s ?s1" using acquire [OF assms(2,3) pos] Some Inr by simp
      moreover have "exec_step env ?s1 (end_task (t_job t) (ts1 @ ts2) (rep1, release_module (t_job t) e1) ?s1)"
        using finish [of ?s1 ts1 "t\<lparr>t_holding := True\<rparr>" ts2 env rep1 e1] held by simp
      ultimately have "(exec_step env)\<^sup>*\<^sup>* s (end_task (t_job t) (ts1 @ ts2) (rep1, release_module (t_job t) e1) ?s1)" by auto
      with assms(1) False Some Inr held show ?thesis by (simp add: execute_def end_task_def)
    qed
  qed
qed

section \<open>The invariant\<close>

definition held_modules :: "task list \<Rightarrow> string list" where
  "held_modules ts = map (je_ModuleID \<circ> t_job) (filter t_holding ts)"

lemma held_modules_append [simp]: "held_modules (xs @ ys) = held_modules xs @ held_modules ys"
  by (simp add: held_modules_def)

lemma held_modules_Cons [simp]:
  "held_modules (t # ts) = (if t_holding t then je_ModuleID (t_job t) # held_modules ts else held_modules ts)"
  by (simp add: held_modules_def)

lemma held_modules_Nil [simp]: "held_modules [] = []"
  by (simp add: held_modules_def)

fun report_job :: "report \<Rightarrow> string" where
  "report_job (FailureReport f ok) = jf_JobID f"
| "report_job (ResultReport r ok) = jr_JobID r"

definition exec_inv :: "exec_env Module list \<Rightarrow> nat \<Rightarrow> agent_state \<Rightarrow> bool" where
  "exec_inv ms maximum s \<longleftrightarrow>
     ch_len (ex_slots (as_ex s)) = length (as_tasks s) \<and> length (as_tasks s) \<le> maximum
     \<and> ch_cap (ex_slots (as_ex s)) = maximum
     \<and> reg_inv ms (ex_Registry (as_ex s), held_modules (as_tasks s))
     \<and> mset (as_submitted s) = mset (map fst (as_reports s)) + mset (map t_job (as_tasks s))
     \<and> (\<forall>(job, rep)\<in>set (as_reports s). report_job rep = je_JobID job)"

lemma limit_ok_cong:
  assumes "\<And>i. count_list held i = count_list held' i"
  shows "limit_ok ms held i oc = limit_ok ms held' i oc"
proof -
  have "i \<in> set held \<longleftrightarrow> i \<in> set held'" using assms [of i] count_list_0_iff [of held i] count_list_0_iff [of held' i] by auto
  then show ?thesis using assms by (simp add: limit_ok_def split: option.split)
qed

lemma reg_inv_cong:
  assumes "\<And>i. count_list held i = count_list held' i"
  shows "reg_inv ms (r, held) = reg_inv ms (r, held')"
  unfolding reg_inv_def fst_conv snd_conv by (simp only: limit_ok_cong [OF assms])

lemma report_job_reject: "report_job (fst (reject env job code summary retryable e)) = je_JobID job"
  by (simp add: reject_def Let_def)

text \<open>What running a module leaves alone.\<close>

definition same_control :: "Executor \<Rightarrow> Executor \<Rightarrow> bool" where
  "same_control e e' \<longleftrightarrow> ex_Registry e' = ex_Registry e \<and> ex_slots e' = ex_slots e"

lemma same_control_reject: "same_control e (snd (reject env job code summary retryable e))"
  by (simp add: same_control_def)

lemma deliver_result_job:
  "normalize_result env maxBytes job result = Inr wire \<Longrightarrow> report_job (fst (deliver_result env job wire e)) = je_JobID job"
  using reported_result_fields [of env maxBytes job result wire] by (simp add: deliver_result_def Let_def)

lemma run_module_control:
  "same_control e (snd (run_module env job m e)) \<and> report_job (fst (run_module env job m e)) = je_JobID job"
  by (auto simp: run_module_def Let_def report_job_reject same_control_reject deliver_result_job
      split: prod.splits option.splits sum.splits)
    (auto simp: same_control_def deliver_result_def Let_def recordLast_def)

lemma execute_held_control:
  "same_control e (snd (execute_held env job m e)) \<and> report_job (fst (execute_held env job m e)) = je_JobID job"
  using run_module_control by (auto simp: execute_held_def report_job_reject same_control_reject split: sum.splits)

lemma release_slot_len:
  assumes "0 < ch_len (ex_slots e)"
  shows "ch_len (ex_slots (release_slot e)) = ch_len (ex_slots e) - 1
    \<and> ch_cap (ex_slots (release_slot e)) = ch_cap (ex_slots e) \<and> ex_Registry (release_slot e) = ex_Registry e"
  using assms by (auto simp: release_slot_def chan_recv_def)

text \<open>The end of a goroutine that holds no module keeps the invariant.\<close>

lemma exec_inv_end:
  assumes inv: "exec_inv ms maximum s" and tasks: "as_tasks s = ts1 @ t # ts2" and ctl: "same_control (as_ex s) e"
    and rep: "report_job rep = je_JobID (t_job t)" and idle: "\<not> t_holding t"
  shows "exec_inv ms maximum (end_task (t_job t) (ts1 @ ts2) (rep, e) s)"
proof -
  from inv tasks ctl have "0 < ch_len (ex_slots e)" by (simp add: exec_inv_def same_control_def)
  note slot = release_slot_len [OF this]
  show ?thesis using inv tasks ctl rep slot idle
    by (auto simp: exec_inv_def end_task_def same_control_def)
qed

lemma exec_inv_finish:
  assumes inv: "exec_inv ms maximum s" and tasks: "as_tasks s = ts1 @ t # ts2" and ctl: "same_control (as_ex s) e"
    and rep: "report_job rep = je_JobID (t_job t)" and held: "t_holding t"
  shows "exec_inv ms maximum (end_task (t_job t) (ts1 @ ts2) (rep, release_module (t_job t) e) s)"
proof -
  let ?i = "je_ModuleID (t_job t)"
  let ?held = "held_modules (ts1 @ t # ts2)"
  from inv tasks ctl have reg: "reg_inv ms (ex_Registry e, ?held)" by (simp add: exec_inv_def same_control_def)
  have mem: "?i \<in> set ?held" using held by simp
  from reg have "limit_ok ms ?held ?i (map_of (reg_limits (ex_Registry e)) ?i)" by (simp add: reg_inv_def)
  with mem count_list_0_iff [of ?held ?i] obtain c where c: "map_of (reg_limits (ex_Registry e)) ?i = Some c" "0 < ch_len c"
    by (auto simp: limit_ok_def split: option.splits)
  from c chan.holder_can_put [of c] obtain r where r: "release ?i (ex_Registry e) = Some r"
    by (auto simp: release_def)
  from reg_inv_release [OF reg r mem] have "reg_inv ms (r, remove1 ?i ?held)" .
  then have reg': "reg_inv ms (r, held_modules (ts1 @ ts2))"
    using held by (subst reg_inv_cong [where held' = "remove1 ?i ?held"]) (auto simp: count_list_remove1)
  have rel: "release_module (t_job t) e = e\<lparr>ex_Registry := r\<rparr>" by (simp add: release_module_def r)
  from inv tasks ctl have "0 < ch_len (ex_slots (e\<lparr>ex_Registry := r\<rparr>))" by (simp add: exec_inv_def same_control_def)
  note slot = release_slot_len [OF this]
  show ?thesis using inv tasks ctl rep slot reg'
    by (auto simp: exec_inv_def end_task_def same_control_def rel)
qed

lemma exec_inv_step:
  assumes "exec_step env s s'" and "exec_inv ms maximum s"
  shows "exec_inv ms maximum s'"
  using assms
proof (cases rule: exec_step.cases)
  case (accept job m e)
  from accept(2) obtain slots where slots: "chan_send (ex_slots (as_ex s)) = Some slots"
    and e: "ex_slots e = slots" "ex_Registry e = ex_Registry (as_ex s)"
    by (cases rule: Submit_cases) auto
  from chan.take_SomeD [OF slots] assms(2) accept(1) e show ?thesis by (auto simp: exec_inv_def)
next
  case (refuse job err rep e)
  from refuse(2) have "ex_slots e = ex_slots (as_ex s)" "ex_Registry e = ex_Registry (as_ex s)"
    "report_job rep = je_JobID job"
    by (cases rule: Submit_cases; auto simp: report_job_reject)+
  with assms(2) refuse(1) show ?thesis by (auto simp: exec_inv_def)
next
  case (expire ts1 t ts2)
  have "exec_inv ms maximum (end_task (t_job t) (ts1 @ ts2) (fst re, snd re) s)"
    if "re = reject env (t_job t) FailureJobExpired ''job expired before execution'' False (as_ex s)" for re
    using exec_inv_end [OF assms(2) expire(2) same_control_reject report_job_reject expire(3)] that by blast
  then show ?thesis using expire(1) by simp
next
  case (give_up ts1 t ts2 err)
  have "exec_inv ms maximum (end_task (t_job t) (ts1 @ ts2) (fst re, snd re) s)"
    if "re = reject env (t_job t) FailureInternal ''module execution slot could not be reserved'' True (as_ex s)" for re
    using exec_inv_end [OF assms(2) give_up(2) same_control_reject report_job_reject give_up(3)] that by blast
  then show ?thesis using give_up(1) by simp
next
  case (acquire ts1 t ts2 r)
  from assms(2) acquire(2) have "reg_inv ms (ex_Registry (as_ex s), held_modules (ts1 @ t # ts2))" by (simp add: exec_inv_def)
  from reg_inv_acquire [OF this acquire(5)]
  have "reg_inv ms (r, je_ModuleID (t_job t) # held_modules (ts1 @ t # ts2))" .
  then have "reg_inv ms (r, held_modules (ts1 @ t\<lparr>t_holding := True\<rparr> # ts2))"
    using acquire(3) by (subst reg_inv_cong [where held' = "je_ModuleID (t_job t) # held_modules (ts1 @ t # ts2)"]) auto
  with assms(2) acquire show ?thesis by (auto simp: exec_inv_def)
next
  case (finish ts1 t ts2 rep e)
  have "same_control (as_ex s) e" "report_job rep = je_JobID (t_job t)"
    using execute_held_control [of "as_ex s" env "t_job t" "t_module t"] finish(4) by auto
  from exec_inv_finish [OF assms(2) finish(2) this finish(3)] finish(1) show ?thesis by simp
qed

lemma exec_inv_initial: "initial ms maximum s \<Longrightarrow> exec_inv ms maximum s"
  by (auto simp: initial_def exec_inv_def intro: reg_inv_new)

lemma exec_inv_reach:
  assumes "initial ms maximum s0" and "exec_reach s0 s"
  shows "exec_inv ms maximum s"
  using assms(2) unfolding exec_reach_def
  by (induction rule: rtranclp_induct) (auto intro: exec_inv_step exec_inv_initial [OF assms(1)])

section \<open>Safety\<close>

lemma module_limit:
  assumes inv: "exec_inv ms maximum s" and dist: "distinct (map module_ID ms)" and m: "m \<in> set ms"
  shows "int (length (filter (\<lambda>t. t_holding t \<and> je_ModuleID (t_job t) = d_ID (mod_Descriptor m)) (as_tasks s)))
    \<le> max 1 (d_ConcurrencyLimit (mod_Descriptor m))"
proof -
  have count: "count_list (held_modules ts) i = length (filter (\<lambda>t. t_holding t \<and> je_ModuleID (t_job t) = i) ts)" for ts i
    by (induction ts) auto
  from inv have "limit_ok ms (held_modules (as_tasks s)) (module_ID m) (map_of (reg_limits (ex_Registry (as_ex s))) (module_ID m))"
    by (simp add: exec_inv_def reg_inv_def)
  with m obtain m' where m': "m' \<in> set ms" "module_ID m' = module_ID m"
    and le: "count_list (held_modules (as_tasks s)) (module_ID m) \<le> module_slots m'"
    by (auto simp: limit_ok_def split: option.splits)
  from dist m m' have "m' = m" by (auto simp: distinct_map inj_on_def)
  with le show ?thesis by (auto simp: module_slots_def module_ID_def count)
qed

text \<open>
  In every interleaving of submissions and running jobs, the number of jobs in execution is
  what \<^verbatim>\<open>Running\<close> returns and never exceeds the configured maximum, and no module is executed
  by more jobs at once than its own concurrency limit allows.
\<close>

theorem concurrency_limits_hold:
  assumes "initial ms maximum s0" and "exec_reach s0 s"
  shows "Running (as_ex s) = length (as_tasks s) \<and> length (as_tasks s) \<le> maximum
    \<and> (\<forall>m\<in>set ms. int (length (filter (\<lambda>t. t_holding t \<and> je_ModuleID (t_job t) = d_ID (mod_Descriptor m)) (as_tasks s)))
          \<le> max 1 (d_ConcurrencyLimit (mod_Descriptor m)))"
proof -
  have inv: "exec_inv ms maximum s" using assms by (rule exec_inv_reach)
  from assms(1) have "distinct (map module_ID ms)" by (auto simp: initial_def NewRegistry_Inr_iff)
  with module_limit [OF inv] inv show ?thesis by (auto simp: exec_inv_def Running_def)
qed

text \<open>
  In every interleaving each submission has exactly one outcome: a job has been submitted
  as often as it has been reported or is still running, and every report names the job it is
  about.
\<close>

theorem every_submission_is_reported_once:
  assumes "initial ms maximum s0" and "exec_reach s0 s"
  shows "count_list (as_submitted s) job
      = length (filter (\<lambda>(j, _). j = job) (as_reports s)) + length (filter (\<lambda>t. t_job t = job) (as_tasks s))
    \<and> (\<forall>(j, rep)\<in>set (as_reports s). report_job rep = je_JobID j)"
proof -
  have inv: "exec_inv ms maximum s" using assms by (rule exec_inv_reach)
  have "count (mset xs) x = count_list xs x" for xs :: "JobEnvelope list" and x by (induction xs) auto
  moreover have "count_list (map f ys) x = length (filter (\<lambda>y. f y = x) ys)" for f :: "'y \<Rightarrow> JobEnvelope" and ys x
    by (induction ys) auto
  moreover from inv have "count (mset (as_submitted s)) job
      = count (mset (map fst (as_reports s))) job + count (mset (map t_job (as_tasks s))) job"
    by (simp add: exec_inv_def)
  ultimately have "count_list (as_submitted s) job = length (filter (\<lambda>y. fst y = job) (as_reports s))
      + length (filter (\<lambda>t. t_job t = job) (as_tasks s))" by metis
  moreover have "(\<lambda>(j, r :: report). j = job) = (\<lambda>y. fst y = job)" by auto
  ultimately show ?thesis using inv by (simp add: exec_inv_def)
qed

section \<open>Progress\<close>

text \<open>How many steps the goroutines of a state have left.\<close>

definition pending :: "agent_state \<Rightarrow> nat" where
  "pending s = (\<Sum>t\<leftarrow>as_tasks s. if t_holding t then 1 else 2)"

lemma Acquire_returns:
  assumes "reg_inv ms (r, [])"
  shows "\<exists>res. Acquire ctx pick i r = Some res"
proof -
  from assms have "limit_ok ms [] i (map_of (reg_limits r) i)" by (simp add: reg_inv_def)
  then show ?thesis
    by (auto simp: limit_ok_def Acquire_def chan_send_def module_slots_def split: option.splits)
qed

lemma step_lessI:
  "exec_step env s s1 \<Longrightarrow> as_submitted s1 = as_submitted s \<Longrightarrow> pending s1 < pending s
   \<Longrightarrow> \<exists>s'. goroutine_step env s s' \<and> pending s' < pending s"
  by (auto simp: goroutine_step_def)

text \<open>
  While a goroutine is left, one of them can take its next step, whatever it meets there: a
  holder of a module slot can finish, and when there is none, every slot is free.
\<close>

lemma goroutine_can_step:
  assumes inv: "exec_inv ms maximum s" and "as_tasks s \<noteq> []"
  shows "\<exists>s'. goroutine_step env s s' \<and> pending s' < pending s"
proof (cases "\<exists>t\<in>set (as_tasks s). t_holding t")
  case True
  then obtain ts1 t ts2 where ts: "as_tasks s = ts1 @ t # ts2" and t: "t_holding t" by (meson split_list)
  obtain rep e where "execute_held env (t_job t) (t_module t) (as_ex s) = (rep, e)" by fastforce
  from finish [OF ts t this] show ?thesis by (rule step_lessI) (simp_all add: end_task_def pending_def ts t)
next
  case False
  from assms(2) obtain t ts2 where ts: "as_tasks s = [] @ t # ts2" by (cases "as_tasks s") auto
  with False have t: "\<not> t_holding t" by simp
  from False have "held_modules (as_tasks s) = []" by (simp add: held_modules_def filter_empty_conv)
  with inv have "reg_inv ms (ex_Registry (as_ex s), [])" by (simp add: exec_inv_def)
  from Acquire_returns [OF this] obtain res
    where acq: "Acquire (rn_acquireCtx env) (rn_acquirePick env) (je_ModuleID (t_job t)) (ex_Registry (as_ex s)) = Some res"
    by blast
  show ?thesis
  proof (cases "exec_timeout env (t_job t) (as_ex s) \<le> 0")
    case True
    from expire [OF ts t True] show ?thesis by (rule step_lessI) (simp_all add: end_task_def pending_def ts t)
  next
    case False
    then have pos: "0 < exec_timeout env (t_job t) (as_ex s)" by simp
    show ?thesis
    proof (cases res)
      case (Inl err)
      from give_up [OF ts t pos acq [unfolded Inl]] show ?thesis by (rule step_lessI) (simp_all add: end_task_def pending_def ts t)
    next
      case (Inr r)
      from acquire [OF ts t pos acq [unfolded Inr]] show ?thesis by (rule step_lessI) (simp_all add: pending_def ts t)
    qed
  qed
qed

lemma drains:
  assumes "exec_inv ms maximum s"
  shows "\<exists>s'. (goroutine_step env)\<^sup>*\<^sup>* s s' \<and> as_tasks s' = [] \<and> as_submitted s' = as_submitted s \<and> exec_inv ms maximum s'"
  using assms
proof (induction "pending s" arbitrary: s rule: less_induct)
  case less
  show ?case
  proof (cases "as_tasks s = []")
    case True
    then show ?thesis using less.prems by blast
  next
    case False
    from goroutine_can_step [OF less.prems False] obtain s1
      where s1: "goroutine_step env s s1" "pending s1 < pending s" by blast
    then have step: "exec_step env s s1" "as_submitted s1 = as_submitted s" by (simp_all add: goroutine_step_def)
    from less.hyps [OF s1(2) exec_inv_step [OF step(1) less.prems]] step(2) obtain s2
      where "(goroutine_step env)\<^sup>*\<^sup>* s1 s2" "as_tasks s2 = []" "as_submitted s2 = as_submitted s" "exec_inv ms maximum s2"
      by auto
    with s1(1) show ?thesis by (meson converse_rtranclp_into_rtranclp)
  qed
qed

lemma goroutine_steps: "(goroutine_step env)\<^sup>*\<^sup>* s s' \<Longrightarrow> (exec_step env)\<^sup>*\<^sup>* s s'"
  by (rule rtranclp_mono [THEN predicate2D]) (auto simp: goroutine_step_def)

text \<open>
  The executor never deadlocks. From every state it can reach, whatever the control plane,
  the clock and the modules answer, the goroutines have steps that lead to a state in which
  none is left, \<^verbatim>\<open>Running\<close> is 0 and every job submitted so far has its report: \<^verbatim>\<open>Wait\<close> can return.
\<close>

theorem executor_can_drain:
  assumes "initial ms maximum s0" and "exec_reach s0 s"
  shows "\<exists>s'. (exec_step env)\<^sup>*\<^sup>* s s' \<and> as_tasks s' = [] \<and> Running (as_ex s') = 0
    \<and> as_submitted s' = as_submitted s \<and> mset (map fst (as_reports s')) = mset (as_submitted s)"
proof -
  from drains [OF exec_inv_reach [OF assms]] obtain s' where "(goroutine_step env)\<^sup>*\<^sup>* s s'" "as_tasks s' = []"
    "as_submitted s' = as_submitted s" and "exec_inv ms maximum s'" by blast
  then show ?thesis by (intro exI [of _ s']) (simp add: exec_inv_def Running_def goroutine_steps)
qed

lemma goroutine_step_pending:
  assumes "goroutine_step env s s'"
  shows "pending s' < pending s"
proof -
  from assms have "exec_step env s s'" and s: "as_submitted s' = as_submitted s" by (simp_all add: goroutine_step_def)
  from this(1) show ?thesis by (cases rule: exec_step.cases) (use s in \<open>auto simp: pending_def end_task_def\<close>)
qed

lemma goroutine_steps_pending:
  "((\<lambda>a b. \<exists>env. goroutine_step env a b) ^^ n) s s' \<Longrightarrow> n + pending s' \<le> pending s"
proof (induction n arbitrary: s')
  case (Suc n)
  then obtain s1 env where "((\<lambda>a b. \<exists>env. goroutine_step env a b) ^^ n) s s1" "goroutine_step env s1 s'" by auto
  with Suc.IH [of s1] goroutine_step_pending [of env s1 s'] show ?case by linarith
qed simp

lemma pending_le: "pending s \<le> 2 * length (as_tasks s)"
proof -
  have "(\<Sum>t\<leftarrow>ts. if t_holding t then 1 else 2 :: nat) \<le> 2 * length ts" for ts by (induction ts) auto
  then show ?thesis by (simp add: pending_def)
qed

text \<open>
  C14: the work of the executor terminates. In every state it can reach, however the steps of the
  goroutines are scheduled and whatever each of them meets, they take at most two steps per
  running job as long as nothing is submitted; and as long as a goroutine is left, some step is
  possible. So every run without new submissions ends, and it ends with no goroutine left.
\<close>

theorem goroutines_terminate:
  assumes "initial ms maximum s0" and "exec_reach s0 s"
  shows "(\<forall>n s'. ((\<lambda>a b. \<exists>env. goroutine_step env a b) ^^ n) s s' \<longrightarrow> n \<le> 2 * length (as_tasks s))
    \<and> ((\<exists>s'. goroutine_step env s s') \<longleftrightarrow> as_tasks s \<noteq> [])"
proof
  show "\<forall>n s'. ((\<lambda>a b. \<exists>env. goroutine_step env a b) ^^ n) s s' \<longrightarrow> n \<le> 2 * length (as_tasks s)"
  proof (intro allI impI)
    fix n s'
    assume "((\<lambda>a b. \<exists>env. goroutine_step env a b) ^^ n) s s'"
    from goroutine_steps_pending [OF this] pending_le [of s] show "n \<le> 2 * length (as_tasks s)" by linarith
  qed
  have "as_tasks s \<noteq> []" if "goroutine_step env s s'" for s'
    using goroutine_step_pending [OF that] by (auto simp: pending_def)
  then show "(\<exists>s'. goroutine_step env s s') \<longleftrightarrow> as_tasks s \<noteq> []"
    using goroutine_can_step [OF exec_inv_reach [OF assms]] by blast
qed

section \<open>A run of the sample executor\<close>

definition sample_start :: agent_state where
  "sample_start = \<lparr>as_ex = sample_executor, as_tasks = [], as_reports = [], as_submitted = []\<rparr>"

lemma sample_initial: "initial [tcp_module no_url] 2 sample_start"
proof -
  have "NewRegistry [tcp_module no_url] = Inr (registry_of [tcp_module no_url])"
    by (simp add: NewRegistry_Inr_iff module_ID_def tcp_module_def tcp_Descriptor_def)
  then show ?thesis by (simp add: initial_def sample_start_def sample_executor_def)
qed

text \<open>The state after the sample job has been accepted.\<close>

lemma sample_reached:
  "\<exists>s. exec_reach sample_start s \<and> length (as_tasks s) = 1 \<and> as_submitted s = [sample_tcp_envelope]"
proof -
  obtain res e where "Submit sample_run sample_tcp_envelope sample_executor = (res, e)" by fastforce
  with sample_submitted obtain m where r: "Submit sample_run sample_tcp_envelope (as_ex sample_start) = (Inr m, e)"
    by (cases res) (simp_all add: sample_start_def)
  from accept [OF r] show ?thesis
    by (intro exI conjI) (auto simp: exec_reach_def sample_start_def intro!: r_into_rtranclp)
qed

theorem concurrency_limits_hold_witness:
  "\<exists>s. exec_reach sample_start s \<and> Running (as_ex s) = 1"
proof -
  from sample_reached obtain s where s: "exec_reach sample_start s" "length (as_tasks s) = 1" by blast
  with concurrency_limits_hold [OF sample_initial s(1)] show ?thesis by auto
qed

theorem every_submission_is_reported_once_witness:
  "\<exists>s. exec_reach sample_start s \<and> as_submitted s = [sample_tcp_envelope]
     \<and> length (filter (\<lambda>(j, _). j = sample_tcp_envelope) (as_reports s))
        + length (filter (\<lambda>t. t_job t = sample_tcp_envelope) (as_tasks s)) = 1"
proof -
  from sample_reached obtain s where s: "exec_reach sample_start s" "as_submitted s = [sample_tcp_envelope]" by blast
  with every_submission_is_reported_once [OF sample_initial s(1), of sample_tcp_envelope] show ?thesis by auto
qed

theorem executor_can_drain_witness:
  "\<exists>s s'. exec_reach sample_start s \<and> length (as_tasks s) = 1 \<and> (exec_step sample_run)\<^sup>*\<^sup>* s s'
     \<and> Running (as_ex s') = 0 \<and> mset (map fst (as_reports s')) = {#sample_tcp_envelope#}"
proof -
  from sample_reached obtain s where s: "exec_reach sample_start s" "length (as_tasks s) = 1"
    "as_submitted s = [sample_tcp_envelope]" by blast
  with executor_can_drain [OF sample_initial s(1), of sample_run] show ?thesis by auto
qed

theorem goroutines_terminate_witness:
  "\<exists>s s'. exec_reach sample_start s \<and> length (as_tasks s) = 1 \<and> goroutine_step sample_run s s'"
proof -
  from sample_reached obtain s where s: "exec_reach sample_start s" "length (as_tasks s) = 1" by blast
  then have "as_tasks s \<noteq> []" by auto
  with goroutines_terminate [OF sample_initial s(1), of sample_run] s show ?thesis by blast
qed

end
