(* ===== verification/Identity.thy ===== *)
theory Identity
  imports JsonText JobVerifier
begin

text \<open>
  \<^verbatim>\<open>internal/identity/identity.go\<close>: the agent's identity, how enrollment stores it, and how it is
  loaded. The state is the content of the data directory: its subdirectories by name, each with
  its files. X.509, the key generation, SHA-256 and the parser of RFC 3339 times are parameters.
\<close>

section \<open>Types\<close>

record certificate =
  x_NotAfter :: time
  x_Raw :: bytes

text \<open>
  \<open>pk_X509KeyPair\<close> gives the leaf certificate of a PEM text whose public key matches the private
  key. The time parser is that of \<^verbatim>\<open>Time.UnmarshalJSON\<close> on the text of the literal; the names of
  paths are cleaned by \<open>pk_Clean\<close>, as \<^verbatim>\<open>filepath.Clean\<close> does.
\<close>

record pki =
  pk_libs :: libs
  pk_X509KeyPair :: "bytes \<Rightarrow> bytes \<Rightarrow> bytes result"
  pk_ParseCertificate :: "bytes \<Rightarrow> certificate result"
  pk_parseTime :: "string \<Rightarrow> time option"
  pk_Clean :: "string \<Rightarrow> string"

record Identity =
  id_AgentID :: string
  id_OrganizationID :: string
  id_ProtocolVersion :: string
  id_CertificateExpiry :: time
  id_Fingerprint :: string
  id_SigningKeyID :: string
  id_SigningKeyFingerprint :: string
  id_DataDir :: string

record Pending =
  pe_PrivateKeyPEM :: bytes
  pe_CSRPEM :: string

definition metadataFile :: string where "metadataFile = ''metadata.json''"
definition privateFile :: string where "privateFile = ''client-private-key.pem''"
definition certFile :: string where "certFile = ''client-certificate.pem''"
definition trustFile :: string where "trustFile = ''control-plane-agent-ca.pem''"
definition signingFile :: string where "signingFile = ''control-plane-job-signing-key''"

lemmas file_names = metadataFile_def privateFile_def certFile_def trustFile_def signingFile_def

type_synonym files = "(string \<times> bytes) list"
type_synonym data_dir = "string \<rightharpoonup> files"

text \<open>
  What the operating system answers to one call: the clock, and the errors of reading a file, of
  listing or removing the identity directory, of creating and preparing a staging directory, of
  writing a file (with the number of bytes written, if the file was created), of renaming and of
  examining a directory, and of removing a directory tree.
\<close>

record disk =
  dk_now :: time
  dk_read :: "string \<Rightarrow> goerror option"
  dk_readDir :: "goerror option"
  dk_remove :: "goerror option"
  dk_mkdirTemp :: "string result"
  dk_chmod :: "goerror option"
  dk_mkdir :: "goerror option"
  dk_write :: "string \<Rightarrow> (nat option \<times> goerror) option"
  dk_rename :: "string \<Rightarrow> string \<Rightarrow> goerror option"
  dk_stat :: "string \<Rightarrow> goerror option"
  dk_removeAll :: "string \<Rightarrow> goerror option"

section \<open>The file system\<close>

datatype read_result = NotExist | ReadError goerror | Content bytes

definition active_dir :: string where "active_dir = ''identity''"

definition read_file :: "disk \<Rightarrow> string \<Rightarrow> data_dir \<Rightarrow> read_result" where
  "read_file dk name fs = (case fs active_dir of None \<Rightarrow> NotExist
     | Some files \<Rightarrow> (case map_of files name of None \<Rightarrow> NotExist
       | Some data \<Rightarrow> (case dk_read dk name of Some err \<Rightarrow> ReadError err | None \<Rightarrow> Content data)))"

text \<open>A directory can be renamed over an empty one, but not over one with entries.\<close>

definition rename_dir :: "disk \<Rightarrow> string \<Rightarrow> string \<Rightarrow> data_dir \<Rightarrow> goerror option \<times> data_dir" where
  "rename_dir dk old new fs = (case dk_rename dk old new of Some err \<Rightarrow> (Some err, fs)
     | None \<Rightarrow> (case fs old of None \<Rightarrow> (Some (ErrorText ''no such file or directory''), fs)
       | Some files \<Rightarrow>
           if fs new \<noteq> None \<and> fs new \<noteq> Some [] then (Some (ErrorText ''directory not empty''), fs)
           else (None, fs(old := None, new := Some files))))"

definition remove_all :: "disk \<Rightarrow> string \<Rightarrow> data_dir \<Rightarrow> goerror option \<times> data_dir" where
  "remove_all dk name fs = (case dk_removeAll dk name of Some err \<Rightarrow> (Some err, fs) | None \<Rightarrow> (None, fs(name := None)))"

text \<open>
  \<^verbatim>\<open>writeFile\<close>: a file must not exist before. An error of the open leaves no file; an error of a
  write, a sync or the close leaves the part that was written.
\<close>

definition write_file :: "disk \<Rightarrow> string \<Rightarrow> string \<Rightarrow> bytes \<Rightarrow> data_dir \<Rightarrow> goerror option \<times> data_dir" where
  "write_file dk dir name data fs = (case fs dir of
      None \<Rightarrow> (Some (ErrorText ''no such file or directory''), fs)
    | Some files \<Rightarrow>
        if map_of files name \<noteq> None then (Some (ErrorText ''file exists''), fs)
        else (case dk_write dk name of
            Some (None, err) \<Rightarrow> (Some err, fs)
          | Some (Some n, err) \<Rightarrow> (Some err, fs(dir := Some (files @ [(name, take n data)])))
          | None \<Rightarrow> (None, fs(dir := Some (files @ [(name, data)])))))"

fun write_files :: "disk \<Rightarrow> string \<Rightarrow> files \<Rightarrow> data_dir \<Rightarrow> goerror option \<times> data_dir" where
  "write_files dk dir [] fs = (None, fs)"
| "write_files dk dir ((name, data) # rest) fs = (case write_file dk dir name data fs of
      (Some err, fs) \<Rightarrow> (Some err, fs)
    | (None, fs) \<Rightarrow> write_files dk dir rest fs)"

section \<open>Encoding and decoding of the metadata\<close>

text \<open>\<^verbatim>\<open>json.MarshalIndent\<close> of a struct with prefix and indent of \<open>n\<close> and two more blanks.\<close>

definition nl :: "nat \<Rightarrow> string" where
  "nl n = CHR 0x0A # replicate n (CHR '' '')"

definition indented :: "nat \<Rightarrow> (string \<times> string result) list \<Rightarrow> string result" where
  "indented n ms = map_result (\<lambda>vs. object_text (nl (n + 2)) '' '' (nl n) (zip (map fst ms) vs)) (collect (map snd ms))"

definition Identity_json :: "Identity \<Rightarrow> string result" where
  "Identity_json i = indented 0
     ([(''agentId'', text_value (id_AgentID i)), (''organizationId'', text_value (id_OrganizationID i)),
       (''protocolVersion'', text_value (id_ProtocolVersion i)), (''certificateExpiry'', time_value (id_CertificateExpiry i)),
       (''fingerprint'', text_value (id_Fingerprint i))] @
      omit_empty ''signingKeyId'' (id_SigningKeyID i) @ omit_empty ''signingKeyFingerprint'' (id_SigningKeyFingerprint i))"

definition time_field :: "(string \<Rightarrow> time option) \<Rightarrow> (time \<Rightarrow> 'p \<Rightarrow> 'p) \<Rightarrow> 'p \<Rightarrow> json \<Rightarrow> 'p option" where
  "time_field parse upd p v = (case v of
      JNull \<Rightarrow> Some p
    | JString s \<Rightarrow> map_option (\<lambda>t. upd t p) (parse s)
    | _ \<Rightarrow> None)"

definition Identity_fields :: "(string \<Rightarrow> time option) \<Rightarrow> Identity fields" where
  "Identity_fields parse = [(''agentId'', string_field (\<lambda>s. id_AgentID_update (\<lambda>_. s))),
     (''organizationId'', string_field (\<lambda>s. id_OrganizationID_update (\<lambda>_. s))),
     (''protocolVersion'', string_field (\<lambda>s. id_ProtocolVersion_update (\<lambda>_. s))),
     (''certificateExpiry'', time_field parse (\<lambda>t. id_CertificateExpiry_update (\<lambda>_. t))),
     (''fingerprint'', string_field (\<lambda>s. id_Fingerprint_update (\<lambda>_. s))),
     (''signingKeyId'', string_field (\<lambda>s. id_SigningKeyID_update (\<lambda>_. s))),
     (''signingKeyFingerprint'', string_field (\<lambda>s. id_SigningKeyFingerprint_update (\<lambda>_. s)))]"

definition zero_Identity :: Identity where
  "zero_Identity = \<lparr>id_AgentID = [], id_OrganizationID = [], id_ProtocolVersion = [], id_CertificateExpiry = 0,
     id_Fingerprint = [], id_SigningKeyID = [], id_SigningKeyFingerprint = [], id_DataDir = []\<rparr>"

definition TrustedSigningKeys_json :: "TrustedSigningKey list \<Rightarrow> string result" where
  "TrustedSigningKeys_json keys = map_result (array_text (nl 2) (nl 0)) (collect (map (\<lambda>k. indented 2
     [(''keyId'', text_value (tk_KeyID k)), (''algorithm'', text_value (tk_Algorithm k)),
      (''publicKey'', text_value (tk_PublicKey k)), (''fingerprint'', text_value (tk_Fingerprint k)),
      (''issuedAt'', time_value (tk_IssuedAt k))]) keys))"

definition TrustedSigningKey_fields :: "(string \<Rightarrow> time option) \<Rightarrow> TrustedSigningKey fields" where
  "TrustedSigningKey_fields parse = [(''keyId'', string_field (\<lambda>s. tk_KeyID_update (\<lambda>_. s))),
     (''algorithm'', string_field (\<lambda>s. tk_Algorithm_update (\<lambda>_. s))),
     (''publicKey'', string_field (\<lambda>s. tk_PublicKey_update (\<lambda>_. s))),
     (''fingerprint'', string_field (\<lambda>s. tk_Fingerprint_update (\<lambda>_. s))),
     (''issuedAt'', time_field parse (\<lambda>t. tk_IssuedAt_update (\<lambda>_. t)))]"

definition zero_TrustedSigningKey :: TrustedSigningKey where
  "zero_TrustedSigningKey = \<lparr>tk_KeyID = [], tk_Algorithm = [], tk_PublicKey = [], tk_Fingerprint = [], tk_IssuedAt = 0\<rparr>"

text \<open>\<^verbatim>\<open>json.Unmarshal\<close> into a slice of such structs; \<open>None\<close> when it returns an error.\<close>

definition unmarshal_keys :: "(string \<Rightarrow> time option) \<Rightarrow> bytes \<Rightarrow> TrustedSigningKey list option" where
  "unmarshal_keys parse b = (case json_Unmarshal b of
      Some (JArray vs) \<Rightarrow>
        (let rs = map (decode_struct False (TrustedSigningKey_fields parse) zero_TrustedSigningKey) vs
         in if list_all snd rs then Some (map fst rs) else None)
    | Some JNull \<Rightarrow> Some []
    | _ \<Rightarrow> None)"

section \<open>Generate\<close>

text \<open>The key generator, and the encoders of a key and of a certificate request for a name and host names.\<close>

record key_tools =
  kt_GenerateKey :: "bytes result"
  kt_MarshalPKCS8 :: "bytes \<Rightarrow> bytes result"
  kt_CreateRequest :: "string \<Rightarrow> string list \<Rightarrow> bytes \<Rightarrow> bytes result"
  kt_pem :: "string \<Rightarrow> bytes \<Rightarrow> bytes"

definition Generate :: "key_tools \<Rightarrow> string \<Rightarrow> string \<Rightarrow> Pending result" where
  "Generate kt agentName host = (case kt_GenerateKey kt of
      Inl err \<Rightarrow> Inl err
    | Inr key \<Rightarrow> (case kt_MarshalPKCS8 kt key of
        Inl err \<Rightarrow> Inl err
      | Inr der \<Rightarrow> (case kt_CreateRequest kt agentName (if host \<noteq> [] then [host] else []) key of
          Inl err \<Rightarrow> Inl err
        | Inr csr \<Rightarrow> Inr \<lparr>pe_PrivateKeyPEM = kt_pem kt ''PRIVATE KEY'' der,
            pe_CSRPEM = kt_pem kt ''CERTIFICATE REQUEST'' csr\<rparr>)))"

section \<open>SaveEnrollment\<close>

definition fingerprint :: "pki \<Rightarrow> certificate \<Rightarrow> string" where
  "fingerprint P c = hex_EncodeToString (lib_sha256 (pk_libs P) (x_Raw c))"

text \<open>The difference of two times as the code computes it: the negation of the least duration overflows.\<close>

definition expiry_difference :: "time \<Rightarrow> time \<Rightarrow> duration" where
  "expiry_difference t u = (let d = time_Sub t u in if d < 0 then int64_wrap (- d) else d)"

definition check_enrollment :: "pki \<Rightarrow> time \<Rightarrow> Pending \<Rightarrow> EnrollmentResponse \<Rightarrow> certificate result" where
  "check_enrollment P now pending r =
     (let cred = ens_AgentCredential r; cp = ens_ControlPlaneIdentity r in
      if ens_AgentID r = [] \<or> ens_OrganizationID r = [] \<or> cred_CertificatePEM cred = [] \<or> cpi_CACertificatePEM cp = []
      then Inl (ErrorText ''enrollment response omitted required identity material'')
      else case RequireCompatible (ens_ProtocolVersion r) of Some err \<Rightarrow> Inl err
      | None \<Rightarrow> (case pk_X509KeyPair P (cred_CertificatePEM cred) (pe_PrivateKeyPEM pending) of
          Inl err \<Rightarrow> Inl (ErrorText (''enrollment certificate does not match local key: '' @ error_text err))
        | Inr leaf \<Rightarrow> (case pk_ParseCertificate P leaf of Inl err \<Rightarrow> Inl err
          | Inr c \<Rightarrow>
              if x_NotAfter c < now \<or> time_Second \<le> expiry_difference (cred_ExpiresAt cred) (x_NotAfter c)
              then Inl (ErrorText ''enrollment certificate expiry is invalid'')
              else Inr c)))"

definition enrolled_identity :: "pki \<Rightarrow> string \<Rightarrow> EnrollmentResponse \<Rightarrow> certificate \<Rightarrow> Identity" where
  "enrolled_identity P dataDir r c = \<lparr>id_AgentID = ens_AgentID r, id_OrganizationID = ens_OrganizationID r,
     id_ProtocolVersion = ens_ProtocolVersion r, id_CertificateExpiry = x_NotAfter c, id_Fingerprint = fingerprint P c,
     id_SigningKeyID = cpi_JobSigningKeyID (ens_ControlPlaneIdentity r),
     id_SigningKeyFingerprint = cpi_JobSigningKeyFingerprint (ens_ControlPlaneIdentity r), id_DataDir = dataDir\<rparr>"

definition enrolled_key :: "EnrollmentResponse \<Rightarrow> TrustedSigningKey" where
  "enrolled_key r = (let cp = ens_ControlPlaneIdentity r in
     \<lparr>tk_KeyID = cpi_JobSigningKeyID cp, tk_Algorithm = cpi_JobSigningAlgorithm cp, tk_PublicKey = cpi_JobSigningPublicKey cp,
      tk_Fingerprint = cpi_JobSigningKeyFingerprint cp, tk_IssuedAt = cpi_JobSigningKeyIssuedAt cp\<rparr>)"

definition enrollment_files :: "pki \<Rightarrow> Pending \<Rightarrow> EnrollmentResponse \<Rightarrow> bytes \<Rightarrow> files result" where
  "enrollment_files P pending r metadata =
     (let cp = ens_ControlPlaneIdentity r;
          base = [(privateFile, pe_PrivateKeyPEM pending), (certFile, cred_CertificatePEM (ens_AgentCredential r)),
                  (trustFile, cpi_CACertificatePEM cp)]
      in if cpi_JobSigningPublicKey cp \<noteq> [] then
           (case TrustedSigningKey_Decode (pk_libs P) (enrolled_key r) of
              Inl err \<Rightarrow> Inl (ErrorText (''enrollment signing trust is invalid: '' @ error_text err))
            | Inr _ \<Rightarrow> (case TrustedSigningKeys_json [enrolled_key r] of Inl err \<Rightarrow> Inl err
              | Inr trustJSON \<Rightarrow> Inr (base @ [(signingFile, trustJSON), (metadataFile, metadata)])))
         else Inr (base @ [(metadataFile, metadata)]))"

text \<open>The target is free: it does not exist, or it is empty and is removed.\<close>

definition clear_target :: "disk \<Rightarrow> data_dir \<Rightarrow> goerror option \<times> data_dir" where
  "clear_target dk fs = (case fs active_dir of None \<Rightarrow> (None, fs)
     | Some entries \<Rightarrow> (case dk_readDir dk of Some err \<Rightarrow> (Some err, fs)
       | None \<Rightarrow>
           if entries \<noteq> []
           then (Some (ErrorText ''identity directory is not empty; refusing to overwrite existing material''), fs)
           else (case dk_remove dk of Some err \<Rightarrow> (Some err, fs) | None \<Rightarrow> (None, fs(active_dir := None)))))"

text \<open>The part that works in the staging directory; the caller removes what is left of it.\<close>

definition fill_stage :: "disk \<Rightarrow> string \<Rightarrow> files \<Rightarrow> data_dir \<Rightarrow> goerror option \<times> data_dir" where
  "fill_stage dk stage files fs = (case dk_chmod dk of Some err \<Rightarrow> (Some err, fs)
     | None \<Rightarrow> (case write_files dk stage files fs of (Some err, fs) \<Rightarrow> (Some err, fs)
       | (None, fs) \<Rightarrow> (case clear_target dk fs of (Some err, fs) \<Rightarrow> (Some err, fs)
         | (None, fs) \<Rightarrow> rename_dir dk stage active_dir fs)))"

definition stage_name :: "string \<Rightarrow> string" where
  "stage_name random = ''.identity-stage-'' @ random"

definition SaveEnrollment :: "pki \<Rightarrow> disk \<Rightarrow> string \<Rightarrow> Pending \<Rightarrow> EnrollmentResponse \<Rightarrow> data_dir \<Rightarrow> Identity result \<times> data_dir" where
  "SaveEnrollment P dk dataDir pending r fs = (case check_enrollment P (dk_now dk) pending r of
      Inl err \<Rightarrow> (Inl err, fs)
    | Inr c \<Rightarrow> (let i = enrolled_identity P dataDir r c in case Identity_json i of
        Inl err \<Rightarrow> (Inl err, fs)
      | Inr metadata \<Rightarrow> (case enrollment_files P pending r metadata of
          Inl err \<Rightarrow> (Inl err, fs)
        | Inr files \<Rightarrow> (case dk_mkdirTemp dk of
            Inl err \<Rightarrow> (Inl err, fs)
          | Inr random \<Rightarrow>
              if fs (stage_name random) \<noteq> None then (Inl (ErrorText ''file exists''), fs)
              else (case fill_stage dk (stage_name random) files (fs(stage_name random := Some [])) of
                (Some err, fs1) \<Rightarrow> (Inl err, snd (remove_all dk (stage_name random) fs1))
              | (None, fs1) \<Rightarrow> (Inr i, snd (remove_all dk (stage_name random) fs1)))))))"

section \<open>Load\<close>

definition keyPair :: "pki \<Rightarrow> disk \<Rightarrow> data_dir \<Rightarrow> (bytes \<times> certificate) result" where
  "keyPair P dk fs = (case read_file dk certFile fs of
      NotExist \<Rightarrow> Inl (ErrorText ''no such file or directory'')
    | ReadError err \<Rightarrow> Inl err
    | Content cert \<Rightarrow> (case read_file dk privateFile fs of
        NotExist \<Rightarrow> Inl (ErrorText ''no such file or directory'')
      | ReadError err \<Rightarrow> Inl err
      | Content key \<Rightarrow> (case pk_X509KeyPair P cert key of Inl err \<Rightarrow> Inl err
        | Inr leaf \<Rightarrow> map_result (Pair leaf) (pk_ParseCertificate P leaf))))"

definition TLSCertificate :: "pki \<Rightarrow> disk \<Rightarrow> data_dir \<Rightarrow> bytes result" where
  "TLSCertificate P dk fs = map_result fst (keyPair P dk fs)"

definition check_loaded :: "pki \<Rightarrow> disk \<Rightarrow> data_dir \<Rightarrow> Identity \<Rightarrow> Identity option result" where
  "check_loaded P dk fs i =
     (if id_AgentID i = [] \<or> id_OrganizationID i = [] \<or> RequireCompatible (id_ProtocolVersion i) \<noteq> None
      then Inl (ErrorText ''stored identity is incomplete or protocol-incompatible'')
      else case keyPair P dk fs of Inl err \<Rightarrow> Inl err
      | Inr (_, c) \<Rightarrow>
          if x_NotAfter c < dk_now dk then Inl (ErrorText ''agent client certificate has expired'')
          else if id_Fingerprint i \<noteq> fingerprint P c
          then Inl (ErrorText ''agent certificate fingerprint does not match metadata'')
          else Inr (Some i))"

definition Load :: "pki \<Rightarrow> disk \<Rightarrow> string \<Rightarrow> data_dir \<Rightarrow> Identity option result" where
  "Load P dk dataDir fs = (case read_file dk metadataFile fs of
      NotExist \<Rightarrow>
        (case fs active_dir of
           Some (_ # _) \<Rightarrow> if dk_readDir dk = None
             then Inl (ErrorText ''legacy or partial identity material requires explicit administrative recovery'')
             else Inr None
         | _ \<Rightarrow> Inr None)
    | ReadError err \<Rightarrow> Inl err
    | Content metadata \<Rightarrow>
        (case unmarshal_struct (Identity_fields (pk_parseTime P)) zero_Identity metadata of
           (i, False) \<Rightarrow> Inl (ErrorText ''decode identity metadata'')
         | (i, True) \<Rightarrow> check_loaded P dk fs (i\<lparr>id_DataDir := dataDir\<rparr>)))"

fun collect_keys :: "libs \<Rightarrow> TrustedSigningKey list \<Rightarrow> (string \<times> bytes) list \<Rightarrow> (string \<times> bytes) list result" where
  "collect_keys L [] keys = Inr keys"
| "collect_keys L (record # records) keys = (case TrustedSigningKey_Decode L record of
      Inl err \<Rightarrow> Inl err
    | Inr key \<Rightarrow>
        if map_of keys (tk_KeyID record) \<noteq> None then Inl (ErrorText ''duplicate signing key ID'')
        else collect_keys L records ((tk_KeyID record, key) # keys))"

definition TrustedSigningKeys :: "pki \<Rightarrow> disk \<Rightarrow> data_dir \<Rightarrow> (string \<times> bytes) list result" where
  "TrustedSigningKeys P dk fs = (case read_file dk signingFile fs of
      NotExist \<Rightarrow> Inr []
    | ReadError err \<Rightarrow> Inl err
    | Content encoded \<Rightarrow> (case unmarshal_keys (pk_parseTime P) encoded of
        None \<Rightarrow> Inl (ErrorText ''stored signing trust is invalid'')
      | Some records \<Rightarrow> collect_keys (pk_libs P) records []))"

section \<open>Reading the metadata back\<close>

lemma ws_nl [simp]: "list_all is_ws (nl n)" "list_all is_ws '' ''"
  by (simp_all add: nl_def is_ws_def list_all_iff)

lemma collect_Inr_D: "collect xs = Inr ys \<Longrightarrow> xs = map Inr ys"
proof (induction xs arbitrary: ys)
  case (Cons x xs)
  then show ?case by (cases x) (auto split: sum.splits)
qed simp

lemma indented_parses:
  assumes "indented n (map (\<lambda>(k, r, v). (k, r)) kvs) = Inr t" and "kvs \<noteq> []"
    and "\<forall>(k, r, v)\<in>set kvs. \<forall>x. r = Inr x \<longrightarrow> parses d v x"
  shows "parses (Suc d) (JObject (map (\<lambda>(k, r, v). (clean_utf8 k, v)) kvs)) t \<and> skip_ws t = t \<and> t \<noteq> [] \<and> hd t \<noteq> CHR 0x5D"
proof -
  from assms(1) obtain vs where vs: "map (\<lambda>(k, r, v). r) kvs = map Inr vs"
    and t: "t = object_text (nl (n + 2)) '' '' (nl n) (zip (map (\<lambda>(k, r, v). k) kvs) vs)"
    by (auto simp: indented_def map_result_def comp_def case_prod_beta' dest!: collect_Inr_D split: sum.splits)
  let ?ms = "map (\<lambda>((k, r, v), x). (k, x, v)) (zip kvs vs)"
  have len: "length vs = length kvs" using vs by (metis length_map)
  have "\<forall>(k, x, v)\<in>set ?ms. parses d v x"
  proof clarsimp
    fix k r v x assume "((k, r, v), x) \<in> set (zip kvs vs)"
    then obtain j where j: "j < length kvs" "kvs ! j = (k, r, v)" "vs ! j = x" using len by (auto simp: in_set_zip)
    with vs len have "r = Inr x" by (metis (mono_tags, lifting) case_prod_conv length_map nth_map)
    with j assms(3) show "parses d v x" by (metis (mono_tags, lifting) case_prodD nth_mem)
  qed
  moreover have "?ms \<noteq> []" using assms(2) len by (cases kvs; cases vs) auto
  ultimately have "parses (Suc d) (JObject (map (\<lambda>(k, t, v). (clean_utf8 k, v)) ?ms))
      (object_text (nl (n + 2)) '' '' (nl n) (map (\<lambda>(k, t, v). (k, t)) ?ms))"
    by (intro parses_object) (simp_all add: is_ws_def)
  moreover have "map (\<lambda>(k, t, v). (k, t)) ?ms = zip (map (\<lambda>(k, r, v). k) kvs) vs"
    using len by (induction kvs arbitrary: vs) (auto simp: length_Suc_conv)
  moreover have "map (\<lambda>(k, t, v). (clean_utf8 k, v)) ?ms = map (\<lambda>(k, r, v). (clean_utf8 k, v)) kvs"
    using len by (induction kvs arbitrary: vs) (auto simp: length_Suc_conv)
  ultimately show ?thesis by (simp add: t) (simp add: object_text_def skip_nonws is_ws_def)
qed

definition ascii :: "string \<Rightarrow> bool" where
  "ascii s = list_all (\<lambda>c. ccode c < 128) s"

lemma ascii_append [simp]: "ascii (s @ t) \<longleftrightarrow> ascii s \<and> ascii t"
  by (simp add: ascii_def)

lemma ascii_digits: "ascii (show_nat n)"
proof (induction n rule: show_nat.induct)
  case (1 n)
  have "ascii [digit_char (m mod 10)]" for m by (simp add: ascii_def digit_char_def)
  with 1 show ?case by (subst show_nat.simps) (auto simp: ascii_def digit_char_def)
qed

lemma ascii_pad: "ascii (pad_int n i)"
  using ascii_digits by (auto simp: pad_int_def pad_left_def) (auto simp: ascii_def list_all_iff ccode_def)

lemma ascii_trim: "ascii s \<Longrightarrow> ascii (strings_TrimRight s cs)"
  unfolding ascii_def strings_TrimRight_def by (auto simp: list_all_iff dest!: set_dropWhileD)

lemma ascii_time: "ascii (format_RFC3339Nano t)"
proof -
  have "ascii ''-''" "ascii ''T''" "ascii '':''" "ascii ''Z''" "ascii ''.''" "ascii []"
    by (simp_all add: ascii_def ccode_def)
  then show ?thesis
    unfolding format_RFC3339Nano_def Let_def nano_suffix_def split_beta
    by (simp only: ascii_append ascii_pad ascii_trim simp_thms if_bool_eq_conj split: if_split)
qed

lemma value_parses:
  "text_value s = Inr x \<Longrightarrow> parses d (JString (clean_utf8 s)) x"
  "time_value u = Inr x \<Longrightarrow> parses d (JString (format_RFC3339Nano u)) x"
proof -
  show "parses d (JString (clean_utf8 s)) x" if "text_value s = Inr x" using that parses_string by (auto simp: text_value_def)
  have "clean_utf8 (format_RFC3339Nano u) = format_RFC3339Nano u"
    using valid_utf8_ascii [OF ascii_time [unfolded ascii_def]] by (simp add: valid_utf8_def)
  then show "parses d (JString (format_RFC3339Nano u)) x" if "time_value u = Inr x"
    using that parses_string [of d "format_RFC3339Nano u"] by (auto simp: time_value_def text_value_def split: if_splits)
qed

lemma parses_Unmarshal:
  assumes "parses n v t" and "n \<le> max_nesting_depth"
  shows "json_Unmarshal t = Some v"
proof -
  from parsesD [OF assms, of "[]"] have "json_Decode t = DecValue v []" by (intro json_Decode_pv) (simp add: delimited_def)
  then show ?thesis by (simp add: json_Unmarshal_def skip_ws_def)
qed

definition utf8_identity :: "Identity \<Rightarrow> bool" where
  "utf8_identity i \<longleftrightarrow> valid_utf8 (id_AgentID i) \<and> valid_utf8 (id_OrganizationID i) \<and> valid_utf8 (id_ProtocolVersion i)
     \<and> valid_utf8 (id_Fingerprint i) \<and> valid_utf8 (id_SigningKeyID i) \<and> valid_utf8 (id_SigningKeyFingerprint i)"

lemma Identity_reads_back:
  assumes json: "Identity_json i = Inr t" and utf8: "utf8_identity i"
    and parse: "parse (format_RFC3339Nano (id_CertificateExpiry i)) = Some (id_CertificateExpiry i)"
  shows "unmarshal_struct (Identity_fields parse) zero_Identity t = (i\<lparr>id_DataDir := []\<rparr>, True)"
proof -
  let ?opt = "\<lambda>k s. if s = [] then [] else [(k, text_value s, JString (clean_utf8 s))]"
  let ?kvs = "[(''agentId'', text_value (id_AgentID i), JString (clean_utf8 (id_AgentID i))),
      (''organizationId'', text_value (id_OrganizationID i), JString (clean_utf8 (id_OrganizationID i))),
      (''protocolVersion'', text_value (id_ProtocolVersion i), JString (clean_utf8 (id_ProtocolVersion i))),
      (''certificateExpiry'', time_value (id_CertificateExpiry i), JString (format_RFC3339Nano (id_CertificateExpiry i))),
      (''fingerprint'', text_value (id_Fingerprint i), JString (clean_utf8 (id_Fingerprint i)))]
      @ ?opt ''signingKeyId'' (id_SigningKeyID i) @ ?opt ''signingKeyFingerprint'' (id_SigningKeyFingerprint i)"
  have "indented 0 (map (\<lambda>(k, r, v). (k, r)) ?kvs) = Inr t"
    using json by (simp add: Identity_json_def omit_empty_def split: if_splits)
  moreover have "\<forall>(k, r, v)\<in>set ?kvs. \<forall>x. r = Inr x \<longrightarrow> parses 0 v x" using value_parses by (auto split: if_splits)
  ultimately have "parses 1 (JObject (map (\<lambda>(k, r, v). (clean_utf8 k, v)) ?kvs)) t"
    using indented_parses [of 0 ?kvs t 0] by simp
  from parses_Unmarshal [OF this] have un: "json_Unmarshal t = Some (JObject (map (\<lambda>(k, r, v). (clean_utf8 k, v)) ?kvs))"
    by (simp add: max_nesting_depth_def)
  have names: "clean_utf8 k = k" if "k \<in> {''agentId'', ''organizationId'', ''protocolVersion'', ''certificateExpiry'', ''fingerprint'',
      ''signingKeyId'', ''signingKeyFingerprint''}" for k
    using that by (auto simp: clean_utf8.simps ccode_def)
  show ?thesis
    using utf8 parse unfolding unmarshal_struct_def un
    by (cases i) (simp add: names utf8_identity_def valid_utf8_def decode_struct_def struct_field_def Identity_fields_def
        string_field_def time_field_def zero_Identity_def)
qed

lemma TrustedSigningKey_reads_back:
  assumes json: "TrustedSigningKeys_json [k] = Inr t"
    and utf8: "valid_utf8 (tk_KeyID k)" "valid_utf8 (tk_Algorithm k)" "valid_utf8 (tk_PublicKey k)" "valid_utf8 (tk_Fingerprint k)"
    and parse: "parse (format_RFC3339Nano (tk_IssuedAt k)) = Some (tk_IssuedAt k)"
  shows "unmarshal_keys parse t = Some [k]"
proof -
  let ?kvs = "[(''keyId'', text_value (tk_KeyID k), JString (clean_utf8 (tk_KeyID k))),
      (''algorithm'', text_value (tk_Algorithm k), JString (clean_utf8 (tk_Algorithm k))),
      (''publicKey'', text_value (tk_PublicKey k), JString (clean_utf8 (tk_PublicKey k))),
      (''fingerprint'', text_value (tk_Fingerprint k), JString (clean_utf8 (tk_Fingerprint k))),
      (''issuedAt'', time_value (tk_IssuedAt k), JString (format_RFC3339Nano (tk_IssuedAt k)))]"
  from json obtain x where x: "indented 2 (map (\<lambda>(k, r, v). (k, r)) ?kvs) = Inr x" and t: "t = array_text (nl 2) (nl 0) [x]"
    by (auto simp: TrustedSigningKeys_json_def map_result_def dest!: collect_Inr_D split: sum.splits)
  have "\<forall>(k, r, v)\<in>set ?kvs. \<forall>x. r = Inr x \<longrightarrow> parses 0 v x" using value_parses by auto
  from indented_parses [OF x _ this] have obj: "parses 1 (JObject (map (\<lambda>(k, r, v). (clean_utf8 k, v)) ?kvs)) x"
    and ws: "skip_ws x = x" "x \<noteq> []" "hd x \<noteq> CHR 0x5D" by simp_all
  have "parses (Suc 1) (JArray (map snd [(x, JObject (map (\<lambda>(k, r, v). (clean_utf8 k, v)) ?kvs))]))
      (array_text (nl 2) (nl 0) (map fst [(x, JObject (map (\<lambda>(k, r, v). (clean_utf8 k, v)) ?kvs))]))"
    by (rule parses_array) (use obj ws in simp_all)
  then have "parses 2 (JArray [JObject (map (\<lambda>(k, r, v). (clean_utf8 k, v)) ?kvs)]) t" by (simp add: t numeral_2_eq_2)
  from parses_Unmarshal [OF this] have un: "json_Unmarshal t = Some (JArray [JObject (map (\<lambda>(k, r, v). (clean_utf8 k, v)) ?kvs)])"
    by (simp add: max_nesting_depth_def)
  have names: "clean_utf8 k = k" if "k \<in> {''keyId'', ''algorithm'', ''publicKey'', ''fingerprint'', ''issuedAt''}" for k
    using that by (auto simp: clean_utf8.simps ccode_def)
  show ?thesis
    using utf8 parse unfolding unmarshal_keys_def un
    by (cases k) (simp add: names valid_utf8_def decode_struct_def struct_field_def TrustedSigningKey_fields_def
        string_field_def time_field_def zero_TrustedSigningKey_def)
qed

section \<open>What enrollment stores\<close>

lemma write_file_frame: "d \<noteq> dir \<Longrightarrow> snd (write_file dk dir name data fs) d = fs d"
  by (simp add: write_file_def split: option.split)

lemma write_file_None:
  "write_file dk dir name data fs = (None, fs') \<Longrightarrow> fs dir = Some f0 \<Longrightarrow> fs' = fs(dir := Some (f0 @ [(name, data)]))"
  by (auto simp: write_file_def split: option.splits if_splits)

lemma write_files_frame:
  "write_files dk dir files fs = (r, fs') \<Longrightarrow> d \<noteq> dir \<Longrightarrow> fs' d = fs d"
proof (induction dk dir files fs rule: write_files.induct)
  case (2 dk dir name data rest fs)
  obtain e fs1 where w: "write_file dk dir name data fs = (e, fs1)" by fastforce
  with write_file_frame [OF "2.prems"(2), of dk name data fs] have "fs1 d = fs d" by simp
  with 2 w show ?case by (cases e) simp_all
qed simp

lemma write_files_None:
  "write_files dk dir files fs = (None, fs') \<Longrightarrow> fs dir = Some f0 \<Longrightarrow> fs' = fs(dir := Some (f0 @ files))"
proof (induction dk dir files fs arbitrary: f0 rule: write_files.induct)
  case (2 dk dir name data rest fs)
  obtain e fs1 where w: "write_file dk dir name data fs = (e, fs1)" by fastforce
  with "2.prems"(1) have e: "e = None" and rest: "write_files dk dir rest fs1 = (None, fs')" by (cases e; simp)+
  from write_file_None [OF w [unfolded e] "2.prems"(2)] have fs1: "fs1 = fs(dir := Some (f0 @ [(name, data)]))" .
  from "2.IH" [OF w [symmetric] e rest, of "f0 @ [(name, data)]"] show ?case by (simp add: fs1 fun_eq_iff)
qed (auto simp: fun_upd_idem)

lemma fill_stage_cases:
  assumes "fill_stage dk stage files fs = (r, fs1)" and "stage \<noteq> active_dir" and "fs stage = Some []"
  shows "(\<forall>d. d \<noteq> stage \<longrightarrow> d \<noteq> active_dir \<longrightarrow> fs1 d = fs d)
    \<and> (if r = None then (fs active_dir = None \<or> fs active_dir = Some []) \<and> fs1 active_dir = Some files \<and> fs1 stage = None
       else fs1 active_dir = fs active_dir \<or> fs active_dir = Some [] \<and> fs1 active_dir = None)"
proof (cases "dk_chmod dk")
  case (Some err)
  with assms have "r = Some err" "fs1 = fs" by (simp_all add: fill_stage_def)
  then show ?thesis by simp
next
  case None
  obtain r1 fsw where w: "write_files dk stage files fs = (r1, fsw)" by fastforce
  note frame = write_files_frame [OF w]
  show ?thesis
  proof (cases r1)
    case (Some err)
    with assms None w frame show ?thesis by (auto simp: fill_stage_def)
  next
    case N: None
    from write_files_None [OF w [unfolded N] assms(3)] have fsw: "fsw = fs(stage := Some files)" by simp
    show ?thesis using assms None w N
      by (auto simp: fill_stage_def fsw clear_target_def rename_dir_def split: option.splits if_splits prod.splits)
  qed
qed

lemma stage_not_active: "stage_name random \<noteq> active_dir"
  by (simp add: stage_name_def active_dir_def)

lemma SaveEnrollment_Inr [accepts]:
  assumes "SaveEnrollment P dk dataDir pending r fs = (Inr i, fs')"
  shows "\<exists>c metadata files. check_enrollment P (dk_now dk) pending r = Inr c \<and> i = enrolled_identity P dataDir r c
    \<and> Identity_json i = Inr metadata \<and> enrollment_files P pending r metadata = Inr files
    \<and> (fs active_dir = None \<or> fs active_dir = Some []) \<and> fs' active_dir = Some files \<and> (\<forall>d. d \<noteq> active_dir \<longrightarrow> fs' d = fs d)"
proof -
  from assms obtain c metadata files random fs1 where c: "check_enrollment P (dk_now dk) pending r = Inr c"
    and i: "i = enrolled_identity P dataDir r c" "Identity_json i = Inr metadata"
    and f: "enrollment_files P pending r metadata = Inr files" and new: "fs (stage_name random) = None"
    and fill: "fill_stage dk (stage_name random) files (fs(stage_name random := Some [])) = (None, fs1)"
    and fs': "fs' = snd (remove_all dk (stage_name random) fs1)"
    by (auto simp: SaveEnrollment_def Let_def split: sum.splits if_splits prod.splits option.splits)
  from fill_stage_cases [OF fill stage_not_active] have s: "\<forall>d. d \<noteq> stage_name random \<longrightarrow> d \<noteq> active_dir \<longrightarrow> fs1 d = fs d"
    "fs active_dir = None \<or> fs active_dir = Some []" "fs1 active_dir = Some files" "fs1 (stage_name random) = None"
    using stage_not_active [of random] by (auto simp: fun_upd_def)
  have "fs' = fs1" using s(4) by (auto simp: fs' remove_all_def fun_upd_idem split: option.splits)
  with s new c i f show ?thesis by metis
qed

text \<open>
  C9: enrollment never overwrites an identity. If \<^verbatim>\<open>SaveEnrollment\<close> succeeds, the identity directory
  was absent or empty before and holds the new material, whole, afterwards; if it fails, an
  identity directory with entries is as it was. No other directory is changed, except that a
  staging directory remains when it cannot be removed.
\<close>

theorem enrollment_never_overwrites:
  assumes "SaveEnrollment P dk dataDir pending r fs = (res, fs')"
  shows "(case res of
      Inr i \<Rightarrow> (fs active_dir = None \<or> fs active_dir = Some [])
        \<and> (\<exists>metadata files. Identity_json i = Inr metadata \<and> enrollment_files P pending r metadata = Inr files \<and> fs' active_dir = Some files)
        \<and> (\<forall>d. d \<noteq> active_dir \<longrightarrow> fs' d = fs d)
    | Inl err \<Rightarrow> (fs' active_dir = fs active_dir \<or> fs active_dir = Some [] \<and> fs' active_dir = None)
        \<and> ((\<forall>d. dk_removeAll dk d = None) \<longrightarrow> (\<forall>d. d \<noteq> active_dir \<longrightarrow> fs' d = fs d)))"
proof (cases res)
  case (Inr i)
  from SaveEnrollment_Inr [OF assms [unfolded Inr]] Inr show ?thesis by auto
next
  case (Inl err)
  show ?thesis
  proof (cases "fs' = fs")
    case False
    with assms Inl obtain random files fs1 r1 where new: "fs (stage_name random) = None"
      and fill: "fill_stage dk (stage_name random) files (fs(stage_name random := Some [])) = (Some r1, fs1)"
      and fs': "fs' = snd (remove_all dk (stage_name random) fs1)"
      by (auto simp: SaveEnrollment_def Let_def split: sum.splits if_splits prod.splits option.splits)
    from fill_stage_cases [OF fill stage_not_active] have "\<forall>d. d \<noteq> stage_name random \<longrightarrow> d \<noteq> active_dir \<longrightarrow> fs1 d = fs d"
      "fs1 active_dir = fs active_dir \<or> fs active_dir = Some [] \<and> fs1 active_dir = None"
      using stage_not_active [of random] by (auto simp: fun_upd_def)
    with new stage_not_active [of random] Inl show ?thesis by (auto simp: fs' remove_all_def split: option.splits)
  qed (simp add: Inl)
qed

section \<open>Enrollment and Load\<close>

text \<open>The strings of a response have been decoded from JSON, which leaves only valid UTF-8.\<close>

definition utf8_response :: "EnrollmentResponse \<Rightarrow> bool" where
  "utf8_response r \<longleftrightarrow> (let cp = ens_ControlPlaneIdentity r in list_all valid_utf8
     [ens_AgentID r, ens_OrganizationID r, ens_ProtocolVersion r, cpi_JobSigningKeyID cp, cpi_JobSigningAlgorithm cp,
      cpi_JobSigningPublicKey cp, cpi_JobSigningKeyFingerprint cp])"

lemma ascii_hex: "ascii (hex_EncodeToString bs)"
proof -
  have "is_hex_lower c \<Longrightarrow> ccode c < 128" for c by (auto simp: is_hex_lower_def is_digit_def)
  then show ?thesis using hex_EncodeToString_lower [of bs] by (auto simp: ascii_def list_all_iff)
qed

lemma utf8_enrolled: "utf8_response r \<Longrightarrow> utf8_identity (enrolled_identity P dataDir r c)"
  using valid_utf8_ascii [OF ascii_hex [unfolded ascii_def]]
  by (simp add: utf8_response_def utf8_identity_def enrolled_identity_def fingerprint_def Let_def)

lemma read_file_Content: "fs active_dir = Some files \<Longrightarrow> map_of files name = Some data \<Longrightarrow> dk_read dk name = None
    \<Longrightarrow> read_file dk name fs = Content data"
  by (simp add: read_file_def)

lemma enrolled_files:
  assumes "SaveEnrollment P dk dataDir pending r fs = (Inr i, fs')" and "\<And>name. dk_read dk' name = None"
  obtains c leaf metadata where "check_enrollment P (dk_now dk) pending r = Inr c" "i = enrolled_identity P dataDir r c"
    "Identity_json i = Inr metadata" "read_file dk' metadataFile fs' = Content metadata" "keyPair P dk' fs' = Inr (leaf, c)"
    "if tk_PublicKey (enrolled_key r) = [] then read_file dk' signingFile fs' = NotExist
     else \<exists>key t. TrustedSigningKey_Decode (pk_libs P) (enrolled_key r) = Inr key
       \<and> TrustedSigningKeys_json [enrolled_key r] = Inr t \<and> read_file dk' signingFile fs' = Content t"
proof -
  let ?k = "enrolled_key r"
  from SaveEnrollment_Inr [OF assms(1)] obtain c metadata files where c: "check_enrollment P (dk_now dk) pending r = Inr c"
    and i: "i = enrolled_identity P dataDir r c" and md: "Identity_json i = Inr metadata"
    and f: "enrollment_files P pending r metadata = Inr files" and dir: "fs' active_dir = Some files" by blast
  from f obtain more where files: "files = [(privateFile, pe_PrivateKeyPEM pending), (certFile, cred_CertificatePEM (ens_AgentCredential r)),
      (trustFile, cpi_CACertificatePEM (ens_ControlPlaneIdentity r))] @ more @ [(metadataFile, metadata)]"
    and more: "if tk_PublicKey ?k = [] then more = []
      else \<exists>key t. TrustedSigningKey_Decode (pk_libs P) ?k = Inr key \<and> TrustedSigningKeys_json [?k] = Inr t \<and> more = [(signingFile, t)]"
    by (auto simp: enrollment_files_def Let_def enrolled_key_def split: if_splits sum.splits)
  have meta: "map_of files metadataFile = Some metadata" using more by (auto simp: files file_names split: if_splits)
  have cert: "map_of files certFile = Some (cred_CertificatePEM (ens_AgentCredential r))"
    and key: "map_of files privateFile = Some (pe_PrivateKeyPEM pending)" by (simp_all add: files file_names)
  have rd: "read_file dk' name fs' = Content data" if "map_of files name = Some data" for name data
    using that dir assms(2) by (simp add: read_file_Content)
  from c obtain leaf where leaf: "pk_X509KeyPair P (cred_CertificatePEM (ens_AgentCredential r)) (pe_PrivateKeyPEM pending) = Inr leaf"
    "pk_ParseCertificate P leaf = Inr c"
    by (auto simp: check_enrollment_def Let_def split: if_splits option.splits sum.splits)
  have "keyPair P dk' fs' = Inr (leaf, c)" by (simp add: keyPair_def rd [OF cert] rd [OF key] leaf)
  moreover have "if tk_PublicKey ?k = [] then read_file dk' signingFile fs' = NotExist
     else \<exists>key t. TrustedSigningKey_Decode (pk_libs P) ?k = Inr key
       \<and> TrustedSigningKeys_json [?k] = Inr t \<and> read_file dk' signingFile fs' = Content t"
  proof (cases "tk_PublicKey ?k = []")
    case True
    with more have "map_of files signingFile = None" by (simp add: files file_names)
    with True dir show ?thesis by (simp add: read_file_def)
  next
    case False
    with more obtain key t where t: "TrustedSigningKey_Decode (pk_libs P) ?k = Inr key" "TrustedSigningKeys_json [?k] = Inr t"
      "more = [(signingFile, t)]" by auto
    have "map_of files signingFile = Some t" by (simp add: files t(3) file_names)
    from rd [OF this] t False show ?thesis by simp
  qed
  ultimately show thesis by (rule that [OF c i md rd [OF meta]])
qed

lemma enrolled_loads:
  assumes "SaveEnrollment P dk dataDir pending r fs = (Inr i, fs')" and "utf8_response r"
    and "pk_parseTime P (format_RFC3339Nano (id_CertificateExpiry i)) = Some (id_CertificateExpiry i)"
    and "\<And>name. dk_read dk' name = None" and "dk_now dk' \<le> id_CertificateExpiry i"
  shows "Load P dk' dataDir fs' = Inr (Some i)"
proof -
  from assms(1,4) obtain c leaf metadata where c: "check_enrollment P (dk_now dk) pending r = Inr c"
    and i: "i = enrolled_identity P dataDir r c" and md: "Identity_json i = Inr metadata"
    and rd: "read_file dk' metadataFile fs' = Content metadata" "keyPair P dk' fs' = Inr (leaf, c)" by (rule enrolled_files)
  from c have ids: "ens_AgentID r \<noteq> []" "ens_OrganizationID r \<noteq> []" "RequireCompatible (ens_ProtocolVersion r) = None"
    by (auto simp: check_enrollment_def Let_def split: if_splits option.splits sum.splits)
  have "unmarshal_struct (Identity_fields (pk_parseTime P)) zero_Identity metadata = (i\<lparr>id_DataDir := []\<rparr>, True)"
    using Identity_reads_back [OF md] utf8_enrolled [OF assms(2)] assms(3) i by simp
  with ids assms(5) rd show ?thesis by (simp add: Load_def check_loaded_def i enrolled_identity_def)
qed

text \<open>
  C18: what enrollment stored is what a later start loads. After a successful \<^verbatim>\<open>SaveEnrollment\<close>, as
  long as the files are readable and the certificate has not expired, \<^verbatim>\<open>Load\<close> returns exactly the
  identity that enrollment returned, and \<^verbatim>\<open>TrustedSigningKeys\<close> exactly the announced job signing
  key (none if none was announced).
\<close>

theorem enrollment_is_loaded_back:
  assumes "SaveEnrollment P dk dataDir pending r fs = (Inr i, fs')" and "utf8_response r"
    and "\<forall>t\<in>{id_CertificateExpiry i, tk_IssuedAt (enrolled_key r)}. pk_parseTime P (format_RFC3339Nano t) = Some t"
    and "\<And>name. dk_read dk' name = None" and "dk_now dk' \<le> id_CertificateExpiry i"
  shows "Load P dk' dataDir fs' = Inr (Some i)
    \<and> (let k = enrolled_key r in if tk_PublicKey k = [] then TrustedSigningKeys P dk' fs' = Inr []
       else (\<exists>key. TrustedSigningKey_Decode (pk_libs P) k = Inr key \<and> TrustedSigningKeys P dk' fs' = Inr [(tk_KeyID k, key)]))"
proof
  let ?k = "enrolled_key r"
  show "Load P dk' dataDir fs' = Inr (Some i)" by (rule enrolled_loads [OF assms(1,2)]) (use assms(3,4,5) in auto)
  from assms(1,4) have signing: "if tk_PublicKey ?k = [] then read_file dk' signingFile fs' = NotExist
     else \<exists>key t. TrustedSigningKey_Decode (pk_libs P) ?k = Inr key
       \<and> TrustedSigningKeys_json [?k] = Inr t \<and> read_file dk' signingFile fs' = Content t" by (rule enrolled_files)
  have "unmarshal_keys (pk_parseTime P) t = Some [?k]" if "TrustedSigningKeys_json [?k] = Inr t" for t
    using TrustedSigningKey_reads_back [OF that] assms(2,3) by (simp add: utf8_response_def enrolled_key_def Let_def)
  with signing show "let k = ?k in if tk_PublicKey k = [] then TrustedSigningKeys P dk' fs' = Inr []
      else (\<exists>key. TrustedSigningKey_Decode (pk_libs P) k = Inr key \<and> TrustedSigningKeys P dk' fs' = Inr [(tk_KeyID k, key)])"
    by (auto simp: TrustedSigningKeys_def Let_def split: if_splits)
qed

definition sample_pki :: pki where
  "sample_pki = \<lparr>pk_libs = sample_libs, pk_X509KeyPair = (\<lambda>cert key. Inr cert),
     pk_ParseCertificate = (\<lambda>leaf. Inr \<lparr>x_NotAfter = 63900000000000000000, x_Raw = leaf\<rparr>),
     pk_parseTime = (\<lambda>_. Some 63900000000000000000), pk_Clean = (\<lambda>d. d)\<rparr>"

definition sample_disk :: disk where
  "sample_disk = \<lparr>dk_now = 5, dk_read = (\<lambda>_. None), dk_readDir = None, dk_remove = None, dk_mkdirTemp = Inr ''1'', dk_chmod = None,
     dk_mkdir = None, dk_write = (\<lambda>_. None), dk_rename = (\<lambda>_ _. None), dk_stat = (\<lambda>_. None), dk_removeAll = (\<lambda>_. None)\<rparr>"

definition sample_response :: EnrollmentResponse where
  "sample_response = \<lparr>ens_ProtocolVersion = ''1.0'', ens_AgentID = ''a'', ens_OrganizationID = ''o'', ens_Status = ''ACTIVE'',
     ens_ControlPlaneIdentity = \<lparr>cpi_CACertificatePEM = ''ca'', cpi_JobSigningKeyID = ''k'', cpi_JobSigningAlgorithm = ''Ed25519'',
       cpi_JobSigningPublicKey = replicate 43 (CHR ''A'') @ ''='', cpi_JobSigningKeyFingerprint = replicate 64 (CHR ''0''),
       cpi_JobSigningKeyIssuedAt = 63900000000000000000\<rparr>,
     ens_AgentCredential = \<lparr>cred_CertificatePEM = ''cert'', cred_ExpiresAt = 0\<rparr>, ens_ServerTime = 0\<rparr>"

definition sample_pending :: Pending where
  "sample_pending = \<lparr>pe_PrivateKeyPEM = ''key'', pe_CSRPEM = ''csr''\<rparr>"

lemma sample_enrolled: "\<not> isl (fst (SaveEnrollment sample_pki sample_disk ''d'' sample_pending sample_response Map.empty))"
  by code_simp

theorem enrollment_never_overwrites_witness:
  "\<exists>err fs'. SaveEnrollment sample_pki sample_disk ''d'' sample_pending sample_response [''identity'' \<mapsto> [(''x'', ''y'')]] = (Inl err, fs')
     \<and> fs' active_dir = Some [(''x'', ''y'')]"
proof -
  let ?s = "SaveEnrollment sample_pki sample_disk ''d'' sample_pending sample_response [''identity'' \<mapsto> [(''x'', ''y'')]]"
  obtain res fs' where s: "?s = (res, fs')" by fastforce
  have "isl (fst ?s)" by code_simp
  with s obtain err where "res = Inl err" by (cases res) auto
  with enrollment_never_overwrites [OF s] s show ?thesis by (auto simp: active_dir_def)
qed

theorem enrollment_is_loaded_back_witness:
  "\<exists>i fs'. SaveEnrollment sample_pki sample_disk ''d'' sample_pending sample_response Map.empty = (Inr i, fs')
     \<and> Load sample_pki sample_disk ''d'' fs' = Inr (Some i)"
proof -
  let ?s = "SaveEnrollment sample_pki sample_disk ''d'' sample_pending sample_response Map.empty"
  obtain res fs' where "?s = (res, fs')" by fastforce
  with sample_enrolled obtain i where s: "?s = (Inr i, fs')" by (cases res) simp_all
  from SaveEnrollment_Inr [OF s] have i: "id_CertificateExpiry i = 63900000000000000000"
    by (auto simp: enrolled_identity_def check_enrollment_def Let_def sample_pki_def split: if_splits option.splits)
  have "utf8_response sample_response" unfolding utf8_response_def valid_utf8_def by code_simp
  from enrollment_is_loaded_back [OF s this, of sample_disk] s show ?thesis
    by (simp add: i sample_pki_def sample_disk_def enrolled_key_def sample_response_def Let_def)
qed

text \<open>
  C38: the comparison of the announced expiry with the certificate's is skipped for times far
  apart. When the response says nothing about the expiry (the zero time), the difference is the
  least duration, whose negation overflows to itself; the check then accepts any certificate
  that has not expired, although the two times are centuries apart.
\<close>

theorem missing_expiry_passes_check:
  assumes "cred_ExpiresAt (ens_AgentCredential r) = 0" and "9223372036854775808 \<le> x_NotAfter c" and "now \<le> x_NotAfter c"
    and "ens_AgentID r \<noteq> []" and "ens_OrganizationID r \<noteq> []" and "cred_CertificatePEM (ens_AgentCredential r) \<noteq> []"
    and "cpi_CACertificatePEM (ens_ControlPlaneIdentity r) \<noteq> []" and "RequireCompatible (ens_ProtocolVersion r) = None"
    and "pk_X509KeyPair P (cred_CertificatePEM (ens_AgentCredential r)) (pe_PrivateKeyPEM pending) = Inr leaf"
    and "pk_ParseCertificate P leaf = Inr c"
  shows "check_enrollment P now pending r = Inr c"
proof -
  have "time_Sub 0 (x_NotAfter c) = int64_min" using assms(2) by (simp add: time_Sub_def)
  then have "expiry_difference 0 (x_NotAfter c) = int64_min" by (simp add: expiry_difference_def int64_wrap_def)
  with assms show ?thesis by (simp add: check_enrollment_def Let_def time_Second_def)
qed

theorem missing_expiry_passes_check_witness:
  "cred_ExpiresAt (ens_AgentCredential sample_response) = 0
     \<and> check_enrollment sample_pki 5 sample_pending sample_response = Inr \<lparr>x_NotAfter = 63900000000000000000, x_Raw = ''cert''\<rparr>"
proof -
  have "RequireCompatible ''1.0'' = None" by code_simp
  then show ?thesis
    using missing_expiry_passes_check [of sample_response "\<lparr>x_NotAfter = 63900000000000000000, x_Raw = ''cert''\<rparr>" 5 sample_pki
        sample_pending "''cert''"]
    by (simp add: sample_response_def sample_pki_def)
qed

end
