(* ===== verification/Config.thy ===== *)
theory Config
  imports Identity
begin

text \<open>
  \<^verbatim>\<open>internal/config/config.go\<close>: the configuration from environment variables, its validation and the
  TLS configuration, with the parsers of durations and truth values of the standard library it
  reads them with.
\<close>

section \<open>time.ParseDuration\<close>

definition unit_value :: "string \<Rightarrow> nat option" where
  "unit_value u = map_of [(''ns'', 1), (''us'', 1000), ([CHR 0xC2, CHR 0xB5, CHR ''s''], 1000), ([CHR 0xCE, CHR 0xBC, CHR ''s''], 1000),
     (''ms'', 1000000), (''s'', 1000000000), (''m'', 60000000000), (''h'', 3600000000000)] u"

definition two63 :: nat where "two63 = 9223372036854775808"

text \<open>The leading digits as a number, if it is at most two to the 63, and what follows.\<close>

fun leadingInt :: "nat \<Rightarrow> string \<Rightarrow> (nat \<times> string) option" where
  "leadingInt x [] = Some (x, [])"
| "leadingInt x (c # s) =
     (if \<not> is_digit c then Some (x, c # s)
      else if two63 div 10 < x then None
      else let y = x * 10 + digit_value c in if two63 < y then None else leadingInt y s)"

text \<open>
  The digits of a fraction as a numerator, with the power of ten of its denominator. Digits that
  would overflow are read over.
\<close>

fun leadingFraction :: "nat \<Rightarrow> nat \<Rightarrow> bool \<Rightarrow> string \<Rightarrow> nat \<times> nat \<times> string" where
  "leadingFraction x sc overflow [] = (x, sc, [])"
| "leadingFraction x sc overflow (c # s) =
     (if \<not> is_digit c then (x, sc, c # s)
      else if overflow then leadingFraction x sc True s
      else if (two63 - 1) div 10 < x then leadingFraction x sc True s
      else let y = x * 10 + digit_value c in
        if two63 < y then leadingFraction x sc True s else leadingFraction y (Suc sc) False s)"

text \<open>The fraction, if there is a dot: whether it has digits, its numerator and power, and the rest.\<close>

definition fraction_part :: "string \<Rightarrow> bool \<times> nat \<times> nat \<times> string" where
  "fraction_part s = (if s \<noteq> [] \<and> hd s = CHR ''.''
     then (case leadingFraction 0 0 False (tl s) of (f, sc, r) \<Rightarrow> (length r \<noteq> length (tl s), f, sc, r))
     else (False, 0, 0, s))"

text \<open>
  The unit and the value of a term. \<open>fmul f unit k\<close> is the product of \<^verbatim>\<open>float64\<close> numbers
  \<^verbatim>\<open>float64(f) * (float64(unit) / 10^k)\<close>, truncated.
\<close>

definition apply_unit :: "(nat \<Rightarrow> nat \<Rightarrow> nat \<Rightarrow> nat) \<Rightarrow> nat \<Rightarrow> nat \<Rightarrow> nat \<Rightarrow> string \<Rightarrow> (nat \<times> string) option" where
  "apply_unit fmul v f sc s =
     (let u = takeWhile (\<lambda>c. c \<noteq> CHR ''.'' \<and> \<not> is_digit c) s in
      if u = [] then None
      else case unit_value u of None \<Rightarrow> None
      | Some unit \<Rightarrow>
          if two63 div unit < v then None
          else let w = v * unit + (if 0 < f then fmul f unit sc else 0) in
            if two63 < w then None else Some (w, drop (length u) s))"

definition parse_term :: "(nat \<Rightarrow> nat \<Rightarrow> nat \<Rightarrow> nat) \<Rightarrow> string \<Rightarrow> (nat \<times> string) option" where
  "parse_term fmul s =
     (if s = [] \<or> \<not> (hd s = CHR ''.'' \<or> is_digit (hd s)) then None
      else case leadingInt 0 s of None \<Rightarrow> None
      | Some (v, s1) \<Rightarrow> (case fraction_part s1 of (post, f, sc, s2) \<Rightarrow>
          if length s1 = length s \<and> \<not> post then None else apply_unit fmul v f sc s2))"

lemma leadingInt_length: "leadingInt x s = Some (v, r) \<Longrightarrow> length r \<le> length s"
  by (induction x s rule: leadingInt.induct) (auto simp: Let_def split: if_splits)

lemma leadingFraction_length: "leadingFraction x sc ov s = (f, k, r) \<Longrightarrow> length r \<le> length s"
  by (induction x sc ov s rule: leadingFraction.induct) (auto simp: Let_def split: if_splits)

lemma fraction_part_length: "fraction_part s = (post, f, sc, r) \<Longrightarrow> length r \<le> length s"
  using leadingFraction_length [of 0 0 False "tl s"] by (auto simp: fraction_part_def split: if_splits prod.splits)

lemma apply_unit_shorter: "apply_unit fmul v f sc s = Some (w, r) \<Longrightarrow> length r < length s"
proof -
  assume "apply_unit fmul v f sc s = Some (w, r)"
  then have "takeWhile (\<lambda>c. c \<noteq> CHR ''.'' \<and> \<not> is_digit c) s \<noteq> []"
    "r = drop (length (takeWhile (\<lambda>c. c \<noteq> CHR ''.'' \<and> \<not> is_digit c) s)) s"
    by (auto simp: apply_unit_def Let_def split: if_splits option.splits)
  then show ?thesis by (cases s) auto
qed

lemma parse_term_shorter: "parse_term fmul s = Some (w, r) \<Longrightarrow> length r < length s"
  using leadingInt_length fraction_part_length apply_unit_shorter
  by (fastforce simp: parse_term_def split: if_splits option.splits prod.splits)

function parse_terms :: "(nat \<Rightarrow> nat \<Rightarrow> nat \<Rightarrow> nat) \<Rightarrow> nat \<Rightarrow> string \<Rightarrow> nat option" where
  "parse_terms fmul d s =
     (if s = [] then Some d
      else case parse_term fmul s of None \<Rightarrow> None
      | Some (w, r) \<Rightarrow> if two63 < d + w then None else parse_terms fmul (d + w) r)"
  by pat_completeness auto

termination
  by (relation "measure (\<lambda>(fmul, d, s). length s)") (auto dest: parse_term_shorter)

declare parse_terms.simps [simp del]

definition time_ParseDuration :: "(nat \<Rightarrow> nat \<Rightarrow> nat \<Rightarrow> nat) \<Rightarrow> string \<Rightarrow> duration option" where
  "time_ParseDuration fmul s0 =
     (let signed = (s0 \<noteq> [] \<and> (hd s0 = CHR ''-'' \<or> hd s0 = CHR ''+''));
          neg = (signed \<and> hd s0 = CHR ''-'');
          s = (if signed then tl s0 else s0)
      in if s = ''0'' then Some 0
         else if s = [] then None
         else case parse_terms fmul 0 s of None \<Rightarrow> None
         | Some d \<Rightarrow> if neg then Some (- int d) else if two63 - 1 < d then None else Some (int d))"

section \<open>strconv.ParseBool\<close>

definition true_texts :: "string list" where
  "true_texts = [''1'', ''t'', ''T'', ''TRUE'', ''true'', ''True'']"

definition false_texts :: "string list" where
  "false_texts = [''0'', ''f'', ''F'', ''FALSE'', ''false'', ''False'']"

definition strconv_ParseBool :: "string \<Rightarrow> bool option" where
  "strconv_ParseBool s = (if s \<in> set true_texts then Some True else if s \<in> set false_texts then Some False else None)"

section \<open>Reading the environment\<close>

type_synonym environment = "string \<Rightarrow> string"

definition env_text :: "environment \<Rightarrow> string \<Rightarrow> string \<Rightarrow> string" where
  "env_text getenv key fallback = (let v = strings_TrimSpace (getenv key) in if v \<noteq> [] then v else fallback)"

definition env_duration :: "(nat \<Rightarrow> nat \<Rightarrow> nat \<Rightarrow> nat) \<Rightarrow> environment \<Rightarrow> string \<Rightarrow> duration \<Rightarrow> duration" where
  "env_duration fmul getenv key fallback = (case time_ParseDuration fmul (getenv key) of
      Some d \<Rightarrow> if 0 < d then d else fallback | None \<Rightarrow> fallback)"

definition env_integer :: "environment \<Rightarrow> string \<Rightarrow> int \<Rightarrow> int" where
  "env_integer getenv key fallback = (case strconv_ParseInt (getenv key) of
      Some n \<Rightarrow> if 0 < n then n else fallback | None \<Rightarrow> fallback)"

definition env_bytes :: "environment \<Rightarrow> string \<Rightarrow> int \<Rightarrow> int" where
  "env_bytes getenv key fallback = (case strconv_ParseInt (getenv key) of
      Some n \<Rightarrow> if 0 < n then n else fallback | None \<Rightarrow> fallback)"

definition env_boolean :: "environment \<Rightarrow> string \<Rightarrow> bool \<Rightarrow> bool" where
  "env_boolean getenv key fallback = (let v = strings_TrimSpace (getenv key) in
      if v = [] then fallback else case strconv_ParseBool v of None \<Rightarrow> fallback | Some b \<Rightarrow> b)"

definition firstNonEmpty :: "string list \<Rightarrow> string" where
  "firstNonEmpty vs = (case find (\<lambda>v. strings_TrimSpace v \<noteq> []) vs of None \<Rightarrow> [] | Some v \<Rightarrow> strings_TrimSpace v)"

section \<open>Config\<close>

record Config =
  cfg_ControlPlaneURL :: string
  cfg_AgentName :: string
  cfg_EnrollmentToken :: string
  cfg_DataDir :: string
  cfg_LogLevel :: string
  cfg_HeartbeatInterval :: duration
  cfg_JobPollInterval :: duration
  cfg_MaxConcurrentJobs :: int
  cfg_MaxJobTimeout :: duration
  cfg_RequestTimeout :: duration
  cfg_MaxStdoutBytes :: int
  cfg_MaxStderrBytes :: int
  cfg_MaxResultBytes :: int
  cfg_MaxSpoolBytes :: int
  cfg_MaxSpoolAge :: duration
  cfg_ServerCAPath :: string
  cfg_NetworkZone :: string
  cfg_RequireSignedJobs :: bool

definition DefaultMaxStdoutBytes :: int where "DefaultMaxStdoutBytes = 1048576"
definition DefaultMaxStderrBytes :: int where "DefaultMaxStderrBytes = 262144"
definition DefaultMaxResultBytes :: int where "DefaultMaxResultBytes = 2097152"
definition DefaultMaxSpoolBytes :: int where "DefaultMaxSpoolBytes = 33554432"

definition read_config :: "(nat \<Rightarrow> nat \<Rightarrow> nat \<Rightarrow> nat) \<Rightarrow> environment \<Rightarrow> Config" where
  "read_config fmul getenv = \<lparr>
     cfg_ControlPlaneURL = strings_TrimSpace (getenv ''NETSCOPE_CONTROL_PLANE_URL''),
     cfg_AgentName = env_text getenv ''NETSCOPE_AGENT_NAME'' ''netscope-agent'',
     cfg_EnrollmentToken = getenv ''NETSCOPE_ENROLLMENT_TOKEN'',
     cfg_DataDir = env_text getenv ''NETSCOPE_DATA_DIR'' ''./data'',
     cfg_LogLevel = env_text getenv ''NETSCOPE_LOG_LEVEL'' ''info'',
     cfg_HeartbeatInterval = env_duration fmul getenv ''NETSCOPE_HEARTBEAT_INTERVAL'' (30 * time_Second),
     cfg_JobPollInterval = env_duration fmul getenv ''NETSCOPE_JOB_POLL_INTERVAL'' (5 * time_Second),
     cfg_MaxConcurrentJobs = env_integer getenv ''NETSCOPE_MAX_CONCURRENT_JOBS'' 2,
     cfg_MaxJobTimeout = env_duration fmul getenv ''NETSCOPE_MAX_JOB_TIMEOUT'' (10 * time_Minute),
     cfg_RequestTimeout = env_duration fmul getenv ''NETSCOPE_REQUEST_TIMEOUT'' (30 * time_Second),
     cfg_MaxStdoutBytes = env_bytes getenv ''NETSCOPE_MAX_STDOUT_BYTES'' DefaultMaxStdoutBytes,
     cfg_MaxStderrBytes = env_bytes getenv ''NETSCOPE_MAX_STDERR_BYTES'' DefaultMaxStderrBytes,
     cfg_MaxResultBytes = env_bytes getenv ''NETSCOPE_MAX_RESULT_BYTES'' DefaultMaxResultBytes,
     cfg_MaxSpoolBytes = env_bytes getenv ''NETSCOPE_MAX_SPOOL_BYTES'' DefaultMaxSpoolBytes,
     cfg_MaxSpoolAge = env_duration fmul getenv ''NETSCOPE_MAX_SPOOL_AGE'' (24 * time_Hour),
     cfg_ServerCAPath = firstNonEmpty [getenv ''NETSCOPE_SERVER_CA_CERT'', getenv ''NETSCOPE_CA_CERT''],
     cfg_NetworkZone = env_text getenv ''NETSCOPE_NETWORK_ZONE'' ''INTERNAL'',
     cfg_RequireSignedJobs = env_boolean getenv ''NETSCOPE_REQUIRE_SIGNED_JOBS'' True\<rparr>"

text \<open>The platform, the URL parser, \<^verbatim>\<open>filepath.Join\<close> and the creation of directories.\<close>

record host =
  ho_GOOS :: string
  ho_GOARCH :: string
  ho_url_Parse :: url_parser
  ho_Join :: "string \<Rightarrow> string \<Rightarrow> string"
  ho_MkdirAll :: "string \<Rightarrow> goerror option"

definition Validate :: "host \<Rightarrow> Config \<Rightarrow> goerror option" where
  "Validate h c =
     (if ho_GOOS h \<noteq> ''linux'' \<and> ho_GOOS h \<noteq> ''windows'' \<and> ho_GOOS h \<noteq> ''darwin''
         \<or> ho_GOARCH h \<noteq> ''amd64'' \<and> ho_GOARCH h \<noteq> ''arm64''
      then Some (ErrorText ''this Agent build does not implement the Control Plane platform contract'')
      else if (case ho_url_Parse h (cfg_ControlPlaneURL c) of None \<Rightarrow> True
         | Some u \<Rightarrow> url_Scheme u \<noteq> ''https'' \<or> url_Host u = [] \<or> url_HasUser u)
      then Some (ErrorText ''NETSCOPE_CONTROL_PLANE_URL must be an absolute HTTPS URL without credentials'')
      else if cfg_AgentName c = [] \<or> cfg_MaxConcurrentJobs c < 1 \<or> 32 < cfg_MaxConcurrentJobs c
         \<or> cfg_MaxJobTimeout c \<le> 0 \<or> cfg_JobPollInterval c \<le> 0
      then Some (ErrorText ''invalid agent name, concurrency, timeout, or poll interval'')
      else if cfg_HeartbeatInterval c < 10 * time_Second \<or> 60 * time_Second < cfg_HeartbeatInterval c
      then Some (ErrorText ''NETSCOPE_HEARTBEAT_INTERVAL must be between 10s and 60s'')
      else if 2097152 < cfg_MaxResultBytes c
      then Some (ErrorText ''NETSCOPE_MAX_RESULT_BYTES cannot exceed the Control Plane 2 MiB request limit'')
      else None)"

fun make_dirs :: "host \<Rightarrow> string \<Rightarrow> string list \<Rightarrow> goerror option" where
  "make_dirs h base [] = None"
| "make_dirs h base (d # ds) = (case ho_MkdirAll h (ho_Join h base d) of
      Some err \<Rightarrow> Some (ErrorText (''create data directory: '' @ error_text err))
    | None \<Rightarrow> make_dirs h base ds)"

definition Config_Load :: "(nat \<Rightarrow> nat \<Rightarrow> nat \<Rightarrow> nat) \<Rightarrow> host \<Rightarrow> environment \<Rightarrow> Config result" where
  "Config_Load fmul h getenv = (let c = read_config fmul getenv in case Validate h c of
      Some err \<Rightarrow> Inl err
    | None \<Rightarrow> (case make_dirs h (cfg_DataDir c) [''spool'', ''temp'', ''state''] of
        Some err \<Rightarrow> Inl err | None \<Rightarrow> Inr c))"

section \<open>TLS\<close>

text \<open>\<open>None\<close> is the system's pool of roots; a pool is the list of its certificates.\<close>

record tls_config =
  tls_MinVersion :: nat
  tls_RootCAs :: "bytes list option"
  tls_Certificates :: "bytes list"

record tls_env =
  te_readFile :: "string \<Rightarrow> bytes result"
  te_SystemCertPool :: "bytes list result"
  te_certificates :: "bytes \<Rightarrow> bytes list"

definition VersionTLS12 :: nat where "VersionTLS12 = 771"

definition root_pool :: "tls_env \<Rightarrow> string \<Rightarrow> bytes list option result" where
  "root_pool te path =
     (if path = [] then Inr None
      else case te_readFile te path of Inl err \<Rightarrow> Inl err
      | Inr pem \<Rightarrow> (let pool = (case te_SystemCertPool te of Inl _ \<Rightarrow> [] | Inr p \<Rightarrow> p) in
          if te_certificates te pem = [] then Inl (ErrorText ''server CA file contains no certificates'')
          else Inr (Some (pool @ te_certificates te pem))))"

text \<open>\<open>client\<close> is the outcome of \<^verbatim>\<open>id.TLSCertificate()\<close>, if there is an identity.\<close>

definition TLSConfig :: "tls_env \<Rightarrow> Config \<Rightarrow> bytes result option \<Rightarrow> tls_config result" where
  "TLSConfig te c client = (case root_pool te (cfg_ServerCAPath c) of
      Inl err \<Rightarrow> Inl err
    | Inr roots \<Rightarrow> (case client of
        None \<Rightarrow> Inr \<lparr>tls_MinVersion = VersionTLS12, tls_RootCAs = roots, tls_Certificates = []\<rparr>
      | Some (Inl err) \<Rightarrow> Inl err
      | Some (Inr cert) \<Rightarrow> Inr \<lparr>tls_MinVersion = VersionTLS12, tls_RootCAs = roots, tls_Certificates = [cert]\<rparr>))"

section \<open>Durations\<close>

lemma parse_terms_bound: "parse_terms fmul d s = Some r \<Longrightarrow> d \<le> two63 \<Longrightarrow> r \<le> two63"
proof (induction fmul d s rule: parse_terms.induct)
  case (1 fmul d s)
  show ?case
  proof (cases "s = []")
    case True
    with "1.prems" show ?thesis by (simp add: parse_terms.simps)
  next
    case False
    with "1.prems" obtain w t where t: "parse_term fmul s = Some (w, t)" "d + w \<le> two63" "parse_terms fmul (d + w) t = Some r"
      by (subst (asm) parse_terms.simps) (auto simp: not_less split: option.splits if_splits)
    from "1.IH" [OF False t(1) refl _ t(3)] t(2) show ?thesis by simp
  qed
qed

lemma ParseDuration_range: "time_ParseDuration fmul s = Some d \<Longrightarrow> int64_min \<le> d \<and> d \<le> int64_max"
  using parse_terms_bound [of fmul 0]
  by (fastforce simp: time_ParseDuration_def Let_def two63_def split: if_splits option.splits)

lemma leadingInt_digits:
  assumes "list_all is_digit ds" and "r = [] \<or> \<not> is_digit (hd r)" and "x * 10 ^ length ds + dec_value ds \<le> two63"
  shows "leadingInt x (ds @ r) = Some (x * 10 ^ length ds + dec_value ds, r)"
  using assms
proof (induction ds arbitrary: x)
  case Nil
  then show ?case by (cases r) (auto simp: dec_value_def)
next
  case (Cons c ds)
  let ?y = "x * 10 + digit_value c"
  have eq: "x * 10 ^ length (c # ds) + dec_value (c # ds) = ?y * 10 ^ length ds + dec_value ds"
    using foldl_dec_shift [of "digit_value c" ds] by (simp add: dec_value_def algebra_simps)
  have "?y \<le> ?y * 10 ^ length ds" by simp
  then have y: "?y \<le> two63" using Cons.prems(3) unfolding eq by linarith
  then have "x \<le> two63 div 10" by linarith
  with y Cons eq show ?case by (simp add: Let_def not_less)
qed

text \<open>
  A duration of a whole number of units is read exactly: the text of a number followed by a
  unit is that many units, as long as the product is at most the greatest duration; and whatever
  the text, a duration that is read fits into its 64 bits.
\<close>

theorem duration_of_units_is_exact:
  assumes "unit_value u = Some k" and "int n * int k \<le> int64_max"
  shows "time_ParseDuration fmul (show_nat n @ u) = Some (int n * int k)
    \<and> (\<forall>s d. time_ParseDuration fmul s = Some d \<longrightarrow> int64_min \<le> d \<and> d \<le> int64_max)"
proof
  from assms(1) have k: "0 < k" and u: "u \<noteq> []" "\<forall>c\<in>set u. c \<noteq> CHR ''.'' \<and> \<not> is_digit c"
    by (auto simp: unit_value_def is_digit_def ccode_def split: if_splits)
  from u have hd: "\<not> is_digit (hd u)" "hd u \<noteq> CHR ''.''" by simp_all
  have take: "takeWhile (\<lambda>c. c \<noteq> CHR ''.'' \<and> \<not> is_digit c) u = u" using u(2) by simp
  from assms(2) have "n * k \<le> 9223372036854775807" by (simp add: zle_int [symmetric])
  then have nk: "n * k < two63" by (simp add: two63_def)
  then have n: "n \<le> two63" "\<not> two63 div k < n" using k by (simp_all add: not_less less_eq_div_iff_mult_less_eq)
    (metis One_nat_def Suc_leI le_trans less_imp_le mult.right_neutral mult_le_mono2)
  note dig = show_nat_digits [of n]
  from dig obtain c ds where ds: "show_nat n = c # ds" "is_digit c" by (cases "show_nat n") auto
  then have c: "c \<noteq> CHR ''-''" "c \<noteq> CHR ''+''" by (auto simp: is_digit_def ccode_def)
  have "leadingInt 0 (show_nat n @ u) = Some (n, u)"
    using leadingInt_digits [of "show_nat n" u 0] dig hd n(1) by simp
  moreover have "fraction_part u = (False, 0, 0, u)" using hd(2) by (simp add: fraction_part_def)
  moreover have "apply_unit fmul n 0 0 u = Some (n * k, [])" 
    unfolding apply_unit_def Let_def take using u(1) assms(1) n(2) nk by simp
  ultimately have "parse_term fmul (show_nat n @ u) = Some (n * k, [])" using ds by (simp add: parse_term_def)
  then have "parse_terms fmul 0 (show_nat n @ u) = Some (n * k)"
    using ds nk by (simp add: parse_terms.simps)
  then show "time_ParseDuration fmul (show_nat n @ u) = Some (int n * int k)"
    using ds c u(1) nk by (auto simp: time_ParseDuration_def)
next
  show "\<forall>s d. time_ParseDuration fmul s = Some d \<longrightarrow> int64_min \<le> d \<and> d \<le> int64_max" using ParseDuration_range by blast
qed

theorem duration_of_units_is_exact_witness: "time_ParseDuration (\<lambda>_ _ _. 0) (show_nat 90 @ ''s'') = Some 90000000000"
  using duration_of_units_is_exact [of "''s''" 1000000000 90 "\<lambda>_ _ _. 0"] by (simp add: unit_value_def)

section \<open>Loading\<close>

lemma Config_Load_Inr:
  "Config_Load fmul h getenv = Inr c \<longleftrightarrow>
     c = read_config fmul getenv \<and> Validate h c = None \<and> make_dirs h (cfg_DataDir c) [''spool'', ''temp'', ''state''] = None"
  by (auto simp: Config_Load_def Let_def split: option.splits)

lemma make_dirs_None: "make_dirs h base ds = None \<longleftrightarrow> (\<forall>d\<in>set ds. ho_MkdirAll h (ho_Join h base d) = None)"
  by (induction ds) (auto split: option.splits)

lemma env_duration_positive: "0 < fallback \<Longrightarrow> 0 < env_duration fmul getenv key fallback"
  by (auto simp: env_duration_def split: option.splits)

lemma env_bytes_positive: "0 < fallback \<Longrightarrow> 0 < env_bytes getenv key fallback"
  by (auto simp: env_bytes_def split: option.splits)

lemma read_config_positive:
  "0 < cfg_MaxStdoutBytes (read_config fmul getenv)" "0 < cfg_MaxStderrBytes (read_config fmul getenv)"
  "0 < cfg_MaxResultBytes (read_config fmul getenv)" "0 < cfg_MaxSpoolBytes (read_config fmul getenv)"
  "0 < cfg_MaxSpoolAge (read_config fmul getenv)" "0 < cfg_RequestTimeout (read_config fmul getenv)"
  by (simp_all add: read_config_def env_bytes_positive env_duration_positive DefaultMaxStdoutBytes_def
    DefaultMaxStderrBytes_def DefaultMaxResultBytes_def DefaultMaxSpoolBytes_def time_Second_def time_Hour_def time_Minute_def)

lemma Validate_None:
  assumes "Validate h c = None"
  shows "cfg_AgentName c \<noteq> []" "1 \<le> cfg_MaxConcurrentJobs c" "cfg_MaxConcurrentJobs c \<le> 32"
    "0 < cfg_MaxJobTimeout c" "0 < cfg_JobPollInterval c"
    "10 * time_Second \<le> cfg_HeartbeatInterval c" "cfg_HeartbeatInterval c \<le> 60 * time_Second"
    "cfg_MaxResultBytes c \<le> 2097152"
    "\<exists>u. ho_url_Parse h (cfg_ControlPlaneURL c) = Some u \<and> url_Scheme u = ''https'' \<and> url_Host u \<noteq> [] \<and> \<not> url_HasUser u"
  using assms by (auto simp: Validate_def split: if_splits option.splits)

text \<open>
  C22: whatever the environment says, a configuration that loads is within the limits of the
  contract: the Control Plane is an absolute \<^verbatim>\<open>https\<close> URL without credentials, between one and 32
  jobs run at a time, the heartbeat is sent every ten to sixty seconds, every timeout, interval and
  size limit is positive, a result fits into two MiB, and the three data directories exist.
\<close>

theorem loaded_config_is_within_limits:
  assumes "Config_Load fmul h getenv = Inr c"
  shows "(\<exists>u. ho_url_Parse h (cfg_ControlPlaneURL c) = Some u \<and> url_Scheme u = ''https'' \<and> url_Host u \<noteq> [] \<and> \<not> url_HasUser u)
    \<and> cfg_AgentName c \<noteq> [] \<and> 1 \<le> cfg_MaxConcurrentJobs c \<and> cfg_MaxConcurrentJobs c \<le> 32
    \<and> 10 * time_Second \<le> cfg_HeartbeatInterval c \<and> cfg_HeartbeatInterval c \<le> 60 * time_Second
    \<and> 0 < cfg_JobPollInterval c \<and> 0 < cfg_MaxJobTimeout c \<and> 0 < cfg_RequestTimeout c \<and> 0 < cfg_MaxSpoolAge c
    \<and> 0 < cfg_MaxStdoutBytes c \<and> 0 < cfg_MaxStderrBytes c \<and> 0 < cfg_MaxSpoolBytes c
    \<and> 0 < cfg_MaxResultBytes c \<and> cfg_MaxResultBytes c \<le> 2097152
    \<and> (\<forall>d\<in>{''spool'', ''temp'', ''state''}. ho_MkdirAll h (ho_Join h (cfg_DataDir c) d) = None)"
proof -
  from assms have c: "c = read_config fmul getenv" and v: "Validate h c = None"
    and d: "make_dirs h (cfg_DataDir c) [''spool'', ''temp'', ''state''] = None"
    unfolding Config_Load_Inr by - (elim conjE, assumption)+
  have "\<forall>d\<in>{''spool'', ''temp'', ''state''}. ho_MkdirAll h (ho_Join h (cfg_DataDir c) d) = None"
    using d unfolding make_dirs_None by simp
  with Validate_None [OF v] read_config_positive [of fmul getenv] show ?thesis unfolding c by blast
qed

definition sample_host :: host where
  "sample_host = \<lparr>ho_GOOS = ''linux'', ho_GOARCH = ''amd64'',
     ho_url_Parse = (\<lambda>s. if s = ''https://control.example'' then Some \<lparr>url_Scheme = ''https'', url_Host = ''control.example'',
        url_Hostname = ''control.example'', url_HasUser = False, url_Fragment = []\<rparr> else None),
     ho_Join = (\<lambda>a b. a @ ''/'' @ b), ho_MkdirAll = (\<lambda>_. None)\<rparr>"

definition sample_environment :: environment where
  "sample_environment = (\<lambda>key. if key = ''NETSCOPE_CONTROL_PLANE_URL'' then '' https://control.example ''
     else if key = ''NETSCOPE_MAX_CONCURRENT_JOBS'' then ''4'' else [])"

theorem loaded_config_is_within_limits_witness:
  "(case Config_Load (\<lambda>_ _ _. 0) sample_host sample_environment of Inl _ \<Rightarrow> False
    | Inr c \<Rightarrow> cfg_MaxConcurrentJobs c = 4 \<and> cfg_MaxConcurrentJobs c \<le> 32)"
proof -
  have "(case Config_Load (\<lambda>_ _ _. 0) sample_host sample_environment of Inl _ \<Rightarrow> False | Inr c \<Rightarrow> cfg_MaxConcurrentJobs c = 4)"
    by code_simp
  then obtain c where "Config_Load (\<lambda>_ _ _. 0) sample_host sample_environment = Inr c" "cfg_MaxConcurrentJobs c = 4"
    by (auto split: sum.splits)
  then show ?thesis using loaded_config_is_within_limits [of "\<lambda>_ _ _. 0" sample_host sample_environment c] by simp
qed

text \<open>
  C36: signatures of jobs are required unless the environment turns them off with one of the six
  false values of the standard library; any other text, misspelt ones included, leaves them on.
\<close>

theorem signatures_required_by_default:
  "cfg_RequireSignedJobs (read_config fmul getenv)
    \<longleftrightarrow> strings_TrimSpace (getenv ''NETSCOPE_REQUIRE_SIGNED_JOBS'') \<notin> set false_texts"
  by (auto simp: read_config_def env_boolean_def Let_def strconv_ParseBool_def true_texts_def false_texts_def)

end
