(* ===== verification/AgentLoop.thy ===== *)
theory AgentLoop
  imports Concurrency Config Client
begin

text \<open>
  \<^verbatim>\<open>internal/heartbeat/heartbeat.go\<close>, and the loop \<^verbatim>\<open>runLoop\<close> of \<^verbatim>\<open>cmd/netscope-agent/main.go\<close> as a step
  relation: the loop waits for one of its timers, sends heartbeats, flushes the spool, polls for
  jobs and submits them, while the goroutines of accepted jobs take their steps in between.
\<close>

section \<open>Heartbeats\<close>

text \<open>The clock, the host's name (empty after an error) and its platform.\<close>

record heartbeat_env =
  he_now :: time
  he_Hostname :: string
  he_GOOS :: string
  he_GOARCH :: string

text \<open>\<open>active\<close> and \<open>last\<close> are the answers of the source, \<open>health\<close> the answer of the spool.\<close>

definition Build :: "libs \<Rightarrow> heartbeat_env \<Rightarrow> string \<Rightarrow> string \<Rightarrow> int \<Rightarrow> Report \<Rightarrow> int \<Rightarrow> LastJobResult option \<Rightarrow>
    (int \<times> int) result \<Rightarrow> Heartbeat" where
  "Build L he agentID agentVersion maximum report active last_result health =
     (let (items, bytes) = (case health of Inl _ \<Rightarrow> (0, 0) | Inr h \<Rightarrow> h);
          available = maximum - active;
          available = (if available < 0 then 0 else available)
      in \<lparr>hb_ProtocolVersion = Version, hb_AgentID = agentID, hb_AgentVersion = agentVersion,
          hb_ContractVersion = ContractVersion, hb_CapabilitySchemaVersion = CapabilitySchemaVersion,
          hb_Timestamp = he_now he, hb_Hostname = he_Hostname he, hb_OS = he_GOOS he, hb_Architecture = he_GOARCH he,
          hb_Status = (if isl health then ''DEGRADED'' else ''ONLINE''), hb_RunningJobs = active, hb_AvailableSlots = available,
          hb_CapabilitiesHash = Hash L report,
          hb_HealthSummary = [(''identity'', JString ''VALID''),
            (''spool'', JString (if isl health then ''UNAVAILABLE'' else ''HEALTHY'')),
            (''spoolItems'', JNumber (strconv_Itoa items)), (''spoolBytes'', JNumber (strconv_Itoa bytes)),
            (''capabilityManifest'', JString ''LOADED'')],
          hb_LastJobResult = last_result\<rparr>)"

definition LastJobResult_json :: "LastJobResult \<Rightarrow> string result" where
  "LastJobResult_json l = marshal_struct [(''jobId'', text_value (ljr_JobID l)), (''status'', text_value (ljr_Status l)),
     (''completedAt'', time_value (ljr_CompletedAt l))]"

text \<open>A map is written with its keys sorted.\<close>

definition Heartbeat_json :: "Heartbeat \<Rightarrow> string result" where
  "Heartbeat_json hb = marshal_struct
     ([(''protocolVersion'', text_value (hb_ProtocolVersion hb)), (''agentId'', text_value (hb_AgentID hb)),
       (''agentVersion'', text_value (hb_AgentVersion hb))] @
      omit_empty ''contractVersion'' (hb_ContractVersion hb) @
      omit_empty ''capabilitySchemaVersion'' (hb_CapabilitySchemaVersion hb) @
      [(''timestamp'', time_value (hb_Timestamp hb)), (''hostname'', text_value (hb_Hostname hb)),
       (''os'', text_value (hb_OS hb)), (''architecture'', text_value (hb_Architecture hb)),
       (''status'', text_value (hb_Status hb)), (''runningJobs'', int_value (hb_RunningJobs hb)),
       (''availableSlots'', int_value (hb_AvailableSlots hb)),
       (''capabilitiesHash'', text_value (hb_CapabilitiesHash hb)),
       (''healthSummary'', Inr (marshal_json (JObject (sort_key fst (hb_HealthSummary hb)))))] @
      (case hb_LastJobResult hb of None \<Rightarrow> [] | Some l \<Rightarrow> [(''lastJobResult'', LastJobResult_json l)]))"

definition HeartbeatResponse_fields :: "(string \<Rightarrow> time option) \<Rightarrow> HeartbeatResponse fields" where
  "HeartbeatResponse_fields parse = [(''status'', string_field (\<lambda>s. hbr_Status_update (\<lambda>_. s))),
     (''protocolVersion'', string_field (\<lambda>s. hbr_ProtocolVersion_update (\<lambda>_. s))),
     (''compatibilityStatus'', string_field (\<lambda>s. hbr_CompatibilityStatus_update (\<lambda>_. s))),
     (''serverTime'', time_field parse (\<lambda>t. hbr_ServerTime_update (\<lambda>_. t)))]"

definition zero_HeartbeatResponse :: HeartbeatResponse where
  "zero_HeartbeatResponse = \<lparr>hbr_Status = [], hbr_ProtocolVersion = [], hbr_CompatibilityStatus = [], hbr_ServerTime = 0\<rparr>"

text \<open>What heartbeats need of their source, the interface \<^verbatim>\<open>heartbeat.Source\<close>.\<close>

locale heartbeat_source =
  fixes running :: "'s \<Rightarrow> int" and capacity :: "'s \<Rightarrow> int" and inv :: "'s \<Rightarrow> bool"
  assumes running_nonneg: "inv s \<Longrightarrow> 0 \<le> running s"
    and running_le: "inv s \<Longrightarrow> running s \<le> capacity s"
begin

lemma slots_add_up:
  "inv s \<Longrightarrow> hb_RunningJobs (Build L he agentID agentVersion (capacity s) report (running s) l health)
     + hb_AvailableSlots (Build L he agentID agentVersion (capacity s) report (running s) l health) = capacity s"
  using running_le [of s] by (simp add: Build_def Let_def split_beta)

lemma slots_nonneg:
  "inv s \<Longrightarrow> 0 \<le> hb_RunningJobs (Build L he agentID agentVersion (capacity s) report (running s) l health)
     \<and> 0 \<le> hb_AvailableSlots (Build L he agentID agentVersion (capacity s) report (running s) l health)"
  using running_nonneg [of s] by (simp add: Build_def Let_def split_beta)

end

definition slots_ok :: "Executor \<Rightarrow> bool" where
  "slots_ok e \<longleftrightarrow> ch_len (ex_slots e) \<le> ch_cap (ex_slots e)"

interpretation source: heartbeat_source "\<lambda>e. int (Running e)" "\<lambda>e. int (ch_cap (ex_slots e))" slots_ok
  by unfold_locales (simp_all add: Running_def slots_ok_def)

section \<open>The job envelope\<close>

text \<open>A field of type \<^verbatim>\<open>*string\<close>.\<close>

definition pointer_field :: "(string option \<Rightarrow> 'p \<Rightarrow> 'p) \<Rightarrow> 'p \<Rightarrow> json \<Rightarrow> 'p option" where
  "pointer_field upd p v = (case v of
      JNull \<Rightarrow> Some (upd None p)
    | JString s \<Rightarrow> Some (upd (Some s) p)
    | _ \<Rightarrow> None)"

definition JobTarget_fields :: "JobTarget fields" where
  "JobTarget_fields = [(''type'', string_field (\<lambda>s. jt_Type_update (\<lambda>_. s))), (''value'', string_field (\<lambda>s. jt_Value_update (\<lambda>_. s)))]"

text \<open>The raw text of the parameters is stored by \<open>raw\<close>; the value alone does not tell it.\<close>

definition JobEnvelope_fields :: "(string \<Rightarrow> time option) \<Rightarrow> (JobEnvelope \<Rightarrow> json \<Rightarrow> JobEnvelope option) \<Rightarrow> JobEnvelope fields" where
  "JobEnvelope_fields parse raw =
     [(''protocolVersion'', string_field (\<lambda>s. je_ProtocolVersion_update (\<lambda>_. s))),
      (''jobId'', string_field (\<lambda>s. je_JobID_update (\<lambda>_. s))),
      (''organizationId'', string_field (\<lambda>s. je_OrganizationID_update (\<lambda>_. s))),
      (''agentId'', string_field (\<lambda>s. je_AgentID_update (\<lambda>_. s))),
      (''moduleId'', string_field (\<lambda>s. je_ModuleID_update (\<lambda>_. s))),
      (''moduleVersionRequirement'', string_field (\<lambda>s. je_ModuleVersionRequirement_update (\<lambda>_. s))),
      (''scopeId'', string_field (\<lambda>s. je_ScopeID_update (\<lambda>_. s))),
      (''scopeEnvironment'', string_field (\<lambda>s. je_ScopeEnvironment_update (\<lambda>_. s))),
      (''assetId'', pointer_field (\<lambda>s. je_AssetID_update (\<lambda>_. s))),
      (''serviceId'', pointer_field (\<lambda>s. je_ServiceID_update (\<lambda>_. s))),
      (''diagnosticRunId'', pointer_field (\<lambda>s. je_DiagnosticRunID_update (\<lambda>_. s))),
      (''vantagePointId'', pointer_field (\<lambda>s. je_VantagePointID_update (\<lambda>_. s))),
      (''target'', \<lambda>p v. map_option (\<lambda>t. p\<lparr>je_Target := t\<rparr>) (struct_member True JobTarget_fields (je_Target p) v)),
      (''validatedParameters'', raw),
      (''riskClass'', string_field (\<lambda>s. je_RiskClass_update (\<lambda>_. s))),
      (''authorizationReference'', string_field (\<lambda>s. je_AuthorizationReference_update (\<lambda>_. s))),
      (''issuedAt'', time_field parse (\<lambda>t. je_IssuedAt_update (\<lambda>_. t))),
      (''expiresAt'', time_field parse (\<lambda>t. je_ExpiresAt_update (\<lambda>_. t))),
      (''timeoutSeconds'', int_field (\<lambda>n. je_TimeoutSeconds_update (\<lambda>_. n))),
      (''nonce'', string_field (\<lambda>s. je_Nonce_update (\<lambda>_. s))),
      (''signingKeyId'', string_field (\<lambda>s. je_SigningKeyID_update (\<lambda>_. s))),
      (''signatureAlgorithm'', string_field (\<lambda>s. je_SignatureAlgorithm_update (\<lambda>_. s))),
      (''signature'', string_field (\<lambda>s. je_Signature_update (\<lambda>_. s)))]"

definition zero_JobEnvelope :: JobEnvelope where
  "zero_JobEnvelope = \<lparr>je_ProtocolVersion = [], je_JobID = [], je_OrganizationID = [], je_AgentID = [], je_ModuleID = [],
     je_ModuleVersionRequirement = [], je_ScopeID = [], je_ScopeEnvironment = [], je_AssetID = None, je_ServiceID = None,
     je_DiagnosticRunID = None, je_VantagePointID = None, je_Target = \<lparr>jt_Type = [], jt_Value = []\<rparr>, je_ValidatedParameters = [],
     je_RiskClass = [], je_AuthorizationReference = [], je_IssuedAt = 0, je_ExpiresAt = 0, je_TimeoutSeconds = 0, je_Nonce = [],
     je_SigningKeyID = [], je_SignatureAlgorithm = [], je_Signature = []\<rparr>"

section \<open>The loop\<close>

text \<open>
  What the loop is started with, and what one of its steps meets: the surroundings of the
  executor, the transport of its request, that of each delivery of a flush, the clock and host,
  Decoding a job envelope, a raw message included, is
  given by the fields of that struct.
\<close>

record agent =
  ag_cfg :: Config
  ag_client :: Client
  ag_report :: Report
  ag_AgentID :: string
  ag_version :: string
  ag_libs :: libs
  ag_parseTime :: "string \<Rightarrow> time option"
  ag_rawParameters :: "JobEnvelope \<Rightarrow> json \<Rightarrow> JobEnvelope option"
  ag_decoders :: wire_decoders
  ag_ftoa :: "rat \<Rightarrow> string"

record loop_env =
  le_run :: run_env
  le_transport :: client_env
  le_delivery :: "nat \<Rightarrow> client_env"
  le_heartbeat :: heartbeat_env
  le_io :: spool_io
  le_rand :: "int \<Rightarrow> int"

text \<open>Where the loop stands between two steps.\<close>

datatype phase = Waiting | Flushing | HaveJob JobEnvelope | Stopped "goerror option"

record loop_state =
  lo_agent :: agent_state
  lo_phase :: phase
  lo_attempt :: int
  lo_pollDelay :: duration
  lo_heartbeatDelay :: duration

definition jitter :: "(int \<Rightarrow> int) \<Rightarrow> duration \<Rightarrow> duration" where
  "jitter rnd interval = (let maximum = go_quot interval 10 in
     if maximum \<le> 0 then interval else interval + rnd (maximum + 1))"

definition send_heartbeat :: "agent \<Rightarrow> loop_env \<Rightarrow> Executor \<Rightarrow> HeartbeatResponse \<times> goerror option" where
  "send_heartbeat ag env e = Client_Heartbeat (le_transport env) (ag_client ag) (HeartbeatResponse_fields (ag_parseTime ag))
     zero_HeartbeatResponse (Heartbeat_json (Build (ag_libs ag) (le_heartbeat env) (ag_AgentID ag) (ag_version ag)
       (cfg_MaxConcurrentJobs (ag_cfg ag)) (ag_report ag) (int (Running e)) (LastResult e) (Health (le_io env) (ex_Spool e))))"

text \<open>The heartbeat timer fires; after an accepted heartbeat the spool is flushed next.\<close>

definition heartbeat_tick :: "agent \<Rightarrow> loop_env \<Rightarrow> loop_state \<Rightarrow> loop_state" where
  "heartbeat_tick ag env s = (case send_heartbeat ag env (as_ex (lo_agent s)) of
      (response, None) \<Rightarrow> (case RequireCompatible (hbr_ProtocolVersion response) of
          Some err \<Rightarrow> s\<lparr>lo_phase := Stopped (Some err)\<rparr>
        | None \<Rightarrow> s\<lparr>lo_phase := Flushing\<rparr>)
    | (response, Some err) \<Rightarrow>
        if IsTerminal (Some err) then s\<lparr>lo_phase := Stopped (Some err)\<rparr>
        else s\<lparr>lo_heartbeatDelay := jitter (le_rand env) (cfg_HeartbeatInterval (ag_cfg ag))\<rparr>)"

definition flush_spool :: "agent \<Rightarrow> loop_env \<Rightarrow> loop_state \<Rightarrow> loop_state" where
  "flush_spool ag env s =
     (let e = as_ex (lo_agent s);
          (err, sent, dir) = Flush (le_io env) (ex_Queue e)
            (\<lambda>n. Send (le_delivery env n) (ag_client ag) (ag_ftoa ag) (ag_decoders ag)) (ex_Spool e)
      in s\<lparr>lo_agent := (lo_agent s)\<lparr>as_ex := e\<lparr>ex_Spool := dir\<rparr>\<rparr>, lo_phase := Waiting,
           lo_heartbeatDelay := jitter (le_rand env) (cfg_HeartbeatInterval (ag_cfg ag))\<rparr>)"

text \<open>The poll timer fires. A job that arrived is submitted in the next step.\<close>

definition poll_tick :: "agent \<Rightarrow> loop_env \<Rightarrow> loop_state \<Rightarrow> loop_state" where
  "poll_tick ag env s =
     (if cfg_MaxConcurrentJobs (ag_cfg ag) \<le> int (Running (as_ex (lo_agent s)))
      then s\<lparr>lo_pollDelay := cfg_JobPollInterval (ag_cfg ag)\<rparr>
      else case NextJob (le_transport env) (ag_client ag)
          (JobEnvelope_fields (ag_parseTime ag) (ag_rawParameters ag)) zero_JobEnvelope of
        Inl err \<Rightarrow>
          if IsTerminal (Some err) then s\<lparr>lo_phase := Stopped (Some err)\<rparr>
          else s\<lparr>lo_attempt := lo_attempt s + 1, lo_pollDelay := Backoff (le_rand env) (lo_attempt s + 1) time_Minute\<rparr>
      | Inr job \<Rightarrow> s\<lparr>lo_attempt := 0, lo_pollDelay := cfg_JobPollInterval (ag_cfg ag),
          lo_phase := (case job of None \<Rightarrow> Waiting | Some j \<Rightarrow> HaveJob j)\<rparr>)"

text \<open>\<^verbatim>\<open>Submit\<close>: the job is reported as rejected, or a goroutine is started for it.\<close>

definition submit_job :: "run_env \<Rightarrow> JobEnvelope \<Rightarrow> agent_state \<Rightarrow> agent_state" where
  "submit_job env job a = (case Submit env job (as_ex a) of
      (Inl (err, rep), e) \<Rightarrow> a\<lparr>as_ex := e, as_reports := (job, rep) # as_reports a, as_submitted := job # as_submitted a\<rparr>
    | (Inr m, e) \<Rightarrow> a\<lparr>as_ex := e, as_tasks := as_tasks a @ [\<lparr>t_job = job, t_module = m, t_holding = False\<rparr>],
        as_submitted := job # as_submitted a\<rparr>)"

text \<open>\<^verbatim>\<open>rand.Int64N(n)\<close> is a number from 0 to n - 1.\<close>

definition Int64N_ok :: "(int \<Rightarrow> int) \<Rightarrow> bool" where
  "Int64N_ok rnd \<longleftrightarrow> (\<forall>n>0. 0 \<le> rnd n \<and> rnd n < n)"

inductive loop_step :: "agent \<Rightarrow> loop_state \<Rightarrow> loop_state \<Rightarrow> bool" for ag where
  cancelled: "lo_phase s = Waiting \<Longrightarrow> loop_step ag s (s\<lparr>lo_phase := Stopped None\<rparr>)"
| heartbeat: "lo_phase s = Waiting \<Longrightarrow> Int64N_ok (le_rand env) \<Longrightarrow> loop_step ag s (heartbeat_tick ag env s)"
| flush: "lo_phase s = Flushing \<Longrightarrow> Int64N_ok (le_rand env) \<Longrightarrow> loop_step ag s (flush_spool ag env s)"
| poll: "lo_phase s = Waiting \<Longrightarrow> Int64N_ok (le_rand env) \<Longrightarrow> loop_step ag s (poll_tick ag env s)"
| submit: "lo_phase s = HaveJob j \<Longrightarrow> rn_libs (le_run env) = ag_libs ag \<Longrightarrow>
    loop_step ag s (s\<lparr>lo_agent := submit_job (le_run (env :: loop_env)) j (lo_agent s), lo_phase := Waiting\<rparr>)"
| work: "goroutine_step (le_run (env :: loop_env)) (lo_agent s) a \<Longrightarrow> loop_step ag s (s\<lparr>lo_agent := a\<rparr>)"

inductive_cases loop_stepE: "loop_step ag s s'"

text \<open>The state in which \<^verbatim>\<open>runLoop\<close> starts.\<close>

definition loop_start :: "agent \<Rightarrow> (int \<Rightarrow> int) \<Rightarrow> Executor \<Rightarrow> loop_state" where
  "loop_start ag rnd e = \<lparr>lo_agent = \<lparr>as_ex = e, as_tasks = [], as_reports = [], as_submitted = []\<rparr>,
     lo_phase = Waiting, lo_attempt = 0, lo_pollDelay = cfg_JobPollInterval (ag_cfg ag),
     lo_heartbeatDelay = jitter rnd (cfg_HeartbeatInterval (ag_cfg ag))\<rparr>"

definition loop_reach :: "agent \<Rightarrow> loop_state \<Rightarrow> loop_state \<Rightarrow> bool" where
  "loop_reach ag = (loop_step ag)\<^sup>*\<^sup>*"

section \<open>The invariant\<close>

lemma submit_is_step: "exec_step env a (submit_job env job a)"
proof -
  obtain r e where r: "Submit env job (as_ex a) = (r, e)" by fastforce
  show ?thesis
  proof (cases r)
    case (Inl er)
    then obtain err rep where "r = Inl (err, rep)" by (cases er) auto
    with refuse [of env job a err rep e] r show ?thesis by (simp add: submit_job_def)
  next
    case (Inr m)
    with accept [of env job a m e] r show ?thesis by (simp add: submit_job_def)
  qed
qed

lemma goroutine_tasks: "goroutine_step env a a' \<Longrightarrow> length (as_tasks a') \<le> length (as_tasks a)"
  unfolding goroutine_step_def by (elim conjE exec_stepE) (simp_all add: end_task_def)

lemma exec_inv_spool: "exec_inv ms maximum (a\<lparr>as_ex := (as_ex a)\<lparr>ex_Spool := dir\<rparr>\<rparr>) = exec_inv ms maximum a"
  by (simp add: exec_inv_def)

lemma flush_spool_fields:
  "lo_phase (flush_spool ag env s) = Waiting" "lo_pollDelay (flush_spool ag env s) = lo_pollDelay s"
  "lo_heartbeatDelay (flush_spool ag env s) = jitter (le_rand env) (cfg_HeartbeatInterval (ag_cfg ag))"
  "\<exists>dir. lo_agent (flush_spool ag env s) = (lo_agent s)\<lparr>as_ex := (as_ex (lo_agent s))\<lparr>ex_Spool := dir\<rparr>\<rparr>"
  by (auto simp: flush_spool_def Let_def split_beta)

lemma heartbeat_tick_fields:
  "lo_agent (heartbeat_tick ag env s) = lo_agent s" "lo_pollDelay (heartbeat_tick ag env s) = lo_pollDelay s"
  "lo_phase s = Waiting \<Longrightarrow> lo_phase (heartbeat_tick ag env s) \<noteq> HaveJob j"
  "lo_heartbeatDelay (heartbeat_tick ag env s) \<in> {lo_heartbeatDelay s, jitter (le_rand env) (cfg_HeartbeatInterval (ag_cfg ag))}"
  by (auto simp: heartbeat_tick_def split: prod.splits option.splits)

lemma poll_tick_fields:
  "lo_agent (poll_tick ag env s) = lo_agent s" "lo_heartbeatDelay (poll_tick ag env s) = lo_heartbeatDelay s"
  "lo_phase s = Waiting \<Longrightarrow> lo_phase (poll_tick ag env s) = HaveJob j \<Longrightarrow>
     int (Running (as_ex (lo_agent s))) < cfg_MaxConcurrentJobs (ag_cfg ag)"
  by (auto simp: poll_tick_def split: sum.splits option.splits if_splits)

definition loop_inv :: "exec_env Module list \<Rightarrow> nat \<Rightarrow> loop_state \<Rightarrow> bool" where
  "loop_inv ms maximum s \<longleftrightarrow> exec_inv ms maximum (lo_agent s)
     \<and> ((\<exists>j. lo_phase s = HaveJob j) \<longrightarrow> length (as_tasks (lo_agent s)) < maximum)"

lemma loop_inv_step:
  assumes "loop_step ag s s'" and "loop_inv ms maximum s" and "cfg_MaxConcurrentJobs (ag_cfg ag) = int maximum"
  shows "loop_inv ms maximum s'"
  using assms(1)
proof (cases rule: loop_step.cases)
  case cancelled
  with assms(2) show ?thesis by (auto simp: loop_inv_def)
next
  case (heartbeat env)
  with assms(2) show ?thesis by (simp add: loop_inv_def heartbeat_tick_fields)
next
  case (flush env)
  from flush_spool_fields(4) obtain dir
    where "lo_agent (flush_spool ag env s) = (lo_agent s)\<lparr>as_ex := (as_ex (lo_agent s))\<lparr>ex_Spool := dir\<rparr>\<rparr>" by blast
  with flush assms(2) show ?thesis by (simp add: loop_inv_def flush_spool_fields exec_inv_spool)
next
  case (poll env)
  have "length (as_tasks (lo_agent s)) < maximum" if "lo_phase (poll_tick ag env s) = HaveJob j" for j
    using poll_tick_fields(3) [OF poll(2) that] assms(2,3) by (simp add: loop_inv_def exec_inv_def Running_def)
  with poll assms(2) show ?thesis by (auto simp: loop_inv_def poll_tick_fields)
next
  case (submit j env)
  with assms(2) exec_inv_step [OF submit_is_step] show ?thesis by (simp add: loop_inv_def)
next
  case (work env a)
  from work(2) have "exec_inv ms maximum a"
    using assms(2) exec_inv_step by (auto simp: loop_inv_def goroutine_step_def)
  with work goroutine_tasks [OF work(2)] assms(2) show ?thesis by (auto simp: loop_inv_def)
qed

text \<open>The executor of \<^verbatim>\<open>main\<close>: a fresh one with the registered modules and the configured capacity.\<close>

definition fresh :: "exec_env Module list \<Rightarrow> agent \<Rightarrow> Executor \<Rightarrow> bool" where
  "fresh ms ag e \<longleftrightarrow> NewRegistry ms = Inr (ex_Registry e) \<and> 0 \<le> cfg_MaxConcurrentJobs (ag_cfg ag)
     \<and> ex_slots e = \<lparr>ch_cap = nat (cfg_MaxConcurrentJobs (ag_cfg ag)), ch_len = 0\<rparr>"

lemma loop_inv_reach:
  assumes "fresh ms ag e" and "loop_reach ag (loop_start ag rnd e) s"
  shows "loop_inv ms (nat (cfg_MaxConcurrentJobs (ag_cfg ag))) s"
  using assms(2) unfolding loop_reach_def
proof (induction rule: rtranclp_induct)
  case base
  have "initial ms (nat (cfg_MaxConcurrentJobs (ag_cfg ag))) (lo_agent (loop_start ag rnd e))"
    using assms(1) by (simp add: initial_def loop_start_def fresh_def)
  from exec_inv_initial [OF this] show ?case by (simp add: loop_inv_def loop_start_def)
next
  case (step s s')
  from loop_inv_step [OF step(2,3)] assms(1) show ?case by (simp add: fresh_def)
qed

section \<open>Admission\<close>

lemma Submit_accepts:
  assumes "Verify (rn_libs env) (rn_now env) j (ex_Verifier e) = (None, v)" and "Submit_checks j (e\<lparr>ex_Verifier := v\<rparr>) = Inr m"
    and "rn_startJob env = None" and "ch_len (ex_slots e) < ch_cap (ex_slots e)"
  shows "fst (Submit env j e) = Inr m"
  using assms by (simp add: Submit_def Let_def chan_send_def)

text \<open>
  C16: the loop asks for a job only when it can run one. However the goroutines and the loop
  interleave, the job that a poll returned still finds a free execution slot when it is
  submitted: if it passes verification and the checks of the executor and its start is
  acknowledged, it is accepted, and never refused for want of a slot.
\<close>

theorem polled_job_finds_a_slot:
  assumes "fresh ms ag e0" and "loop_reach ag (loop_start ag rnd e0) s" and "lo_phase s = HaveJob j"
    and "Verify (rn_libs env) (rn_now env) j (ex_Verifier (as_ex (lo_agent s))) = (None, v)"
    and "Submit_checks j ((as_ex (lo_agent s))\<lparr>ex_Verifier := v\<rparr>) = Inr m" and "rn_startJob env = None"
  shows "fst (Submit env j (as_ex (lo_agent s))) = Inr m
    \<and> int (Running (as_ex (lo_agent s))) < cfg_MaxConcurrentJobs (ag_cfg ag)"
proof -
  from loop_inv_reach [OF assms(1,2)] assms(3)
  have l: "ch_len (ex_slots (as_ex (lo_agent s))) < nat (cfg_MaxConcurrentJobs (ag_cfg ag))"
    "ch_cap (ex_slots (as_ex (lo_agent s))) = nat (cfg_MaxConcurrentJobs (ag_cfg ag))"
    by (auto simp: loop_inv_def exec_inv_def)
  with Submit_accepts [OF assms(4,5,6)] show ?thesis by (simp add: Running_def zless_nat_conj)
qed

section \<open>Timers\<close>

lemma jitter_range:
  assumes "Int64N_ok rnd" and "0 < interval"
  shows "interval \<le> jitter rnd interval" "10 * jitter rnd interval \<le> 11 * interval"
proof -
  have "go_quot interval 10 = interval div 10" using assms(2) by (simp add: go_quot_nonneg)
  moreover have "0 < interval div 10 \<Longrightarrow> 0 \<le> rnd (interval div 10 + 1) \<and> rnd (interval div 10 + 1) \<le> interval div 10"
    using assms(1) unfolding Int64N_ok_def by (auto dest: spec [of _ "interval div 10 + 1"])
  ultimately show "interval \<le> jitter rnd interval" "10 * jitter rnd interval \<le> 11 * interval"
    using assms(2) by (auto simp: jitter_def Let_def)
qed

lemma Backoff_minute:
  assumes "Int64N_ok rnd"
  shows "0 < Backoff rnd attempt time_Minute" "Backoff rnd attempt time_Minute \<le> 80 * time_Second"
proof -
  define k where "k = nat (min 8 (max 0 attempt))"
  define d where "d = min time_Minute (time_Second * 2 ^ k)"
  have "k \<le> 8" by (simp add: k_def)
  then have "(1::int) \<le> 2 ^ k" by simp
  then have d: "time_Second \<le> d" "d \<le> time_Minute" by (simp_all add: d_def time_Second_def time_Minute_def)
  have B: "Backoff rnd attempt time_Minute = d + rnd (go_quot d 3 + 1)"
    by (simp add: Backoff_def Let_def d_def k_def min_def max_def)
  have q: "go_quot d 3 = d div 3" using d by (simp add: go_quot_nonneg time_Second_def)
  have "0 \<le> d div 3" using d by (simp add: time_Second_def)
  then have "0 \<le> rnd (d div 3 + 1)" "rnd (d div 3 + 1) \<le> d div 3"
    using assms unfolding Int64N_ok_def by (auto dest: spec [of _ "d div 3 + 1"])
  then show "0 < Backoff rnd attempt time_Minute" "Backoff rnd attempt time_Minute \<le> 80 * time_Second"
    unfolding B q using d by (simp_all add: time_Second_def time_Minute_def)
qed

definition timers_ok :: "Config \<Rightarrow> loop_state \<Rightarrow> bool" where
  "timers_ok c s \<longleftrightarrow> cfg_HeartbeatInterval c \<le> lo_heartbeatDelay s \<and> 10 * lo_heartbeatDelay s \<le> 11 * cfg_HeartbeatInterval c
     \<and> 0 < lo_pollDelay s \<and> lo_pollDelay s \<le> max (cfg_JobPollInterval c) (80 * time_Second)"

lemma poll_delay_cases:
  "lo_pollDelay (poll_tick ag env s) \<in> {lo_pollDelay s, cfg_JobPollInterval (ag_cfg ag), Backoff (le_rand env) (lo_attempt s + 1) time_Minute}"
  by (auto simp: poll_tick_def split: sum.splits)

lemma timers_ok_step:
  assumes "loop_step ag s s'" and "timers_ok (ag_cfg ag) s" and "0 < cfg_HeartbeatInterval (ag_cfg ag)" "0 < cfg_JobPollInterval (ag_cfg ag)"
  shows "timers_ok (ag_cfg ag) s'"
  using assms(1)
proof (cases rule: loop_step.cases)
  case (heartbeat env)
  from heartbeat_tick_fields(4) [of ag env s] jitter_range [OF heartbeat(3) assms(3)] heartbeat(1) assms(2)
  show ?thesis by (auto simp: timers_ok_def heartbeat_tick_fields)
next
  case (flush env)
  from jitter_range [OF flush(3) assms(3)] flush(1) assms(2) show ?thesis by (simp add: timers_ok_def flush_spool_fields)
next
  case (poll env)
  from poll_delay_cases [of ag env s] Backoff_minute [OF poll(3), of "lo_attempt s + 1"] poll(1) assms(2,4)
  show ?thesis by (auto simp: timers_ok_def poll_tick_fields)
qed (use assms(2) in \<open>simp_all add: timers_ok_def\<close>)

lemma timers_ok_reach:
  assumes "loop_reach ag (loop_start ag rnd e) s" and "Int64N_ok rnd"
    and "0 < cfg_HeartbeatInterval (ag_cfg ag)" "0 < cfg_JobPollInterval (ag_cfg ag)"
  shows "timers_ok (ag_cfg ag) s"
  using assms(1) unfolding loop_reach_def
proof (induction rule: rtranclp_induct)
  case base
  from jitter_range [OF assms(2,3)] assms(4) show ?case by (simp add: timers_ok_def loop_start_def)
next
  case (step s s')
  from timers_ok_step [OF step(2,3) assms(3,4)] show ?case .
qed

text \<open>
  C23: with a configuration that loaded, the timers stay within their bounds however often the
  control plane fails: the next heartbeat is due after ten to 66 seconds, and the next poll
  after a positive time of at most the poll interval or 80 seconds.
\<close>

theorem loop_timers_are_bounded:
  assumes "Config_Load fmul h getenv = Inr cfg" and "ag_cfg ag = cfg\<lparr>cfg_EnrollmentToken := []\<rparr>"
    and "loop_reach ag (loop_start ag rnd e) s" and "Int64N_ok rnd"
  shows "10 * time_Second \<le> lo_heartbeatDelay s \<and> lo_heartbeatDelay s \<le> 66 * time_Second
    \<and> 0 < lo_pollDelay s \<and> lo_pollDelay s \<le> max (cfg_JobPollInterval (ag_cfg ag)) (80 * time_Second)"
proof -
  from assms(1) have "Validate h cfg = None" unfolding Config_Load_Inr by (elim conjE)
  from Validate_None(5,6,7) [OF this] assms(2)
  have valid: "0 < cfg_JobPollInterval (ag_cfg ag)" "10 * time_Second \<le> cfg_HeartbeatInterval (ag_cfg ag)"
    "cfg_HeartbeatInterval (ag_cfg ag) \<le> 60 * time_Second" by simp_all
  from valid(2) have "0 < cfg_HeartbeatInterval (ag_cfg ag)" by (simp add: time_Second_def)
  from timers_ok_reach [OF assms(3,4) this valid(1)] valid show ?thesis by (simp add: timers_ok_def)
qed

section \<open>Stopping\<close>

lemma stopped_step:
  assumes "loop_step ag s s'" and "lo_phase s = Stopped err"
  shows "lo_phase s' = Stopped err \<and> as_submitted (lo_agent s') = as_submitted (lo_agent s)"
  using assms by (cases rule: loop_step.cases) (auto simp: goroutine_step_def)

lemma stopped_reach:
  assumes "loop_reach ag s s'" and "lo_phase s = Stopped err"
  shows "lo_phase s' = Stopped err \<and> as_submitted (lo_agent s') = as_submitted (lo_agent s)"
  using assms(1) unfolding loop_reach_def
  by (induction rule: rtranclp_induct) (use assms(2) stopped_step in auto)

lemma work_steps:
  fixes env :: run_env
  assumes "(goroutine_step env)\<^sup>*\<^sup>* (lo_agent s) a"
  shows "loop_reach ag s (s\<lparr>lo_agent := a\<rparr>)"
  using assms
proof (induction rule: rtranclp_induct)
  case base
  show ?case by (simp add: loop_reach_def)
next
  case (step a a')
  obtain le :: loop_env where "le_run le = env" by (meson loop_env.select_convs(1))
  then have "loop_step ag (s\<lparr>lo_agent := a\<rparr>) (s\<lparr>lo_agent := a'\<rparr>)"
    using work [of le "s\<lparr>lo_agent := a\<rparr>" a' ag] step(2) by simp
  with step(3) show ?case unfolding loop_reach_def by (rule rtranclp.rtrancl_into_rtrancl)
qed

text \<open>
  C15: a stopped agent finishes what it accepted and takes nothing new. Once the loop has ended,
  cancelled or by a terminal answer of the control plane, it stays ended and no job is submitted
  any more; and, whatever happens in its surroundings, the goroutines can run to a state in
  which none is left and every submitted job has its report.
\<close>

theorem stopped_agent_drains:
  assumes "fresh ms ag e0" and "loop_reach ag (loop_start ag rnd e0) s" and "lo_phase s = Stopped err"
  shows "(\<forall>s'. loop_reach ag s s' \<longrightarrow> lo_phase s' = Stopped err \<and> as_submitted (lo_agent s') = as_submitted (lo_agent s))
    \<and> (\<exists>a. (goroutine_step env)\<^sup>*\<^sup>* (lo_agent s) a \<and> loop_reach ag s (s\<lparr>lo_agent := a\<rparr>) \<and> as_tasks a = []
        \<and> Running (as_ex a) = 0 \<and> mset (map fst (as_reports a)) = mset (as_submitted (lo_agent s)))"
proof
  show "\<forall>s'. loop_reach ag s s' \<longrightarrow> lo_phase s' = Stopped err \<and> as_submitted (lo_agent s') = as_submitted (lo_agent s)"
    using stopped_reach [OF _ assms(3)] by blast
next
  from loop_inv_reach [OF assms(1,2)] have "exec_inv ms (nat (cfg_MaxConcurrentJobs (ag_cfg ag))) (lo_agent s)"
    by (simp add: loop_inv_def)
  from drains [OF this, of env] obtain a where a: "(goroutine_step env)\<^sup>*\<^sup>* (lo_agent s) a" "as_tasks a = []"
    "as_submitted a = as_submitted (lo_agent s)" "exec_inv ms (nat (cfg_MaxConcurrentJobs (ag_cfg ag))) a" by blast
  with work_steps [OF a(1), of ag]
  show "\<exists>a. (goroutine_step env)\<^sup>*\<^sup>* (lo_agent s) a \<and> loop_reach ag s (s\<lparr>lo_agent := a\<rparr>) \<and> as_tasks a = []
        \<and> Running (as_ex a) = 0 \<and> mset (map fst (as_reports a)) = mset (as_submitted (lo_agent s))"
    by (intro exI [of _ a]) (simp add: exec_inv_def Running_def)
qed

section \<open>Heartbeats of the loop\<close>

text \<open>
  C35: what a heartbeat says about capacity is true at every moment of the loop: the running jobs
  it reports are the goroutines there are, and together with the free slots it reports they are
  the configured maximum.
\<close>

theorem heartbeat_slots_add_up:
  assumes "fresh ms ag e0" and "loop_reach ag (loop_start ag rnd e0) s"
    and "hb = Build L he (ag_AgentID ag) (ag_version ag) (cfg_MaxConcurrentJobs (ag_cfg ag)) (ag_report ag)
      (int (Running (as_ex (lo_agent s)))) (LastResult (as_ex (lo_agent s))) health"
  shows "hb_RunningJobs hb = int (length (as_tasks (lo_agent s))) \<and> 0 \<le> hb_AvailableSlots hb
    \<and> hb_RunningJobs hb + hb_AvailableSlots hb = cfg_MaxConcurrentJobs (ag_cfg ag)"
proof -
  let ?e = "as_ex (lo_agent s)"
  have inv: "ch_len (ex_slots ?e) = length (as_tasks (lo_agent s))" "slots_ok ?e"
    "int (ch_cap (ex_slots ?e)) = cfg_MaxConcurrentJobs (ag_cfg ag)"
    using loop_inv_reach [OF assms(1,2)] assms(1) by (auto simp: loop_inv_def exec_inv_def slots_ok_def fresh_def)
  have "hb_RunningJobs hb + hb_AvailableSlots hb = cfg_MaxConcurrentJobs (ag_cfg ag)"
    unfolding assms(3) inv(3) [symmetric] by (rule source.slots_add_up [OF inv(2)])
  moreover have "0 \<le> hb_AvailableSlots hb"
    unfolding assms(3) inv(3) [symmetric] using source.slots_nonneg [OF inv(2)] by blast
  moreover have "hb_RunningJobs hb = int (Running ?e)" unfolding assms(3) by (simp add: Build_def Let_def split_beta)
  ultimately show ?thesis using inv(1) by (simp add: Running_def)
qed

section \<open>A sample agent\<close>

definition sample_config :: Config where
  "sample_config = read_config (\<lambda>_ _ _. 0) sample_environment"

lemma sample_config_loads: "Config_Load (\<lambda>_ _ _. 0) sample_host sample_environment = Inr sample_config"
proof -
  have "Validate sample_host sample_config = None" by code_simp
  then show ?thesis by (simp add: Config_Load_Inr sample_config_def sample_host_def)
qed

definition sample_agent :: agent where
  "sample_agent = \<lparr>ag_cfg = sample_config\<lparr>cfg_EnrollmentToken := []\<rparr>, ag_client = \<lparr>c_base = ''https://control.example'', c_version = ''1''\<rparr>,
     ag_report = ex_Capabilities sample_executor, ag_AgentID = ''a'', ag_version = ''1'', ag_libs = sample_libs,
     ag_parseTime = (\<lambda>_. Some 0), ag_rawParameters = (\<lambda>_ _. Some sample_tcp_envelope),
     ag_decoders = \<lparr>wd_JobResult = \<lambda>_. None, wd_JobFailure = \<lambda>_. None, wd_EvidenceRequest = \<lambda>_. None\<rparr>, ag_ftoa = (\<lambda>_. [])\<rparr>"

definition sample_fresh :: Executor where
  "sample_fresh = sample_executor\<lparr>ex_slots := \<lparr>ch_cap = 4, ch_len = 0\<rparr>\<rparr>"

lemma sample_max: "cfg_MaxConcurrentJobs (ag_cfg sample_agent) = 4"
proof -
  have "cfg_MaxConcurrentJobs sample_config = 4" by code_simp
  then show ?thesis by (simp add: sample_agent_def)
qed

lemma sample_is_fresh: "fresh [tcp_module no_url] sample_agent sample_fresh"
  using sample_initial by (simp add: fresh_def sample_max sample_fresh_def initial_def sample_start_def)

text \<open>The control plane has a job.\<close>

definition sample_loop_env :: loop_env where
  "sample_loop_env = (let t = \<lparr>cl_newRequest = (\<lambda>_ _. None), cl_do = (\<lambda>_. Inr \<lparr>hw_StatusCode = 200,
       hw_Body = marshal_object [(''data'', marshal_object [(''validatedParameters'', ''{}'')])], hw_BodyErr = None\<rparr>)\<rparr>
     in \<lparr>le_run = sample_run, le_transport = t, le_delivery = (\<lambda>_. t),
         le_heartbeat = \<lparr>he_now = 0, he_Hostname = ''h'', he_GOOS = ''linux'', he_GOARCH = ''amd64''\<rparr>,
         le_io = sample_io, le_rand = (\<lambda>n. n - 1)\<rparr>)"

abbreviation sample_loop :: loop_state where
  "sample_loop \<equiv> loop_start sample_agent (\<lambda>n. n - 1) sample_fresh"

lemma sample_rand: "Int64N_ok (\<lambda>n. n - 1)"
  by (simp add: Int64N_ok_def)

lemma sample_polled: "\<exists>s. loop_reach sample_agent sample_loop s \<and> lo_phase s = HaveJob sample_tcp_envelope \<and> lo_agent s = lo_agent sample_loop"
proof -
  have n: "NextJob (le_transport sample_loop_env) (ag_client sample_agent)
      (JobEnvelope_fields (ag_parseTime sample_agent) (ag_rawParameters sample_agent)) zero_JobEnvelope = Inr (Some sample_tcp_envelope)"
    by code_simp
  have "lo_phase (poll_tick sample_agent sample_loop_env sample_loop) = HaveJob sample_tcp_envelope"
    by (simp add: poll_tick_def n sample_max Running_def loop_start_def sample_fresh_def)
  moreover have "loop_step sample_agent sample_loop (poll_tick sample_agent sample_loop_env sample_loop)"
    by (rule poll) (simp_all add: loop_start_def sample_loop_env_def sample_rand Let_def)
  ultimately show ?thesis using poll_tick_fields(1) by (auto simp: loop_reach_def intro!: r_into_rtranclp)
qed

theorem polled_job_finds_a_slot_witness:
  "\<exists>s m. loop_reach sample_agent sample_loop s \<and> lo_phase s = HaveJob sample_tcp_envelope
     \<and> fst (Submit sample_run sample_tcp_envelope (as_ex (lo_agent s))) = Inr m"
proof -
  from sample_polled obtain s where s: "loop_reach sample_agent sample_loop s" "lo_phase s = HaveJob sample_tcp_envelope"
    "as_ex (lo_agent s) = sample_fresh" by (auto simp: loop_start_def)
  obtain verr v where v: "Verify sample_libs 2000 sample_tcp_envelope sample_verifier = (verr, v)" by fastforce
  moreover have "fst (Verify sample_libs 2000 sample_tcp_envelope sample_verifier) = None" by code_simp
  ultimately have v: "Verify (rn_libs sample_run) (rn_now sample_run) sample_tcp_envelope (ex_Verifier sample_fresh) = (None, v)"
    by (simp add: sample_run_def sample_fresh_def sample_executor_def)
  have c: "Submit_checks j (e\<lparr>ex_Verifier := w\<rparr>) = Submit_checks j e" for j e w
    by (simp add: Submit_checks_def Let_def split: option.split)
  have "\<not> isl (Submit_checks sample_tcp_envelope sample_fresh)" by code_simp
  then obtain m where "Submit_checks sample_tcp_envelope (sample_fresh\<lparr>ex_Verifier := v\<rparr>) = Inr m"
    unfolding c by (cases "Submit_checks sample_tcp_envelope sample_fresh") auto
  with polled_job_finds_a_slot [OF sample_is_fresh s(1,2), of sample_run v m] v s show ?thesis
    by (auto simp: sample_run_def)
qed

theorem loop_timers_are_bounded_witness:
  "10 * time_Second \<le> lo_heartbeatDelay sample_loop \<and> lo_heartbeatDelay sample_loop \<le> 66 * time_Second"
proof -
  have "ag_cfg sample_agent = sample_config\<lparr>cfg_EnrollmentToken := []\<rparr>" by (simp add: sample_agent_def)
  from loop_timers_are_bounded [OF sample_config_loads this, of "\<lambda>n. n - 1" sample_fresh sample_loop] sample_rand show ?thesis
    by (simp add: loop_reach_def)
qed

theorem stopped_agent_drains_witness:
  "\<exists>s a. loop_reach sample_agent sample_loop s \<and> lo_phase s = Stopped None \<and> loop_reach sample_agent s (s\<lparr>lo_agent := a\<rparr>) \<and> as_tasks a = []"
proof -
  have "loop_step sample_agent sample_loop (sample_loop\<lparr>lo_phase := Stopped None\<rparr>)"
    by (rule cancelled) (simp add: loop_start_def)
  then have "loop_reach sample_agent sample_loop (sample_loop\<lparr>lo_phase := Stopped None\<rparr>)" by (simp add: loop_reach_def r_into_rtranclp)
  with stopped_agent_drains [OF sample_is_fresh this, of None sample_run] show ?thesis by auto
qed

theorem heartbeat_slots_add_up_witness:
  "hb_AvailableSlots (Build sample_libs (le_heartbeat sample_loop_env) (ag_AgentID sample_agent) (ag_version sample_agent)
     (cfg_MaxConcurrentJobs (ag_cfg sample_agent)) (ag_report sample_agent) (int (Running (as_ex (lo_agent sample_loop))))
     (LastResult (as_ex (lo_agent sample_loop))) (Inl Canceled)) = 4"
  using heartbeat_slots_add_up [OF sample_is_fresh _ refl, of "\<lambda>n. n - 1" sample_loop sample_libs "le_heartbeat sample_loop_env" "Inl Canceled"]
  by (simp add: loop_reach_def sample_max) (simp add: loop_start_def)

end
