(* ===== verification/Enrollment.thy ===== *)
theory Enrollment
  imports Config Client
begin

text \<open>
  \<^verbatim>\<open>internal/enrollment/enrollment.go\<close>: the identity of the agent, loaded from the data directory or
  obtained with an enrollment token, and the encodings of the request and the response it
  exchanges (\<^verbatim>\<open>internal/protocol/types.go\<close>).
\<close>

section \<open>The request and the response\<close>

text \<open>The agent never sets labels, so their member is always left out.\<close>

definition EnrollmentRequest_json :: "EnrollmentRequest \<Rightarrow> string result" where
  "EnrollmentRequest_json r = marshal_struct
     ([(''protocolVersion'', text_value (enr_ProtocolVersion r)), (''enrollmentToken'', text_value (enr_EnrollmentToken r)),
       (''agentName'', text_value (enr_AgentName r)), (''hostname'', text_value (enr_Hostname r)),
       (''os'', text_value (enr_OS r)), (''architecture'', text_value (enr_Architecture r)),
       (''agentVersion'', text_value (enr_AgentVersion r)),
       (''publicIdentity'', marshal_struct [(''csrPem'', text_value (pi_CSRPEM (enr_PublicIdentity r)))]),
       (''capabilitiesSummary'', marshal_slice text_value (enr_CapabilitiesSummary r))] @
      (if enr_Labels r = [] then []
       else [(''labels'', marshal_struct (map (\<lambda>(k, v). (k, text_value v)) (sort_key fst (enr_Labels r))))]) @
      omit_empty ''networkZone'' (enr_NetworkZone r))"

text \<open>A field whose type is a struct itself.\<close>

definition inner_field :: "'q fields \<Rightarrow> ('p \<Rightarrow> 'q) \<Rightarrow> ('q \<Rightarrow> 'p \<Rightarrow> 'p) \<Rightarrow> 'p \<Rightarrow> json \<Rightarrow> 'p option" where
  "inner_field fs get put p v = map_option (\<lambda>q. put q p) (struct_member True fs (get p) v)"

definition ControlPlaneIdentity_fields :: "(string \<Rightarrow> time option) \<Rightarrow> ControlPlaneIdentity fields" where
  "ControlPlaneIdentity_fields parse = [(''caCertificatePem'', string_field (\<lambda>s. cpi_CACertificatePEM_update (\<lambda>_. s))),
     (''jobSigningKeyId'', string_field (\<lambda>s. cpi_JobSigningKeyID_update (\<lambda>_. s))),
     (''jobSigningAlgorithm'', string_field (\<lambda>s. cpi_JobSigningAlgorithm_update (\<lambda>_. s))),
     (''jobSigningPublicKey'', string_field (\<lambda>s. cpi_JobSigningPublicKey_update (\<lambda>_. s))),
     (''jobSigningKeyFingerprint'', string_field (\<lambda>s. cpi_JobSigningKeyFingerprint_update (\<lambda>_. s))),
     (''jobSigningKeyIssuedAt'', time_field parse (\<lambda>t. cpi_JobSigningKeyIssuedAt_update (\<lambda>_. t)))]"

definition AgentCredential_fields :: "(string \<Rightarrow> time option) \<Rightarrow> AgentCredential fields" where
  "AgentCredential_fields parse = [(''certificatePem'', string_field (\<lambda>s. cred_CertificatePEM_update (\<lambda>_. s))),
     (''expiresAt'', time_field parse (\<lambda>t. cred_ExpiresAt_update (\<lambda>_. t)))]"

definition EnrollmentResponse_fields :: "(string \<Rightarrow> time option) \<Rightarrow> EnrollmentResponse fields" where
  "EnrollmentResponse_fields parse = [(''protocolVersion'', string_field (\<lambda>s. ens_ProtocolVersion_update (\<lambda>_. s))),
     (''agentId'', string_field (\<lambda>s. ens_AgentID_update (\<lambda>_. s))),
     (''organizationId'', string_field (\<lambda>s. ens_OrganizationID_update (\<lambda>_. s))),
     (''status'', string_field (\<lambda>s. ens_Status_update (\<lambda>_. s))),
     (''controlPlaneIdentity'', inner_field (ControlPlaneIdentity_fields parse) ens_ControlPlaneIdentity
        (\<lambda>q. ens_ControlPlaneIdentity_update (\<lambda>_. q))),
     (''agentCredential'', inner_field (AgentCredential_fields parse) ens_AgentCredential
        (\<lambda>q. ens_AgentCredential_update (\<lambda>_. q))),
     (''serverTime'', time_field parse (\<lambda>t. ens_ServerTime_update (\<lambda>_. t)))]"

definition zero_EnrollmentResponse :: EnrollmentResponse where
  "zero_EnrollmentResponse = \<lparr>ens_ProtocolVersion = [], ens_AgentID = [], ens_OrganizationID = [], ens_Status = [],
     ens_ControlPlaneIdentity = \<lparr>cpi_CACertificatePEM = [], cpi_JobSigningKeyID = [], cpi_JobSigningAlgorithm = [],
       cpi_JobSigningPublicKey = [], cpi_JobSigningKeyFingerprint = [], cpi_JobSigningKeyIssuedAt = 0\<rparr>,
     ens_AgentCredential = \<lparr>cred_CertificatePEM = [], cred_ExpiresAt = 0\<rparr>, ens_ServerTime = 0\<rparr>"

section \<open>Ensure\<close>

text \<open>
  What one call meets: the two visits to the disk, the host's name and platform, the key tools,
  and the client with its transport.
\<close>

record enroll_env =
  en_load :: disk
  en_save :: disk
  en_Hostname :: "string result"
  en_GOOS :: string
  en_GOARCH :: string
  en_tools :: key_tools
  en_transport :: client_env
  en_client :: Client

text \<open>What the operator configured.\<close>

record enroll_options =
  eo_DataDir :: string
  eo_Name :: string
  eo_Token :: string
  eo_Version :: string
  eo_NetworkZone :: string
  eo_Summary :: "string list"

definition enrollment_request :: "enroll_env \<Rightarrow> enroll_options \<Rightarrow> string \<Rightarrow> Pending \<Rightarrow> EnrollmentRequest" where
  "enrollment_request ee eo host pending = \<lparr>enr_ProtocolVersion = Version, enr_EnrollmentToken = eo_Token eo,
     enr_AgentName = eo_Name eo, enr_Hostname = host, enr_OS = en_GOOS ee, enr_Architecture = en_GOARCH ee,
     enr_AgentVersion = eo_Version eo, enr_PublicIdentity = \<lparr>pi_CSRPEM = pe_CSRPEM pending\<rparr>,
     enr_CapabilitiesSummary = sort (eo_Summary eo), enr_Labels = [], enr_NetworkZone = eo_NetworkZone eo\<rparr>"

definition enroll :: "pki \<Rightarrow> enroll_env \<Rightarrow> enroll_options \<Rightarrow> string \<Rightarrow> Pending \<Rightarrow> EnrollmentResponse \<times> goerror option" where
  "enroll P ee eo host pending = Enroll (en_transport ee) (en_client ee) (EnrollmentResponse_fields (pk_parseTime P))
     zero_EnrollmentResponse (EnrollmentRequest_json (enrollment_request ee eo host pending))"

text \<open>The identity and whether it is new, the data directory, and the process environment.\<close>

definition Ensure :: "pki \<Rightarrow> enroll_env \<Rightarrow> enroll_options \<Rightarrow> data_dir \<Rightarrow> environment \<Rightarrow>
    (Identity \<times> bool) result \<times> data_dir \<times> environment" where
  "Ensure P ee eo fs getenv = (case Load P (en_load ee) (eo_DataDir eo) fs of
      Inl err \<Rightarrow> (Inl err, fs, getenv)
    | Inr (Some i) \<Rightarrow> (Inr (i, False), fs, getenv)
    | Inr None \<Rightarrow>
        if length (strings_TrimSpace (eo_Token eo)) < 32
        then (Inl (ErrorText ''first enrollment requires a valid NETSCOPE_ENROLLMENT_TOKEN''), fs, getenv)
        else (case en_Hostname ee of
            Inl err \<Rightarrow> (Inl (ErrorText ''hostname is required for enrollment''), fs, getenv)
          | Inr host \<Rightarrow>
              if host = [] then (Inl (ErrorText ''hostname is required for enrollment''), fs, getenv)
              else (case Generate (en_tools ee) (eo_Name eo) host of
                  Inl err \<Rightarrow> (Inl err, fs, getenv)
                | Inr pending \<Rightarrow> (case enroll P ee eo host pending of
                    (response, Some err) \<Rightarrow> (Inl (ErrorText (''enrollment failed: '' @ error_text err)), fs, getenv)
                  | (response, None) \<Rightarrow> (case SaveEnrollment P (en_save ee) (eo_DataDir eo) pending response fs of
                      (Inl err, fs) \<Rightarrow> (Inl err, fs, getenv)
                    | (Inr i, fs) \<Rightarrow> (Inr (i, True), fs, getenv(''NETSCOPE_ENROLLMENT_TOKEN'' := [])))))))"

lemma Ensure_stored: "Load P (en_load ee) (eo_DataDir eo) fs = Inr (Some i) \<Longrightarrow> Ensure P ee eo fs getenv = (Inr (i, False), fs, getenv)"
  by (simp add: Ensure_def)

lemma Ensure_enrolled:
  assumes "Ensure P ee eo fs getenv = (Inr (i, True), fs', getenv')"
  obtains host pending response where "Load P (en_load ee) (eo_DataDir eo) fs = Inr None"
    "32 \<le> length (strings_TrimSpace (eo_Token eo))" "en_Hostname ee = Inr host"
    "Generate (en_tools ee) (eo_Name eo) host = Inr pending" "enroll P ee eo host pending = (response, None)"
    "SaveEnrollment P (en_save ee) (eo_DataDir eo) pending response fs = (Inr i, fs')"
    "getenv' = getenv(''NETSCOPE_ENROLLMENT_TOKEN'' := [])"
  using assms by (auto simp: Ensure_def not_less split: sum.splits option.splits if_splits prod.splits)

text \<open>What a later \<^verbatim>\<open>Load\<close> of an enrolled identity can give, whatever the disk does by then.\<close>

lemma enrolled_load_outcome:
  assumes "SaveEnrollment P dk dataDir pending r fs = (Inr i, fs')" and "utf8_response r"
    and "pk_parseTime P (format_RFC3339Nano (id_CertificateExpiry i)) = Some (id_CertificateExpiry i)"
  shows "Load P dk' dataDir fs' = Inr (Some i)
    \<or> (\<exists>err. Load P dk' dataDir fs' = Inl err) \<and> ((\<exists>name. dk_read dk' name \<noteq> None) \<or> id_CertificateExpiry i < dk_now dk')"
proof -
  let ?dk = "dk'\<lparr>dk_read := \<lambda>_. None\<rparr>"
  obtain c leaf metadata where c: "check_enrollment P (dk_now dk) pending r = Inr c"
    and i: "i = enrolled_identity P dataDir r c" and md: "Identity_json i = Inr metadata"
    and rd: "read_file ?dk metadataFile fs' = Content metadata" by (rule enrolled_files [OF assms(1), of ?dk]) simp_all
  have decoded: "unmarshal_struct (Identity_fields (pk_parseTime P)) zero_Identity metadata = (i\<lparr>id_DataDir := []\<rparr>, True)"
    using Identity_reads_back [OF md] utf8_enrolled [OF assms(2)] assms(3) i by simp
  have same: "i\<lparr>id_DataDir := dataDir\<rparr> = i" by (simp add: i enrolled_identity_def)
  from rd have "read_file dk' metadataFile fs' = (case dk_read dk' metadataFile of Some err \<Rightarrow> ReadError err | None \<Rightarrow> Content metadata)"
    by (auto simp: read_file_def split: option.splits)
  then have "Load P dk' dataDir fs' = Inr (Some i) \<or> (\<exists>err. Load P dk' dataDir fs' = Inl err)"
    using decoded same by (auto simp: Load_def check_loaded_def split: option.splits sum.splits prod.splits)
  moreover have "Load P dk' dataDir fs' = Inr (Some i)" if "\<And>name. dk_read dk' name = None" "dk_now dk' \<le> id_CertificateExpiry i"
    using enrolled_loads [OF assms that] .
  ultimately show ?thesis by (meson linorder_not_less)
qed

text \<open>
  C19: enrollment happens once. After an enrollment that succeeded, with a response of valid
  UTF-8, the token is gone from the environment, and as long as nothing else changes the data
  directory no later start enrolls again, whatever the disk, the clock, the host's name, the
  token, the keys and the control plane are by then: it leaves the data directory and the
  environment alone and returns the same identity, or an error, which it does only if a file
  cannot be read or the certificate has expired.
\<close>

theorem enrollment_happens_once:
  assumes "Ensure P ee eo fs getenv = (Inr (i, True), fs', getenv')"
    and "\<forall>host pending response. en_Hostname ee = Inr host \<and> Generate (en_tools ee) (eo_Name eo) host = Inr pending
      \<and> enroll P ee eo host pending = (response, None) \<longrightarrow> utf8_response response"
    and "pk_parseTime P (format_RFC3339Nano (id_CertificateExpiry i)) = Some (id_CertificateExpiry i)"
    and "eo_DataDir eo' = eo_DataDir eo"
  shows "getenv' ''NETSCOPE_ENROLLMENT_TOKEN'' = []
    \<and> (\<exists>r. Ensure P ee' eo' fs' getenv'' = (r, fs', getenv'')
        \<and> (r = Inr (i, False)
           \<or> isl r \<and> ((\<exists>name. dk_read (en_load ee') name \<noteq> None) \<or> id_CertificateExpiry i < dk_now (en_load ee'))))"
proof -
  from assms(1) obtain host pending response where "en_Hostname ee = Inr host"
    "Generate (en_tools ee) (eo_Name eo) host = Inr pending" and enrolled: "enroll P ee eo host pending = (response, None)"
    "SaveEnrollment P (en_save ee) (eo_DataDir eo) pending response fs = (Inr i, fs')"
    "getenv' = getenv(''NETSCOPE_ENROLLMENT_TOKEN'' := [])" by (rule Ensure_enrolled)
  with assms(2) have "utf8_response response" by blast
  from enrolled_load_outcome [OF enrolled(2) this assms(3), of "en_load ee'"] show ?thesis
  proof (elim disjE conjE)
    assume "Load P (en_load ee') (eo_DataDir eo) fs' = Inr (Some i)"
    with enrolled(3) show ?thesis by (simp add: Ensure_def assms(4))
  qed (use enrolled(3) in \<open>auto simp only: Ensure_def assms(4) sum.case sum.disc fun_upd_same\<close>)
qed

text \<open>A control plane that answers every request with the same identity.\<close>

definition sample_answer :: bytes where
  "sample_answer = marshal_object [(''data'', marshal_object [(''protocolVersion'', marshal_string ''1.0''),
     (''agentId'', marshal_string ''a''), (''organizationId'', marshal_string ''o''),
     (''controlPlaneIdentity'', marshal_object [(''caCertificatePem'', marshal_string ''ca'')]),
     (''agentCredential'', marshal_object [(''certificatePem'', marshal_string ''cert''), (''expiresAt'', marshal_string ''t'')])])]"

definition sample_enroll_env :: enroll_env where
  "sample_enroll_env = \<lparr>en_load = sample_disk, en_save = sample_disk, en_Hostname = Inr ''h'', en_GOOS = ''linux'', en_GOARCH = ''amd64'',
     en_tools = \<lparr>kt_GenerateKey = Inr ''key'', kt_MarshalPKCS8 = Inr, kt_CreateRequest = (\<lambda>_ _ _. Inr ''csr''), kt_pem = (\<lambda>_ b. b)\<rparr>,
     en_transport = \<lparr>cl_newRequest = (\<lambda>_ _. None), cl_do = (\<lambda>_. Inr \<lparr>hw_StatusCode = 200, hw_Body = sample_answer, hw_BodyErr = None\<rparr>)\<rparr>,
     en_client = \<lparr>c_base = ''https://control.example'', c_version = ''1''\<rparr>\<rparr>"

definition sample_options :: enroll_options where
  "sample_options = \<lparr>eo_DataDir = ''d'', eo_Name = ''n'', eo_Token = replicate 32 (CHR ''t''), eo_Version = ''1'',
     eo_NetworkZone = ''INTERNAL'', eo_Summary = [''network.ping'']\<rparr>"

theorem enrollment_happens_once_witness:
  "\<exists>i fs'. Ensure sample_pki sample_enroll_env sample_options Map.empty (\<lambda>_. ''x'')
        = (Inr (i, True), fs', (\<lambda>_. ''x'')(''NETSCOPE_ENROLLMENT_TOKEN'' := []))
     \<and> Ensure sample_pki (sample_enroll_env\<lparr>en_Hostname := Inl Canceled\<rparr>) (sample_options\<lparr>eo_Token := []\<rparr>) fs' (\<lambda>_. [])
        = (Inr (i, False), fs', \<lambda>_. [])"
proof -
  have first: "(case Ensure sample_pki sample_enroll_env sample_options Map.empty (\<lambda>_. ''x'') of
      (Inr (i, True), fs', getenv') \<Rightarrow> id_CertificateExpiry i = 63900000000000000000 | _ \<Rightarrow> False)"
    by code_simp
  obtain r fs' getenv' where r: "Ensure sample_pki sample_enroll_env sample_options Map.empty (\<lambda>_. ''x'') = (r, fs', getenv')"
    by (rule prod_cases3)
  from first obtain i where "r = Inr (i, True)" and i: "id_CertificateExpiry i = 63900000000000000000"
    unfolding r by (cases r; cases "snd (projr r)") (auto split: prod.splits)
  with r have e: "Ensure sample_pki sample_enroll_env sample_options Map.empty (\<lambda>_. ''x'') = (Inr (i, True), fs', getenv')" by simp
  have u: "utf8_response response"
    if "en_Hostname sample_enroll_env = Inr host" "Generate (en_tools sample_enroll_env) (eo_Name sample_options) host = Inr pending"
      "enroll sample_pki sample_enroll_env sample_options host pending = (response, None)" for host pending response
  proof -
    have "host = ''h''" using that(1) by (simp add: sample_enroll_env_def)
    moreover have "pending = \<lparr>pe_PrivateKeyPEM = ''key'', pe_CSRPEM = ''csr''\<rparr>"
      using that(2) by (simp add: sample_enroll_env_def Generate_def)
    moreover have "utf8_response (fst (enroll sample_pki sample_enroll_env sample_options ''h'' \<lparr>pe_PrivateKeyPEM = ''key'', pe_CSRPEM = ''csr''\<rparr>))"
      unfolding utf8_response_def valid_utf8_def by code_simp
    ultimately show ?thesis using that(3) by simp
  qed
  from e have "getenv' = (\<lambda>_. ''x'')(''NETSCOPE_ENROLLMENT_TOKEN'' := [])" by (elim Ensure_enrolled)
  with enrollment_happens_once [OF e, of "sample_options\<lparr>eo_Token := []\<rparr>" "sample_enroll_env\<lparr>en_Hostname := Inl Canceled\<rparr>" "\<lambda>_. []"] u e i
  show ?thesis by (auto simp: sample_pki_def sample_enroll_env_def sample_disk_def)
qed

end
