(* ===== verification/Rotation.thy ===== *)
theory Rotation
  imports Identity
begin

text \<open>
  \<^verbatim>\<open>internal/identity/rotation.go\<close> and the rotation of the client certificate in \<^verbatim>\<open>main\<close>: staging of
  the new certificate, activation by two renames, rollback and commit. The directory of the old
  identity is followed through every outcome.
\<close>

section \<open>Types\<close>

record RotationResponse =
  ro_CertificateID :: string
  ro_CertificatePEM :: string
  ro_ExpiresAt :: time
  ro_Fingerprint :: string
  ro_SerialNumber :: string

text \<open>\<^verbatim>\<open>rotationIDPattern\<close> is the pattern of UUIDs; a path in the data directory is its directory and its name.\<close>

type_synonym path = "string \<times> string"

definition rotationIDPattern :: "string \<Rightarrow> bool" where
  "rotationIDPattern s = uuidPattern s"

definition rollback_dir :: string where "rollback_dir = ''identity-rollback''"
definition failed_dir :: string where "failed_dir = ''identity-rotation-failed''"

definition rotation_dir :: "string \<Rightarrow> string" where
  "rotation_dir i = ''identity-rotation-'' @ i"

section \<open>Staging\<close>

definition check_rotation :: "pki \<Rightarrow> time \<Rightarrow> Pending \<Rightarrow> RotationResponse \<Rightarrow> certificate result" where
  "check_rotation P now pending r =
     (if \<not> rotationIDPattern (ro_CertificateID r) \<or> ro_CertificatePEM r = []
      then Inl (ErrorText ''rotation response is incomplete'')
      else case pk_X509KeyPair P (ro_CertificatePEM r) (pe_PrivateKeyPEM pending) of
        Inl _ \<Rightarrow> Inl (ErrorText ''rotation certificate does not match new local key'')
      | Inr leaf \<Rightarrow> (case pk_ParseCertificate P leaf of Inl err \<Rightarrow> Inl err
        | Inr c \<Rightarrow>
            if x_NotAfter c < now \<or> time_Second \<le> time_Sub (x_NotAfter c) (ro_ExpiresAt r)
               \<or> time_Second \<le> time_Sub (ro_ExpiresAt r) (x_NotAfter c)
            then Inl (ErrorText ''rotation certificate expiry is invalid'')
            else Inr c))"

text \<open>The preserved files: the trust file must be there, the signing file may be missing.\<close>

definition preserved_files :: "disk \<Rightarrow> data_dir \<Rightarrow> files result" where
  "preserved_files dk fs = (case read_file dk trustFile fs of
      NotExist \<Rightarrow> Inl (ErrorText ''file does not exist'')
    | ReadError err \<Rightarrow> Inl err
    | Content trust \<Rightarrow> (case read_file dk signingFile fs of
        NotExist \<Rightarrow> Inr [(trustFile, trust)]
      | ReadError err \<Rightarrow> Inl err
      | Content signing \<Rightarrow> Inr [(trustFile, trust), (signingFile, signing)]))"

text \<open>The metadata of the rotated identity; an encoding error leaves it empty.\<close>

definition rotated :: "certificate \<Rightarrow> RotationResponse \<Rightarrow> Identity \<Rightarrow> Identity" where
  "rotated c r current = current\<lparr>id_CertificateExpiry := x_NotAfter c, id_Fingerprint := ro_Fingerprint r, id_DataDir := []\<rparr>"

definition rotated_metadata :: "certificate \<Rightarrow> RotationResponse \<Rightarrow> Identity \<Rightarrow> bytes" where
  "rotated_metadata c r current = (case Identity_json (rotated c r current) of Inl _ \<Rightarrow> [] | Inr t \<Rightarrow> t)"

text \<open>The items to write into the existing staging directory, or the error.\<close>

definition rotation_items :: "pki \<Rightarrow> disk \<Rightarrow> string \<Rightarrow> Pending \<Rightarrow> RotationResponse \<Rightarrow> certificate \<Rightarrow> data_dir \<Rightarrow> files result" where
  "rotation_items P dk dataDir pending r c fs =
     (if fingerprint P c \<noteq> ro_Fingerprint r then Inl (ErrorText ''rotation certificate fingerprint mismatch'')
      else case Load P dk dataDir fs of
        Inr (Some current) \<Rightarrow> map_result (\<lambda>kept. [(privateFile, pe_PrivateKeyPEM pending), (certFile, ro_CertificatePEM r),
            (metadataFile, rotated_metadata c r current)] @ kept) (preserved_files dk fs)
      | _ \<Rightarrow> Inl (ErrorText ''active identity is unavailable for rotation''))"

definition StageRotation :: "pki \<Rightarrow> disk \<Rightarrow> string \<Rightarrow> Pending \<Rightarrow> RotationResponse \<Rightarrow> data_dir \<Rightarrow> path result \<times> data_dir" where
  "StageRotation P dk dataDir pending r fs = (case check_rotation P (dk_now dk) pending r of
      Inl err \<Rightarrow> (Inl err, fs)
    | Inr c \<Rightarrow> (let stage = rotation_dir (ro_CertificateID r) in case dk_mkdir dk of
        Some err \<Rightarrow> (Inl err, fs)
      | None \<Rightarrow>
          if fs stage \<noteq> None then (Inl (ErrorText ''file exists''), fs)
          else (let fs0 = fs(stage := Some []) in case rotation_items P dk dataDir pending r c fs0 of
            Inl err \<Rightarrow> (Inl err, snd (remove_all dk stage fs0))
          | Inr items \<Rightarrow> (case write_files dk stage items fs0 of
              (Some err, fs1) \<Rightarrow> (Inl err, snd (remove_all dk stage fs1))
            | (None, fs1) \<Rightarrow> (Inr (pk_Clean P dataDir, stage), fs1)))))"

section \<open>Activation, rollback and commit\<close>

definition ActivateRotation :: "pki \<Rightarrow> disk \<Rightarrow> string \<Rightarrow> path \<Rightarrow> data_dir \<Rightarrow> goerror option \<times> data_dir" where
  "ActivateRotation P dk dataDir stage fs =
     (if fst stage \<noteq> pk_Clean P dataDir then (Some (ErrorText ''rotation staging path is outside data directory''), fs)
      else if fs rollback_dir \<noteq> None \<and> dk_stat dk rollback_dir = None
      then (Some (ErrorText ''a prior rotation rollback remains pending''), fs)
      else case rename_dir dk active_dir rollback_dir fs of
        (Some err, fs) \<Rightarrow> (Some err, fs)
      | (None, fs) \<Rightarrow> (case rename_dir dk (snd stage) active_dir fs of
          (Some err, fs) \<Rightarrow> (Some err, snd (rename_dir dk rollback_dir active_dir fs))
        | (None, fs) \<Rightarrow> (None, fs)))"

definition RollbackRotation :: "disk \<Rightarrow> data_dir \<Rightarrow> goerror option \<times> data_dir" where
  "RollbackRotation dk fs = (case rename_dir dk active_dir failed_dir fs of
      (Some err, fs) \<Rightarrow> (Some err, fs)
    | (None, fs) \<Rightarrow> (case rename_dir dk rollback_dir active_dir fs of
        (Some err, fs) \<Rightarrow> (Some err, snd (rename_dir dk failed_dir active_dir fs))
      | (None, fs) \<Rightarrow> remove_all dk failed_dir fs))"

definition CommitRotation :: "disk \<Rightarrow> data_dir \<Rightarrow> goerror option \<times> data_dir" where
  "CommitRotation dk fs = remove_all dk rollback_dir fs"

section \<open>The rotation in main\<close>

text \<open>
  What one rotation meets: the new key, the answer of the control plane to the request, the disk
  at each of the calls, whether a client with the new certificate can be built, and the
  confirmation.
\<close>

record rotation_env =
  re_generate :: "Pending result"
  re_request :: "RotationResponse result"
  re_stage :: disk
  re_activate :: disk
  re_load :: disk
  re_finish :: disk
  re_newClient :: "Identity \<Rightarrow> goerror option"
  re_confirm :: "goerror option"

text \<open>The agent exits, goes on with the old identity, or goes on with the new one.\<close>

datatype rotation_outcome = RotationExit goerror | RotationKept | Rotated Identity

definition needs_rotation :: "time \<Rightarrow> Identity \<Rightarrow> bool" where
  "needs_rotation now i \<longleftrightarrow> time_Sub (id_CertificateExpiry i) now \<le> 14 * 24 * time_Hour"

text \<open>
  The part after the activation. The flag tells whether the control plane is asked to roll the
  rotation back.
\<close>

definition finish_rotation :: "pki \<Rightarrow> rotation_env \<Rightarrow> string \<Rightarrow> data_dir \<Rightarrow> rotation_outcome \<times> bool \<times> data_dir" where
  "finish_rotation P re dataDir fs = (case Load P (re_load re) dataDir fs of
      Inl err \<Rightarrow> (RotationKept, True, snd (RollbackRotation (re_finish re) fs))
    | Inr None \<Rightarrow> (RotationKept, False, fs)
    | Inr (Some i) \<Rightarrow>
        if re_newClient re i \<noteq> None \<or> re_confirm re \<noteq> None
        then (RotationKept, True, snd (RollbackRotation (re_finish re) fs))
        else (Rotated i, False, snd (CommitRotation (re_finish re) fs)))"

definition rotate :: "pki \<Rightarrow> rotation_env \<Rightarrow> string \<Rightarrow> data_dir \<Rightarrow> rotation_outcome \<times> bool \<times> data_dir" where
  "rotate P re dataDir fs = (case re_generate re of
      Inl err \<Rightarrow> (RotationExit err, False, fs)
    | Inr pending \<Rightarrow> (case re_request re of
        Inl err \<Rightarrow> (RotationExit err, False, fs)
      | Inr r \<Rightarrow> (case StageRotation P (re_stage re) dataDir pending r fs of
          (Inl err, fs) \<Rightarrow> (RotationKept, True, fs)
        | (Inr stage, fs) \<Rightarrow> (case ActivateRotation P (re_activate re) dataDir stage fs of
            (Some err, fs) \<Rightarrow> (RotationKept, True, snd (remove_all (re_activate re) (snd stage) fs))
          | (None, fs) \<Rightarrow> finish_rotation P re dataDir fs))))"

lemma rotate_cases:
  assumes "rotate P re dataDir fs = (res, notified, fs')"
  obtains (exit) err where "res = RotationExit err" "\<not> notified" "fs' = fs"
  | (unstaged) pending r err where "StageRotation P (re_stage re) dataDir pending r fs = (Inl err, fs')" "res = RotationKept" "notified"
  | (inactive) pending r p fs1 err fs2 where "StageRotation P (re_stage re) dataDir pending r fs = (Inr p, fs1)"
      "ActivateRotation P (re_activate re) dataDir p fs1 = (Some err, fs2)"
      "res = RotationKept" "notified" "fs' = snd (remove_all (re_activate re) (snd p) fs2)"
  | (active) pending r p fs1 fs2 where "StageRotation P (re_stage re) dataDir pending r fs = (Inr p, fs1)"
      "ActivateRotation P (re_activate re) dataDir p fs1 = (None, fs2)" "finish_rotation P re dataDir fs2 = (res, notified, fs')"
proof (cases "re_generate re")
  case (Inl err)
  with assms show thesis by (intro exit [of err]) (simp_all add: rotate_def)
next
  case gen: (Inr pending)
  show thesis
  proof (cases "re_request re")
    case (Inl err)
    with gen assms show thesis by (intro exit [of err]) (simp_all add: rotate_def)
  next
    case req: (Inr r)
    obtain sres fs1 where st: "StageRotation P (re_stage re) dataDir pending r fs = (sres, fs1)" by fastforce
    show thesis
    proof (cases sres)
      case (Inl err)
      with gen req st assms show thesis by (intro unstaged [of pending r err]) (simp_all add: rotate_def)
    next
      case sp: (Inr p)
      obtain ares fs2 where act: "ActivateRotation P (re_activate re) dataDir p fs1 = (ares, fs2)" by fastforce
      show thesis
      proof (cases ares)
        case (Some err)
        with gen req st sp act assms show thesis by (intro inactive [of pending r p fs1 err fs2]) (simp_all add: rotate_def)
      next
        case None
        with gen req st sp act assms show thesis by (intro active [of pending r p fs1 fs2]) (simp_all add: rotate_def)
      qed
    qed
  qed
qed

section \<open>Names\<close>

lemma dir_names:
  "active_dir \<noteq> rollback_dir" "active_dir \<noteq> failed_dir" "rollback_dir \<noteq> failed_dir"
  "rotation_dir i \<noteq> active_dir" "rotation_dir i \<noteq> rollback_dir"
  by (simp_all add: active_dir_def rollback_dir_def failed_dir_def rotation_dir_def)

lemma dir_names_failed: "rotationIDPattern i \<Longrightarrow> rotation_dir i \<noteq> failed_dir"
proof
  assume "rotationIDPattern i" "rotation_dir i = failed_dir"
  then have "uuidPattern ''failed''" by (simp add: rotationIDPattern_def rotation_dir_def failed_dir_def)
  moreover have "\<not> uuidPattern ''failed''" by code_simp
  ultimately show False by blast
qed

lemmas dir_neq [simp] = dir_names dir_names [symmetric]

section \<open>The old identity survives\<close>

lemma rename_dir_cases:
  assumes "rename_dir dk old new fs = (r, fs1)"
  obtains (failed) err where "r = Some err" "fs1 = fs"
  | (moved) files where "r = None" "fs old = Some files" "fs new = None \<or> fs new = Some []" "fs1 = fs(old := None, new := Some files)"
proof (cases r)
  case None
  with assms have "\<exists>files. fs old = Some files \<and> (fs new = None \<or> fs new = Some []) \<and> fs1 = fs(old := None, new := Some files)"
    by (simp add: rename_dir_def split: option.splits if_splits)
  with None show thesis by (auto intro: moved)
next
  case (Some err)
  with assms have "fs1 = fs" by (simp add: rename_dir_def split: option.splits if_splits)
  with Some show thesis by (rule failed)
qed

lemma StageRotation_cases:
  assumes "StageRotation P dk dataDir pending r fs = (res, fs1)"
  shows "(\<forall>d. d \<noteq> rotation_dir (ro_CertificateID r) \<longrightarrow> fs1 d = fs d)
    \<and> (case res of Inl _ \<Rightarrow> True
      | Inr stage \<Rightarrow> stage = (pk_Clean P dataDir, rotation_dir (ro_CertificateID r)) \<and> fs (snd stage) = None
          \<and> (\<exists>c items. check_rotation P (dk_now dk) pending r = Inr c \<and> fs1 (snd stage) = Some items
              \<and> rotation_items P dk dataDir pending r c (fs(snd stage := Some [])) = Inr items))"
proof -
  let ?stage = "rotation_dir (ro_CertificateID r)"
  let ?fs0 = "fs(?stage := Some [])"
  have rm: "snd (remove_all dk ?stage g) d = g d" if "d \<noteq> ?stage" for g d
    using that by (simp add: remove_all_def split: option.split)
  show ?thesis
  proof (cases "check_rotation P (dk_now dk) pending r")
    case (Inl err)
    with assms show ?thesis by (auto simp: StageRotation_def)
  next
    case c: (Inr c)
    show ?thesis
    proof (cases "dk_mkdir dk = None \<and> fs ?stage = None")
      case False
      with c assms have "isl res" "fs1 = fs" by (auto simp: StageRotation_def Let_def split: option.splits if_splits)
      then show ?thesis by (cases res) simp_all
    next
      case new: True
      show ?thesis
      proof (cases "rotation_items P dk dataDir pending r c ?fs0")
        case (Inl err)
        with c new assms have "isl res" "fs1 = snd (remove_all dk ?stage ?fs0)" by (auto simp: StageRotation_def Let_def)
        with rm [of _ ?fs0] show ?thesis by (cases res) simp_all
      next
        case items: (Inr items)
        obtain e g where w: "write_files dk ?stage items ?fs0 = (e, g)" by fastforce
        have frame: "g d = fs d" if "d \<noteq> ?stage" for d using write_files_frame [OF w that] that by simp
        show ?thesis
        proof (cases e)
          case (Some err)
          with c new items w assms have "isl res" "fs1 = snd (remove_all dk ?stage g)" by (auto simp: StageRotation_def Let_def)
          with rm [of _ g] frame show ?thesis by (cases res) simp_all
        next
          case None
          with c new items w assms have "res = Inr (pk_Clean P dataDir, ?stage)" "fs1 = g" by (auto simp: StageRotation_def Let_def)
          with frame write_files_None [OF w [unfolded None], of "[]"] c new items show ?thesis by simp
        qed
      qed
    qed
  qed
qed

lemma ActivateRotation_cases:
  assumes "ActivateRotation P dk dataDir stage fs = (r, fs1)" and "fs active_dir = Some old"
    and "snd stage \<noteq> active_dir" "snd stage \<noteq> rollback_dir"
  shows "if r = None then fs1 active_dir = fs (snd stage) \<and> fs (snd stage) \<noteq> None \<and> fs1 rollback_dir = Some old
    else fs1 active_dir = Some old \<or> fs1 rollback_dir = Some old"
proof (cases "fst stage \<noteq> pk_Clean P dataDir \<or> fs rollback_dir \<noteq> None \<and> dk_stat dk rollback_dir = None")
  case True
  then have "\<exists>err. r = Some err" "fs1 = fs" using assms(1) by (auto simp: ActivateRotation_def split: if_splits)
  with assms(2) show ?thesis by auto
next
  case False
  obtain r2 fs2 where r2: "rename_dir dk active_dir rollback_dir fs = (r2, fs2)" by fastforce
  from r2 show ?thesis
  proof (cases rule: rename_dir_cases)
    case (failed err)
    with False r2 assms(1,2) show ?thesis by (auto simp: ActivateRotation_def)
  next
    case (moved files)
    with assms(2) have fs2: "fs2 = fs(active_dir := None, rollback_dir := Some old)" by simp
    obtain r3 fs3 where r3: "rename_dir dk (snd stage) active_dir fs2 = (r3, fs3)" by fastforce
    from r3 show ?thesis
    proof (cases rule: rename_dir_cases)
      case (failed err)
      obtain r4 fs4 where r4: "rename_dir dk rollback_dir active_dir fs2 = (r4, fs4)" by fastforce
      have act: "r = Some err" "fs1 = fs4"
        using False r2 moved r3 failed r4 assms(1) by (auto simp: ActivateRotation_def)
      from r4 have "fs4 active_dir = Some old \<or> fs4 rollback_dir = Some old"
        by (cases rule: rename_dir_cases) (auto simp: fs2)
      with act show ?thesis by simp
    next
      case stage: (moved new)
      then have "r = None" "fs1 = fs3" using False r2 moved r3 assms(1) by (auto simp: ActivateRotation_def)
      with stage assms(3,4) show ?thesis by (auto simp: fs2)
    qed
  qed
qed

lemma RollbackRotation_keeps:
  assumes "fs rollback_dir = Some old"
  shows "snd (RollbackRotation dk fs) active_dir = Some old \<or> snd (RollbackRotation dk fs) rollback_dir = Some old"
proof -
  obtain r1 fs1 where r1: "rename_dir dk active_dir failed_dir fs = (r1, fs1)" by fastforce
  from r1 show ?thesis
  proof (cases rule: rename_dir_cases)
    case (failed err)
    with r1 assms show ?thesis by (simp add: RollbackRotation_def)
  next
    case (moved files)
    obtain r2 fs2 where r2: "rename_dir dk rollback_dir active_dir fs1 = (r2, fs2)" by fastforce
    from r2 show ?thesis
    proof (cases rule: rename_dir_cases)
      case failed2: (failed err)
      obtain r3 fs3 where r3: "rename_dir dk failed_dir active_dir fs1 = (r3, fs3)" by fastforce
      from r3 have "fs3 rollback_dir = Some old"
        by (cases rule: rename_dir_cases) (use assms moved in auto)
      with r1 moved r2 failed2 r3 show ?thesis by (simp add: RollbackRotation_def)
    next
      case moved2: (moved files2)
      with assms moved r1 r2 show ?thesis
        by (auto simp: RollbackRotation_def remove_all_def split: option.splits)
    qed
  qed
qed

lemma activated:
  assumes "StageRotation P dk dataDir pending r fs = (Inr p, fs1)" and "ActivateRotation P dk' dataDir p fs1 = (res, fs2)"
    and "fs active_dir = Some old"
  shows "snd p \<noteq> active_dir \<and> snd p \<noteq> rollback_dir
    \<and> (if res = None then fs2 active_dir \<noteq> None \<and> fs2 rollback_dir = Some old
       else fs2 active_dir = Some old \<or> fs2 rollback_dir = Some old)"
proof -
  from StageRotation_cases [OF assms(1)] assms(3) have p: "snd p = rotation_dir (ro_CertificateID r)" and fs1: "fs1 active_dir = Some old"
    by auto
  from ActivateRotation_cases [OF assms(2) fs1] p show ?thesis by auto
qed

text \<open>
  C5: a certificate rotation never loses the old identity. Whatever fails, unless the control
  plane has confirmed the new certificate, the directory of the old identity is still there
  afterwards, as the active identity or as the rollback copy; and the agent goes on with the new
  identity only if it was loaded from the disk and the control plane confirmed it.
\<close>

theorem rotation_never_loses_identity:
  assumes "fs active_dir = Some old" and "rotate P re dataDir fs = (res, notified, fs')"
  shows "case res of
      Rotated i \<Rightarrow> re_confirm re = None \<and> re_newClient re i = None
        \<and> (\<exists>new fs1. fs' active_dir = Some new \<and> fs1 active_dir = Some new \<and> Load P (re_load re) dataDir fs1 = Inr (Some i))
    | _ \<Rightarrow> fs' active_dir = Some old \<or> fs' rollback_dir = Some old"
  using assms(2)
proof (cases rule: rotate_cases)
  case (unstaged pending r err)
  with StageRotation_cases [OF unstaged(1)] assms(1) show ?thesis by simp
next
  case (inactive pending r p fs1 err fs2)
  from activated [OF inactive(1,2) assms(1)] inactive(3,5) show ?thesis by (auto simp: remove_all_def split: option.splits)
next
  case (active pending r p fs1 fs2)
  from activated [OF active(1,2) assms(1)] obtain new where new: "fs2 active_dir = Some new" and old: "fs2 rollback_dir = Some old" by auto
  have "snd (CommitRotation (re_finish re) fs2) active_dir = Some new"
    using new by (simp add: CommitRotation_def remove_all_def split: option.split)
  moreover have "snd (RollbackRotation (re_finish re) fs2) active_dir = Some old
      \<or> snd (RollbackRotation (re_finish re) fs2) rollback_dir = Some old"
    by (rule RollbackRotation_keeps) (rule old)
  ultimately show ?thesis using active(3) new old
    by (auto simp: finish_rotation_def split: sum.splits option.splits if_splits)
qed (use assms(1) in simp)

section \<open>Rotation as an atomic replacement\<close>

text \<open>
  The contract of a rotation, on the content of the identity directory alone: it is replaced by
  the new material when the rotation is confirmed, and stays as it is otherwise.
\<close>

definition abstract_rotation :: "files \<Rightarrow> files \<Rightarrow> rotation_outcome \<Rightarrow> files" where
  "abstract_rotation old new res = (case res of Rotated _ \<Rightarrow> new | _ \<Rightarrow> old)"

definition reliable :: "disk \<Rightarrow> bool" where
  "reliable dk \<longleftrightarrow> (\<forall>a b. dk_rename dk a b = None) \<and> (\<forall>d. dk_removeAll dk d = None) \<and> (\<forall>n. dk_read dk n = None)"

lemma reliable_remove_all: "reliable dk \<Longrightarrow> remove_all dk d fs = (None, fs(d := None))"
  by (simp add: reliable_def remove_all_def)

lemma reliable_rename:
  "reliable dk \<Longrightarrow> fs old = Some files \<Longrightarrow> fs new = None \<Longrightarrow> rename_dir dk old new fs = (None, fs(old := None, new := Some files))"
  by (simp add: reliable_def rename_dir_def)

lemma reliable_stage:
  assumes "StageRotation P dk dataDir pending r fs = (res, fs1)" and "reliable dk"
  shows "case res of Inl _ \<Rightarrow> fs1 = fs
    | Inr stage \<Rightarrow> \<exists>items. stage = (pk_Clean P dataDir, rotation_dir (ro_CertificateID r)) \<and> fs (snd stage) = None
        \<and> rotationIDPattern (ro_CertificateID r) \<and> map_of items metadataFile \<noteq> None \<and> fs1 = fs(snd stage := Some items)"
proof (cases res)
  case (Inr stage)
  with StageRotation_cases [OF assms(1)] obtain c items where s: "stage = (pk_Clean P dataDir, rotation_dir (ro_CertificateID r))"
    "fs (snd stage) = None" "\<forall>d. d \<noteq> snd stage \<longrightarrow> fs1 d = fs d" "fs1 (snd stage) = Some items"
    "check_rotation P (dk_now dk) pending r = Inr c"
    "rotation_items P dk dataDir pending r c (fs(snd stage := Some [])) = Inr items" by auto
  from s(5) have "rotationIDPattern (ro_CertificateID r)" by (auto simp: check_rotation_def split: if_splits)
  moreover from s(6) have "map_of items metadataFile \<noteq> None"
    by (auto simp: rotation_items_def map_result_def split: if_splits sum.splits option.splits)
  moreover have "fs1 = fs(snd stage := Some items)" using s(3,4) by (simp add: fun_eq_iff)
  ultimately show ?thesis using s(1,2) Inr by auto
next
  case (Inl err)
  let ?stage = "rotation_dir (ro_CertificateID r)"
  show ?thesis
  proof (cases "fs ?stage = None")
    case True
    from StageRotation_cases [OF assms(1)] have "\<forall>d. d \<noteq> ?stage \<longrightarrow> fs1 d = fs d" by blast
    moreover have "fs1 ?stage = None"
      using assms(1) Inl True reliable_remove_all [OF assms(2)]
      by (simp add: StageRotation_def Let_def split: sum.splits option.splits if_splits prod.splits) auto
    ultimately have "fs1 d = fs d" for d using True by (cases "d = ?stage") auto
    with Inl show ?thesis by (simp add: fun_eq_iff)
  next
    case False
    with assms(1) Inl show ?thesis
      by (simp add: StageRotation_def Let_def split: sum.splits option.splits if_splits)
  qed
qed

lemma reliable_activate:
  assumes "reliable dk" and "fs active_dir = Some old" and "fs rollback_dir = None" and "fs stage = Some new"
    and "stage \<noteq> active_dir" and "stage \<noteq> rollback_dir"
  shows "ActivateRotation P dk dataDir (pk_Clean P dataDir, stage) fs
    = (None, fs(stage := None, rollback_dir := Some old, active_dir := Some new))"
  using assms by (simp add: ActivateRotation_def reliable_rename) (simp add: fun_eq_iff)

lemma reliable_rollback:
  assumes "reliable dk" and "fs active_dir = Some new" and "fs rollback_dir = Some old" and "fs failed_dir = None"
  shows "RollbackRotation dk fs = (None, fs(active_dir := Some old, rollback_dir := None))"
  using assms by (simp add: RollbackRotation_def reliable_rename reliable_remove_all) (simp add: fun_eq_iff)

lemma Load_with_metadata:
  "fs active_dir = Some files \<Longrightarrow> map_of files metadataFile \<noteq> None \<Longrightarrow> Load P dk dataDir fs \<noteq> Inr None"
  by (auto simp: Load_def read_file_def check_loaded_def split: option.splits prod.splits bool.splits if_splits sum.splits)

text \<open>Staging and activation on a reliable disk: the new material becomes active, the old one the rollback copy.\<close>

lemma reliable_switch:
  assumes "StageRotation P dk dataDir pending r fs = (Inr p, fs1)" and "ActivateRotation P dk' dataDir p fs1 = (res, fs2)"
    and "fs active_dir = Some old" and "fs rollback_dir = None" and "fs failed_dir = None" and "reliable dk" and "reliable dk'"
  shows "res = None \<and> (\<exists>items. map_of items metadataFile \<noteq> None \<and> fs2 = fs(rollback_dir := Some old, active_dir := Some items))"
proof -
  let ?stage = "rotation_dir (ro_CertificateID r)"
  from reliable_stage [OF assms(1,6)] obtain items where p: "p = (pk_Clean P dataDir, ?stage)" and new: "fs ?stage = None"
    and meta: "map_of items metadataFile \<noteq> None" and fs1: "fs1 = fs(?stage := Some items)" by (auto simp del: fun_upd_apply) blast
  have "ActivateRotation P dk' dataDir p fs1 = (None, fs1(?stage := None, rollback_dir := Some old, active_dir := Some items))"
    unfolding p by (rule reliable_activate) (use assms fs1 in simp_all)
  also have "fs1(?stage := None, rollback_dir := Some old, active_dir := Some items) = fs(rollback_dir := Some old, active_dir := Some items)"
    using new by (simp add: fs1 fun_eq_iff)
  finally have "res = None" "fs2 = fs(rollback_dir := Some old, active_dir := Some items)" using assms(2) by (simp_all del: fun_upd_apply)
  with meta show ?thesis by blast
qed

text \<open>
  C17: on a reliable disk without the remains of an earlier rotation, a rotation is an atomic
  replacement of the identity directory: afterwards the data directory differs from before in
  the identity directory only, which holds new material exactly if the rotation was confirmed;
  staging, rollback and failed copies are gone, and the control plane is told to roll back
  exactly when the agent keeps its old identity.
\<close>

theorem rotation_refines_replacement:
  assumes "rotate P re dataDir fs = (res, notified, fs')" and "fs active_dir = Some old"
    and "fs rollback_dir = None" and "fs failed_dir = None"
    and "reliable (re_stage re)" "reliable (re_activate re)" "reliable (re_load re)" "reliable (re_finish re)"
  shows "\<exists>new. fs' = fs(active_dir := Some (abstract_rotation old new res))
    \<and> (notified \<longleftrightarrow> res = RotationKept)
    \<and> (\<forall>i. res = Rotated i \<longrightarrow> re_confirm re = None
         \<and> (\<exists>fs1. fs1 active_dir = Some new \<and> Load P (re_load re) dataDir fs1 = Inr (Some i)))"
  using assms(1)
proof (cases rule: rotate_cases)
  case (exit err)
  with assms(2) show ?thesis by (simp add: abstract_rotation_def fun_upd_idem)
next
  case (unstaged pending r err)
  with reliable_stage [OF unstaged(1) assms(5)] assms(2) show ?thesis by (simp add: abstract_rotation_def fun_upd_idem)
next
  case (inactive pending r p fs1 err fs2)
  from reliable_switch [OF inactive(1,2) assms(2-6)] show ?thesis by simp
next
  case (active pending r p fs1 fs2)
  from reliable_switch [OF active(1,2) assms(2-6)] obtain items where meta: "map_of items metadataFile \<noteq> None"
    and fs2: "fs2 = fs(rollback_dir := Some old, active_dir := Some items)" by blast
  have load: "Load P (re_load re) dataDir fs2 \<noteq> Inr None" by (rule Load_with_metadata [OF _ meta]) (simp add: fs2)
  have "RollbackRotation (re_finish re) fs2 = (None, fs2(active_dir := Some old, rollback_dir := None))"
    by (rule reliable_rollback [OF assms(8)]) (simp_all add: fs2 assms(4))
  then have "snd (RollbackRotation (re_finish re) fs2) = fs2(active_dir := Some old, rollback_dir := None)" by simp
  also have "\<dots> = fs" using assms(2,3) by (simp add: fs2 fun_eq_iff)
  finally have undone: "snd (RollbackRotation (re_finish re) fs2) = fs" .
  have commit: "snd (CommitRotation (re_finish re) fs2) = fs(active_dir := Some items)"
    using assms(3) by (simp add: CommitRotation_def reliable_remove_all [OF assms(8)] fs2 fun_eq_iff)
  have "fs2 active_dir = Some items" by (simp add: fs2)
  with active(3) load undone commit assms(2) show ?thesis
    by (auto simp: finish_rotation_def abstract_rotation_def fun_upd_idem split: sum.splits option.splits if_splits
        intro!: exI [of _ items] exI [of _ fs2])
qed

section \<open>A sample rotation\<close>

definition sample_rotation_response :: RotationResponse where
  "sample_rotation_response = \<lparr>ro_CertificateID = ''11111111-1111-4111-8111-111111111111'', ro_CertificatePEM = ''cert2'',
     ro_ExpiresAt = 63900000000000000000, ro_Fingerprint = replicate 64 (CHR ''0''), ro_SerialNumber = ''1''\<rparr>"

definition sample_rotation :: "goerror option \<Rightarrow> rotation_env" where
  "sample_rotation confirm = \<lparr>re_generate = Inr \<lparr>pe_PrivateKeyPEM = ''key2'', pe_CSRPEM = ''csr2''\<rparr>,
     re_request = Inr sample_rotation_response, re_stage = sample_disk, re_activate = sample_disk, re_load = sample_disk,
     re_finish = sample_disk, re_newClient = (\<lambda>_. None), re_confirm = confirm\<rparr>"

definition sample_data :: data_dir where
  "sample_data = snd (SaveEnrollment sample_pki sample_disk ''d'' sample_pending sample_response Map.empty)"

lemma sample_data_dirs: "\<exists>old. sample_data active_dir = Some old" "sample_data rollback_dir = None" "sample_data failed_dir = None"
proof -
  obtain res fs' where s: "SaveEnrollment sample_pki sample_disk ''d'' sample_pending sample_response Map.empty = (res, fs')" by fastforce
  with sample_enrolled obtain i where res: "res = Inr i" by (cases res) auto
  from SaveEnrollment_Inr [OF s [unfolded res]] show "\<exists>old. sample_data active_dir = Some old" "sample_data rollback_dir = None"
    "sample_data failed_dir = None" by (auto simp: sample_data_def s)
qed

lemma sample_disk_reliable: "reliable sample_disk"
  by (simp add: reliable_def sample_disk_def)

lemma sample_rotates:
  "case fst (rotate sample_pki (sample_rotation None) ''d'' sample_data) of Rotated i \<Rightarrow> id_AgentID i = ''a'' | _ \<Rightarrow> False"
  "case fst (rotate sample_pki (sample_rotation (Some Canceled)) ''d'' sample_data) of RotationKept \<Rightarrow> True | _ \<Rightarrow> False"
  by code_simp+

theorem rotation_never_loses_identity_witness:
  "\<exists>old fs'. sample_data active_dir = Some old
     \<and> snd (snd (rotate sample_pki (sample_rotation (Some Canceled)) ''d'' sample_data)) = fs'
     \<and> (fs' active_dir = Some old \<or> fs' rollback_dir = Some old)"
proof -
  obtain res notified fs' where r: "rotate sample_pki (sample_rotation (Some Canceled)) ''d'' sample_data = (res, notified, fs')"
    by (metis prod_cases3)
  with sample_rotates(2) have "res = RotationKept" by (simp split: rotation_outcome.splits)
  with rotation_never_loses_identity [OF _ r] sample_data_dirs(1) r show ?thesis by auto
qed

theorem rotation_refines_replacement_witness:
  "\<exists>new i. rotate sample_pki (sample_rotation None) ''d'' sample_data = (Rotated i, False, sample_data(active_dir := Some new))"
proof -
  obtain res notified fs' where r: "rotate sample_pki (sample_rotation None) ''d'' sample_data = (res, notified, fs')"
    by (metis prod_cases3)
  with sample_rotates(1) obtain i where res: "res = Rotated i" by (cases res) simp_all
  from sample_data_dirs(1) obtain old where old: "sample_data active_dir = Some old" by blast
  have "reliable (re_stage (sample_rotation None))" "reliable (re_activate (sample_rotation None))"
    "reliable (re_load (sample_rotation None))" "reliable (re_finish (sample_rotation None))"
    by (simp_all add: sample_rotation_def sample_disk_reliable)
  from rotation_refines_replacement [OF r old sample_data_dirs(2,3) this] obtain new
    where "fs' = sample_data(active_dir := Some (abstract_rotation old new res))" "notified \<longleftrightarrow> res = RotationKept" by blast
  with r res show ?thesis by (auto simp: abstract_rotation_def)
qed

section \<open>What rotation leaves open\<close>

text \<open>
  Activation is not atomic against a crash. If the agent stops between the two renames, there
  is no identity directory, and the next start's \<^verbatim>\<open>Load\<close> reports that no identity exists, although
  the rollback copy holds it.
\<close>

theorem crash_in_activation_hides_identity:
  assumes "rename_dir dk active_dir rollback_dir fs = (None, fs1)"
  shows "Load P dk' dataDir fs1 = Inr None \<and> fs1 rollback_dir = fs active_dir \<and> fs active_dir \<noteq> None"
  using assms
proof (cases rule: rename_dir_cases)
  case (moved files)
  then show ?thesis by (simp add: Load_def read_file_def)
qed simp

theorem crash_in_activation_hides_identity_witness:
  "Load sample_pki sample_disk ''d'' (snd (rename_dir sample_disk active_dir rollback_dir sample_data)) = Inr None"
proof -
  from sample_data_dirs(1) obtain old where "sample_data active_dir = Some old" by blast
  note r = reliable_rename [OF sample_disk_reliable this sample_data_dirs(2)]
  show ?thesis unfolding r snd_conv by (rule crash_in_activation_hides_identity [OF r, THEN conjunct1])
qed

text \<open>A commit that fails blocks every later rotation, until somebody removes the rollback copy.\<close>

lemma failed_commit_blocks_rotation:
  assumes "CommitRotation dk fs = (Some err, fs1)" and "fs rollback_dir \<noteq> None" and "dk_stat dk' rollback_dir = None"
  shows "ActivateRotation P dk' dataDir (pk_Clean P dataDir, stage) fs1 = (Some (ErrorText ''a prior rotation rollback remains pending''), fs1)"
proof -
  from assms(1) have "fs1 = fs" by (simp add: CommitRotation_def remove_all_def split: option.splits)
  with assms(2,3) show ?thesis by (simp add: ActivateRotation_def)
qed

end
