(* ===== verification/Startup.thy ===== *)
theory Startup
  imports AgentLoop Enrollment Rotation
begin

text \<open>
  The start of the agent: \<^verbatim>\<open>main\<close> of \<^verbatim>\<open>cmd/netscope-agent/main.go\<close> up to its loop, with
  \<^verbatim>\<open>internal/platform\<close> and the level of \<^verbatim>\<open>internal/logging\<close>. Every early exit is an error of the
  model. The network, the disk and the clock are arguments, one for each place where the code
  turns to them.
\<close>

section \<open>Platform and logging\<close>

record Info =
  pf_OS :: string
  pf_Architecture :: string

definition Current :: "host \<Rightarrow> Info" where
  "Current h = \<lparr>pf_OS = ho_GOOS h, pf_Architecture = ho_GOARCH h\<rparr>"

datatype Level = LevelDebug | LevelInfo | LevelWarn | LevelError

definition log_level :: "string \<Rightarrow> Level" where
  "log_level level =
     (if level = ''debug'' then LevelDebug
      else if level = ''warn'' then LevelWarn
      else if level = ''error'' then LevelError
      else LevelInfo)"

section \<open>The surroundings\<close>

record http_client =
  hc_TLS :: tls_config
  hc_Timeout :: duration

record start_env =
  se_fmul :: "nat \<Rightarrow> nat \<Rightarrow> nat \<Rightarrow> nat"
  se_host :: host
  se_caps :: caps_env
  se_pki :: pki
  se_load :: disk
  se_tls :: tls_env
  se_url_String :: "string \<Rightarrow> string"
  se_network :: "http_client \<Rightarrow> client_env"
  se_enroll :: enroll_env
  se_cert :: disk
  se_now :: time
  se_rotation :: rotation_env
  se_rotatedNetwork :: client_env
  se_keys :: disk
  se_first :: loop_env
  se_spool :: spool_dir
  se_rawParameters :: "JobEnvelope \<Rightarrow> json \<Rightarrow> JobEnvelope option"
  se_decoders :: wire_decoders
  se_ftoa :: "rat \<Rightarrow> string"

definition agent_version :: string where
  "agent_version = ''0.2.1-experimental''"

section \<open>Before there is an identity\<close>

definition newHTTPClient :: "tls_env \<Rightarrow> Config \<Rightarrow> bytes result option \<Rightarrow> http_client result" where
  "newHTTPClient te c client = map_result (\<lambda>t. \<lparr>hc_TLS = t, hc_Timeout = cfg_RequestTimeout c\<rparr>) (TLSConfig te c client)"

definition newClient :: "start_env \<Rightarrow> Config \<Rightarrow> bytes result option \<Rightarrow> (http_client \<times> Client) result" where
  "newClient se c client = (case newHTTPClient (se_tls se) c client of
      Inl err \<Rightarrow> Inl err
    | Inr http \<Rightarrow> map_result (Pair http) (New (ho_url_Parse (se_host se)) (se_url_String se) (cfg_ControlPlaneURL c) agent_version))"

record prepared =
  pr_cfg :: Config
  pr_registry :: "exec_env Registry"
  pr_report :: Report
  pr_stored :: "Identity option"
  pr_http :: http_client
  pr_client :: Client

definition prepare :: "start_env \<Rightarrow> data_dir \<Rightarrow> environment \<Rightarrow> prepared result" where
  "prepare se fs getenv = (case Config_Load (se_fmul se) (se_host se) getenv of
      Inl err \<Rightarrow> Inl err
    | Inr cfg \<Rightarrow> (case NewRegistry (compiled_modules (ho_GOOS (se_host se)) (ho_url_Parse (se_host se))) of
        Inl err \<Rightarrow> Inl err
      | Inr registry \<Rightarrow> (case Load (se_pki se) (se_load se) (cfg_DataDir cfg) fs of
          Inl err \<Rightarrow> Inl err
        | Inr stored \<Rightarrow> (case newClient se cfg None of
            Inl err \<Rightarrow> Inl err
          | Inr (http, c) \<Rightarrow> Inr \<lparr>pr_cfg = cfg, pr_registry = registry, pr_report = Discover (se_caps se) [] registry,
              pr_stored = stored, pr_http = http, pr_client = c\<rparr>))))"

section \<open>The identity\<close>

definition acquire_identity :: "start_env \<Rightarrow> prepared \<Rightarrow> data_dir \<Rightarrow> environment \<Rightarrow> Identity result \<times> data_dir \<times> environment" where
  "acquire_identity se pr fs getenv =
     (let cfg = pr_cfg pr in
      case Ensure (se_pki se) ((se_enroll se)\<lparr>en_transport := se_network se (pr_http pr), en_client := pr_client pr\<rparr>)
          \<lparr>eo_DataDir = cfg_DataDir cfg, eo_Name = cfg_AgentName cfg, eo_Token = cfg_EnrollmentToken cfg,
            eo_Version = agent_version, eo_NetworkZone = cfg_NetworkZone cfg, eo_Summary = Summary (pr_report pr)\<rparr> fs getenv of
        (Inl err, fs, getenv) \<Rightarrow> (Inl err, fs, getenv)
      | (Inr (i, enrolled), fs, getenv) \<Rightarrow>
          if pr_stored pr = None \<and> \<not> enrolled then (Inl (ErrorText ''identity state is inconsistent''), fs, getenv)
          else (Inr i, fs, getenv))"

text \<open>The certificate is renewed when it ends within two weeks; the result tells the transport to use.\<close>

definition renew :: "start_env \<Rightarrow> Config \<Rightarrow> client_env \<Rightarrow> Identity \<Rightarrow> data_dir \<Rightarrow> (Identity \<times> client_env) result \<times> data_dir" where
  "renew se cfg t i fs =
     (if needs_rotation (se_now se) i then (case rotate (se_pki se) (se_rotation se) (cfg_DataDir cfg) fs of
          (RotationExit err, rollback, fs) \<Rightarrow> (Inl err, fs)
        | (RotationKept, rollback, fs) \<Rightarrow> (Inr (i, t), fs)
        | (Rotated i', rollback, fs) \<Rightarrow> (Inr (i', se_rotatedNetwork se), fs))
      else (Inr (i, t), fs))"

section \<open>Going online\<close>

definition announce :: "start_env \<Rightarrow> client_env \<Rightarrow> Client \<Rightarrow> Report \<Rightarrow> Identity \<Rightarrow> Report result" where
  "announce se t c report i =
     (let report = report\<lparr>rep_Manifest := (rep_Manifest report)\<lparr>cm_AgentID := id_AgentID i\<rparr>\<rparr> in
      case ReportCapabilities t c (rep_Manifest report) of
        (response, Some err) \<Rightarrow> Inl err
      | (response, None) \<Rightarrow>
          if cr_CapabilitiesHash response \<noteq> Hash (pk_libs (se_pki se)) report then Inl (ErrorText ''capability hash mismatch'')
          else Inr report)"

definition new_verifier :: "Config \<Rightarrow> Identity \<Rightarrow> (string \<times> bytes) list \<Rightarrow> JobVerifier" where
  "new_verifier cfg i keys = \<lparr>v_AgentID = id_AgentID i, v_OrganizationID = id_OrganizationID i, v_TrustedKeys = keys,
     v_RequireSigned = cfg_RequireSignedJobs cfg, v_seen = []\<rparr>"

definition new_executor :: "start_env \<Rightarrow> Config \<Rightarrow> exec_env Registry \<Rightarrow> Report \<Rightarrow> Identity \<Rightarrow> (string \<times> bytes) list \<Rightarrow> Executor" where
  "new_executor se cfg registry report i keys = New_Executor (nat (cfg_MaxConcurrentJobs cfg))
     \<lparr>ex_Registry = registry, ex_Verifier = new_verifier cfg i keys, ex_Capabilities = report,
      ex_Queue = \<lparr>q_MaxBytes = cfg_MaxSpoolBytes cfg, q_MaxAge = cfg_MaxSpoolAge cfg\<rparr>, ex_Spool = se_spool se,
      ex_MaxJobTimeout = cfg_MaxJobTimeout cfg, ex_MaxResultBytes = cfg_MaxResultBytes cfg,
      ex_slots = \<lparr>ch_cap = 0, ch_len = 0\<rparr>, ex_lastResult = None\<rparr>"

definition go_online :: "start_env \<Rightarrow> prepared \<Rightarrow> client_env \<Rightarrow> Client \<Rightarrow> Identity \<Rightarrow> data_dir \<Rightarrow> (agent \<times> Executor) result" where
  "go_online se pr t c i fs = (case announce se t c (pr_report pr) i of
      Inl err \<Rightarrow> Inl err
    | Inr report \<Rightarrow> (case TrustedSigningKeys (se_pki se) (se_keys se) fs of
        Inl err \<Rightarrow> Inl err
      | Inr keys \<Rightarrow>
          let cfg = pr_cfg pr;
              e = new_executor se cfg (pr_registry pr) report i keys;
              ag = \<lparr>ag_cfg = cfg, ag_client = c, ag_report = report, ag_AgentID = id_AgentID i, ag_version = agent_version,
                ag_libs = pk_libs (se_pki se), ag_parseTime = pk_parseTime (se_pki se), ag_rawParameters = se_rawParameters se,
                ag_decoders = se_decoders se, ag_ftoa = se_ftoa se\<rparr>
          in (case send_heartbeat ag ((se_first se)\<lparr>le_transport := t\<rparr>) e of
              (response, Some err) \<Rightarrow> Inl err
            | (response, None) \<Rightarrow> (case RequireCompatible (hbr_ProtocolVersion response) of
                Some err \<Rightarrow> Inl err
              | None \<Rightarrow> Inr (ag, e)))))"

text \<open>
  All of it: the agent and the executor with which \<^verbatim>\<open>runLoop\<close> starts, or the error of an exit.
  The enrollment token is dropped from the configuration once there is an identity.
\<close>

definition start :: "start_env \<Rightarrow> data_dir \<Rightarrow> environment \<Rightarrow> (agent \<times> Executor) result \<times> data_dir \<times> environment" where
  "start se fs getenv = (case prepare se fs getenv of
      Inl err \<Rightarrow> (Inl err, fs, getenv)
    | Inr pr \<Rightarrow> (case acquire_identity se pr fs getenv of
        (Inl err, fs, getenv) \<Rightarrow> (Inl err, fs, getenv)
      | (Inr i, fs, getenv) \<Rightarrow>
          let pr = pr\<lparr>pr_cfg := (pr_cfg pr)\<lparr>cfg_EnrollmentToken := []\<rparr>\<rparr> in
          (case newClient se (pr_cfg pr) (Some (TLSCertificate (se_pki se) (se_cert se) fs)) of
             Inl err \<Rightarrow> (Inl err, fs, getenv)
           | Inr (http, c) \<Rightarrow> (case renew se (pr_cfg pr) (se_network se http) i fs of
               (Inl err, fs) \<Rightarrow> (Inl err, fs, getenv)
             | (Inr (i, t), fs) \<Rightarrow> (go_online se pr t c i fs, fs, getenv)))))"

text \<open>After the loop and \<^verbatim>\<open>Wait\<close>, one more heartbeat is sent; its outcome is ignored.\<close>

definition final_heartbeat :: "agent \<Rightarrow> loop_env \<Rightarrow> loop_state \<Rightarrow> (HeartbeatResponse \<times> goerror option) option" where
  "final_heartbeat ag env s = (case lo_phase s of
      Stopped err \<Rightarrow> if as_tasks (lo_agent s) = [] then Some (send_heartbeat ag env (as_ex (lo_agent s))) else None
    | _ \<Rightarrow> None)"

end
