(* ===== verification/Trust.thy ===== *)
theory Trust
  imports Startup
begin

text \<open>
  The agent from its start to any later moment: what every job it works on has passed, and the
  limits it keeps. The lemmas join the start, the loop, the executor with its goroutines and the
  job verifier.
\<close>

section \<open>A start that succeeds\<close>

lemma start_Inr:
  assumes "start se fs getenv = (Inr (ag, e), fs', getenv')"
  obtains cfg registry report i keys where
    "Config_Load (se_fmul se) (se_host se) getenv = Inr cfg" "ag_cfg ag = cfg\<lparr>cfg_EnrollmentToken := []\<rparr>"
    "NewRegistry (compiled_modules (ho_GOOS (se_host se)) (ho_url_Parse (se_host se))) = Inr registry"
    "TrustedSigningKeys (se_pki se) (se_keys se) fs' = Inr keys"
    "e = new_executor se (ag_cfg ag) registry report i keys"
    "ag_AgentID ag = id_AgentID i" "ag_libs ag = pk_libs (se_pki se)"
proof -
  from assms obtain pr i fs1 http c t i' where p: "prepare se fs getenv = Inr pr"
    and g: "go_online se (pr\<lparr>pr_cfg := (pr_cfg pr)\<lparr>cfg_EnrollmentToken := []\<rparr>\<rparr>) t c i' fs' = Inr (ag, e)"
    by (auto simp: start_def Let_def split: sum.splits prod.splits)
  from p obtain registry where r: "Config_Load (se_fmul se) (se_host se) getenv = Inr (pr_cfg pr)"
    "NewRegistry (compiled_modules (ho_GOOS (se_host se)) (ho_url_Parse (se_host se))) = Inr registry" "pr_registry pr = registry"
    by (auto simp: prepare_def split: sum.splits prod.splits)
  from g obtain report keys where "TrustedSigningKeys (se_pki se) (se_keys se) fs' = Inr keys"
    "e = new_executor se (ag_cfg ag) (pr_registry pr) report i' keys" "ag_cfg ag = (pr_cfg pr)\<lparr>cfg_EnrollmentToken := []\<rparr>"
    "ag_AgentID ag = id_AgentID i'" "ag_libs ag = pk_libs (se_pki se)"
    by (auto simp: go_online_def Let_def split: sum.splits prod.splits option.splits)
  with r show thesis by (intro that) simp_all
qed

lemma started_limits:
  assumes "start se fs getenv = (Inr (ag, e), fs', getenv')"
  shows "1 \<le> cfg_MaxConcurrentJobs (ag_cfg ag)" "cfg_MaxConcurrentJobs (ag_cfg ag) \<le> 32" "cfg_EnrollmentToken (ag_cfg ag) = []"
proof -
  from assms obtain cfg where c: "Config_Load (se_fmul se) (se_host se) getenv = Inr cfg" "ag_cfg ag = cfg\<lparr>cfg_EnrollmentToken := []\<rparr>"
    by (rule start_Inr)
  from c(1) have "Validate (se_host se) cfg = None" unfolding Config_Load_Inr by (elim conjE)
  from Validate_None(2,3) [OF this] c(2)
  show "1 \<le> cfg_MaxConcurrentJobs (ag_cfg ag)" "cfg_MaxConcurrentJobs (ag_cfg ag) \<le> 32" "cfg_EnrollmentToken (ag_cfg ag) = []"
    by simp_all
qed

lemma started_is_fresh:
  assumes "start se fs getenv = (Inr (ag, e), fs', getenv')"
  shows "fresh (compiled_modules (ho_GOOS (se_host se)) (ho_url_Parse (se_host se))) ag e"
proof -
  from assms obtain registry report i keys where
    "NewRegistry (compiled_modules (ho_GOOS (se_host se)) (ho_url_Parse (se_host se))) = Inr registry"
    "e = new_executor se (ag_cfg ag) registry report i keys" by (rule start_Inr)
  with started_limits(1) [OF assms] show ?thesis by (simp add: fresh_def new_executor_def New_Executor_def)
qed

section \<open>Trusted jobs\<close>

text \<open>What the policy of a verifier demands of a job, apart from time and replay.\<close>

definition trusted_job :: "libs \<Rightarrow> JobVerifier \<Rightarrow> JobEnvelope \<Rightarrow> bool" where
  "trusted_job L v job \<longleftrightarrow> je_AgentID job = v_AgentID v \<and> je_OrganizationID job = v_OrganizationID v
     \<and> RequireCompatible (je_ProtocolVersion job) = None \<and> ValidateTarget (lib_url_Parse L) (je_Target job) = None
     \<and> 1 \<le> je_TimeoutSeconds job \<and> je_TimeoutSeconds job \<le> 14400
     \<and> (v_RequireSigned v \<or> je_Signature job \<noteq> [] \<longrightarrow> signed_by L (v_TrustedKeys v) job)"

definition same_policy :: "JobVerifier \<Rightarrow> JobVerifier \<Rightarrow> bool" where
  "same_policy v w \<longleftrightarrow> v_AgentID v = v_AgentID w \<and> v_OrganizationID v = v_OrganizationID w
     \<and> v_TrustedKeys v = v_TrustedKeys w \<and> v_RequireSigned v = v_RequireSigned w"

lemma verified_is_trusted:
  assumes "fst (Verify L now job v) = None" and "same_policy v v0"
  shows "trusted_job L v0 job"
  using assms
  by (auto simp: trusted_job_def same_policy_def fst_Verify_None Verify_checks_iff VerifyJobSignature_None_iff split: if_splits)

fun is_result :: "report \<Rightarrow> bool" where
  "is_result (ResultReport r ok) = True"
| "is_result (FailureReport f ok) = False"

text \<open>The jobs an agent works on, and those it has reported a result of.\<close>

definition worked_on :: "agent_state \<Rightarrow> JobEnvelope set" where
  "worked_on a = t_job ` set (as_tasks a) \<union> fst ` {jr \<in> set (as_reports a). is_result (snd jr)}"

definition trust_inv :: "libs \<Rightarrow> JobVerifier \<Rightarrow> agent_state \<Rightarrow> bool" where
  "trust_inv L v0 a \<longleftrightarrow> same_policy (ex_Verifier (as_ex a)) v0 \<and> (\<forall>job\<in>worked_on a. trusted_job L v0 job)"

lemma deliver_result_verifier: "ex_Verifier (snd (deliver_result env job wire e)) = ex_Verifier e"
  by (simp add: deliver_result_def Let_def recordLast_def)

lemma run_module_verifier: "ex_Verifier (snd (run_module env job m e)) = ex_Verifier e"
  by (auto simp: run_module_def Let_def deliver_result_verifier split: prod.splits option.splits sum.splits)

lemma execute_held_verifier: "ex_Verifier (snd (execute_held env job m e)) = ex_Verifier e"
  by (auto simp: execute_held_def run_module_verifier split: sum.splits)

lemma release_verifier: "ex_Verifier (release_slot e) = ex_Verifier e" "ex_Verifier (release_module job e) = ex_Verifier e"
  by (simp_all add: release_slot_def release_module_def split: option.splits)

lemma reject_no_result: "\<not> is_result (fst (reject env job code summary retryable e))"
  by (simp add: reject_def Let_def)

lemma trust_inv_mono:
  "trust_inv L v0 a \<Longrightarrow> worked_on a' \<subseteq> worked_on a \<Longrightarrow> same_policy (ex_Verifier (as_ex a')) (ex_Verifier (as_ex a)) \<Longrightarrow> trust_inv L v0 a'"
  by (auto simp: trust_inv_def same_policy_def)

lemma same_policy_refl [simp]: "same_policy v v"
  by (simp add: same_policy_def)

lemma goroutine_worked_on:
  assumes "goroutine_step env a a'"
  shows "worked_on a' \<subseteq> worked_on a" and "ex_Verifier (as_ex a') = ex_Verifier (as_ex a)"
proof -
  from assms have "exec_step env a a'" and s: "as_submitted a' = as_submitted a" by (simp_all add: goroutine_step_def)
  from this(1) have "worked_on a' \<subseteq> worked_on a \<and> ex_Verifier (as_ex a') = ex_Verifier (as_ex a)"
  proof (cases rule: exec_step.cases)
    case (finish ts1 t ts2 rep e)
    from execute_held_verifier [of env "t_job t" "t_module t" "as_ex a"] finish(4)
    have "ex_Verifier e = ex_Verifier (as_ex a)" by simp
    with finish show ?thesis by (auto simp: worked_on_def end_task_def release_verifier)
  qed (use s in \<open>auto simp: worked_on_def end_task_def release_verifier reject_no_result\<close>)
  then show "worked_on a' \<subseteq> worked_on a" "ex_Verifier (as_ex a') = ex_Verifier (as_ex a)" by blast+
qed

lemma submit_trust:
  assumes "trust_inv L v0 a" and "rn_libs env = L"
  shows "trust_inv L v0 (submit_job env job a)"
proof -
  obtain r e where r: "Submit env job (as_ex a) = (r, e)" by fastforce
  then show ?thesis
  proof (cases rule: Submit_cases)
    case (refused err code summary retryable e1)
    with r have a': "submit_job env job a = a\<lparr>as_ex := e, as_reports := (job, fst (reject env job code summary retryable e1)) # as_reports a,
        as_submitted := job # as_submitted a\<rparr>" by (simp add: submit_job_def)
    from refused(2,3) have "same_policy (ex_Verifier (as_ex (submit_job env job a))) (ex_Verifier (as_ex a))"
      unfolding a' by (simp add: same_policy_def Verify_frame)
    moreover have "worked_on (submit_job env job a) \<subseteq> worked_on a" unfolding a' by (auto simp: worked_on_def reject_no_result)
    ultimately show ?thesis by (intro trust_inv_mono [OF assms(1)])
  next
    case (accepted m slots)
    with r have a': "submit_job env job a = a\<lparr>as_ex := e, as_tasks := as_tasks a @ [\<lparr>t_job = job, t_module = m, t_holding = False\<rparr>],
        as_submitted := job # as_submitted a\<rparr>" by (simp add: submit_job_def)
    from assms(1) have p: "same_policy (ex_Verifier (as_ex a)) v0" by (simp add: trust_inv_def)
    from verified_is_trusted [OF accepted(2) p] assms(2) have "trusted_job L v0 job" by simp
    moreover have "worked_on (submit_job env job a) \<subseteq> insert job (worked_on a)" unfolding a' by (auto simp: worked_on_def)
    moreover from accepted(6) p have "same_policy (ex_Verifier e) v0" by (simp add: same_policy_def Verify_frame)
    ultimately show ?thesis using assms(1) a' by (auto simp: trust_inv_def)
  qed
qed

lemma trust_inv_step:
  assumes "loop_step ag s s'" and "trust_inv (ag_libs ag) v0 (lo_agent s)"
  shows "trust_inv (ag_libs ag) v0 (lo_agent s')"
  using assms(1)
proof (cases rule: loop_step.cases)
  case (flush env)
  from flush_spool_fields(4) obtain dir
    where "lo_agent (flush_spool ag env s) = (lo_agent s)\<lparr>as_ex := (as_ex (lo_agent s))\<lparr>ex_Spool := dir\<rparr>\<rparr>" by blast
  with flush(1) assms(2) show ?thesis by (simp add: trust_inv_def worked_on_def)
next
  case (submit j env)
  with submit_trust [OF assms(2), of "le_run env"] show ?thesis by simp
next
  case (work env a)
  from goroutine_worked_on [OF work(2)] have "trust_inv (ag_libs ag) v0 a" by (intro trust_inv_mono [OF assms(2)]) simp_all
  with work(1) show ?thesis by simp
qed (use assms(2) in \<open>simp_all add: heartbeat_tick_fields poll_tick_fields\<close>)

lemma trust_inv_reach:
  assumes "loop_reach ag (loop_start ag rnd e) s"
  shows "trust_inv (ag_libs ag) (ex_Verifier e) (lo_agent s)"
  using assms unfolding loop_reach_def
proof (induction rule: rtranclp_induct)
  case base
  show ?case by (simp add: trust_inv_def worked_on_def loop_start_def)
next
  case (step s s')
  from trust_inv_step [OF step(2,3)] show ?case .
qed

text \<open>
  C1: from the start to any later moment, whatever the network, the clock, the disk and the
  scheduler do: every job the agent works on or reports a result of is addressed to the agent
  and the organization of its stored identity, speaks its protocol version, has a valid target
  and a bounded timeout, and, unless the operator turned signatures off, is signed by a key in
  the stored job signing trust; an envelope that carries a signature needs a valid one in any
  case.
\<close>

theorem agent_works_only_on_trusted_jobs:
  assumes "start se fs getenv = (Inr (ag, e), fs', getenv')" and "loop_reach ag (loop_start ag rnd e) s"
    and "job \<in> worked_on (lo_agent s)"
  shows "je_AgentID job = ag_AgentID ag \<and> RequireCompatible (je_ProtocolVersion job) = None
    \<and> ValidateTarget (lib_url_Parse (pk_libs (se_pki se))) (je_Target job) = None
    \<and> 1 \<le> je_TimeoutSeconds job \<and> je_TimeoutSeconds job \<le> 14400
    \<and> (cfg_RequireSignedJobs (read_config (se_fmul se) getenv) \<or> je_Signature job \<noteq> [] \<longrightarrow>
        (\<exists>keys. TrustedSigningKeys (se_pki se) (se_keys se) fs' = Inr keys \<and> signed_by (pk_libs (se_pki se)) keys job))"
proof -
  from assms(1) obtain cfg0 registry report i keys where c: "Config_Load (se_fmul se) (se_host se) getenv = Inr cfg0"
    "ag_cfg ag = cfg0\<lparr>cfg_EnrollmentToken := []\<rparr>" and r:
    "TrustedSigningKeys (se_pki se) (se_keys se) fs' = Inr keys" "e = new_executor se (ag_cfg ag) registry report i keys"
    "ag_AgentID ag = id_AgentID i" "ag_libs ag = pk_libs (se_pki se)" by (rule start_Inr)
  from c(1) have "cfg0 = read_config (se_fmul se) getenv" unfolding Config_Load_Inr by (elim conjE)
  with c(2) have cfg: "cfg_RequireSignedJobs (ag_cfg ag) = cfg_RequireSignedJobs (read_config (se_fmul se) getenv)" by simp
  have v: "ex_Verifier e = new_verifier (ag_cfg ag) i keys" by (simp add: r(2) new_executor_def New_Executor_def)
  from trust_inv_reach [OF assms(2)] assms(3) have "trusted_job (pk_libs (se_pki se)) (new_verifier (ag_cfg ag) i keys) job"
    by (simp add: trust_inv_def r(4) v)
  with r(1,3) show ?thesis by (auto simp: trusted_job_def new_verifier_def cfg)
qed

text \<open>
  C4: from the start to any later moment the agent keeps its limits: never more jobs run than
  configured, which is never more than 32; no compiled module is executed by more jobs at once
  than its own limit allows; and every job it took from the control plane has been reported
  exactly as often as it was submitted, or is still running. It no longer holds the enrollment
  token.
\<close>

theorem agent_keeps_its_limits:
  assumes "start se fs getenv = (Inr (ag, e), fs', getenv')" and "loop_reach ag (loop_start ag rnd e) s"
  shows "int (length (as_tasks (lo_agent s))) \<le> cfg_MaxConcurrentJobs (ag_cfg ag) \<and> cfg_MaxConcurrentJobs (ag_cfg ag) \<le> 32 \<and> cfg_EnrollmentToken (ag_cfg ag) = []
    \<and> (\<forall>m\<in>set (compiled_modules (ho_GOOS (se_host se)) (ho_url_Parse (se_host se))).
        int (length (filter (\<lambda>t. t_holding t \<and> je_ModuleID (t_job t) = d_ID (mod_Descriptor m)) (as_tasks (lo_agent s))))
          \<le> max 1 (d_ConcurrencyLimit (mod_Descriptor m)))
    \<and> mset (as_submitted (lo_agent s)) = mset (map fst (as_reports (lo_agent s))) + mset (map t_job (as_tasks (lo_agent s)))"
proof -
  note valid = started_limits [OF assms(1)]
  let ?ms = "compiled_modules (ho_GOOS (se_host se)) (ho_url_Parse (se_host se))"
  from loop_inv_reach [OF started_is_fresh [OF assms(1)] assms(2)]
  have inv: "exec_inv ?ms (nat (cfg_MaxConcurrentJobs (ag_cfg ag))) (lo_agent s)" by (simp add: loop_inv_def)
  from started_is_fresh [OF assms(1)] have "distinct (map module_ID ?ms)" by (auto simp: fresh_def NewRegistry_Inr_iff)
  with valid inv module_limit [OF inv] show ?thesis by (auto simp: exec_inv_def)
qed

section \<open>A sample start\<close>

text \<open>A control plane that enrolls the agent, accepts its capabilities and heartbeats, and has a job.\<close>

definition sample_reply :: "http_request \<Rightarrow> bytes" where
  "sample_reply rq = marshal_object [(''data'',
     if rq_URL rq = ''https://control.example/agent/v1/enroll'' then marshal_object [(''protocolVersion'', marshal_string ''1.0''),
       (''agentId'', marshal_string (je_AgentID sample_job)), (''organizationId'', marshal_string (je_OrganizationID sample_job)),
       (''controlPlaneIdentity'', marshal_object [(''caCertificatePem'', marshal_string ''ca'')]),
       (''agentCredential'', marshal_object [(''certificatePem'', marshal_string ''cert''), (''expiresAt'', marshal_string ''t'')])]
     else if rq_URL rq = ''https://control.example/agent/v1/capabilities''
     then marshal_object [(''capabilitiesHash'', marshal_string (hex_EncodeToString (replicate 32 (CHR 0x00))))]
     else if rq_URL rq = ''https://control.example/agent/v1/heartbeat'' then marshal_object [(''protocolVersion'', marshal_string ''1.0'')]
     else marshal_object [(''validatedParameters'', ''{}'')])]"

definition sample_transport :: client_env where
  "sample_transport = \<lparr>cl_newRequest = (\<lambda>_ _. None),
     cl_do = (\<lambda>rq. Inr \<lparr>hw_StatusCode = 200, hw_Body = sample_reply rq, hw_BodyErr = None\<rparr>)\<rparr>"

definition sample_start_env :: start_env where
  "sample_start_env = \<lparr>se_fmul = (\<lambda>_ _ _. 0), se_host = sample_host, se_caps = sample_caps_env, se_pki = sample_pki,
     se_load = sample_disk, se_tls = \<lparr>te_readFile = (\<lambda>_. Inl Canceled), te_SystemCertPool = Inr [], te_certificates = (\<lambda>_. [])\<rparr>,
     se_url_String = (\<lambda>u. u), se_network = (\<lambda>_. sample_transport), se_enroll = sample_enroll_env, se_cert = sample_disk,
     se_now = 5, se_rotation = sample_rotation None, se_rotatedNetwork = sample_transport, se_keys = sample_disk,
     se_first = sample_loop_env\<lparr>le_transport := sample_transport\<rparr>, se_spool = [], se_rawParameters = (\<lambda>_ _. Some sample_tcp_envelope),
     se_decoders = \<lparr>wd_JobResult = \<lambda>_. None, wd_JobFailure = \<lambda>_. None, wd_EvidenceRequest = \<lambda>_. None\<rparr>, se_ftoa = (\<lambda>_. [])\<rparr>"

definition sample_settings :: environment where
  "sample_settings = (\<lambda>key. if key = ''NETSCOPE_CONTROL_PLANE_URL'' then ''https://control.example''
     else if key = ''NETSCOPE_ENROLLMENT_TOKEN'' then replicate 32 (CHR ''t'')
     else if key = ''NETSCOPE_REQUIRE_SIGNED_JOBS'' then ''false'' else [])"

lemma sample_do:
  assumes "\<exists>t. body = Inr t" and "c_base c = ''https://control.example''"
  shows "doJSON sample_transport c meth path (Some body) out dest = handle_response out dest
    \<lparr>hw_StatusCode = 200, hw_Body = sample_reply (build_request c meth path (Some [])), hw_BodyErr = None\<rparr>"
  using assms by (auto simp: doJSON_def sample_transport_def build_request_def sample_reply_def)

text \<open>The configuration, the registry, the report and the client.\<close>

definition started_config :: Config where
  "started_config = read_config (\<lambda>_ _ _. 0) sample_settings"

abbreviation started_modules :: "exec_env Module list" where
  "started_modules \<equiv> compiled_modules (ho_GOOS sample_host) (ho_url_Parse sample_host)"

abbreviation started_report :: Report where
  "started_report \<equiv> Discover sample_caps_env [] (registry_of started_modules)"

definition started_client :: Client where
  "started_client = \<lparr>c_base = ''https://control.example'', c_version = agent_version\<rparr>"

lemma started_config_loads: "Config_Load (\<lambda>_ _ _. 0) sample_host sample_settings = Inr started_config"
proof -
  have "Validate sample_host started_config = None" by code_simp
  then show ?thesis by (simp add: Config_Load_Inr started_config_def sample_host_def)
qed

lemma started_config_fields:
  "cfg_DataDir started_config = ''./data''" "cfg_EnrollmentToken started_config = replicate 32 (CHR ''t'')"
  "cfg_RequireSignedJobs started_config = False" "cfg_MaxConcurrentJobs started_config = 2"
  "cfg_MaxJobTimeout started_config = 10 * time_Minute"
  by code_simp+

lemma started_newClient: "\<exists>http. newClient sample_start_env started_config client = Inr (http, started_client)"
  if "client = None \<or> (\<exists>cert. client = Some (Inr cert))"
proof -
  have "root_pool (se_tls sample_start_env) (cfg_ServerCAPath started_config) = Inr None" by code_simp
  moreover have "New (ho_url_Parse sample_host) (\<lambda>u. u) (cfg_ControlPlaneURL started_config) agent_version = Inr started_client"
    by code_simp
  ultimately show ?thesis using that
    by (auto simp: newClient_def newHTTPClient_def TLSConfig_def map_result_def sample_start_env_def)
qed

lemma started_prepare:
  obtains http where "prepare sample_start_env Map.empty sample_settings = Inr \<lparr>pr_cfg = started_config,
    pr_registry = registry_of started_modules, pr_report = started_report, pr_stored = None, pr_http = http, pr_client = started_client\<rparr>"
proof -
  obtain http where http: "newClient sample_start_env started_config None = Inr (http, started_client)"
    using started_newClient by blast
  have "Load sample_pki sample_disk d Map.empty = Inr None" for d by (simp add: Load_def read_file_def)
  with http show thesis
    by (intro that [of http]) (simp add: prepare_def sample_start_env_def started_config_loads compiled_registry)
qed

lemma token_unused [simp]:
  "newClient se (cfg\<lparr>cfg_EnrollmentToken := t\<rparr>) client = newClient se cfg client"
  "new_verifier (cfg\<lparr>cfg_EnrollmentToken := t\<rparr>) i keys = new_verifier cfg i keys"
  by (simp_all add: newClient_def newHTTPClient_def TLSConfig_def new_verifier_def split: sum.split)

text \<open>The identity.\<close>

definition started_response :: EnrollmentResponse where
  "started_response = sample_response\<lparr>ens_AgentID := je_AgentID sample_job, ens_OrganizationID := je_OrganizationID sample_job,
     ens_Status := [], ens_ControlPlaneIdentity := \<lparr>cpi_CACertificatePEM = ''ca'', cpi_JobSigningKeyID = [], cpi_JobSigningAlgorithm = [],
       cpi_JobSigningPublicKey = [], cpi_JobSigningKeyFingerprint = [], cpi_JobSigningKeyIssuedAt = 0\<rparr>,
     ens_AgentCredential := \<lparr>cred_CertificatePEM = ''cert'', cred_ExpiresAt = 63900000000000000000\<rparr>\<rparr>"

definition started_saved :: "Identity result \<times> data_dir" where
  "started_saved = SaveEnrollment sample_pki sample_disk ''./data'' sample_pending started_response Map.empty"

definition started_identity :: Identity where
  "started_identity = projr (fst started_saved)"

lemma started_enrolls:
  "fst started_saved = Inr started_identity" "id_AgentID started_identity = je_AgentID sample_job"
  "id_OrganizationID started_identity = je_OrganizationID sample_job"
  "TLSCertificate sample_pki sample_disk (snd started_saved) = Inr ''cert''"
  "TrustedSigningKeys sample_pki sample_disk (snd started_saved) = Inr []"
  "needs_rotation 5 started_identity = False"
proof -
  have "\<not> isl (fst started_saved)" by code_simp
  then show "fst started_saved = Inr started_identity" by (simp add: started_identity_def)
qed code_simp+

lemma EnrollmentRequest_json_total: "enr_Labels r = [] \<Longrightarrow> \<exists>t. EnrollmentRequest_json r = Inr t"
  by (simp add: EnrollmentRequest_json_def omit_empty_def marshal_Inr)

lemma started_enroll:
  "enroll sample_pki (sample_enroll_env\<lparr>en_transport := sample_transport, en_client := started_client\<rparr>) eo host pend = (started_response, None)"
proof -
  have "handle_response (Some (data_envelope (EnrollmentResponse_fields (pk_parseTime sample_pki)))) zero_EnrollmentResponse
     \<lparr>hw_StatusCode = 200, hw_Body = sample_reply (build_request started_client ''POST'' ''/agent/v1/enroll'' (Some [])), hw_BodyErr = None\<rparr>
     = (started_response, None)" by code_simp
  moreover have "c_base started_client = ''https://control.example''" by (simp add: started_client_def)
  moreover have "\<exists>t. EnrollmentRequest_json (enrollment_request ee eo host pend) = Inr t" for ee
    by (rule EnrollmentRequest_json_total) (simp add: enrollment_request_def)
  ultimately show ?thesis by (simp add: enroll_def Enroll_def sample_do)
qed

lemma started_acquires:
  assumes "pr_cfg pr = started_config" and "pr_client pr = started_client" and "pr_stored pr = None"
  shows "acquire_identity sample_start_env pr Map.empty sample_settings
    = (Inr started_identity, snd started_saved, sample_settings(''NETSCOPE_ENROLLMENT_TOKEN'' := []))"
proof -
  let ?ee = "sample_enroll_env\<lparr>en_transport := sample_transport, en_client := started_client\<rparr>"
  have "Ensure sample_pki ?ee eo Map.empty g = (Inr (started_identity, True), snd started_saved, g(''NETSCOPE_ENROLLMENT_TOKEN'' := []))"
    if eo: "eo_DataDir eo = ''./data''" "eo_Token eo = replicate 32 (CHR ''t'')" for eo g
  proof -
    have "Generate (en_tools ?ee) (eo_Name eo) ''h'' = Inr sample_pending"
      by (simp add: sample_enroll_env_def Generate_def sample_pending_def)
    moreover have "length (strings_TrimSpace (replicate 32 (CHR ''t''))) = 32" by code_simp
    moreover have "Load sample_pki (en_load ?ee) d Map.empty = Inr None" for d by (simp add: Load_def read_file_def)
    moreover have "SaveEnrollment sample_pki sample_disk ''./data'' sample_pending started_response Map.empty
        = (Inr started_identity, snd started_saved)"
      using started_enrolls(1) by (cases started_saved) (simp add: started_saved_def)
    moreover have "en_Hostname ?ee = Inr ''h''" "en_save ?ee = sample_disk" by (simp_all add: sample_enroll_env_def)
    ultimately show ?thesis using eo by (simp add: Ensure_def started_enroll)
  qed
  then show ?thesis using assms by (simp add: acquire_identity_def sample_start_env_def started_config_fields)
qed

lemma started_announces:
  "announce sample_start_env sample_transport started_client report i
    = Inr (report\<lparr>rep_Manifest := (rep_Manifest report)\<lparr>cm_AgentID := id_AgentID i\<rparr>\<rparr>)"
proof -
  have "handle_response (Some (data_envelope capability_response_fields)) \<lparr>cr_CapabilitiesHash = []\<rparr>
     \<lparr>hw_StatusCode = 200, hw_Body = sample_reply (build_request started_client ''POST'' ''/agent/v1/capabilities'' (Some [])), hw_BodyErr = None\<rparr>
     = (\<lparr>cr_CapabilitiesHash = hex_EncodeToString (replicate 32 (CHR 0x00))\<rparr>, None)" by code_simp
  moreover have "Hash (pk_libs sample_pki) r = hex_EncodeToString (replicate 32 (CHR 0x00))" for r
    by (simp add: Hash_def sample_pki_def sample_libs_def split: sum.split)
  moreover have "c_base started_client = ''https://control.example''" by (simp add: started_client_def)
  ultimately show ?thesis
    by (simp add: announce_def Let_def ReportCapabilities_def sample_do CapabilityManifest_json_total sample_start_env_def)
qed

lemma Heartbeat_json_total:
  assumes "hb_LastJobResult hb = None" and "\<exists>t. time_value (hb_Timestamp hb) = Inr t"
  shows "\<exists>t. Heartbeat_json hb = Inr t"
  using assms by (simp add: Heartbeat_json_def omit_empty_def marshal_Inr)

text \<open>The agent and its executor.\<close>

definition started_agent :: agent where
  "started_agent = \<lparr>ag_cfg = started_config\<lparr>cfg_EnrollmentToken := []\<rparr>, ag_client = started_client,
     ag_report = started_report\<lparr>rep_Manifest := (rep_Manifest started_report)\<lparr>cm_AgentID := id_AgentID started_identity\<rparr>\<rparr>,
     ag_AgentID = id_AgentID started_identity, ag_version = agent_version, ag_libs = sample_libs, ag_parseTime = pk_parseTime sample_pki,
     ag_rawParameters = se_rawParameters sample_start_env, ag_decoders = se_decoders sample_start_env, ag_ftoa = se_ftoa sample_start_env\<rparr>"

definition started_executor :: Executor where
  "started_executor = new_executor sample_start_env (ag_cfg started_agent) (registry_of started_modules) (ag_report started_agent) started_identity []"

lemma started_heartbeat:
  "send_heartbeat started_agent ((se_first sample_start_env)\<lparr>le_transport := sample_transport\<rparr>) started_executor
    = (zero_HeartbeatResponse\<lparr>hbr_ProtocolVersion := ''1.0''\<rparr>, None)"
proof -
  have r: "handle_response (Some (data_envelope (HeartbeatResponse_fields (pk_parseTime sample_pki)))) zero_HeartbeatResponse
     \<lparr>hw_StatusCode = 200, hw_Body = sample_reply (build_request started_client ''POST'' ''/agent/v1/heartbeat'' (Some [])), hw_BodyErr = None\<rparr>
     = (zero_HeartbeatResponse\<lparr>hbr_ProtocolVersion := ''1.0''\<rparr>, None)" by code_simp
  have j: "\<exists>t. Heartbeat_json (Build L (le_heartbeat sample_loop_env) a v m r n (LastResult started_executor) h) = Inr t" for L a v m r n h
  proof (rule Heartbeat_json_total)
    show "hb_LastJobResult (Build L (le_heartbeat sample_loop_env) a v m r n (LastResult started_executor) h) = None"
      by (simp add: Build_def Let_def split_beta LastResult_def started_executor_def new_executor_def New_Executor_def)
    show "\<exists>t. time_value (hb_Timestamp (Build L (le_heartbeat sample_loop_env) a v m r n (LastResult started_executor) h)) = Inr t"
      by (simp add: Build_def Let_def split_beta sample_loop_env_def time_value_def)
  qed
  have c: "c_base started_client = ''https://control.example''" by (simp add: started_client_def)
  have a: "ag_client started_agent = started_client" "ag_parseTime started_agent = pk_parseTime sample_pki"
    by (simp_all add: started_agent_def)
  show ?thesis unfolding send_heartbeat_def Client_Heartbeat_def a
    by (simp add: sample_start_env_def sample_do [OF j c] r)
qed

lemma started: "start sample_start_env Map.empty sample_settings
    = (Inr (started_agent, started_executor), snd started_saved, sample_settings(''NETSCOPE_ENROLLMENT_TOKEN'' := []))"
proof -
  obtain http where p: "prepare sample_start_env Map.empty sample_settings = Inr \<lparr>pr_cfg = started_config,
    pr_registry = registry_of started_modules, pr_report = started_report, pr_stored = None, pr_http = http, pr_client = started_client\<rparr>"
    by (rule started_prepare)
  obtain http' where n: "newClient sample_start_env started_config
      (Some (TLSCertificate (se_pki sample_start_env) (se_cert sample_start_env) (snd started_saved))) = Inr (http', started_client)"
    using started_newClient started_enrolls(4) by (auto simp: sample_start_env_def)
  have r: "renew sample_start_env cfg t started_identity fs = (Inr (started_identity, t), fs)" for cfg t fs
    using started_enrolls(6) by (simp add: renew_def sample_start_env_def)
  have P: "se_pki sample_start_env = sample_pki" "se_keys sample_start_env = sample_disk" "pk_libs sample_pki = sample_libs"
    by (simp_all add: sample_start_env_def sample_pki_def)
  have ex: "new_executor sample_start_env (started_config\<lparr>cfg_EnrollmentToken := []\<rparr>) (registry_of started_modules)
      (started_report\<lparr>rep_Manifest := (rep_Manifest started_report)\<lparr>cm_AgentID := id_AgentID started_identity\<rparr>\<rparr>) started_identity []
      = started_executor" by (simp add: started_executor_def started_agent_def)
  have "RequireCompatible ''1.0'' = None" by code_simp
  then have g: "go_online sample_start_env pr sample_transport started_client started_identity (snd started_saved)
      = Inr (started_agent, started_executor)"
    if "pr_cfg pr = started_config\<lparr>cfg_EnrollmentToken := []\<rparr>" "pr_registry pr = registry_of started_modules" "pr_report pr = started_report" for pr
    using that started_enrolls(5)
    unfolding go_online_def Let_def that started_announces sum.case P started_agent_def [symmetric]
    by (simp add: ex started_heartbeat zero_HeartbeatResponse_def P)
  have t: "se_network sample_start_env h = sample_transport" for h by (simp add: sample_start_env_def)
  show ?thesis by (simp add: start_def p n r g t started_acquires Let_def)
qed

text \<open>The first job.\<close>

abbreviation started_loop :: loop_state where
  "started_loop \<equiv> loop_start started_agent (\<lambda>n. n - 1) started_executor"

lemma started_polls:
  "\<exists>s. loop_reach started_agent started_loop s \<and> lo_phase s = HaveJob sample_tcp_envelope \<and> lo_agent s = lo_agent started_loop"
proof -
  let ?env = "sample_loop_env\<lparr>le_transport := sample_transport\<rparr>"
  have "NextJob sample_transport started_client (JobEnvelope_fields (pk_parseTime sample_pki) (se_rawParameters sample_start_env)) zero_JobEnvelope
      = Inr (Some sample_tcp_envelope)" by code_simp
  then have n: "NextJob (le_transport ?env) (ag_client started_agent)
      (JobEnvelope_fields (ag_parseTime started_agent) (ag_rawParameters started_agent)) zero_JobEnvelope = Inr (Some sample_tcp_envelope)"
    by (simp add: started_agent_def)
  have "int (Running started_executor) < cfg_MaxConcurrentJobs (ag_cfg started_agent)"
    by (simp add: Running_def started_executor_def new_executor_def New_Executor_def started_agent_def started_config_fields)
  then have "lo_phase (poll_tick started_agent ?env started_loop) = HaveJob sample_tcp_envelope"
    unfolding poll_tick_def n by (simp add: loop_start_def)
  moreover have "loop_step started_agent started_loop (poll_tick started_agent ?env started_loop)"
    by (rule poll) (simp_all add: loop_start_def sample_loop_env_def sample_rand Let_def)
  ultimately show ?thesis using poll_tick_fields(1) by (auto simp: loop_reach_def intro!: r_into_rtranclp)
qed

lemma started_accepts: "\<exists>m. fst (Submit sample_run sample_tcp_envelope started_executor) = Inr m"
proof -
  have v: "fst (Verify sample_libs 2000 sample_tcp_envelope (new_verifier started_config started_identity [])) = None" by code_simp
  have "Get (registry_of started_modules) (je_ModuleID sample_tcp_envelope) = Some (tcp_module (ho_url_Parse sample_host))"
    by (simp add: Get_def registry_of_def compiled_modules_def sample_tcp_envelope_def sample_job_def module_ID_def module_defs descriptor_defs)
  moreover have "mod_Validate (tcp_module (ho_url_Parse sample_host)) sample_tcp_envelope = None" by code_simp
  moreover have "rep_available started_report ''tcp'' = Some True" by code_simp
  ultimately have "Submit_checks sample_tcp_envelope (started_executor\<lparr>ex_Verifier := w\<rparr>) = Inr (tcp_module (ho_url_Parse sample_host))" for w
    by (simp add: Submit_checks_def started_executor_def new_executor_def New_Executor_def started_agent_def Has_def
        ValidateModuleVersion_def tcp_module_def tcp_Descriptor_def sample_tcp_envelope_def sample_job_def RiskSafeActive_def)
  moreover obtain w where "Verify (rn_libs sample_run) (rn_now sample_run) sample_tcp_envelope (ex_Verifier started_executor) = (None, w)"
    using v by (cases "Verify sample_libs 2000 sample_tcp_envelope (new_verifier started_config started_identity [])")
      (simp add: sample_run_def started_executor_def new_executor_def New_Executor_def started_agent_def)
  moreover have "ch_len (ex_slots started_executor) < ch_cap (ex_slots started_executor)"
    by (simp add: started_executor_def new_executor_def New_Executor_def started_agent_def started_config_fields)
  ultimately show ?thesis using Submit_accepts [of sample_run sample_tcp_envelope started_executor] by (auto simp: sample_run_def)
qed

lemma started_works:
  "\<exists>s. loop_reach started_agent started_loop s \<and> length (as_tasks (lo_agent s)) = 1 \<and> sample_tcp_envelope \<in> worked_on (lo_agent s)"
proof -
  from started_polls obtain s where s: "loop_reach started_agent started_loop s" "lo_phase s = HaveJob sample_tcp_envelope"
    "lo_agent s = lo_agent started_loop" by blast
  let ?a = "submit_job sample_run sample_tcp_envelope (lo_agent s)"
  have "loop_step started_agent s (s\<lparr>lo_agent := submit_job (le_run sample_loop_env) sample_tcp_envelope (lo_agent s), lo_phase := Waiting\<rparr>)"
    by (rule submit [OF s(2)]) (simp add: sample_loop_env_def Let_def sample_run_def started_agent_def)
  then have "loop_reach started_agent started_loop (s\<lparr>lo_agent := ?a, lo_phase := Waiting\<rparr>)"
    using s(1) by (simp add: loop_reach_def sample_loop_env_def Let_def)
  moreover obtain m e where "Submit sample_run sample_tcp_envelope started_executor = (Inr m, e)"
    using started_accepts by (cases "Submit sample_run sample_tcp_envelope started_executor") auto
  then have "as_tasks ?a = [\<lparr>t_job = sample_tcp_envelope, t_module = m, t_holding = False\<rparr>]"
    by (simp add: submit_job_def s(3) loop_start_def)
  ultimately show ?thesis by (intro exI [of _ "s\<lparr>lo_agent := ?a, lo_phase := Waiting\<rparr>"]) (simp add: worked_on_def)
qed

theorem agent_works_only_on_trusted_jobs_witness:
  "\<exists>s. loop_reach started_agent started_loop s \<and> sample_tcp_envelope \<in> worked_on (lo_agent s)
     \<and> je_AgentID sample_tcp_envelope = ag_AgentID started_agent"
proof -
  from started_works obtain s where s: "loop_reach started_agent started_loop s" "sample_tcp_envelope \<in> worked_on (lo_agent s)" by blast
  with agent_works_only_on_trusted_jobs [OF started s] show ?thesis by blast
qed

theorem agent_keeps_its_limits_witness:
  "\<exists>s. loop_reach started_agent started_loop s \<and> length (as_tasks (lo_agent s)) = 1
     \<and> int (length (as_tasks (lo_agent s))) \<le> cfg_MaxConcurrentJobs (ag_cfg started_agent)"
proof -
  from started_works obtain s where s: "loop_reach started_agent started_loop s" "length (as_tasks (lo_agent s)) = 1" by blast
  with agent_keeps_its_limits [OF started s(1)] show ?thesis by blast
qed

end
