(* ===== verification/Spec2Isabelle.thy ===== *)
theory Spec2Isabelle
  imports Artifacts Delivery Trust
begin

text \<open>
  A model of the NetScope agent (the Go module under \<^verbatim>\<open>src/\<close>) and the theorems that make it correct.

  The program. The agent runs on a host and works for a remote control plane. It loads its
  configuration from the environment, has an identity with a client certificate (obtained once
  with an enrollment token, renewed by rotation), announces its capabilities, and then polls for
  jobs. A job is an envelope that names a compiled module, a target and parameters; the agent
  verifies it, runs the module with bounded time and output, and reports a result or a failure.
  Reports that cannot be delivered are spooled on disk and sent later.

  Theories and sources, in the order in which they build on each other:

  \<^item> \<open>Prelude\<close>: lists, decimal numbers, Go's integers and durations, times in nanoseconds since
    year 1, Go string functions, the theorem collection \<open>accepts\<close>. \<open>Json\<close>: the JSON parser and decoder of
    the standard library, with fuel equal to the length of the text, which is enough
    (\<open>parse_fuel_bounds\<close>). \<open>JsonText\<close>: the same parser without fuel, and that it reads back
    what the encoder writes.
  \<^item> \<open>Protocol\<close> (\<^verbatim>\<open>internal/protocol/types.go\<close>, \<^verbatim>\<open>internal/jobs\<close>): the wire structs as records, errors,
    version compatibility. \<open>Encoding\<close>: their JSON encodings.
  \<^item> \<open>Target\<close>, \<open>CanonicalJson\<close>, \<open>Signing\<close>, \<open>JobVerifier\<close> (\<^verbatim>\<open>internal/security\<close>, \<^verbatim>\<open>internal/canonicaljson\<close>): what
    a job must satisfy, and the cache of nonces. The locale \<open>replay_guard\<close> is the interface by
    which replay protection is proved.
  \<^item> \<open>Process\<close> (\<^verbatim>\<open>internal/process\<close>): the bounded buffer and the runner of external tools.
    \<open>Registry\<close> (\<^verbatim>\<open>internal/modules/module.go\<close>): parameter decoding, the registry and its
    semaphores. \<open>Adapters\<close>, \<open>ToolModules\<close>, \<open>NetModules\<close> (\<^verbatim>\<open>internal/modules/*\<close>): the twelve modules.
  \<^item> \<open>Capabilities\<close>, \<open>Evidence\<close>, \<open>Spool\<close>, \<open>Client\<close>, \<open>Artifacts\<close>: the packages of those names.
  \<^item> \<open>Executor\<close> (\<^verbatim>\<open>internal/executor\<close>): admission, execution and reporting as functions on the
    executor's state; \<open>Concurrency\<close>: its goroutines as a step relation. \<open>Delivery\<close>: executor, spool
    and client together.
  \<^item> \<open>Identity\<close>, \<open>Rotation\<close>, \<open>Config\<close>, \<open>Enrollment\<close>: the packages of those names, with a data directory
    that maps names of directories to their files.
  \<^item> \<open>AgentLoop\<close> (\<^verbatim>\<open>internal/heartbeat\<close>, \<^verbatim>\<open>runLoop\<close> in \<^verbatim>\<open>cmd/netscope-agent/main.go\<close>) and \<open>Startup\<close> (\<^verbatim>\<open>main\<close>,
    \<^verbatim>\<open>internal/platform\<close>, \<^verbatim>\<open>internal/logging\<close>): the whole agent. \<open>Trust\<close>: what holds from its start on.

  State and operations. A struct is a record whose fields carry a short prefix; an operation with a
  pointer receiver takes the record and returns it updated; an error is \<open>Inl\<close> of the result type.
  What an operation gets from outside (the clock, random numbers, the answers of the network, the
  errors of the file system, the certificates, the libraries for digests, signatures, URLs, XML
  and canonical JSON) is an argument, in most theories a record with one field per place where the
  code asks; theorems hold for every value of it. The goroutines appear in two step relations:
  \<open>exec_step\<close>, one step per atomic part of a handler, and \<open>loop_step\<close>, which puts the loop around
  it. A mutex makes the part it protects one step.

  What is shown. (1) Admission: a nonce is accepted once until its expiry, an envelope only for this agent,
  within its time and signed by a trusted key; the start-to-end form is \<open>agent_works_only_on_trusted_jobs\<close>. (2) Bounds: on
  concurrency, nonces, spool, results, buffers, redirects, networks to scan, timers.
  (3) Safety of arguments: only listed tools with fixed options and harmless operands are run.
  (4) Nothing is lost: each submission is reported once, spooled reports are delivered in order,
  a flush ends at the first error, an undelivered failure is accounted for, enrollment never overwrites an identity and is read
  back, rotation leaves the old or the new identity. (5) Progress: the goroutines terminate, a
  stopped agent drains. (6) Where the code does less than it means to: retryable refusals that a
  retry cannot repair, the skipped comparison of expiry times, the window of a crash between two
  renames, fields the signature does not cover, URL targets that look like options, host names that
  Nmap reads as ranges, nonces forgotten when the clock passes their expiry and is set back,
  files the spool does not count, and job identifiers that are dot segments.

  Abstractions. Texts of errors that quote values are shortened; a byte is a \<open>char\<close>, and a string its
  bytes; Go maps whose order is arbitrary are lists in the order of the iteration; contexts are
  the error they end with. The time a JSON string denotes is found by an argument applied to the
  unquoted text. A RawMessage inside a decoded envelope is stored by an argument. The product of
  a fractional duration and the decimal text of a \<^verbatim>\<open>float64\<close> are arguments.

  Not modelled: file modes and \<^verbatim>\<open>fsync\<close>, log lines, signals, idle connections, the unused
  \<^verbatim>\<open>parseCertificatePEM\<close>, tests, build and packaging files. Loops need no fuel apart from the JSON
  parser: each is a recursion over data or ends by a measure.
\<close>

end
